(* ===== verification/Broker_Prelude.thy ===== *)
theory Broker_Prelude
  imports
    Main
    "HOL-Library.Word"
    "HOL-Library.State_Monad"
    "HOL-Library.Char_ord"
    "HOL-Library.List_Lexorder"
    "HOL-Library.Multiset"
begin

text \<open>
  Shared vocabulary of the development.

  \<^item> The names of the model's basic types: byte strings, 32 and 64 bit integers, and
    effectful computations. A computation of the broker is a \<open>('s, 'a) state\<close> of
    \<open>HOL-Library.State_Monad\<close>: it reads and changes a state \<open>'s\<close> that stands
    for everything outside the process (API server, provider, clock).
  \<^item> A weakest-precondition calculus for these computations. \<open>wp m Q s\<close> says that
    running \<open>m\<close> from \<open>s\<close> ends in a value and a state that satisfy \<open>Q\<close>; the
    collection \<open>wp_simps\<close> pushes it through binds, conditionals and case distinctions.
  \<^item> Two orderings on event lists, \<open>precedes\<close> and \<open>never\<close>, with which the
    properties about the order of effects are stated.
\<close>

named_theorems wp_simps \<open>rewrite rules of the weakest-precondition calculus\<close>
named_theorems trace_simps \<open>rewrite rules for predicates on event lists\<close>
named_theorems broker_defs \<open>definitions of named constants of the broker\<close>

type_synonym bytes = string
type_synonym int32 = "32 word"
type_synonym int64 = "64 word"
type_synonym ('s, 'a) action = "'s \<Rightarrow> 'a \<times> 's"
type_synonym ('s, 'a) io = "('s, 'a) state"

section \<open>Weakest preconditions of computations\<close>

definition wp :: "('s, 'a) io \<Rightarrow> ('a \<Rightarrow> 's \<Rightarrow> bool) \<Rightarrow> 's \<Rightarrow> bool" where
  "wp m Q s = (case run_state m s of (a, s') \<Rightarrow> Q a s')"

lemma wp_return [wp_simps]: "wp (State_Monad.return a) Q s = Q a s"
  by (simp add: wp_def)

lemma wp_bind [wp_simps]: "wp (State_Monad.bind m f) Q s = wp m (\<lambda>a. wp (f a) Q) s"
  by (simp add: wp_def split: prod.splits)

lemma wp_State [wp_simps]: "wp (State f) Q s = (\<forall>a s'. f s = (a, s') \<longrightarrow> Q a s')"
  by (auto simp: wp_def split: prod.splits)

lemma wp_if [wp_simps]: "wp (if b then m else n) Q s = (if b then wp m Q s else wp n Q s)"
  by simp

lemma wp_case_sum [wp_simps]:
  "wp (case x of Inl e \<Rightarrow> m e | Inr y \<Rightarrow> n y) Q s =
     (case x of Inl e \<Rightarrow> wp (m e) Q s | Inr y \<Rightarrow> wp (n y) Q s)"
  by (simp split: sum.splits)

lemma wp_case_option [wp_simps]:
  "wp (case x of None \<Rightarrow> m | Some y \<Rightarrow> n y) Q s =
     (case x of None \<Rightarrow> wp m Q s | Some y \<Rightarrow> wp (n y) Q s)"
  by (simp split: option.splits)

lemma wp_case_prod [wp_simps]:
  "wp (case p of (a, b) \<Rightarrow> m a b) Q s = (case p of (a, b) \<Rightarrow> wp (m a b) Q s)"
  by (simp split: prod.splits)

lemma wp_Let [wp_simps]: "wp (let x = t in m x) Q s = (let x = t in wp (m x) Q s)"
  by (simp add: Let_def)

lemma wp_mono: "wp m P s \<Longrightarrow> (\<And>a s'. P a s' \<Longrightarrow> Q a s') \<Longrightarrow> wp m Q s"
  by (auto simp: wp_def split: prod.splits)

lemma wp_sumI:
  "(\<And>e. x = Inl e \<Longrightarrow> wp (m e) Q s) \<Longrightarrow> (\<And>y. x = Inr y \<Longrightarrow> wp (n y) Q s) \<Longrightarrow>
   wp (case x of Inl e \<Rightarrow> m e | Inr y \<Rightarrow> n y) Q s"
  by (cases x) auto

lemma wp_optionI:
  "(x = None \<Longrightarrow> wp m Q s) \<Longrightarrow> (\<And>y. x = Some y \<Longrightarrow> wp (n y) Q s) \<Longrightarrow>
   wp (case x of None \<Rightarrow> m | Some y \<Rightarrow> n y) Q s"
  by (cases x) auto

lemma wp_conj: "wp m (\<lambda>a s'. P a s' \<and> Q a s') s \<longleftrightarrow> wp m P s \<and> wp m Q s"
  by (auto simp: wp_def split: prod.splits)

lemma wp_run: "wp m Q s \<Longrightarrow> run_state m s = (a, s') \<Longrightarrow> Q a s'"
  by (simp add: wp_def)

lemma wp_I: "(\<And>a s'. run_state m s = (a, s') \<Longrightarrow> Q a s') \<Longrightarrow> wp m Q s"
  by (auto simp: wp_def split: prod.splits)

text \<open>\<open>preserves I m\<close>: \<open>m\<close> keeps the state predicate \<open>I\<close>.\<close>

definition preserves :: "('s \<Rightarrow> bool) \<Rightarrow> ('s, 'a) io \<Rightarrow> bool" where
  "preserves I m \<longleftrightarrow> (\<forall>s. I s \<longrightarrow> I (snd (run_state m s)))"

lemma preserves_return [intro!]: "preserves I (State_Monad.return a)"
  by (simp add: preserves_def)

lemma preserves_bind [intro!]:
  "preserves I m \<Longrightarrow> (\<And>a. preserves I (f a)) \<Longrightarrow> preserves I (State_Monad.bind m f)"
  by (auto simp: preserves_def split: prod.splits)

lemma preserves_if [intro!]:
  "(b \<Longrightarrow> preserves I m) \<Longrightarrow> (\<not> b \<Longrightarrow> preserves I n) \<Longrightarrow> preserves I (if b then m else n)"
  by simp

lemma preserves_case_sum [intro!]:
  "(\<And>e. x = Inl e \<Longrightarrow> preserves I (m e)) \<Longrightarrow> (\<And>y. x = Inr y \<Longrightarrow> preserves I (n y)) \<Longrightarrow>
   preserves I (case x of Inl e \<Rightarrow> m e | Inr y \<Rightarrow> n y)"
  by (cases x) auto

lemma preserves_case_option [intro!]:
  "(x = None \<Longrightarrow> preserves I m) \<Longrightarrow> (\<And>y. x = Some y \<Longrightarrow> preserves I (n y)) \<Longrightarrow>
   preserves I (case x of None \<Rightarrow> m | Some y \<Rightarrow> n y)"
  by (cases x) auto

lemma preserves_case_prod [intro!]: "(\<And>a b. preserves I (m a b)) \<Longrightarrow> preserves I (case x of (a, b) \<Rightarrow> m a b)"
  by (cases x) auto

lemma preserves_reader [intro!]: "preserves I (State (\<lambda>s. (f s, s)))"
  by (simp add: preserves_def)

section \<open>Predicates on event lists\<close>

text \<open>
  \<open>precedes P Q es\<close>: no event that satisfies \<open>Q\<close> happens before one that satisfies
  \<open>P\<close> has happened. \<open>never Q es\<close>: no event satisfies \<open>Q\<close>.
\<close>

fun precedes :: "('e \<Rightarrow> bool) \<Rightarrow> ('e \<Rightarrow> bool) \<Rightarrow> 'e list \<Rightarrow> bool" where
  "precedes P Q [] = True"
| "precedes P Q (e # es) = (P e \<or> (\<not> Q e \<and> precedes P Q es))"

definition never :: "('e \<Rightarrow> bool) \<Rightarrow> 'e list \<Rightarrow> bool" where
  "never Q es \<longleftrightarrow> (\<forall>e \<in> set es. \<not> Q e)"

definition occurs :: "('e \<Rightarrow> bool) \<Rightarrow> 'e list \<Rightarrow> nat" where
  "occurs Q es = length (filter Q es)"

lemma never_simps [simp]:
  "never Q []"
  "never Q (e # es) \<longleftrightarrow> \<not> Q e \<and> never Q es"
  "never Q (xs @ ys) \<longleftrightarrow> never Q xs \<and> never Q ys"
  by (auto simp: never_def)

lemma occurs_simps [simp]:
  "occurs Q [] = 0"
  "occurs Q (e # es) = (if Q e then Suc (occurs Q es) else occurs Q es)"
  "occurs Q (xs @ ys) = occurs Q xs + occurs Q ys"
  by (auto simp: occurs_def)

lemma precedes_append [simp]:
  "precedes P Q (xs @ ys) \<longleftrightarrow>
     precedes P Q xs \<and> ((\<exists>e \<in> set xs. P e) \<or> precedes P Q ys)"
  by (induction xs) auto

lemma never_precedes: "never Q es \<Longrightarrow> precedes P Q es"
  by (induction es) auto

lemma precedes_mono: "precedes P Q es \<Longrightarrow> (\<And>e. P e \<Longrightarrow> P' e) \<Longrightarrow> precedes P' Q es"
  by (induction es) auto

lemma precedes_split: "precedes P Q (xs @ e # ys) \<Longrightarrow> Q e \<Longrightarrow> \<not> P e \<Longrightarrow> \<exists>x \<in> set xs. P x"
  by auto

section \<open>Lists and maps\<close>

lemma map_of_in_set: "distinct (map fst xs) \<Longrightarrow> (k, v) \<in> set xs \<Longrightarrow> map_of xs k = Some v"
  by simp

lemma sort_mset_eq: "mset xs = mset ys \<Longrightarrow> sort xs = (sort ys :: 'a::linorder list)"
  by (metis properties_for_sort sorted_sort mset_sort)

end
