(* ===== verification/Go_Time.thy ===== *)
theory Go_Time
  imports Broker_Prelude
begin

text \<open>
  The part of Go's package \<open>time\<close> the broker computes with. A \<open>time.Duration\<close> is a
  signed 64 bit count of nanoseconds: durations are integers, and every operation that
  the language performs at 64 bits wraps explicitly through \<open>wrap64\<close>. A
  \<open>time.Time\<close> is an instant, counted in nanoseconds from the Unix epoch on an
  unbounded integer (Go keeps a 64 bit count of seconds, far outside of every instant that
  occurs). \<open>time_Sub\<close> saturates as \<open>Time.Sub\<close> does.
\<close>

type_synonym time = int
type_synonym duration = int

definition minDuration :: duration where "minDuration = - 9223372036854775808"
definition maxDuration :: duration where "maxDuration = 9223372036854775807"

definition wrap64 :: "int \<Rightarrow> int" where
  "wrap64 x = (x + 9223372036854775808) mod 18446744073709551616 - 9223372036854775808"

definition is_duration :: "int \<Rightarrow> bool" where
  "is_duration d \<longleftrightarrow> minDuration \<le> d \<and> d \<le> maxDuration"

definition Second :: duration where "Second = 1000000000"
definition Minute :: duration where "Minute = 60000000000"

definition dur_mul :: "duration \<Rightarrow> duration \<Rightarrow> duration" where
  "dur_mul a b = wrap64 (a * b)"

definition dur_neg :: "duration \<Rightarrow> duration" where
  "dur_neg d = wrap64 (- d)"

definition dur_sub :: "duration \<Rightarrow> duration \<Rightarrow> duration" where
  "dur_sub a b = wrap64 (a - b)"

text \<open>Integer division of Go truncates towards zero.\<close>

definition dur_div :: "duration \<Rightarrow> duration \<Rightarrow> duration" where
  "dur_div a b = wrap64 (sgn a * sgn b * (\<bar>a\<bar> div \<bar>b\<bar>))"

definition time_Add :: "time \<Rightarrow> duration \<Rightarrow> time" where
  "time_Add t d = t + d"

definition time_Sub :: "time \<Rightarrow> time \<Rightarrow> duration" where
  "time_Sub t u = (if t - u < minDuration then minDuration
                   else if t - u > maxDuration then maxDuration else t - u)"

definition time_Before :: "time \<Rightarrow> time \<Rightarrow> bool" where
  "time_Before t u \<longleftrightarrow> t < u"

definition time_Unix :: "time \<Rightarrow> int" where
  "time_Unix t = t div Second"

text \<open>The zero value of \<open>time.Time\<close>: January 1 of year 1, UTC.\<close>

definition zero_time :: time where "zero_time = - 62135596800000000000"

text \<open>\<open>Duration.Round\<close> rounds to the nearest multiple, halves away from zero.\<close>

definition dur_Round :: "duration \<Rightarrow> duration \<Rightarrow> duration" where
  "dur_Round d m =
     (if m \<le> 0 then d
      else if d < 0 then
        (let r = (- d) mod m in
         if r + r < m then d + r
         else if minDuration \<le> d - m + r then d - m + r else minDuration)
      else
        (let r = d mod m in
         if r + r < m then d - r
         else if d + m - r \<le> maxDuration then d + m - r else maxDuration))"

lemmas duration_consts = minDuration_def maxDuration_def Second_def Minute_def

lemma wrap64_id [simp]: "is_duration x \<Longrightarrow> wrap64 x = x"
  by (simp add: wrap64_def is_duration_def duration_consts)

lemma wrap64_is_duration [simp]: "is_duration (wrap64 x)"
proof -
  have "(x + 9223372036854775808) mod 18446744073709551616 < 18446744073709551616" by simp
  then show ?thesis
    by (simp add: wrap64_def is_duration_def duration_consts)
qed

lemma is_durationI: "minDuration \<le> d \<Longrightarrow> d \<le> maxDuration \<Longrightarrow> is_duration d"
  by (simp add: is_duration_def)

lemma is_duration_between: "is_duration u \<Longrightarrow> 0 \<le> d \<Longrightarrow> d \<le> u \<Longrightarrow> is_duration d"
  by (simp add: is_duration_def duration_consts)

lemma dur_neg_eq [simp]: "is_duration d \<Longrightarrow> 0 \<le> d \<Longrightarrow> dur_neg d = - d"
  by (simp add: dur_neg_def wrap64_def is_duration_def duration_consts)

lemma dur_div_2 [simp]: "is_duration d \<Longrightarrow> 0 < d \<Longrightarrow> dur_div d 2 = d div 2"
  by (simp add: dur_div_def wrap64_def is_duration_def duration_consts)

lemma time_Sub_is_duration [simp]: "is_duration (time_Sub t u)"
  by (simp add: time_Sub_def is_duration_def duration_consts)

lemma time_Sub_eq: "is_duration (t - u) \<Longrightarrow> time_Sub t u = t - u"
  by (simp add: time_Sub_def is_duration_def duration_consts)

lemma time_Sub_pos_iff [simp]: "0 < time_Sub t u \<longleftrightarrow> u < t"
  by (simp add: time_Sub_def duration_consts)

lemma time_Sub_le: "u \<le> t \<Longrightarrow> time_Sub t u \<le> t - u"
  by (simp add: time_Sub_def duration_consts)

end
