(* ===== verification/Go_Errors.thy ===== *)
theory Go_Errors
  imports Go_Time
begin

text \<open>
  Errors and texts as values. The broker builds error values with \<open>errors.New\<close> and
  \<open>fmt.Errorf\<close> and texts with \<open>fmt.Sprintf\<close>; both are kept as the format
  literal of the source together with its arguments, so that a message or an error of the
  model says which call of the source made it and from what. Rendering them to characters
  is not modelled: no code of the broker looks inside a rendered text.

  \<open>ErrExt\<close> is an error value that comes from outside of the broker (API machinery, network,
  cryptography); the text is its rendering. \<open>Wrapf\<close> is \<open>fmt.Errorf\<close> with one \<open>%w\<close> verb,
  whose operand is the last field: the chain that \<open>errors.Is\<close> follows.
\<close>

datatype go_error =
    ErrNew msg
  | ErrNoRevoke
  | ErrExt string
  | Errorf string "arg list"
  | Wrapf string "arg list" go_error
and msg =
    Lit string
  | Sprintf string "arg list"
  | ErrorText go_error
and arg =
    A_str string
  | A_int int
  | A_dur duration
  | A_time time
  | A_text msg

text \<open>\<open>errors.Is(err, provider.ErrNoRevoke)\<close>: follow the chain of wrapped errors.\<close>

fun errors_Is_ErrNoRevoke :: "go_error \<Rightarrow> bool" where
  "errors_Is_ErrNoRevoke ErrNoRevoke = True"
| "errors_Is_ErrNoRevoke (Wrapf fmt args e) = errors_Is_ErrNoRevoke e"
| "errors_Is_ErrNoRevoke (ErrNew t) = False"
| "errors_Is_ErrNoRevoke (ErrExt x) = False"
| "errors_Is_ErrNoRevoke (Errorf fmt args) = False"

text \<open>The error at the end of the chain, and how many times it was wrapped.\<close>

fun root_cause :: "go_error \<Rightarrow> go_error" where
  "root_cause (Wrapf fmt args e) = root_cause e"
| "root_cause e = e"

lemma errors_Is_root_cause: "errors_Is_ErrNoRevoke e \<longleftrightarrow> root_cause e = ErrNoRevoke"
  by (induction e rule: errors_Is_ErrNoRevoke.induct) auto

type_synonym 'a result = "go_error + 'a"

end
