(* ===== verification/Api_Types.thy ===== *)
theory Api_Types
  imports Go_Errors
begin

text \<open>
  The custom resource (\<open>src/api/v1alpha1/ephemeralcredential_types.go\<close>): every struct is a
  record with the source's fields, the closed set of lifecycle states a datatype, the
  reasons and names the source's string constants. Fields of the embedded Kubernetes types
  (\<open>metav1.ObjectMeta\<close>, \<open>metav1.Condition\<close>, \<open>corev1.Secret\<close>) are the ones the broker or the
  API server contract reads or writes. A Go map that is only looked up or assigned is a
  partial function; \<open>None\<close> around it is the nil map. A map whose iteration order is
  observable is an association list.

  The validation markers of the types (enforced by the API server from the generated
  schema) are the predicate \<open>admissible_spec\<close>, the default marker is \<open>apply_defaults\<close>.
\<close>

section \<open>States, condition types, reasons, names\<close>

datatype CredentialState = StateUnset | StatePending | StateActive | StateExpiring | StateFailed

definition ConditionReady :: string where [broker_defs]: "ConditionReady = ''Ready''"

definition ReasonPending :: string where [broker_defs]: "ReasonPending = ''Pending''"
definition ReasonMintSucceeded :: string where [broker_defs]: "ReasonMintSucceeded = ''MintSucceeded''"
definition ReasonMintFailed :: string where [broker_defs]: "ReasonMintFailed = ''MintFailed''"
definition ReasonRotationFailed :: string where [broker_defs]: "ReasonRotationFailed = ''RotationFailed''"
definition ReasonProviderNotFound :: string where
  [broker_defs]: "ReasonProviderNotFound = ''ProviderNotFound''"
definition ReasonInvalidConfig :: string where [broker_defs]: "ReasonInvalidConfig = ''InvalidConfig''"
definition ReasonSecretWriteFailed :: string where
  [broker_defs]: "ReasonSecretWriteFailed = ''SecretWriteFailed''"
definition ReasonSecretMissing :: string where
  [broker_defs]: "ReasonSecretMissing = ''TargetSecretMissing''"
definition ReasonRevokeFailed :: string where [broker_defs]: "ReasonRevokeFailed = ''RevokeFailed''"
definition ReasonRotationWindowClamped :: string where
  [broker_defs]: "ReasonRotationWindowClamped = ''RotationWindowClamped''"

definition ProviderGitHubApp :: string where [broker_defs]: "ProviderGitHubApp = ''github-app''"
definition ProviderAWSSTS :: string where [broker_defs]: "ProviderAWSSTS = ''aws-sts''"
definition ProviderDatabase :: string where [broker_defs]: "ProviderDatabase = ''database''"
definition ProviderVault :: string where [broker_defs]: "ProviderVault = ''vault''"

definition FinalizerName :: string where
  [broker_defs]: "FinalizerName = ''broker.shivansh-sinha.dev/finalizer''"

definition TargetSecretType :: string where [broker_defs]: "TargetSecretType = ''Opaque''"

section \<open>Spec\<close>

record LocalObjectReference =
  lor_Name :: string

record TargetSecretSpec =
  ts_Name :: string
  ts_Keys :: "string \<rightharpoonup> string"

record GitHubProviderConfig =
  gh_AppConfigRef :: LocalObjectReference
  gh_Repositories :: "string list"
  gh_Permissions :: "(string \<times> string) list"

record AWSProviderConfig =
  aws_RoleARN :: string
  aws_SessionPolicy :: string
  aws_Region :: string
  aws_DurationSeconds :: int32

record DatabaseProviderConfig =
  db_Engine :: string
  db_AdminSecretRef :: LocalObjectReference
  db_ConnectionRef :: LocalObjectReference
  db_Grants :: "string list"

record VaultProviderConfig =
  vault_BackendRef :: LocalObjectReference
  vault_Path :: string
  vault_Renewable :: bool

record ProviderConfig =
  pc_GitHub :: "GitHubProviderConfig option"
  pc_AWS :: "AWSProviderConfig option"
  pc_Database :: "DatabaseProviderConfig option"
  pc_Vault :: "VaultProviderConfig option"

record EphemeralCredentialSpec =
  spec_Provider :: string
  spec_TTLSeconds :: int32
  spec_RotateBeforeSeconds :: int32
  spec_TargetSecret :: TargetSecretSpec
  spec_ProviderConfig :: ProviderConfig

section \<open>Status and objects\<close>

record Condition =
  cond_Type :: string
  cond_Status :: string
  cond_Reason :: string
  cond_Message :: msg
  cond_ObservedGeneration :: int64
  cond_LastTransitionTime :: time

definition ConditionTrue :: string where [broker_defs]: "ConditionTrue = ''True''"
definition ConditionFalse :: string where [broker_defs]: "ConditionFalse = ''False''"

record EphemeralCredentialStatus =
  st_State :: CredentialState
  st_ExpiresAt :: "time option"
  st_LastRotatedAt :: "time option"
  st_ObservedGeneration :: int64
  st_Conditions :: "Condition list"

record OwnerReference =
  or_UID :: string
  or_Controller :: bool

record ObjectMeta =
  om_Name :: string
  om_Namespace :: string
  om_UID :: string
  om_ResourceVersion :: nat
  om_Generation :: int64
  om_DeletionTimestamp :: "time option"
  om_Finalizers :: "string list"
  om_Annotations :: "(string \<rightharpoonup> string) option"
  om_OwnerReferences :: "OwnerReference list"

record EphemeralCredential =
  ec_Meta :: ObjectMeta
  ec_Spec :: EphemeralCredentialSpec
  ec_Status :: EphemeralCredentialStatus

record Secret =
  sec_Meta :: ObjectMeta
  sec_Data :: "(string \<rightharpoonup> bytes) option"
  sec_Type :: string

type_synonym NamespacedName = "string \<times> string"

text \<open>Namespace and name of an object, the key under which the API server stores it.\<close>

definition object_key :: "ObjectMeta \<Rightarrow> NamespacedName" where
  "object_key m = (om_Namespace m, om_Name m)"

abbreviation ec_key :: "EphemeralCredential \<Rightarrow> NamespacedName" where
  "ec_key ec \<equiv> object_key (ec_Meta ec)"

abbreviation sec_key :: "Secret \<Rightarrow> NamespacedName" where
  "sec_key s \<equiv> object_key (sec_Meta s)"

text \<open>Reading a Go map: the nil map has no keys; a missing string value reads as empty.\<close>

definition map_get :: "(string \<rightharpoonup> 'v) option \<Rightarrow> string \<Rightarrow> 'v option" where
  "map_get m k = (case m of None \<Rightarrow> None | Some f \<Rightarrow> f k)"

definition map_get_string :: "(string \<rightharpoonup> string) option \<Rightarrow> string \<Rightarrow> string" where
  "map_get_string m k = (case map_get m k of None \<Rightarrow> [] | Some v \<Rightarrow> v)"

text \<open>Assigning to a Go map after the guard \<open>if m == nil { m = map[...]...{} }\<close>.\<close>

definition map_alloc :: "(string \<rightharpoonup> 'v) option \<Rightarrow> (string \<rightharpoonup> 'v)" where
  "map_alloc m = (case m of None \<Rightarrow> Map.empty | Some f \<Rightarrow> f)"

lemma map_get_alloc [simp]: "map_alloc m k = map_get m k"
  by (simp add: map_alloc_def map_get_def split: option.splits)

lemma map_get_Some [simp]: "map_get (Some f) k = f k"
  by (simp add: map_get_def)

lemma map_get_None [simp]: "map_get None k = None"
  by (simp add: map_get_def)

lemma map_get_string_simps [simp]:
  "map_get_string None k = []"
  "map_get_string (Some f) k = (case f k of None \<Rightarrow> [] | Some v \<Rightarrow> v)"
  by (simp_all add: map_get_string_def)

section \<open>Validation and defaulting markers\<close>

definition apply_defaults :: "EphemeralCredentialSpec \<Rightarrow> EphemeralCredentialSpec" where
  "apply_defaults s =
     (if spec_RotateBeforeSeconds s = 0 then s\<lparr>spec_RotateBeforeSeconds := 600\<rparr> else s)"

definition admissible_spec :: "EphemeralCredentialSpec \<Rightarrow> bool" where
  "admissible_spec s \<longleftrightarrow>
     spec_Provider s \<in> {ProviderGitHubApp, ProviderAWSSTS, ProviderDatabase, ProviderVault} \<and>
     60 \<le> sint (spec_TTLSeconds s) \<and>
     30 \<le> sint (spec_RotateBeforeSeconds s) \<and>
     sint (spec_RotateBeforeSeconds s) < sint (spec_TTLSeconds s) \<and>
     (spec_Provider s \<noteq> ProviderGitHubApp \<or> pc_GitHub (spec_ProviderConfig s) \<noteq> None) \<and>
     (spec_Provider s \<noteq> ProviderAWSSTS \<or> pc_AWS (spec_ProviderConfig s) \<noteq> None) \<and>
     (spec_Provider s \<noteq> ProviderDatabase \<or> pc_Database (spec_ProviderConfig s) \<noteq> None) \<and>
     (spec_Provider s \<noteq> ProviderVault \<or> pc_Vault (spec_ProviderConfig s) \<noteq> None) \<and>
     (case pc_GitHub (spec_ProviderConfig s) of None \<Rightarrow> True | Some c \<Rightarrow> gh_Repositories c \<noteq> []) \<and>
     (case pc_AWS (spec_ProviderConfig s) of None \<Rightarrow> True
        | Some c \<Rightarrow> aws_DurationSeconds c = 0 \<or> 900 \<le> sint (aws_DurationSeconds c)) \<and>
     (case pc_Database (spec_ProviderConfig s) of None \<Rightarrow> True
        | Some c \<Rightarrow> db_Engine c \<in> {''postgres'', ''mysql''})"

end
