(* ===== verification/Rotation.thy ===== *)
theory Rotation
  imports Api_Types
begin

text \<open>
  The rotation schedule (\<open>src/internal/controller/ephemeralcredential_controller.go\<close>):
  \<open>requestedRotateBefore\<close>, \<open>grantedLifetime\<close>, \<open>clampRotateBefore\<close>, the test that decides
  whether a reconcile mints, and the computation of the next wake-up. The lemmas show that
  the 64 bit arithmetic never wraps, that the window stays inside of the granted lifetime,
  that a wake-up scheduled after a mint finds the window open and not before, and that this
  survives the truncation to whole seconds which \<open>metav1.Time\<close> applies to stored instants.
\<close>

definition defaultRotateBefore :: duration where
  [broker_defs]: "defaultRotateBefore = dur_mul 10 Minute"

definition minRequeueAfter :: duration where
  [broker_defs]: "minRequeueAfter = dur_mul 5 Second"

definition requestedRotateBefore :: "EphemeralCredential \<Rightarrow> duration" where
  "requestedRotateBefore ec =
     (let d = dur_mul (sint (spec_RotateBeforeSeconds (ec_Spec ec))) Second in
      if d \<le> 0 then defaultRotateBefore else d)"

definition grantedLifetime :: "EphemeralCredential \<Rightarrow> duration" where
  "grantedLifetime ec =
     (case (st_ExpiresAt (ec_Status ec), st_LastRotatedAt (ec_Status ec)) of
        (Some e, Some l) \<Rightarrow> time_Sub e l
      | _ \<Rightarrow> 0)"

definition clampRotateBefore :: "duration \<Rightarrow> duration \<Rightarrow> duration \<times> bool" where
  "clampRotateBefore requested granted =
     (let requested = (if requested \<le> 0 then defaultRotateBefore else requested) in
      if granted \<le> 0 then (requested, False)
      else let ceiling = dur_div granted 2 in
        if requested > ceiling then (ceiling, True) else (requested, False))"

text \<open>The test of \<open>Reconcile\<close> for whether a credential has to be minted now.\<close>

definition needsMint :: "time \<Rightarrow> duration \<Rightarrow> EphemeralCredential \<Rightarrow> bool" where
  "needsMint now rotateBefore ec \<longleftrightarrow>
     (case st_ExpiresAt (ec_Status ec) of
        None \<Rightarrow> True
      | Some e \<Rightarrow>
          om_Generation (ec_Meta ec) \<noteq> st_ObservedGeneration (ec_Status ec) \<or>
          \<not> time_Before (time_Add now rotateBefore) e)"

text \<open>The delay until the next rotation, used with and without a preceding mint.\<close>

definition requeueDelay :: "time \<Rightarrow> duration \<Rightarrow> time \<Rightarrow> duration" where
  "requeueDelay expiresAt rotateBefore now =
     (let requeueAfter = time_Sub (time_Add expiresAt (dur_neg rotateBefore)) now in
      if requeueAfter < minRequeueAfter then minRequeueAfter else requeueAfter)"

section \<open>No wrap-around\<close>

lemma defaultRotateBefore_eq [simp]: "defaultRotateBefore = 600000000000"
  by (simp add: defaultRotateBefore_def dur_mul_def wrap64_def Minute_def)

lemma minRequeueAfter_eq [simp]: "minRequeueAfter = 5000000000"
  by (simp add: minRequeueAfter_def dur_mul_def wrap64_def Second_def)

lemma sint32_bounds: "- 2147483648 \<le> sint (x :: int32)" "sint (x :: int32) < 2147483648"
  using sint_range_size [of x] by (simp_all add: word_size)

lemma dur_mul_int32: "dur_mul (sint (x :: int32)) Second = sint x * 1000000000"
  unfolding dur_mul_def Second_def
  using sint32_bounds [of x] by (intro wrap64_id) (simp add: is_duration_def duration_consts)

lemma requestedRotateBefore_pos: "0 < requestedRotateBefore ec"
  by (simp add: requestedRotateBefore_def Let_def)

lemma requestedRotateBefore_eq:
  "requestedRotateBefore ec =
     (let n = sint (spec_RotateBeforeSeconds (ec_Spec ec)) in
      if 0 < n then n * 1000000000 else 600000000000)"
  by (simp add: requestedRotateBefore_def Let_def dur_mul_int32)

lemma requestedRotateBefore_is_duration [simp]: "is_duration (requestedRotateBefore ec)"
  using sint32_bounds [of "spec_RotateBeforeSeconds (ec_Spec ec)"]
  by (simp add: requestedRotateBefore_eq Let_def is_duration_def duration_consts)

lemma grantedLifetime_is_duration [simp]: "is_duration (grantedLifetime ec)"
  by (auto simp: grantedLifetime_def is_duration_def duration_consts time_Sub_def
      split: option.splits)

section \<open>The clamp\<close>

lemma clampRotateBefore_eq:
  assumes "is_duration granted" and "0 < requested"
  shows "clampRotateBefore requested granted =
    (if 0 < granted \<and> granted div 2 < requested then (granted div 2, True) else (requested, False))"
  using assms by (auto simp: clampRotateBefore_def Let_def)

lemma clampRotateBefore_bounds:
  assumes "is_duration granted" and "is_duration requested" and "0 < requested"
  shows "0 \<le> fst (clampRotateBefore requested granted)"
    and "fst (clampRotateBefore requested granted) \<le> requested"
    and "is_duration (fst (clampRotateBefore requested granted))"
    and "0 < granted \<Longrightarrow> fst (clampRotateBefore requested granted) \<le> granted div 2"
  using assms
  by (auto simp: clampRotateBefore_eq is_duration_def duration_consts)

section \<open>The wake-up\<close>

lemma requeueDelay_floor: "5000000000 \<le> requeueDelay e rb now"
  by (simp add: requeueDelay_def Let_def)

lemma requeueDelay_eq:
  assumes "is_duration rb" and "0 \<le> rb" and "is_duration (e - now)" and "now \<le> e"
  shows "requeueDelay e rb now = max 5000000000 (e - rb - now)"
proof -
  have "is_duration (e - rb - now)"
    using assms by (simp add: is_duration_def duration_consts)
  then show ?thesis
    using assms by (simp add: requeueDelay_def Let_def time_Add_def time_Sub_eq max_def)
qed

text \<open>
  What the schedule amounts to after a mint at \<open>now\<close> that was granted the lifetime \<open>g\<close>: the
  effective window is the smaller of the requested one and half of \<open>g\<close>.
\<close>

lemma schedule_after_mint:
  assumes "0 < g" and "is_duration g" and "0 < req" and "is_duration req"
  shows "fst (clampRotateBefore req (time_Sub (now + g) now)) = min req (g div 2)"
    and "requeueDelay (now + g) (min req (g div 2)) now = max 5000000000 (g - min req (g div 2))"
proof -
  have sub: "time_Sub (now + g) now = g"
    using assms by (simp add: time_Sub_eq)
  show "fst (clampRotateBefore req (time_Sub (now + g) now)) = min req (g div 2)"
    using assms unfolding sub by (auto simp: clampRotateBefore_eq min_def)
  have "is_duration (min req (g div 2))" and "0 \<le> min req (g div 2)"
    using assms by (auto simp: min_def is_duration_def duration_consts)
  then show "requeueDelay (now + g) (min req (g div 2)) now = max 5000000000 (g - min req (g div 2))"
    using assms by (subst requeueDelay_eq) auto
qed

text \<open>The delay after a mint, and the window computed later from the stored instants.\<close>

lemma delay_after_mint:
  assumes "is_duration g" and "10000000000 \<le> g"
  shows "fst (clampRotateBefore (requestedRotateBefore ec) (time_Sub (now + g) now)) =
      min (requestedRotateBefore ec) (g div 2)"
    and "requeueDelay (now + g) (min (requestedRotateBefore ec) (g div 2)) now =
      g - min (requestedRotateBefore ec) (g div 2)"
  using schedule_after_mint [of g "requestedRotateBefore ec" now] assms
  by (auto simp: requestedRotateBefore_pos max_def min_def)

lemma stored_window:
  assumes "is_duration (E - n)" and "n < E"
    and "st_ExpiresAt (ec_Status ec) = Some E" and "st_LastRotatedAt (ec_Status ec) = Some n"
  shows "fst (clampRotateBefore (requestedRotateBefore ec) (grantedLifetime ec)) =
      min (requestedRotateBefore ec) ((E - n) div 2)"
  using assms
  by (auto simp: grantedLifetime_def time_Sub_eq clampRotateBefore_eq requestedRotateBefore_pos)

lemma stored_lifetime:
  assumes "is_duration (g + Second)" and "10000000000 \<le> g"
    and "now + g - Second < E" and "E \<le> now + g" and "now - Second < n" and "n \<le> now"
  shows "is_duration g" and "is_duration (E - n)" and "n < E"
  using assms by (auto simp: is_duration_def duration_consts)

lemma needsMint_stored:
  assumes "st_ExpiresAt (ec_Status ec) = Some E"
    and "om_Generation (ec_Meta ec) = st_ObservedGeneration (ec_Status ec)"
  shows "needsMint t rb ec \<longleftrightarrow> E \<le> t + rb"
  using assms by (auto simp: needsMint_def time_Before_def time_Add_def)

lemma needsMint_late:
  assumes "st_ExpiresAt (ec_Status ec) = Some E" and "E \<le> t + rb"
  shows "needsMint t rb ec"
  using assms by (auto simp: needsMint_def time_Before_def time_Add_def)

section \<open>The rotation window\<close>

text \<open>
  What the window is, in numbers: the seconds of the spec (ten minutes if that number is not positive), but no more than half
  of the lifetime that the stored instants show, which \<open>time.Sub\<close> cuts at its largest duration. A credential
  is \<open>outside_window\<close> at \<open>t\<close> if it was minted for the current spec and expires later than the window after \<open>t\<close>.
\<close>

definition rotation_window :: "EphemeralCredential \<Rightarrow> int" where
  "rotation_window ec =
     (let n = sint (spec_RotateBeforeSeconds (ec_Spec ec)); asked = (if 0 < n then n else 600) * 10 ^ 9 in
      case (st_ExpiresAt (ec_Status ec), st_LastRotatedAt (ec_Status ec)) of
        (Some e, Some l) \<Rightarrow> if l < e then min asked (min (e - l) (2 ^ 63 - 1) div 2) else asked
      | _ \<Rightarrow> asked)"

definition outside_window :: "time \<Rightarrow> EphemeralCredential \<Rightarrow> bool" where
  "outside_window t ec \<longleftrightarrow> om_Generation (ec_Meta ec) = st_ObservedGeneration (ec_Status ec) \<and>
     (\<exists>e. st_ExpiresAt (ec_Status ec) = Some e \<and> t + rotation_window ec < e)"

lemma effective_window_eq:
  "fst (clampRotateBefore (requestedRotateBefore ec) (grantedLifetime ec)) = rotation_window ec"
proof -
  have "time_Sub e l = (if l < e then min (e - l) (2 ^ 63 - 1) else max (e - l) (- (2 ^ 63)))" for e l
    by (auto simp: time_Sub_def duration_consts)
  moreover have "is_duration (time_Sub e l)" for e l
    by (auto simp: time_Sub_def is_duration_def duration_consts)
  ultimately show ?thesis
    by (auto simp: rotation_window_def grantedLifetime_def requestedRotateBefore_eq clampRotateBefore_eq Let_def
        is_duration_def duration_consts split: option.split)
qed

lemma needsMint_iff:
  "needsMint t (fst (clampRotateBefore (requestedRotateBefore ec) (grantedLifetime ec))) ec \<longleftrightarrow> \<not> outside_window t ec"
  unfolding effective_window_eq
  by (auto simp: needsMint_def outside_window_def time_Before_def time_Add_def split: option.split)

lemma window_is_duration: "0 \<le> rotation_window ec" "is_duration (rotation_window ec)"
  using clampRotateBefore_bounds [of "grantedLifetime ec" "requestedRotateBefore ec"]
  by (simp_all add: requestedRotateBefore_pos effective_window_eq)

section \<open>Properties\<close>

text \<open>
  The requested rotation window is computed without overflow: it is the spec's number of
  seconds in nanoseconds when that number is positive, ten minutes otherwise, and always
  positive and at most \<open>2 ^ 31 - 1\<close> seconds.
\<close>

lemma requested_window_exact:
  "requestedRotateBefore ec =
     (if 0 < sint (spec_RotateBeforeSeconds (ec_Spec ec))
      then sint (spec_RotateBeforeSeconds (ec_Spec ec)) * 10 ^ 9 else 600 * 10 ^ 9) \<and>
   0 < requestedRotateBefore ec \<and> requestedRotateBefore ec \<le> (2 ^ 31 - 1) * 10 ^ 9"
  using sint32_bounds [of "spec_RotateBeforeSeconds (ec_Spec ec)"]
  by (simp add: requestedRotateBefore_eq Let_def)

text \<open>
  C14. Whatever the spec asks for, the effective window lies inside of the first half of the
  lifetime the provider granted, it is the requested window (or the default for a request
  that is not positive) unless that exceeds half of the lifetime, and the function reports
  exactly whether it reduced the window.
\<close>

theorem clamp_inside_lifetime:
  assumes "is_duration granted" and "0 < granted"
  shows "let asked = (if requested \<le> 0 then 600 * 10 ^ 9 else requested);
             (rb, clamped) = clampRotateBefore requested granted
         in 0 \<le> rb \<and> 2 * rb \<le> granted \<and> rb = min asked (granted div 2) \<and>
            (clamped \<longleftrightarrow> granted div 2 < asked)"
  using assms by (auto simp: clampRotateBefore_def Let_def min_def)

text \<open>
  No hot loop: after a mint whose lifetime \<open>g\<close> is at least ten seconds, the next wake-up
  is no sooner than half of the lifetime and strictly before the credential expires, for
  every spec.
\<close>

lemma wakeup_inside_lifetime:
  assumes "is_duration g" and "10 * 10 ^ 9 \<le> g"
  shows "let rb = fst (clampRotateBefore (requestedRotateBefore ec) (time_Sub (now + g) now));
             delay = requeueDelay (now + g) rb now
         in g div 2 \<le> delay \<and> delay < g \<and> delay = g - rb"
proof -
  let ?rb = "fst (clampRotateBefore (requestedRotateBefore ec) (time_Sub (now + g) now))"
  have g: "10000000000 \<le> g" using assms(2) by simp
  note delay = delay_after_mint [OF assms(1) g, where ec = ec and now = now]
  have "requeueDelay (now + g) ?rb now = g - ?rb"
    unfolding delay(1) by (rule delay(2))
  moreover have "0 < ?rb" and "?rb \<le> g div 2"
    unfolding delay(1) using g requestedRotateBefore_pos [of ec] by auto
  ultimately show ?thesis by (simp add: Let_def)
qed

text \<open>
  The wake-up finds the window open. Let a mint at \<open>now\<close> be granted the lifetime \<open>g\<close>, and
  let the API server store expiry and rotation time cut to whole seconds (\<open>E\<close>, \<open>n\<close>). At the
  scheduled wake-up and at every later instant the reconciler decides to mint.
\<close>

lemma wakeup_opens_window:
  assumes "is_duration (g + Second)" and "10 * 10 ^ 9 \<le> g"
    and "now + g - Second < E" and "E \<le> now + g" and "now - Second < n" and "n \<le> now"
    and "st_ExpiresAt (ec_Status ec) = Some E" and "st_LastRotatedAt (ec_Status ec) = Some n"
    and "now + requeueDelay (now + g)
           (fst (clampRotateBefore (requestedRotateBefore ec) (time_Sub (now + g) now))) now \<le> t"
  shows "needsMint t (fst (clampRotateBefore (requestedRotateBefore ec) (grantedLifetime ec))) ec"
proof -
  have g: "10000000000 \<le> g" using assms(2) by simp
  note stored = stored_lifetime [OF assms(1) g assms(3-6)]
  have "now + g - min (requestedRotateBefore ec) (g div 2) \<le> t"
    using assms(9) delay_after_mint [OF stored(1) g, where ec = ec and now = now] by simp
  moreover have "E \<le> now + g - min (requestedRotateBefore ec) (g div 2) +
      min (requestedRotateBefore ec) ((E - n) div 2)"
    using assms(3-6) by (auto simp: min_def)
  ultimately have "E \<le> t + min (requestedRotateBefore ec) ((E - n) div 2)" by simp
  then show ?thesis
    using assms(7) by (simp add: stored_window [OF stored(2,3) assms(7,8)] needsMint_late)
qed

text \<open>
  C23. A fresh credential is left alone: with the stored instants of the previous property, no
  reconcile in the first half of the lifetime less two seconds mints again, unless the spec
  has changed since.
\<close>

theorem fresh_credential_not_reminted:
  assumes "is_duration (g + Second)" and "10 * 10 ^ 9 \<le> g"
    and "now + g - Second < E" and "E \<le> now + g" and "now - Second < n" and "n \<le> now"
    and "st_ExpiresAt (ec_Status ec) = Some E" and "st_LastRotatedAt (ec_Status ec) = Some n"
    and "om_Generation (ec_Meta ec) = st_ObservedGeneration (ec_Status ec)"
    and "t \<le> now + g div 2 - 2 * Second"
  shows "\<not> needsMint t (fst (clampRotateBefore (requestedRotateBefore ec) (grantedLifetime ec))) ec"
proof -
  have g: "10000000000 \<le> g" using assms(2) by simp
  note stored = stored_lifetime [OF assms(1) g assms(3-6)]
  have "t + (E - n) div 2 < E"
    using assms(3-6,10) by (simp add: Second_def)
  then show ?thesis
    using assms(7,9) by (simp add: stored_window [OF stored(2,3) assms(7,8)] needsMint_stored)
qed

text \<open>
  What admission guarantees: a spec that passes defaulting and the validation rules has a rotation window of at
  least thirty seconds that is shorter than the lifetime it requests. A spec that leaves the window out is
  admitted only if it requests more than ten minutes.
\<close>

lemma admitted_window:
  assumes "admissible_spec (apply_defaults sp)" and "ec_Spec ec = apply_defaults sp"
  shows "30 * 10 ^ 9 \<le> requestedRotateBefore ec \<and>
    requestedRotateBefore ec < sint (spec_TTLSeconds (ec_Spec ec)) * 10 ^ 9 \<and>
    (spec_RotateBeforeSeconds sp = 0 \<longrightarrow> 600 < sint (spec_TTLSeconds sp))"
proof -
  have "30 \<le> sint (spec_RotateBeforeSeconds (apply_defaults sp))"
    and "sint (spec_RotateBeforeSeconds (apply_defaults sp)) < sint (spec_TTLSeconds (apply_defaults sp))"
    using assms(1) by (simp_all add: admissible_spec_def)
  then show ?thesis
    using assms(2) by (auto simp: requestedRotateBefore_eq apply_defaults_def)
qed

section \<open>Witnesses\<close>

text \<open>
  The situation of \<open>TestReconcile_ClampsRotationWindowToGrantedLifetime\<close>: the spec asks for a
  window of one hour, the provider grants one hour, minted at a fraction of a second.
\<close>

definition sample_rotation_ec :: EphemeralCredential where
  "sample_rotation_ec =
    \<lparr>ec_Meta = \<lparr>om_Name = ''ci'', om_Namespace = ''builds'', om_UID = ''u1'', om_ResourceVersion = 1,
       om_Generation = 1, om_DeletionTimestamp = None, om_Finalizers = [], om_Annotations = None,
       om_OwnerReferences = []\<rparr>,
     ec_Spec = \<lparr>spec_Provider = ''github-app'', spec_TTLSeconds = 7200,
       spec_RotateBeforeSeconds = 3600, spec_TargetSecret = \<lparr>ts_Name = ''github-token'', ts_Keys = Map.empty\<rparr>,
       spec_ProviderConfig = \<lparr>pc_GitHub = None, pc_AWS = None, pc_Database = None, pc_Vault = None\<rparr>\<rparr>,
     ec_Status = \<lparr>st_State = StateActive, st_ExpiresAt = Some (3600 * Second),
       st_LastRotatedAt = Some 0, st_ObservedGeneration = 1, st_Conditions = []\<rparr>\<rparr>"

lemma sample_rotation_facts:
  "requestedRotateBefore sample_rotation_ec = 3600000000000"
  "st_ExpiresAt (ec_Status sample_rotation_ec) = Some (3600 * Second)"
  "st_LastRotatedAt (ec_Status sample_rotation_ec) = Some 0"
  "om_Generation (ec_Meta sample_rotation_ec) = st_ObservedGeneration (ec_Status sample_rotation_ec)"
  by (simp_all add: requestedRotateBefore_eq sample_rotation_ec_def)

theorem clamp_inside_lifetime_witness:
  "is_duration (3600 * Second) \<and> clampRotateBefore (3600 * Second) (3600 * Second) = (1800 * Second, True)"
proof -
  have h: "is_duration (3600 * Second)" "0 < 3600 * Second"
    by (simp_all add: is_duration_def duration_consts)
  show ?thesis
    using clamp_inside_lifetime [OF h, of "3600 * Second"] h(1)
    by (auto simp: Let_def Second_def split: prod.splits)
qed

lemma wakeup_inside_lifetime_example:
  "1800 * 10 ^ 9 \<le> requeueDelay (7 + 3600 * 10 ^ 9)
     (fst (clampRotateBefore (requestedRotateBefore sample_rotation_ec) (time_Sub (7 + 3600 * 10 ^ 9) 7))) 7"
  using wakeup_inside_lifetime [of "3600 * 10 ^ 9" sample_rotation_ec 7]
  by (simp add: Let_def is_duration_def duration_consts)

lemma wakeup_opens_window_example:
  "needsMint (1801 * Second)
     (fst (clampRotateBefore (requestedRotateBefore sample_rotation_ec) (grantedLifetime sample_rotation_ec)))
     sample_rotation_ec"
proof -
  have g: "is_duration (3600 * Second + Second)" "10 * 10 ^ 9 \<le> 3600 * Second"
    by (simp_all add: is_duration_def duration_consts)
  have "7 + requeueDelay (7 + 3600 * Second)
      (fst (clampRotateBefore (requestedRotateBefore sample_rotation_ec)
         (time_Sub (7 + 3600 * Second) 7))) 7 \<le> 1801 * Second"
    using delay_after_mint [where g = "3600 * Second" and ec = sample_rotation_ec and now = 7]
    by (simp add: is_duration_def duration_consts sample_rotation_facts)
  then show ?thesis
    using wakeup_opens_window [OF g, of 7 "3600 * Second" 0 sample_rotation_ec "1801 * Second"]
    by (simp add: sample_rotation_facts Second_def)
qed

theorem fresh_credential_not_reminted_witness:
  "\<not> needsMint (1700 * Second)
     (fst (clampRotateBefore (requestedRotateBefore sample_rotation_ec) (grantedLifetime sample_rotation_ec)))
     sample_rotation_ec"
proof -
  have g: "is_duration (3600 * Second + Second)" "10 * 10 ^ 9 \<le> 3600 * Second"
    by (simp_all add: is_duration_def duration_consts)
  show ?thesis
    using fresh_credential_not_reminted [OF g, of 7 "3600 * Second" 0 sample_rotation_ec "1700 * Second"]
    by (simp add: sample_rotation_facts Second_def)
qed


definition sample_admitted_spec :: EphemeralCredentialSpec where
  "sample_admitted_spec =
    \<lparr>spec_Provider = ''github-app'', spec_TTLSeconds = 3600, spec_RotateBeforeSeconds = 0,
     spec_TargetSecret = \<lparr>ts_Name = ''github-token'', ts_Keys = Map.empty\<rparr>,
     spec_ProviderConfig = \<lparr>pc_GitHub = Some \<lparr>gh_AppConfigRef = \<lparr>lor_Name = ''app''\<rparr>,
         gh_Repositories = [''myorg/myrepo''], gh_Permissions = []\<rparr>,
       pc_AWS = None, pc_Database = None, pc_Vault = None\<rparr>\<rparr>"

lemma admitted_window_example:
  "requestedRotateBefore (sample_rotation_ec\<lparr>ec_Spec := apply_defaults sample_admitted_spec\<rparr>) < 3600 * 10 ^ 9"
proof -
  have "admissible_spec (apply_defaults sample_admitted_spec)"
    by (simp add: admissible_spec_def apply_defaults_def sample_admitted_spec_def ProviderGitHubApp_def ProviderAWSSTS_def
        ProviderDatabase_def ProviderVault_def)
  from admitted_window [OF this, of "sample_rotation_ec\<lparr>ec_Spec := apply_defaults sample_admitted_spec\<rparr>"] show ?thesis
    by (simp add: sample_admitted_spec_def apply_defaults_def)
qed

end
