(* ===== verification/Provider_Iface.thy ===== *)
theory Provider_Iface
  imports Api_Types
begin

text \<open>
  The provider interface (\<open>src/internal/provider/provider.go\<close>): the handle, request and
  result types, the interface \<open>Provider\<close> as a record of its three methods, and the
  registry. The effectful methods act on a state \<open>'s\<close> that stands for the credential system
  behind the provider. \<open>MintRequest.Scope\<close> has the Go type \<open>any\<close>; \<open>any_scope\<close> has one
  constructor for the only concrete scope type of the repository (\<open>github.Scope\<close>), one for
  the nil interface and one for a value of any other dynamic type.

  The locale \<open>named_lookup\<close> is what the reconciler relies on: a lookup by name yields a
  provider that carries this name.
\<close>

record CredentialHandle =
  h_ProviderName :: string
  h_Opaque :: bytes

record Scope =
  scope_AppID :: string
  scope_PrivateKeyPEM :: bytes
  scope_Repositories :: "string list"
  scope_Permissions :: "(string \<times> string) list"

datatype any_scope = ScopeNil | ScopeGitHub Scope | ScopeOther string

record MintRequest =
  mreq_Scope :: any_scope
  mreq_TTL :: duration
  mreq_Namespace :: string
  mreq_Name :: string

text \<open>
  \<open>MintResult.Data\<close> is a Go map that the reconciler ranges over: an association list, in the
  order in which the \<open>range\<close> loop visits the keys.
\<close>

record MintResult =
  mint_Data :: "(string \<times> bytes) list"
  mint_ExpiresAt :: time
  mint_Handle :: CredentialHandle

record 's Provider =
  prov_Name :: string
  prov_Mint :: "MintRequest \<Rightarrow> ('s, MintResult result) action"
  prov_Revoke :: "CredentialHandle \<Rightarrow> ('s, go_error option) action"

record 's Registry =
  reg_providers :: "string \<rightharpoonup> 's Provider"

fun register_all :: "'s Provider list \<Rightarrow> (string \<rightharpoonup> 's Provider) \<Rightarrow> (string \<rightharpoonup> 's Provider)" where
  "register_all [] m = m"
| "register_all (p # ps) m = register_all ps (m(prov_Name p \<mapsto> p))"

definition NewRegistry :: "'s Provider list \<Rightarrow> 's Registry" where
  "NewRegistry providers = \<lparr>reg_providers = register_all providers Map.empty\<rparr>"

definition Registry_Get :: "'s Registry \<Rightarrow> string \<Rightarrow> 's Provider option" where
  "Registry_Get r name = reg_providers r name"

section \<open>What a lookup promises\<close>

locale named_lookup =
  fixes get :: "string \<Rightarrow> 's Provider option"
  assumes get_name: "get n = Some p \<Longrightarrow> prov_Name p = n"
begin

text \<open>A handle passes the provider check exactly when it names the spec's provider.\<close>

lemma handle_check: "get n = Some p \<Longrightarrow> h_ProviderName h = prov_Name p \<longleftrightarrow> h_ProviderName h = n"
  using get_name by auto

lemma get_inj: "get n = Some p \<Longrightarrow> get n' = Some p \<Longrightarrow> n = n'"
  using get_name by blast

end

section \<open>The registry keeps the promise\<close>

lemma register_all_append: "register_all (ps @ qs) m = register_all qs (register_all ps m)"
  by (induction ps arbitrary: m) auto

lemma register_all_lookup:
  "register_all ps m n =
     (case filter (\<lambda>p. prov_Name p = n) ps of [] \<Rightarrow> m n | q # qs \<Rightarrow> Some (last (q # qs)))"
proof (induction ps arbitrary: m)
  case (Cons p ps)
  show ?case
    by (cases "filter (\<lambda>p. prov_Name p = n) ps") (auto simp: Cons.IH)
qed simp

lemma register_all_name:
  assumes "register_all ps Map.empty n = Some p"
  shows "p \<in> set ps \<and> prov_Name p = n"
proof (cases "filter (\<lambda>p. prov_Name p = n) ps")
  case Nil
  with assms show ?thesis by (simp add: register_all_lookup)
next
  case (Cons q qs)
  with assms have "p = last (q # qs)" by (simp add: register_all_lookup)
  then have "p \<in> set (filter (\<lambda>p. prov_Name p = n) ps)"
    unfolding Cons by (simp only: last_in_set list.distinct simp_thms)
  then show ?thesis by simp
qed

interpretation new_registry: named_lookup "Registry_Get (NewRegistry ps)" for ps
  by unfold_locales (auto simp: Registry_Get_def NewRegistry_def dest: register_all_name)


section \<open>The contract of a provider\<close>

text \<open>
  What the comments of the interface ask of an implementation: a minted credential carries the name
  of the provider that minted it, and a handle of another provider is refused, without any effect.
\<close>

locale provider_contract =
  fixes p :: "'s Provider"
  assumes mint_label: "prov_Mint p q s = (Inr m, s') \<Longrightarrow> h_ProviderName (mint_Handle m) = prov_Name p"
    and foreign_handle: "h_ProviderName h \<noteq> prov_Name p \<Longrightarrow> \<exists>e. prov_Revoke p h s = (Some e, s)"
begin

lemma own_handle_accepted:
  assumes "prov_Mint p q s = (Inr m, s')" and "h = mint_Handle m"
  shows "h_ProviderName h = prov_Name p"
  using assms mint_label by blast

lemma revoked_is_own: "prov_Revoke p h s = (None, s') \<Longrightarrow> h_ProviderName h = prov_Name p"
  using foreign_handle [of h s] by fastforce

end

end
