(* ===== verification/Go_Strings.thy ===== *)
theory Go_Strings
  imports Broker_Prelude
begin

text \<open>
  The functions of Go's packages \<open>strings\<close> and \<open>sort\<close> the broker calls: \<open>strings.Join\<close>,
  \<open>strings.Split\<close> with a one-byte separator, and \<open>sort.Strings\<close> (bytewise order, the
  lexicographic order of \<open>List_Lexorder\<close> over \<open>Char_ord\<close>).
\<close>

fun strings_Join :: "string list \<Rightarrow> string \<Rightarrow> string" where
  "strings_Join [] sep = []"
| "strings_Join [x] sep = x"
| "strings_Join (x # y # ys) sep = x @ sep @ strings_Join (y # ys) sep"

fun strings_Split :: "string \<Rightarrow> char \<Rightarrow> string list" where
  "strings_Split [] c = [[]]"
| "strings_Split (x # xs) c =
     (if x = c then [] # strings_Split xs c
      else (case strings_Split xs c of
              [] \<Rightarrow> [[x]]
            | y # ys \<Rightarrow> (x # y) # ys))"

definition sort_Strings :: "string list \<Rightarrow> string list" where
  "sort_Strings xs = sort xs"

lemma strings_Split_nonempty [simp]: "strings_Split xs c \<noteq> []"
  by (induction xs) (auto split: list.splits)

lemma strings_Split_no_sep: "c \<notin> set xs \<Longrightarrow> strings_Split xs c = [xs]"
  by (induction xs) auto

lemma strings_Split_append_sep:
  "c \<notin> set xs \<Longrightarrow> strings_Split (xs @ c # ys) c = xs # strings_Split ys c"
  by (induction xs) auto

lemma strings_Split_Join:
  assumes "xs \<noteq> []" and "\<forall>x \<in> set xs. c \<notin> set x"
  shows "strings_Split (strings_Join xs [c]) c = xs"
  using assms
proof (induction xs "[c]" rule: strings_Join.induct)
  case (3 x y ys)
  then show ?case by (simp add: strings_Split_append_sep)
qed (simp_all add: strings_Split_no_sep)

lemma strings_Join_Split: "strings_Join (strings_Split xs c) [c] = xs"
proof (induction xs)
  case (Cons x xs)
  obtain y ys where y: "strings_Split xs c = y # ys"
    by (metis list.exhaust strings_Split_nonempty)
  show ?case
    using Cons y by (cases ys) auto
qed simp

lemma strings_Join_eq_Nil: "strings_Join xs [c] = [] \<longleftrightarrow> xs = [] \<or> xs = [[]]"
  by (induction xs "[c]" rule: strings_Join.induct) auto

lemma sort_Strings_simps [simp]:
  "set (sort_Strings xs) = set xs" "sort_Strings xs = [] \<longleftrightarrow> xs = []" "sort_Strings [x] = [x]"
  "length (sort_Strings xs) = length xs"
  by (simp_all add: sort_Strings_def flip: length_0_conv)

lemma sort_Strings_sorted: "sorted (sort_Strings xs)"
  by (simp add: sort_Strings_def)

lemma sort_Strings_mset_cong: "mset xs = mset ys \<Longrightarrow> sort_Strings xs = sort_Strings ys"
  unfolding sort_Strings_def by (rule sort_mset_eq)

end
