(* ===== verification/Target_Secret.thy ===== *)
theory Target_Secret
  imports Provider_Iface Go_Strings
begin

text \<open>
  The content of the target Secret: \<open>previouslyManagedKeys\<close> and the mutate callback of
  \<open>writeTargetSecret\<close> (\<open>src/internal/controller/ephemeralcredential_controller.go\<close>).

  \<open>write_data\<close> is the \<open>range\<close> loop over the minted data, \<open>drop_stale\<close> the loop over the keys an
  earlier write recorded, \<open>mutateTargetSecret\<close> the callback up to the owner reference. The
  locale \<open>key_ledger\<close> is the contract of the bookkeeping: after a write the ledger holds the
  written keys, a key of the ledger that is not written again disappears, every other key is
  left alone. What follows for arbitrary histories of writes is proved once from it and
  holds for the broker's Secrets by interpretation.
\<close>

definition managedKeysAnnotation :: string where
  [broker_defs]: "managedKeysAnnotation = ''broker.shivansh-sinha.dev/managed-keys''"

definition previouslyManagedKeys :: "Secret \<Rightarrow> string list" where
  "previouslyManagedKeys secret =
     (let raw = map_get_string (om_Annotations (sec_Meta secret)) managedKeysAnnotation in
      if raw = [] then [] else strings_Split raw (CHR '',''))"

definition secretKey :: "TargetSecretSpec \<Rightarrow> string \<Rightarrow> string" where
  "secretKey ts logicalKey =
     (case ts_Keys ts logicalKey of
        Some mapped \<Rightarrow> (if mapped \<noteq> [] then mapped else logicalKey)
      | None \<Rightarrow> logicalKey)"

fun write_data ::
  "TargetSecretSpec \<Rightarrow> (string \<times> bytes) list \<Rightarrow> (string \<rightharpoonup> bytes) \<Rightarrow> string list \<Rightarrow>
     (string \<rightharpoonup> bytes) \<times> string list" where
  "write_data ts [] data written = (data, written)"
| "write_data ts ((logicalKey, value) # rest) data written =
     (let k = secretKey ts logicalKey in
      write_data ts rest (data(k \<mapsto> value)) (written @ [k]))"

fun drop_stale :: "string list \<Rightarrow> string list \<Rightarrow> (string \<rightharpoonup> bytes) \<Rightarrow> (string \<rightharpoonup> bytes)" where
  "drop_stale [] written data = data"
| "drop_stale (stale # rest) written data =
     (if stale \<in> set written then drop_stale rest written data
      else drop_stale rest written (data(stale := None)))"

definition mutateTargetSecret :: "EphemeralCredential \<Rightarrow> MintResult \<Rightarrow> Secret \<Rightarrow> Secret" where
  "mutateTargetSecret ec mint secret =
     (let ts = spec_TargetSecret (ec_Spec ec);
          (data, written) = write_data ts (mint_Data mint) (map_alloc (sec_Data secret)) [];
          written = sort_Strings written;
          data = drop_stale (previouslyManagedKeys secret) written data;
          annotations = map_alloc (om_Annotations (sec_Meta secret))
      in secret
        \<lparr>sec_Data := Some data,
         sec_Meta := (sec_Meta secret)
           \<lparr>om_Annotations :=
              Some (annotations(managedKeysAnnotation \<mapsto> strings_Join written '',''))\<rparr>,
         sec_Type := TargetSecretType\<rparr>)"

section \<open>The loops\<close>

definition written_entries :: "TargetSecretSpec \<Rightarrow> (string \<times> bytes) list \<Rightarrow> (string \<times> bytes) list" where
  "written_entries ts d = map (\<lambda>(k, v). (secretKey ts k, v)) d"

abbreviation written_keys :: "TargetSecretSpec \<Rightarrow> (string \<times> bytes) list \<Rightarrow> string list" where
  "written_keys ts d \<equiv> map fst (written_entries ts d)"

lemma written_entries_simps [simp]:
  "written_entries ts [] = []"
  "written_entries ts ((k, v) # d) = (secretKey ts k, v) # written_entries ts d"
  by (simp_all add: written_entries_def)

lemma write_data_eq:
  "write_data ts d data written = (data ++ map_of (rev (written_entries ts d)), written @ written_keys ts d)"
proof (induction d arbitrary: data written)
  case (Cons e d)
  then show ?case by (cases e) (auto simp: Let_def map_add_def split: option.splits)
qed simp

lemma map_of_written_None [simp]:
  "map_of (rev (written_entries ts d)) q = None \<longleftrightarrow> q \<notin> set (written_keys ts d)"
  by (simp add: map_of_eq_None_iff)

lemma drop_stale_eq:
  "drop_stale stale written data k =
     (if k \<in> set stale \<and> k \<notin> set written then None else data k)"
  by (induction stale arbitrary: data) auto

section \<open>The callback\<close>

lemma mutate_Data:
  "sec_Data (mutateTargetSecret ec mint secret) =
     Some (\<lambda>q. case map_of (rev (written_entries (spec_TargetSecret (ec_Spec ec)) (mint_Data mint))) q of
              Some v \<Rightarrow> Some v
            | None \<Rightarrow> if q \<in> set (previouslyManagedKeys secret) then None
                      else map_get (sec_Data secret) q)"
proof -
  let ?ts = "spec_TargetSecret (ec_Spec ec)" and ?d = "mint_Data mint"
  have "drop_stale (previouslyManagedKeys secret) (sort_Strings (written_keys ?ts ?d))
      (map_alloc (sec_Data secret) ++ map_of (rev (written_entries ?ts ?d))) q =
    (case map_of (rev (written_entries ?ts ?d)) q of
       Some v \<Rightarrow> Some v
     | None \<Rightarrow> if q \<in> set (previouslyManagedKeys secret) then None else map_get (sec_Data secret) q)" for q
    using map_of_written_None [of ?ts ?d q]
    by (cases "map_of (rev (written_entries ?ts ?d)) q")
       (auto simp: drop_stale_eq map_add_def simp del: map_of_written_None)
  then show ?thesis
    by (simp add: mutateTargetSecret_def write_data_eq Let_def fun_eq_iff)
qed

lemma mutate_Annotations:
  "om_Annotations (sec_Meta (mutateTargetSecret ec mint secret)) =
     Some ((map_alloc (om_Annotations (sec_Meta secret)))
       (managedKeysAnnotation \<mapsto>
          strings_Join (sort_Strings (written_keys (spec_TargetSecret (ec_Spec ec)) (mint_Data mint))) '',''))"
  by (simp add: mutateTargetSecret_def write_data_eq Let_def)

lemma mutate_Meta [simp]:
  "om_Name (sec_Meta (mutateTargetSecret ec mint secret)) = om_Name (sec_Meta secret)"
  "om_Namespace (sec_Meta (mutateTargetSecret ec mint secret)) = om_Namespace (sec_Meta secret)"
  "om_OwnerReferences (sec_Meta (mutateTargetSecret ec mint secret)) = om_OwnerReferences (sec_Meta secret)"
  "sec_Type (mutateTargetSecret ec mint secret) = TargetSecretType"
  by (simp_all add: mutateTargetSecret_def write_data_eq Let_def)

text \<open>
  Keys of a Secret are non-empty and made of letters, digits, \<open>-\<close>, \<open>_\<close> and \<open>.\<close>; what matters here
  is that none of them is empty or contains the separator of the annotation.
\<close>

definition plain_key :: "string \<Rightarrow> bool" where
  "plain_key k \<longleftrightarrow> k \<noteq> [] \<and> CHR '','' \<notin> set k"

lemma previouslyManagedKeys_mutate:
  assumes "\<forall>k \<in> set (written_keys (spec_TargetSecret (ec_Spec ec)) (mint_Data mint)). plain_key k"
  shows "previouslyManagedKeys (mutateTargetSecret ec mint secret) =
     sort_Strings (written_keys (spec_TargetSecret (ec_Spec ec)) (mint_Data mint))"
proof -
  let ?w = "sort_Strings (written_keys (spec_TargetSecret (ec_Spec ec)) (mint_Data mint))"
  have plain: "\<forall>k \<in> set ?w. plain_key k" using assms by simp
  show ?thesis
  proof (cases "?w = []")
    case True
    then show ?thesis
      by (simp only: previouslyManagedKeys_def mutate_Annotations Let_def) simp
  next
    case False
    moreover have "?w \<noteq> [[]]"
      using plain by (metis list.set_intros(1) plain_key_def)
    ultimately have "strings_Join ?w '','' \<noteq> []"
      by (simp only: strings_Join_eq_Nil) simp
    then show ?thesis
      using plain False
      by (simp add: previouslyManagedKeys_def mutate_Annotations Let_def plain_key_def strings_Split_Join)
  qed
qed

section \<open>The contract of the bookkeeping\<close>

locale key_ledger =
  fixes put :: "'r \<Rightarrow> 'st \<Rightarrow> 'st"
    and ok :: "'r \<Rightarrow> bool"
    and keys :: "'r \<Rightarrow> 'k set"
    and ledger :: "'st \<Rightarrow> 'k set"
    and lookup :: "'st \<Rightarrow> 'k \<Rightarrow> 'v option"
  assumes ledger_put: "ok r \<Longrightarrow> ledger (put r st) = keys r"
    and lookup_stale: "k \<in> ledger st \<Longrightarrow> k \<notin> keys r \<Longrightarrow> lookup (put r st) k = None"
    and lookup_foreign: "k \<notin> ledger st \<Longrightarrow> k \<notin> keys r \<Longrightarrow> lookup (put r st) k = lookup st k"
begin

text \<open>A key that no write of a history produces and that was not in the ledger is untouched.\<close>

lemma foreign_untouched:
  assumes "\<forall>r \<in> set rs. ok r" and "k \<notin> ledger st" and "\<forall>r \<in> set rs. k \<notin> keys r"
  shows "lookup (fold put rs st) k = lookup st k"
  using assms
  by (induction rs arbitrary: st) (auto simp: ledger_put lookup_foreign)

text \<open>
  A key that was in the ledger, or was written at some point of a history, and is not written
  by its last write is gone at the end, and stays gone.
\<close>

lemma stale_gone:
  assumes "\<forall>r \<in> set (rs @ [r]). ok r" and "k \<in> ledger st \<or> (\<exists>q \<in> set rs. k \<in> keys q)"
    and "k \<notin> keys r"
  shows "lookup (fold put (rs @ [r]) st) k = None"
  using assms
proof (induction rs arbitrary: st)
  case Nil
  then show ?case by (simp add: lookup_stale)
next
  case (Cons q rs)
  show ?case
  proof (cases "k \<in> keys q \<or> (\<exists>q \<in> set rs. k \<in> keys q)")
    case True
    then show ?thesis using Cons by (auto simp: ledger_put)
  next
    case False
    then have "lookup (put q st) k = None"
      using Cons.prems by (auto simp: lookup_stale)
    moreover have "lookup (fold put (rs @ [r]) (put q st)) k = lookup (put q st) k"
      using Cons.prems False by (intro foreign_untouched) (auto simp: ledger_put)
    ultimately show ?thesis by simp
  qed
qed

end

text \<open>A write request for the target Secret: the resource (its key mapping) and what was minted.\<close>

definition write_ok :: "EphemeralCredential \<times> MintResult \<Rightarrow> bool" where
  "write_ok r \<longleftrightarrow>
     (\<forall>k \<in> set (written_keys (spec_TargetSecret (ec_Spec (fst r))) (mint_Data (snd r))). plain_key k)"

definition write_keys :: "EphemeralCredential \<times> MintResult \<Rightarrow> string set" where
  "write_keys r = set (written_keys (spec_TargetSecret (ec_Spec (fst r))) (mint_Data (snd r)))"

interpretation target_ledger: key_ledger
  "\<lambda>r. mutateTargetSecret (fst r) (snd r)" write_ok write_keys
  "\<lambda>secret. set (previouslyManagedKeys secret)" "\<lambda>secret. map_get (sec_Data secret)"
proof (unfold_locales, goal_cases)
  case (1 r st)
  then show ?case by (simp add: write_ok_def write_keys_def previouslyManagedKeys_mutate)
next
  case (2 k st r)
  then show ?case
    using map_of_written_None [of "spec_TargetSecret (ec_Spec (fst r))" "mint_Data (snd r)" k]
    by (simp add: write_keys_def mutate_Data del: map_of_written_None set_map)
next
  case (3 k st r)
  then show ?case
    using map_of_written_None [of "spec_TargetSecret (ec_Spec (fst r))" "mint_Data (snd r)" k]
    by (simp add: write_keys_def mutate_Data del: map_of_written_None set_map)
qed


section \<open>Properties\<close>

text \<open>
  C24. Exact content of the target Secret after a write: a key that the mapping produces holds
  the value minted last for it, a key recorded by the previous write and not produced any
  more is absent, and every other key keeps its value.
\<close>

theorem target_secret_content:
  "map_get (sec_Data (mutateTargetSecret ec mint secret)) q =
     (case map_of (rev (map (\<lambda>(k, v). (secretKey (spec_TargetSecret (ec_Spec ec)) k, v)) (mint_Data mint))) q of
        Some v \<Rightarrow> Some v
      | None \<Rightarrow> if q \<in> set (previouslyManagedKeys secret) then None else map_get (sec_Data secret) q)"
  using mutate_Data [of ec mint secret] by (simp only: written_entries_def map_get_Some)

text \<open>
  C13. No credential is stranded: after any history of writes to the Secret (rotations, changes
  of the key mapping), a key that the broker recorded or wrote at some point and that the
  last write does not produce is absent from the Secret.
\<close>

theorem no_stranded_key:
  assumes "\<forall>r \<in> set (rs @ [r]). write_ok r"
    and "k \<in> set (previouslyManagedKeys secret) \<or> (\<exists>q \<in> set rs. k \<in> write_keys q)"
    and "k \<notin> write_keys r"
  shows "map_get (sec_Data (fold (\<lambda>r. mutateTargetSecret (fst r) (snd r)) (rs @ [r]) secret)) k = None"
  using assms by (rule target_ledger.stale_gone)

text \<open>
  Keys the broker never wrote are left alone: a key that is not recorded as managed and
  that no write of a history produces has its old value after the whole history.
\<close>

lemma foreign_key_untouched:
  assumes "\<forall>r \<in> set rs. write_ok r"
    and "k \<notin> set (previouslyManagedKeys secret)" and "\<forall>r \<in> set rs. k \<notin> write_keys r"
  shows "map_get (sec_Data (fold (\<lambda>r. mutateTargetSecret (fst r) (snd r)) rs secret)) k =
    map_get (sec_Data secret) k"
  using assms by (rule target_ledger.foreign_untouched)


section \<open>Witnesses\<close>

text \<open>The Secret of \<open>TestReconcile_DropsStaleManagedKeys\<close>: the mapping was renamed to \<open>gh-token\<close>.\<close>

definition sample_ec :: "(string \<rightharpoonup> string) \<Rightarrow> EphemeralCredential" where
  "sample_ec keys =
    \<lparr>ec_Meta = \<lparr>om_Name = ''ci-github-token'', om_Namespace = ''builds'', om_UID = ''u1'',
       om_ResourceVersion = 1, om_Generation = 1, om_DeletionTimestamp = None,
       om_Finalizers = [FinalizerName], om_Annotations = None, om_OwnerReferences = []\<rparr>,
     ec_Spec = \<lparr>spec_Provider = ''github-app'', spec_TTLSeconds = 3600,
       spec_RotateBeforeSeconds = 600, spec_TargetSecret = \<lparr>ts_Name = ''github-token'', ts_Keys = keys\<rparr>,
       spec_ProviderConfig = \<lparr>pc_GitHub = Some \<lparr>gh_AppConfigRef = \<lparr>lor_Name = ''broker-github-app''\<rparr>,
           gh_Repositories = [''myorg/myrepo''], gh_Permissions = [(''contents'', ''read'')]\<rparr>,
         pc_AWS = None, pc_Database = None, pc_Vault = None\<rparr>\<rparr>,
     ec_Status = \<lparr>st_State = StateUnset, st_ExpiresAt = None, st_LastRotatedAt = None,
       st_ObservedGeneration = 0, st_Conditions = []\<rparr>\<rparr>"

definition sample_mint :: "string \<Rightarrow> time \<Rightarrow> MintResult" where
  "sample_mint tok e = \<lparr>mint_Data = [(''token'', tok)], mint_ExpiresAt = e,
     mint_Handle = \<lparr>h_ProviderName = ''github-app'', h_Opaque = tok\<rparr>\<rparr>"

definition sample_secret :: Secret where
  "sample_secret =
    \<lparr>sec_Meta = \<lparr>om_Name = ''github-token'', om_Namespace = ''builds'', om_UID = ''u2'',
       om_ResourceVersion = 1, om_Generation = 0, om_DeletionTimestamp = None, om_Finalizers = [],
       om_Annotations = Some [managedKeysAnnotation \<mapsto> ''token''], om_OwnerReferences = []\<rparr>,
     sec_Data = Some [''token'' \<mapsto> ''ghs_under_the_old_key'', ''unrelated'' \<mapsto> ''not ours''],
     sec_Type = ''Opaque''\<rparr>"

abbreviation renamed_ec :: EphemeralCredential where
  "renamed_ec \<equiv> sample_ec [''token'' \<mapsto> ''gh-token'']"

lemma sample_write:
  "write_ok (renamed_ec, sample_mint t e)" "write_keys (renamed_ec, sample_mint t e) = {''gh-token''}"
  "previouslyManagedKeys sample_secret = [''token'']"
  "map_get (sec_Data sample_secret) ''unrelated'' = Some ''not ours''"
  by (simp_all add: write_ok_def write_keys_def sample_ec_def sample_mint_def written_entries_def
      secretKey_def plain_key_def previouslyManagedKeys_def sample_secret_def)

theorem no_stranded_key_witness:
  "map_get (sec_Data (mutateTargetSecret renamed_ec (sample_mint ''ghs_new'' 0) sample_secret)) ''token'' = None"
  using no_stranded_key [of "[]" "(renamed_ec, sample_mint ''ghs_new'' 0)" "''token''" sample_secret]
  by (simp add: sample_write)

lemma foreign_key_untouched_example:
  "map_get (sec_Data (mutateTargetSecret renamed_ec (sample_mint ''ghs_new'' 0) sample_secret)) ''unrelated'' =
     Some ''not ours''"
  using foreign_key_untouched [of "[(renamed_ec, sample_mint ''ghs_new'' 0)]" "''unrelated''" sample_secret]
  by (simp add: sample_write)


end
