(* ===== verification/Go_Base64.thy ===== *)
theory Go_Base64
  imports Broker_Prelude
begin

text \<open>
  Go's package \<open>encoding/base64\<close>: \<open>StdEncoding\<close> (digits \<open>+\<close> and \<open>/\<close>, padded) and
  \<open>RawURLEncoding\<close> (digits \<open>-\<close> and \<open>_\<close>, not padded). The decoder follows the library: line
  breaks are skipped, padding of the padded variant is mandatory and ends the input, and the
  unused low bits of the last digit are not checked. An error is \<open>None\<close>.
\<close>

datatype b64 = StdEncoding | RawURLEncoding

fun digit_62 :: "b64 \<Rightarrow> nat" where
  "digit_62 StdEncoding = 43" | "digit_62 RawURLEncoding = 45"

fun digit_63 :: "b64 \<Rightarrow> nat" where
  "digit_63 StdEncoding = 47" | "digit_63 RawURLEncoding = 95"

definition b64_digit :: "b64 \<Rightarrow> nat \<Rightarrow> char" where
  "b64_digit v n = char_of
     (if n < 26 then n + 65 else if n < 52 then n + 71 else if n < 62 then n - 4
      else if n = 62 then digit_62 v else digit_63 v)"

definition b64_value :: "b64 \<Rightarrow> char \<Rightarrow> nat option" where
  "b64_value v c =
     (let n = of_char c in
      if 65 \<le> n \<and> n \<le> 90 then Some (n - 65)
      else if 97 \<le> n \<and> n \<le> 122 then Some (n - 71)
      else if 48 \<le> n \<and> n \<le> 57 then Some (n + 4)
      else if n = digit_62 v then Some 62
      else if n = digit_63 v then Some 63
      else None)"

abbreviation byte :: "char \<Rightarrow> nat" where "byte c \<equiv> of_char c"

abbreviation pad_char :: char where "pad_char \<equiv> CHR ''=''"

fun padding :: "b64 \<Rightarrow> string \<Rightarrow> string" where
  "padding StdEncoding p = p"
| "padding RawURLEncoding p = []"

fun EncodeToString :: "b64 \<Rightarrow> bytes \<Rightarrow> string" where
  "EncodeToString v [] = []"
| "EncodeToString v [a] =
     [b64_digit v (byte a div 4), b64_digit v (byte a mod 4 * 16)] @ padding v ''==''"
| "EncodeToString v [a, b] =
     [b64_digit v (byte a div 4), b64_digit v (byte a mod 4 * 16 + byte b div 16),
      b64_digit v (byte b mod 16 * 4)] @ padding v ''=''"
| "EncodeToString v (a # b # c # rest) =
     [b64_digit v (byte a div 4), b64_digit v (byte a mod 4 * 16 + byte b div 16),
      b64_digit v (byte b mod 16 * 4 + byte c div 64), b64_digit v (byte c mod 64)]
     @ EncodeToString v rest"

definition one_byte :: "nat \<Rightarrow> nat \<Rightarrow> char" where
  "one_byte p q = char_of (p * 4 + q div 16)"

definition two_byte :: "nat \<Rightarrow> nat \<Rightarrow> char" where
  "two_byte q r = char_of (q mod 16 * 16 + r div 4)"

definition three_byte :: "nat \<Rightarrow> nat \<Rightarrow> char" where
  "three_byte r s = char_of (r mod 4 * 64 + s)"

fun decode_tail :: "b64 \<Rightarrow> string \<Rightarrow> bytes option" where
  "decode_tail StdEncoding [a, b, c, d] =
     (case (b64_value StdEncoding a, b64_value StdEncoding b) of
        (Some p, Some q) \<Rightarrow>
          if d \<noteq> pad_char then None
          else if c = pad_char then Some [one_byte p q]
          else (case b64_value StdEncoding c of
                  Some r \<Rightarrow> Some [one_byte p q, two_byte q r] | None \<Rightarrow> None)
      | _ \<Rightarrow> None)"
| "decode_tail RawURLEncoding [a, b] =
     (case (b64_value RawURLEncoding a, b64_value RawURLEncoding b) of
        (Some p, Some q) \<Rightarrow> Some [one_byte p q] | _ \<Rightarrow> None)"
| "decode_tail RawURLEncoding [a, b, c] =
     (case (b64_value RawURLEncoding a, b64_value RawURLEncoding b, b64_value RawURLEncoding c) of
        (Some p, Some q, Some r) \<Rightarrow> Some [one_byte p q, two_byte q r] | _ \<Rightarrow> None)"
| "decode_tail v s = None"

fun decode_digits :: "b64 \<Rightarrow> string \<Rightarrow> bytes option" where
  "decode_digits v [] = Some []"
| "decode_digits v (a # b # c # d # rest) =
     (case (b64_value v a, b64_value v b, b64_value v c, b64_value v d) of
        (Some p, Some q, Some r, Some s) \<Rightarrow>
          map_option (\<lambda>bs. one_byte p q # two_byte q r # three_byte r s # bs) (decode_digits v rest)
      | _ \<Rightarrow> decode_tail v (a # b # c # d # rest))"
| "decode_digits v s = decode_tail v s"

definition DecodeString :: "b64 \<Rightarrow> string \<Rightarrow> bytes option" where
  "DecodeString v s = decode_digits v (filter (\<lambda>c. byte c \<noteq> 10 \<and> byte c \<noteq> 13) s)"

section \<open>Digits\<close>

lemma b64_value_digit [simp]: "n < 64 \<Longrightarrow> b64_value v (b64_digit v n) = Some n"
  by (cases v) (auto simp: b64_value_def b64_digit_def Let_def)

lemma b64_value_pad [simp]: "b64_value v pad_char = None"
  by (cases v) (simp_all add: b64_value_def Let_def)

lemma b64_digit_not_pad [simp]: "n < 64 \<Longrightarrow> b64_digit v n \<noteq> pad_char"
  by (metis b64_value_digit b64_value_pad option.distinct(1))

lemma byte_less [simp]: "byte c < 256"
  by (rule nat_of_char_less_256)

lemma two_parts_less:
  "(p :: nat) < 4 \<Longrightarrow> q < 16 \<Longrightarrow> p * 16 + q < 64" "(p :: nat) < 16 \<Longrightarrow> q < 4 \<Longrightarrow> p * 4 + q < 64"
  by simp_all

lemma byte_div_less: "byte c div 4 < 64" "byte c div 16 < 16" "byte c div 64 < 4"
  by (simp_all add: less_mult_imp_div_less)

lemma digits_of_byte [simp]:
  "byte a div 4 < 64" "byte a mod 64 < 64"
  "byte a mod 4 * 16 + byte b div 16 < 64" "byte b mod 16 * 4 + byte c div 64 < 64"
  by (rule byte_div_less mod_less_divisor two_parts_less zero_less_numeral)+

lemma digits_of_last_byte [simp]: "byte a mod 4 * 16 < 64" "byte b mod 16 * 4 < 64"
  using two_parts_less(1) [of "byte a mod 4" 0] two_parts_less(2) [of "byte b mod 16" 0] by simp_all

text \<open>The arithmetic of cutting three bytes into four sextets and back.\<close>

lemma join_parts:
  "(p :: nat) * 4 + q * 16 div 16 = p * 4 + q"
  "r < 16 \<Longrightarrow> (p :: nat) * 4 + (q * 16 + r) div 16 = p * 4 + q"
  "r < 16 \<Longrightarrow> ((q :: nat) * 16 + r) mod 16 * 16 + t * 4 div 4 = r * 16 + t"
  "r < 16 \<Longrightarrow> u < 4 \<Longrightarrow> ((q :: nat) * 16 + r) mod 16 * 16 + (t * 4 + u) div 4 = r * 16 + t"
  "u < 4 \<Longrightarrow> ((t :: nat) * 4 + u) mod 4 * 64 + v = u * 64 + v"
  by simp_all

lemma reassemble [simp]:
  "one_byte (byte a div 4) (byte a mod 4 * 16) = a"
  "one_byte (byte a div 4) (byte a mod 4 * 16 + byte b div 16) = a"
  "two_byte (byte a mod 4 * 16 + byte b div 16) (byte b mod 16 * 4) = b"
  "two_byte (byte a mod 4 * 16 + byte b div 16) (byte b mod 16 * 4 + byte c div 64) = b"
  "three_byte (byte b mod 16 * 4 + byte c div 64) (byte c mod 64) = c"
  by (simp_all only: one_byte_def two_byte_def three_byte_def join_parts byte_div_less
      div_mult_mod_eq char_of_char)

section \<open>Round trip\<close>

definition b64_alphabet :: "b64 \<Rightarrow> char set" where
  "b64_alphabet v = insert pad_char (b64_digit v ` {..<64})"

lemma padding_pad: "set p \<subseteq> {pad_char} \<Longrightarrow> set (padding v p) \<subseteq> {pad_char}"
  by (cases v) auto

lemma EncodeToString_alphabet: "set (EncodeToString v bs) \<subseteq> b64_alphabet v"
proof (induction v bs rule: EncodeToString.induct)
  case (2 v a)
  then show ?case using padding_pad [of "''==''" v] by (auto simp: b64_alphabet_def)
next
  case (3 v a b)
  then show ?case using padding_pad [of "''=''" v] by (auto simp: b64_alphabet_def)
qed (auto simp: b64_alphabet_def)

lemma byte_b64_digit:
  "n < 64 \<Longrightarrow> byte (b64_digit v n) \<in> {43, 45, 47, 95} \<union> {48..57} \<union> {65..90} \<union> {97..122}"
  by (cases v) (auto simp: b64_digit_def)

lemma b64_alphabet_byte:
  "c \<in> b64_alphabet v \<Longrightarrow> byte c \<in> {43, 45, 47, 61, 95} \<union> {48..57} \<union> {65..90} \<union> {97..122}"
  using byte_b64_digit by (auto simp: b64_alphabet_def)

lemma b64_alphabet_plain:
  assumes "c \<in> b64_alphabet v"
  shows "byte c \<noteq> 10" "byte c \<noteq> 13" "byte c \<noteq> 46" "byte c \<noteq> 34" "byte c \<noteq> 92"
    "32 \<le> byte c" "byte c < 128" "byte c \<notin> {38, 60, 62}"
  using b64_alphabet_byte [OF assms] by auto

lemma filter_EncodeToString [simp]:
  "filter (\<lambda>c. byte c \<noteq> 10 \<and> byte c \<noteq> 13) (EncodeToString v bs) = EncodeToString v bs"
  using EncodeToString_alphabet [of v bs] by (auto simp: filter_id_conv dest: b64_alphabet_plain)

lemma decode_digits_Encode: "decode_digits v (EncodeToString v bs) = Some bs"
proof (induction v bs rule: EncodeToString.induct)
  case (2 v a)
  then show ?case by (cases v) simp_all
next
  case (3 v a b)
  then show ?case by (cases v) simp_all
qed simp_all

theorem DecodeString_EncodeToString: "DecodeString v (EncodeToString v bs) = Some bs"
  by (simp add: DecodeString_def decode_digits_Encode)

lemma EncodeToString_eq_Nil [simp]: "EncodeToString v bs = [] \<longleftrightarrow> bs = []"
  by (cases "(v, bs)" rule: EncodeToString.cases) auto

end
