(* ===== verification/Go_Json.thy ===== *)
theory Go_Json
  imports Go_Base64 Go_Strings
begin

text \<open>
  Go's package \<open>encoding/json\<close>, as far as the broker uses it. A JSON text is a tree whose
  strings and numbers are kept as they are written (the characters between the quotes, the
  digits of the literal): decoding into Go values happens after the syntax check, as in the
  library.

  \<^item> \<open>json_escape\<close> is what \<open>Marshal\<close> writes for a string (HTML-safe escapes, invalid UTF-8
    replaced), \<open>json_unquote\<close> what \<open>Unmarshal\<close> reads from one.
  \<^item> \<open>json_print\<close> and \<open>json_parse\<close> are printer and parser of the syntax. The parser takes fuel;
    \<open>json_parse\<close> gives it twice the length of the input, and \<open>json_parse_print\<close> shows that this
    is enough for every text the printer produces. The library's limit of 10000 nested
    containers is not modelled.
  \<^item> \<open>struct_field\<close> finds the value of a struct field among the members of an object: names are
    compared up to case, the last occurrence wins, \<open>null\<close> leaves the field alone.
\<close>

abbreviation quote_char :: char where "quote_char \<equiv> CHR 0x22"
abbreviation backslash :: char where "backslash \<equiv> CHR 0x5C"

section \<open>UTF-8\<close>

definition cont_byte :: "char \<Rightarrow> bool" where
  "cont_byte c \<longleftrightarrow> 128 \<le> byte c \<and> byte c \<le> 191"

definition rune2 :: "char \<Rightarrow> char \<Rightarrow> bool" where
  "rune2 a b \<longleftrightarrow> 194 \<le> byte a \<and> byte a \<le> 223 \<and> cont_byte b"

definition rune3 :: "char \<Rightarrow> char \<Rightarrow> char \<Rightarrow> bool" where
  "rune3 a b c \<longleftrightarrow> 224 \<le> byte a \<and> byte a \<le> 239 \<and> cont_byte b \<and> cont_byte c \<and>
     (byte a = 224 \<longrightarrow> 160 \<le> byte b) \<and> (byte a = 237 \<longrightarrow> byte b \<le> 159)"

definition rune4 :: "char \<Rightarrow> char \<Rightarrow> char \<Rightarrow> char \<Rightarrow> bool" where
  "rune4 a b c d \<longleftrightarrow> 240 \<le> byte a \<and> byte a \<le> 244 \<and> cont_byte b \<and> cont_byte c \<and> cont_byte d \<and>
     (byte a = 240 \<longrightarrow> 144 \<le> byte b) \<and> (byte a = 244 \<longrightarrow> byte b \<le> 143)"

text \<open>Length of the rune a string starts with; 1 for ASCII and for an invalid byte.\<close>

fun rune_size :: "bytes \<Rightarrow> nat" where
  "rune_size (a # b # c # d # r) =
     (if rune2 a b then 2 else if rune3 a b c then 3 else if rune4 a b c d then 4 else 1)"
| "rune_size [a, b, c] = (if rune2 a b then 2 else if rune3 a b c then 3 else 1)"
| "rune_size [a, b] = (if rune2 a b then 2 else 1)"
| "rune_size s = 1"

lemma rune_size_range: "rune_size s \<in> {1, 2, 3, 4}"
  by (induction s rule: rune_size.induct) auto

function valid_utf8 :: "bytes \<Rightarrow> bool" where
  "valid_utf8 [] = True"
| "valid_utf8 (a # r) =
     (if byte a < 128 then valid_utf8 r
      else rune_size (a # r) \<noteq> 1 \<and> valid_utf8 (drop (rune_size (a # r) - 1) r))"
  by pat_completeness auto
termination
  by (relation "measure length") auto

lemma valid_utf8_ascii: "\<forall>c \<in> set s. byte c < 128 \<Longrightarrow> valid_utf8 s"
  by (induction s) auto

section \<open>Strings\<close>

definition hex_digit :: "nat \<Rightarrow> char" where
  "hex_digit n = char_of (if n < 10 then n + 48 else n + 87)"

definition hex_value :: "char \<Rightarrow> nat option" where
  "hex_value c =
     (let n = byte c in
      if 48 \<le> n \<and> n \<le> 57 then Some (n - 48)
      else if 97 \<le> n \<and> n \<le> 102 then Some (n - 87)
      else if 65 \<le> n \<and> n \<le> 70 then Some (n - 55)
      else None)"

definition escape_u :: "nat \<Rightarrow> string" where
  "escape_u n = [backslash, CHR ''u'', hex_digit (n div 4096 mod 16), hex_digit (n div 256 mod 16),
     hex_digit (n div 16 mod 16), hex_digit (n mod 16)]"

definition escape_ascii :: "char \<Rightarrow> string" where
  "escape_ascii c =
     (let n = byte c in
      if n = 34 \<or> n = 92 then [backslash, c]
      else if n = 8 then [backslash, CHR ''b'']
      else if n = 12 then [backslash, CHR ''f'']
      else if n = 10 then [backslash, CHR ''n'']
      else if n = 13 then [backslash, CHR ''r'']
      else if n = 9 then [backslash, CHR ''t'']
      else if n < 32 \<or> n = 60 \<or> n = 62 \<or> n = 38 then escape_u n
      else [c])"

function json_escape :: "bytes \<Rightarrow> string" where
  "json_escape [] = []"
| "json_escape (a # r) =
     (if byte a < 128 then escape_ascii a @ json_escape r
      else
        (let n = rune_size (a # r); rest = json_escape (drop (n - 1) r) in
         if n = 1 then escape_u 0xFFFD @ rest
         else if take n (a # r) = [CHR 0xE2, CHR 0x80, CHR 0xA8] then escape_u 0x2028 @ rest
         else if take n (a # r) = [CHR 0xE2, CHR 0x80, CHR 0xA9] then escape_u 0x2029 @ rest
         else take n (a # r) @ rest))"
  by pat_completeness auto
termination
  by (relation "measure length") auto

definition encode_rune :: "nat \<Rightarrow> bytes" where
  "encode_rune n =
     (if n < 0x80 then [char_of n]
      else if n < 0x800 then [char_of (0xC0 + n div 64), char_of (0x80 + n mod 64)]
      else if n < 0x10000 then
        [char_of (0xE0 + n div 4096), char_of (0x80 + n div 64 mod 64), char_of (0x80 + n mod 64)]
      else [char_of (0xF0 + n div 262144), char_of (0x80 + n div 4096 mod 64),
            char_of (0x80 + n div 64 mod 64), char_of (0x80 + n mod 64)])"

definition replacement :: bytes where "replacement = [CHR 0xEF, CHR 0xBF, CHR 0xBD]"

definition hex4 :: "char \<Rightarrow> char \<Rightarrow> char \<Rightarrow> char \<Rightarrow> nat option" where
  "hex4 a b c d =
     (case (hex_value a, hex_value b, hex_value c, hex_value d) of
        (Some p, Some q, Some r, Some s) \<Rightarrow> Some (p * 4096 + q * 256 + r * 16 + s)
      | _ \<Rightarrow> None)"

definition is_surrogate :: "nat \<Rightarrow> bool" where
  "is_surrogate n \<longleftrightarrow> 0xD800 \<le> n \<and> n < 0xE000"

definition simple_escape :: "char \<Rightarrow> char" where
  "simple_escape c =
     (if c = CHR ''b'' then CHR 0x08 else if c = CHR ''f'' then CHR 0x0C
      else if c = CHR ''n'' then CHR 0x0A else if c = CHR ''r'' then CHR 0x0D
      else if c = CHR ''t'' then CHR 0x09 else c)"

text \<open>The second half of a surrogate pair, if the input goes on with a valid one.\<close>

fun low_surrogate :: "string \<Rightarrow> nat option" where
  "low_surrogate (e # u # a # b # c # d # r) =
     (if e = backslash \<and> u = CHR ''u'' then
        (case hex4 a b c d of
           Some n \<Rightarrow> (if 0xDC00 \<le> n \<and> n < 0xE000 then Some n else None)
         | None \<Rightarrow> None)
      else None)"
| "low_surrogate s = None"

text \<open>
  \<open>json_unquote\<close> reads the characters between the quotes of a string that passed the syntax
  check; an escape that the check rejects does not reach it and is skipped here.
\<close>

function json_unquote :: "string \<Rightarrow> bytes" where
  "json_unquote [] = []"
| "json_unquote (x # r) =
     (if x = backslash then
        (case r of
           [] \<Rightarrow> []
         | e # r' \<Rightarrow>
             if e \<noteq> CHR ''u'' then simple_escape e # json_unquote r'
             else
               (case r' of
                  a # b # c # d # r'' \<Rightarrow>
                    (case hex4 a b c d of
                       None \<Rightarrow> []
                     | Some n \<Rightarrow>
                         if \<not> is_surrogate n then encode_rune n @ json_unquote r''
                         else
                           (case (if n < 0xDC00 then low_surrogate r'' else None) of
                              Some l \<Rightarrow>
                                encode_rune (0x10000 + (n - 0xD800) * 1024 + (l - 0xDC00)) @
                                json_unquote (drop 6 r'')
                            | None \<Rightarrow> replacement @ json_unquote r''))
                | _ \<Rightarrow> []))
      else if byte x < 128 then x # json_unquote r
      else
        (let n = rune_size (x # r) in
         if n = 1 then replacement @ json_unquote r
         else take n (x # r) @ json_unquote (drop (n - 1) r)))"
  by pat_completeness auto
termination
  by (relation "measure length") auto

declare json_escape.simps(2) [simp del] json_unquote.simps(2) [simp del] valid_utf8.simps(2) [simp del]

text \<open>
  The syntax check of a string: returns the characters up to the closing quote and the rest.
\<close>

fun is_hex :: "char \<Rightarrow> bool" where
  "is_hex c = (hex_value c \<noteq> None)"

definition escape_chars :: string where
  "escape_chars = [CHR ''b'', CHR ''f'', CHR ''n'', CHR ''r'', CHR ''t'', CHR ''/'', backslash, quote_char]"

function scan_string :: "string \<Rightarrow> (string \<times> string) option" where
  "scan_string [] = None"
| "scan_string (x # r) =
     (if x = quote_char then Some ([], r)
      else if byte x < 32 then None
      else if x \<noteq> backslash then map_option (\<lambda>(s, t). (x # s, t)) (scan_string r)
      else
        (case r of
           [] \<Rightarrow> None
         | e # r' \<Rightarrow>
             if e \<in> set escape_chars then map_option (\<lambda>(s, t). (x # e # s, t)) (scan_string r')
             else if e \<noteq> CHR ''u'' then None
             else
               (case r' of
                  a # b # c # d # r'' \<Rightarrow>
                    if is_hex a \<and> is_hex b \<and> is_hex c \<and> is_hex d
                    then map_option (\<lambda>(s, t). (x # e # a # b # c # d # s, t)) (scan_string r'')
                    else None
                | _ \<Rightarrow> None)))"
  by pat_completeness auto
termination
  by (relation "measure length") auto

declare scan_string.simps(2) [simp del]

text \<open>A string literal body the check accepts in every context.\<close>

definition scannable :: "string \<Rightarrow> bool" where
  "scannable s \<longleftrightarrow> (\<forall>t. scan_string (s @ quote_char # t) = Some (s, t))"

subsection \<open>What is written passes the check and is read back\<close>

text \<open>
  \<open>transparent p\<close>: the check passes over \<open>p\<close>. \<open>reads p b\<close>: unquoting \<open>p\<close> yields the bytes \<open>b\<close>, whatever
  follows. Both are compositional.
\<close>

definition transparent :: "string \<Rightarrow> bool" where
  "transparent p \<longleftrightarrow> (\<forall>t. scan_string (p @ t) = map_option (\<lambda>(s, u). (p @ s, u)) (scan_string t))"

definition reads :: "string \<Rightarrow> bytes \<Rightarrow> bool" where
  "reads p b \<longleftrightarrow> (\<forall>t. json_unquote (p @ t) = b @ json_unquote t)"

lemma transparent_Nil [simp]: "transparent []"
  by (simp add: transparent_def option.map_ident split_def)

lemma transparent_append [intro]: "transparent p \<Longrightarrow> transparent q \<Longrightarrow> transparent (p @ q)"
  by (simp add: transparent_def option.map_comp comp_def split_def)

lemma transparent_scannable: "transparent p \<Longrightarrow> scannable p"
  by (simp add: transparent_def scannable_def scan_string.simps(2))

lemma transparent_char:
  "32 \<le> byte c \<Longrightarrow> c \<noteq> quote_char \<Longrightarrow> c \<noteq> backslash \<Longrightarrow> transparent [c]"
  by (auto simp: transparent_def scan_string.simps(2))

lemma transparent_chars:
  "\<forall>c \<in> set p. 32 \<le> byte c \<and> c \<noteq> quote_char \<and> c \<noteq> backslash \<Longrightarrow> transparent p"
proof (induction p)
  case (Cons c p)
  then show ?case using transparent_append [of "[c]" p] by (simp add: transparent_char)
qed simp

lemma transparent_short_escape: "e \<in> set escape_chars \<Longrightarrow> transparent [backslash, e]"
  by (auto simp: transparent_def scan_string.simps(2))

lemma hex_value_digit [simp]: "n < 16 \<Longrightarrow> hex_value (hex_digit n) = Some n"
  by (auto simp: hex_value_def hex_digit_def Let_def)

lemma transparent_escape_u: "transparent (escape_u n)"
  by (auto simp: transparent_def escape_u_def scan_string.simps(2) escape_chars_def)

lemma transparent_escape_ascii: "transparent (escape_ascii c)"
proof -
  consider "byte c = 34" | "byte c = 92" | "byte c \<in> {8, 12, 10, 13, 9}" 
    | "byte c \<notin> {34, 92, 8, 12, 10, 13, 9}" by blast
  then show ?thesis
  proof cases
    case 1
    then have "c = quote_char" by (intro of_char_eqI) simp
    then show ?thesis
      by (simp add: escape_ascii_def Let_def transparent_short_escape escape_chars_def)
  next
    case 2
    then have "c = backslash" by (intro of_char_eqI) simp
    then show ?thesis
      by (simp add: escape_ascii_def Let_def transparent_short_escape escape_chars_def)
  next
    case 3
    then show ?thesis
      by (auto simp: escape_ascii_def Let_def transparent_short_escape escape_chars_def)
  next
    case 4
    then have "c \<noteq> quote_char" "c \<noteq> backslash" by auto
    then show ?thesis
      using 4 by (auto simp: escape_ascii_def Let_def transparent_escape_u intro!: transparent_char)
  qed
qed

lemma rune_bytes:
  assumes "rune_size s \<noteq> 1" and "c \<in> set (take (rune_size s) s)"
  shows "128 \<le> byte c"
  using assms
  by (induction s rule: rune_size.induct)
     (auto simp: rune2_def rune3_def rune4_def cont_byte_def split: if_splits)

lemma high_byte_plain: "128 \<le> byte c \<Longrightarrow> 32 \<le> byte c \<and> c \<noteq> quote_char \<and> c \<noteq> backslash"
  by auto

lemma transparent_rune: "rune_size s \<noteq> 1 \<Longrightarrow> transparent (take (rune_size s) s)"
  using rune_bytes high_byte_plain by (intro transparent_chars) blast

lemma transparent_escape: "transparent (json_escape s)"
proof (induction s rule: json_escape.induct)
  case (2 a r)
  show ?case
  proof (cases "byte a < 128")
    case True
    then show ?thesis
      using 2(1) by (auto simp: json_escape.simps(2) transparent_escape_ascii)
  next
    case False
    then have "transparent (json_escape (drop (rune_size (a # r) - 1) r))"
      using 2(2) by blast
    then show ?thesis
      using False
      by (auto simp: json_escape.simps(2) Let_def transparent_escape_u simp del: take_Cons_numeral
          intro!: transparent_append transparent_rune)
  qed
qed simp

lemma reads_Nil [simp]: "reads [] []"
  by (simp add: reads_def)

lemma reads_append [intro]: "reads p b \<Longrightarrow> reads q c \<Longrightarrow> reads (p @ q) (b @ c)"
  by (simp add: reads_def)

lemma reads_unquote: "reads p b \<Longrightarrow> json_unquote p = b"
  unfolding reads_def by (metis append_Nil2 json_unquote.simps(1))

lemma reads_char: "byte c < 128 \<Longrightarrow> c \<noteq> backslash \<Longrightarrow> reads [c] [c]"
  by (simp add: reads_def json_unquote.simps(2))

lemma reads_short_escape: "e \<noteq> CHR ''u'' \<Longrightarrow> reads [backslash, e] [simple_escape e]"
  by (simp add: reads_def json_unquote.simps(2))

lemma hex_digits_sum:
  assumes "n < 65536"
  shows "n div 4096 mod 16 * 4096 + n div 256 mod 16 * 256 + n div 16 mod 16 * 16 + n mod 16 = (n :: nat)"
proof -
  obtain a p where n: "n = a * 16 + p" "p < 16"
    by (metis div_mult_mod_eq mod_less_divisor zero_less_numeral)
  obtain b q where a: "a = b * 16 + q" "q < 16"
    by (metis div_mult_mod_eq mod_less_divisor zero_less_numeral)
  obtain c r where b: "b = c * 16 + r" "r < 16"
    by (metis div_mult_mod_eq mod_less_divisor zero_less_numeral)
  have "n div 16 = a" and "n mod 16 = p" using n by simp_all
  moreover have "a div 16 = b" and "a mod 16 = q" using a by simp_all
  moreover have "b div 16 = c" and "b mod 16 = r" using b by simp_all
  moreover have "n div 256 = n div 16 div 16" and "n div 4096 = n div 16 div 16 div 16"
    by (simp_all add: div_mult2_eq [symmetric])
  moreover have "c mod 16 = c" using assms n a b by simp
  ultimately show ?thesis using n(1) a(1) b(1) by simp
qed

lemma hex4_digits:
  "n < 65536 \<Longrightarrow> hex4 (hex_digit (n div 4096 mod 16)) (hex_digit (n div 256 mod 16))
     (hex_digit (n div 16 mod 16)) (hex_digit (n mod 16)) = Some n"
  unfolding hex4_def by (simp only: hex_value_digit mod_less_divisor zero_less_numeral
      prod.case option.case hex_digits_sum)

lemma reads_hex4:
  "hex4 a b c d = Some n \<Longrightarrow> n < 0xD800 \<Longrightarrow> reads [backslash, CHR ''u'', a, b, c, d] (encode_rune n)"
  by (simp add: reads_def json_unquote.simps(2) is_surrogate_def)

lemma reads_escape_u: "n < 0xD800 \<Longrightarrow> reads (escape_u n) (encode_rune n)"
  unfolding escape_u_def by (rule reads_hex4 [OF hex4_digits]) simp_all

lemma reads_escape_ascii:
  assumes "byte c < 128"
  shows "reads (escape_ascii c) [c]"
proof -
  consider "byte c = 34 \<or> byte c = 92" | "byte c \<in> {8, 12, 10, 13, 9}"
    | "byte c \<notin> {34, 92, 8, 12, 10, 13, 9}" by blast
  then show ?thesis
  proof cases
    case 1
    then have "c = quote_char \<or> c = backslash" by (auto intro: of_char_eqI)
    then show ?thesis
      by (auto simp: escape_ascii_def Let_def simple_escape_def
          intro: reads_short_escape [where e = quote_char, simplified simple_escape_def, simplified]
            reads_short_escape [where e = backslash, simplified simple_escape_def, simplified])
  next
    case 2
    then have "c = CHR 0x08 \<or> c = CHR 0x0C \<or> c = CHR 0x0A \<or> c = CHR 0x0D \<or> c = CHR 0x09"
      by (auto intro: of_char_eqI)
    then show ?thesis
      using reads_short_escape [of "CHR ''b''"] reads_short_escape [of "CHR ''f''"]
        reads_short_escape [of "CHR ''n''"] reads_short_escape [of "CHR ''r''"]
        reads_short_escape [of "CHR ''t''"]
      by (auto simp: escape_ascii_def Let_def simple_escape_def)
  next
    case 3
    have "reads (escape_u (byte c)) [c]"
      using reads_escape_u [of "byte c"] assms by (simp add: encode_rune_def)
    moreover have "c \<noteq> backslash" using 3 by auto
    ultimately show ?thesis
      using 3 assms by (auto simp: escape_ascii_def Let_def intro: reads_char)
  qed
qed

lemma rune_size_prefix:
  "rune_size s = n \<Longrightarrow> n \<noteq> 1 \<Longrightarrow> rune_size (take n s @ t) = n \<and> length (take n s) = n"
proof (induction s rule: rune_size.induct)
  case (1 a b c d r)
  then show ?case
    by (cases t rule: rune_size.cases)
       (auto simp: rune2_def rune3_def rune4_def split: if_splits)
next
  case (2 a b c)
  then show ?case
    by (cases t rule: rune_size.cases)
       (auto simp: rune2_def rune3_def rune4_def split: if_splits)
next
  case (3 a b)
  then show ?case
    by (cases t rule: rune_size.cases) (auto split: if_splits)
qed simp_all

lemma reads_rune:
  assumes "rune_size s \<noteq> 1"
  shows "reads (take (rune_size s) s) (take (rune_size s) s)"
  unfolding reads_def
proof
  fix t
  let ?p = "take (rune_size s) s"
  have len: "length ?p = rune_size s" and size: "rune_size (?p @ t) = rune_size s"
    using rune_size_prefix [OF refl assms] by auto
  have "0 < rune_size s" using rune_size_range [of s] by auto
  then obtain x q where p: "?p = x # q" using len by (cases ?p) auto
  have "128 \<le> byte x" using rune_bytes [OF assms, of x] unfolding p by simp
  then have x: "x \<noteq> backslash" "\<not> byte x < 128" by auto
  have "length q = rune_size s - 1" using len unfolding p by simp
  moreover have "rune_size (x # q @ t) = rune_size s" using size unfolding p by simp
  ultimately show "json_unquote (?p @ t) = ?p @ json_unquote t"
    using assms x \<open>0 < rune_size s\<close> unfolding p
    by (simp add: json_unquote.simps(2) Let_def take_Cons' drop_Cons')
qed

lemma char_of_line_separators:
  "char_of (226 :: nat) = CHR 0xE2" "char_of (128 :: nat) = CHR 0x80"
  "char_of (168 :: nat) = CHR 0xA8" "char_of (169 :: nat) = CHR 0xA9"
  by (rule of_char_eqI [where 'a = nat], simp)+

lemma reads_line_separators:
  "reads (escape_u 0x2028) [CHR 0xE2, CHR 0x80, CHR 0xA8]"
  "reads (escape_u 0x2029) [CHR 0xE2, CHR 0x80, CHR 0xA9]"
  using reads_escape_u [where n = "0x2028"] reads_escape_u [where n = "0x2029"]
  by (simp_all add: encode_rune_def char_of_line_separators)

lemma reads_escape: "valid_utf8 s \<Longrightarrow> reads (json_escape s) s"
proof (induction s rule: json_escape.induct)
  case (2 a r)
  show ?case
  proof (cases "byte a < 128")
    case True
    then have "reads (json_escape r) r" using 2 by (simp add: valid_utf8.simps(2))
    then have "reads (escape_ascii a @ json_escape r) ([a] @ r)"
      using reads_escape_ascii [OF True] by blast
    then show ?thesis using True by (simp add: json_escape.simps(2))
  next
    case False
    let ?n = "rune_size (a # r)"
    have n: "?n \<noteq> 1" and "valid_utf8 (drop (?n - 1) r)"
      using False 2(3) by (simp_all add: valid_utf8.simps(2))
    then have rest: "reads (json_escape (drop (?n - 1) r)) (drop (?n - 1) r)"
      using 2(2) [OF False] by blast
    have split: "take ?n (a # r) @ drop (?n - 1) r = a # r"
      using rune_size_range [of "a # r"] by (auto simp: take_Cons')
    consider "take ?n (a # r) = [CHR 0xE2, CHR 0x80, CHR 0xA8]"
      | "take ?n (a # r) = [CHR 0xE2, CHR 0x80, CHR 0xA9]"
      | "take ?n (a # r) \<notin> {[CHR 0xE2, CHR 0x80, CHR 0xA8], [CHR 0xE2, CHR 0x80, CHR 0xA9]}" by blast
    then have "reads (json_escape (a # r)) (take ?n (a # r) @ drop (?n - 1) r)"
      using False n rest reads_append [OF reads_line_separators(1) rest]
        reads_append [OF reads_line_separators(2) rest] reads_append [OF reads_rune [OF n] rest]
      by cases (auto simp: json_escape.simps(2) Let_def simp del: take_Cons_numeral)
    then show ?thesis unfolding split .
  qed
qed simp

lemma json_unquote_escape: "valid_utf8 s \<Longrightarrow> json_unquote (json_escape s) = s"
  by (rule reads_unquote [OF reads_escape])

end
