(* ===== verification/Go_Json_Syntax.thy ===== *)
theory Go_Json_Syntax
  imports Go_Json Go_Errors
begin

text \<open>
  The syntax tree of JSON texts, its printer (the compact form \<open>json.Marshal\<close> writes) and its
  parser (the syntax check and the reading of \<open>json.Unmarshal\<close> and \<open>Decoder.Decode\<close>), the proof
  that parsing what was printed gives the tree back, and the reading of struct fields.
\<close>

datatype json =
    JNull
  | JBool bool
  | JNum string
  | JStr string
  | JArr "json list"
  | JObj "(string \<times> json) list"

section \<open>Printing\<close>

fun show_nat :: "nat \<Rightarrow> string" where
  "show_nat n = (if n < 10 then [char_of (n + 48)] else show_nat (n div 10) @ [char_of (n mod 10 + 48)])"

declare show_nat.simps [simp del]

definition show_int :: "int \<Rightarrow> string" where
  "show_int i = (if i < 0 then CHR ''-'' # show_nat (nat (- i)) else show_nat (nat i))"

definition json_quote :: "string \<Rightarrow> string" where
  "json_quote raw = quote_char # raw @ [quote_char]"

fun json_print :: "json \<Rightarrow> string"
  and print_elems :: "json list \<Rightarrow> string"
  and print_members :: "(string \<times> json) list \<Rightarrow> string" where
  "json_print JNull = ''null''"
| "json_print (JBool b) = (if b then ''true'' else ''false'')"
| "json_print (JNum s) = s"
| "json_print (JStr raw) = json_quote raw"
| "json_print (JArr []) = ''[]''"
| "json_print (JArr (v # vs)) = ''['' @ json_print v @ print_elems vs"
| "json_print (JObj []) = ''{}''"
| "json_print (JObj ((k, v) # ms)) = ''{'' @ json_quote k @ '':'' @ json_print v @ print_members ms"
| "print_elems [] = '']''"
| "print_elems (v # vs) = '','' @ json_print v @ print_elems vs"
| "print_members [] = ''}''"
| "print_members ((k, v) # ms) = '','' @ json_quote k @ '':'' @ json_print v @ print_members ms"

section \<open>Parsing\<close>

fun skip_ws :: "string \<Rightarrow> string" where
  "skip_ws [] = []"
| "skip_ws (c # r) = (if byte c \<in> {32, 9, 10, 13} then skip_ws r else c # r)"

definition is_digit :: "char \<Rightarrow> bool" where
  "is_digit c \<longleftrightarrow> 48 \<le> byte c \<and> byte c \<le> 57"

definition scan_digits :: "string \<Rightarrow> string \<times> string" where
  "scan_digits s = (takeWhile is_digit s, dropWhile is_digit s)"

fun scan_sign :: "string \<Rightarrow> string \<times> string" where
  "scan_sign (c # r) = (if c = CHR ''-'' then ([c], r) else ([], c # r))"
| "scan_sign [] = ([], [])"

fun scan_fraction :: "string \<Rightarrow> (string \<times> string) option" where
  "scan_fraction (c # r) =
     (if c = CHR ''.'' then
        (case scan_digits r of (d, r') \<Rightarrow> if d = [] then None else Some (c # d, r'))
      else Some ([], c # r))"
| "scan_fraction [] = Some ([], [])"

fun scan_exp_sign :: "string \<Rightarrow> string \<times> string" where
  "scan_exp_sign (c # r) = (if c = CHR ''+'' \<or> c = CHR ''-'' then ([c], r) else ([], c # r))"
| "scan_exp_sign [] = ([], [])"

fun scan_exponent :: "string \<Rightarrow> (string \<times> string) option" where
  "scan_exponent (c # r) =
     (if c = CHR ''e'' \<or> c = CHR ''E'' then
        (case scan_exp_sign r of (sg, r') \<Rightarrow>
           (case scan_digits r' of (d, r'') \<Rightarrow> if d = [] then None else Some (c # sg @ d, r'')))
      else Some ([], c # r))"
| "scan_exponent [] = Some ([], [])"

definition scan_number :: "string \<Rightarrow> (string \<times> string) option" where
  "scan_number s =
     (case scan_sign s of (sg, r1) \<Rightarrow>
        (case scan_digits r1 of (ip, r2) \<Rightarrow>
           if ip = [] \<or> (hd ip = CHR ''0'' \<and> ip \<noteq> [CHR ''0'']) then None
           else (case scan_fraction r2 of
                   None \<Rightarrow> None
                 | Some (fp, r3) \<Rightarrow>
                     (case scan_exponent r3 of
                        None \<Rightarrow> None
                      | Some (ep, r4) \<Rightarrow> Some (sg @ ip @ fp @ ep, r4)))))"

definition scan_literal :: "string \<Rightarrow> string \<Rightarrow> string option" where
  "scan_literal lit s = (if take (length lit) s = lit then Some (drop (length lit) s) else None)"

fun parse_value :: "nat \<Rightarrow> string \<Rightarrow> (json \<times> string) option"
  and parse_elems :: "nat \<Rightarrow> string \<Rightarrow> (json list \<times> string) option"
  and parse_members :: "nat \<Rightarrow> string \<Rightarrow> ((string \<times> json) list \<times> string) option" where
  "parse_value 0 s = None"
| "parse_value (Suc n) s =
     (case skip_ws s of
        [] \<Rightarrow> None
      | c # r \<Rightarrow>
          if c = quote_char then map_option (\<lambda>(raw, r'). (JStr raw, r')) (scan_string r)
          else if c = CHR ''['' then
            (case skip_ws r of
               [] \<Rightarrow> None
             | c' # r' \<Rightarrow>
                 if c' = CHR '']'' then Some (JArr [], r')
                 else map_option (\<lambda>(vs, t). (JArr vs, t)) (parse_elems n (c' # r')))
          else if c = CHR ''{'' then
            (case skip_ws r of
               [] \<Rightarrow> None
             | c' # r' \<Rightarrow>
                 if c' = CHR ''}'' then Some (JObj [], r')
                 else map_option (\<lambda>(ms, t). (JObj ms, t)) (parse_members n (c' # r')))
          else if c = CHR ''n'' then map_option (\<lambda>t. (JNull, t)) (scan_literal ''null'' (c # r))
          else if c = CHR ''t'' then map_option (\<lambda>t. (JBool True, t)) (scan_literal ''true'' (c # r))
          else if c = CHR ''f'' then map_option (\<lambda>t. (JBool False, t)) (scan_literal ''false'' (c # r))
          else map_option (\<lambda>(d, t). (JNum d, t)) (scan_number (c # r)))"
| "parse_elems 0 s = None"
| "parse_elems (Suc n) s =
     (case parse_value n s of
        None \<Rightarrow> None
      | Some (v, r) \<Rightarrow>
          (case skip_ws r of
             [] \<Rightarrow> None
           | c # r' \<Rightarrow>
               if c = CHR '','' then map_option (\<lambda>(vs, t). (v # vs, t)) (parse_elems n r')
               else if c = CHR '']'' then Some ([v], r')
               else None))"
| "parse_members 0 s = None"
| "parse_members (Suc n) s =
     (case skip_ws s of
        [] \<Rightarrow> None
      | c # r \<Rightarrow>
          if c \<noteq> quote_char then None
          else
            (case scan_string r of
               None \<Rightarrow> None
             | Some (k, r1) \<Rightarrow>
                 (case skip_ws r1 of
                    [] \<Rightarrow> None
                  | c1 # r2 \<Rightarrow>
                      if c1 \<noteq> CHR '':'' then None
                      else
                        (case parse_value n r2 of
                           None \<Rightarrow> None
                         | Some (v, r3) \<Rightarrow>
                             (case skip_ws r3 of
                                [] \<Rightarrow> None
                              | c2 # r4 \<Rightarrow>
                                  if c2 = CHR '','' then
                                    map_option (\<lambda>(ms, t). ((k, v) # ms, t)) (parse_members n r4)
                                  else if c2 = CHR ''}'' then Some ([(k, v)], r4)
                                  else None)))))"

text \<open>
  \<open>Decoder.Decode\<close> reads the first value of the input; \<open>Unmarshal\<close> also insists that nothing but
  white space follows.
\<close>

definition json_decode_first :: "string \<Rightarrow> json option" where
  "json_decode_first s = map_option fst (parse_value (2 * length s + 2) s)"

definition json_parse :: "string \<Rightarrow> json option" where
  "json_parse s =
     (case parse_value (2 * length s + 2) s of
        Some (v, r) \<Rightarrow> if skip_ws r = [] then Some v else None
      | None \<Rightarrow> None)"

section \<open>Parsing gives back what was printed\<close>

fun wf_json :: "json \<Rightarrow> bool" where
  "wf_json (JNum s) = (\<exists>i. s = show_int i)"
| "wf_json (JStr raw) = transparent raw"
| "wf_json (JArr vs) = (\<forall>v \<in> set vs. wf_json v)"
| "wf_json (JObj ms) = (\<forall>m \<in> set ms. transparent (fst m) \<and> wf_json (snd m))"
| "wf_json v = True"

text \<open>Characters that may follow a number without extending it.\<close>

definition ends_number :: "string \<Rightarrow> bool" where
  "ends_number t \<longleftrightarrow> (case t of [] \<Rightarrow> True
     | c # _ \<Rightarrow> \<not> is_digit c \<and> c \<noteq> CHR ''.'' \<and> c \<noteq> CHR ''e'' \<and> c \<noteq> CHR ''E'')"

lemma ends_number_simps [simp]:
  "ends_number []"
  "ends_number (c # r) \<longleftrightarrow> \<not> is_digit c \<and> c \<noteq> CHR ''.'' \<and> c \<noteq> CHR ''e'' \<and> c \<noteq> CHR ''E''"
  by (simp_all add: ends_number_def)

lemma show_nat_digits: "\<forall>c \<in> set (show_nat n). is_digit c"
proof (induction n rule: show_nat.induct)
  case (1 n)
  then show ?case
    by (cases "n < 10") (auto simp: show_nat.simps [of n] is_digit_def)
qed

lemma show_nat_nonempty [simp]: "show_nat n \<noteq> []"
  by (subst show_nat.simps) simp

lemma show_nat_hd: "0 < n \<Longrightarrow> hd (show_nat n) \<noteq> CHR ''0''"
proof (induction n rule: show_nat.induct)
  case (1 n)
  show ?case
  proof (cases "n < 10")
    case True
    have "byte (char_of (n + 48)) \<noteq> byte (CHR ''0'')"
      using True 1(2) by simp
    then have "char_of (n + 48) \<noteq> CHR ''0''" by metis
    then show ?thesis using True by (simp add: show_nat.simps [of n])
  next
    case False
    then show ?thesis using 1 by (simp add: show_nat.simps [of n])
  qed
qed

lemma show_nat_0 [simp]: "show_nat 0 = ''0''"
proof -
  have "char_of (48 :: nat) = CHR ''0''" by (rule of_char_eqI [where 'a = nat]) simp
  then show ?thesis by (simp add: show_nat.simps [of 0])
qed

lemma scan_digits_append:
  "\<forall>c \<in> set d. is_digit c \<Longrightarrow> ends_number t \<Longrightarrow> scan_digits (d @ t) = (d, t)"
  by (cases t) (auto simp: scan_digits_def takeWhile_append dropWhile_append)

lemma scan_rest_end: "ends_number t \<Longrightarrow> scan_fraction t = Some ([], t) \<and> scan_exponent t = Some ([], t)"
  by (cases t) auto

lemma scan_unsigned:
  assumes "ends_number t"
  shows "scan_number (show_nat n @ t) = Some (show_nat n, t)"
    and "scan_number (CHR ''-'' # show_nat n @ t) = Some (CHR ''-'' # show_nat n, t)"
proof -
  have dig: "scan_digits (show_nat n @ t) = (show_nat n, t)"
    using scan_digits_append [OF show_nat_digits assms] .
  obtain c r where cr: "show_nat n = c # r" by (cases "show_nat n") auto
  then have "is_digit c" using show_nat_digits [of n] by simp
  then have "c \<noteq> CHR ''-''" by (auto simp: is_digit_def)
  then have sign: "scan_sign (show_nat n @ t) = ([], show_nat n @ t)" by (simp add: cr)
  have lead: "\<not> (hd (show_nat n) = CHR ''0'' \<and> show_nat n \<noteq> ''0'')"
    using show_nat_hd [of n] by (cases "n = 0") auto
  show "scan_number (show_nat n @ t) = Some (show_nat n, t)"
    and "scan_number (CHR ''-'' # show_nat n @ t) = Some (CHR ''-'' # show_nat n, t)"
    using lead scan_rest_end [OF assms] by (simp_all add: scan_number_def sign dig)
qed

lemma scan_show_int: "ends_number t \<Longrightarrow> scan_number (show_int i @ t) = Some (show_int i, t)"
  by (simp add: show_int_def scan_unsigned)

lemma show_int_first: "\<exists>c r. show_int i = c # r \<and> (c = CHR ''-'' \<or> is_digit c)"
proof -
  have "\<exists>c r. show_nat n = c # r \<and> is_digit c" for n
    using show_nat_digits [of n] by (cases "show_nat n") auto
  then show ?thesis by (simp add: show_int_def) blast
qed

text \<open>The first character of a printed value is not white space and closes nothing.\<close>

definition opens_value :: "char \<Rightarrow> bool" where
  "opens_value c \<longleftrightarrow> byte c \<notin> {32, 9, 10, 13} \<and> c \<noteq> CHR '']'' \<and> c \<noteq> CHR ''}''"

lemma print_first:
  assumes "wf_json v"
  shows "\<exists>c r. json_print v = c # r \<and> opens_value c"
proof (cases v)
  case (JNum s)
  with assms obtain i where "s = show_int i" by auto
  with JNum show_int_first [of i] show ?thesis by (auto simp: opens_value_def is_digit_def)
next
  case (JArr vs)
  then show ?thesis by (cases vs) (simp_all add: opens_value_def)
next
  case (JObj ms)
  then show ?thesis by (cases ms) (auto simp: opens_value_def)
qed (auto simp: opens_value_def json_quote_def)

lemma skip_ws_opens: "opens_value c \<Longrightarrow> skip_ws (c # r) = c # r"
  by (simp add: opens_value_def)

lemma scan_string_raw: "transparent raw \<Longrightarrow> scan_string (raw @ quote_char # t) = Some (raw, t)"
  using transparent_scannable [of raw] by (simp add: scannable_def)

lemma print_elems_ends: "ends_number (print_elems vs @ t)"
  by (cases vs) (auto simp: is_digit_def)

lemma print_members_ends: "ends_number (print_members ms @ t)"
  by (cases ms rule: print_members.cases) (auto simp: is_digit_def)

lemma parse_number_value:
  assumes "ends_number t"
  shows "parse_value (Suc n) (show_int i @ t) = Some (JNum (show_int i), t)"
proof -
  obtain c r where c: "show_int i = c # r" "c = CHR ''-'' \<or> is_digit c"
    using show_int_first by blast
  then have "opens_value c" and "c \<noteq> quote_char" "c \<noteq> CHR ''[''" "c \<noteq> CHR ''{''" "c \<noteq> CHR ''n''"
    "c \<noteq> CHR ''t''" "c \<noteq> CHR ''f''"
    by (auto simp: is_digit_def opens_value_def)
  then show ?thesis
    using scan_show_int [OF assms, of i] by (simp add: c skip_ws_opens del: skip_ws.simps(2))
qed

lemma parse_print:
  shows "wf_json v \<Longrightarrow> ends_number t \<Longrightarrow> 2 * length (json_print v) \<le> n \<Longrightarrow>
      parse_value n (json_print v @ t) = Some (v, t)"
    and "\<forall>v \<in> set vs. wf_json v \<Longrightarrow> 2 * length (print_elems vs) \<le> Suc m \<Longrightarrow>
      parse_value m s = Some (w, print_elems vs @ t) \<Longrightarrow> parse_elems (Suc m) s = Some (w # vs, t)"
    and "\<forall>p \<in> set ms. transparent (fst p) \<and> wf_json (snd p) \<Longrightarrow> 2 * length (print_members ms) \<le> Suc m \<Longrightarrow>
      transparent k \<Longrightarrow> parse_value m s = Some (w, print_members ms @ t) \<Longrightarrow>
      parse_members (Suc m) (json_quote k @ CHR '':'' # s) = Some ((k, w) # ms, t)"
proof (induction v and vs and ms arbitrary: t n and t m s w and t m s w k
    rule: json_print_print_elems_print_members.induct)
  case (3 s)
  then obtain i where i: "s = show_int i" by auto
  then have "n \<noteq> 0" using 3(3) show_int_first [of i] by auto
  then show ?case using i 3(2) by (cases n) (simp_all add: parse_number_value del: parse_value.simps(2))
next
  case (4 raw)
  then show ?case by (cases n) (simp_all add: json_quote_def scan_string_raw)
next
  case (6 v vs)
  obtain c r where c: "json_print v = c # r" "opens_value c" using print_first [of v] 6(3) by auto
  obtain m where n: "n = Suc (Suc m)" using 6(5) by (cases n; cases "n - 1") auto
  have "parse_value m (json_print v @ print_elems vs @ t) = Some (v, print_elems vs @ t)"
    using 6(3,5) n by (intro 6(1) print_elems_ends) simp_all
  then have "parse_elems (Suc m) (json_print v @ print_elems vs @ t) = Some (v # vs, t)"
    using 6(3,5) n by (intro 6(2)) simp_all
  then show ?case
    using c n by (simp add: opens_value_def del: parse_elems.simps)
next
  case (8 k v ms)
  obtain m where n: "n = Suc (Suc m)" using 8(5) by (cases n; cases "n - 1") auto
  have "parse_value m (json_print v @ print_members ms @ t) = Some (v, print_members ms @ t)"
    using 8(3,5) n by (intro 8(1) print_members_ends) simp_all
  then have "parse_members (Suc m) (json_quote k @ CHR '':'' # json_print v @ print_members ms @ t) =
      Some ((k, v) # ms, t)"
    using 8(3,5) n by (intro 8(2)) simp_all
  then show ?case
    using n by (simp add: json_quote_def del: parse_members.simps)
next
  case (10 v vs)
  obtain m' where m: "m = Suc m'" using 10(4) by (cases m) auto
  have "parse_value m' (json_print v @ print_elems vs @ t) = Some (v, print_elems vs @ t)"
    using 10(3,4) m by (intro 10(1) print_elems_ends) simp_all
  then have "parse_elems m (json_print v @ print_elems vs @ t) = Some (v # vs, t)"
    unfolding m using 10(3,4) m by (intro 10(2)) simp_all
  then show ?case using 10(5) by simp
next
  case (12 k' v ms)
  obtain m' where m: "m = Suc m'" using 12(4) by (cases m) auto
  have "parse_value m' (json_print v @ print_members ms @ t) = Some (v, print_members ms @ t)"
    using 12(3,4) m by (intro 12(1) print_members_ends) simp_all
  then have "parse_members m (json_quote k' @ CHR '':'' # json_print v @ print_members ms @ t) =
      Some ((k', v) # ms, t)"
    unfolding m using 12(3,4) m by (intro 12(2)) simp_all
  then show ?case
    using 12(5,6) by (simp add: json_quote_def scan_string_raw)
next
  case 1
  then show ?case by (cases n) (simp_all add: scan_literal_def)
next
  case (2 b)
  then show ?case by (cases n; cases b) (simp_all add: scan_literal_def)
next
  case 5
  then show ?case by (cases n) simp_all
next
  case 7
  then show ?case by (cases n) simp_all
next
  case 9
  then show ?case by simp
next
  case 11
  then show ?case by (simp add: json_quote_def scan_string_raw)
qed

lemma json_parse_print: "wf_json v \<Longrightarrow> json_parse (json_print v) = Some v"
  using parse_print(1) [of v "[]" "2 * length (json_print v) + 2"] by (simp add: json_parse_def)

lemma json_decode_first_print:
  assumes "wf_json v" and "ends_number t"
  shows "json_decode_first (json_print v @ t) = Some v"
  using parse_print(1) [OF assms, of "2 * length (json_print v @ t) + 2"]
  by (simp add: json_decode_first_def)

section \<open>Reading struct fields\<close>

text \<open>
  The library matches an object key with a struct field up to letter case, where the long s
  (U+017F) counts as an \<open>s\<close> and the Kelvin sign (U+212A) as a \<open>k\<close>. A member that holds \<open>null\<close>
  leaves the field as it is; a member of the wrong type makes the whole call fail.
\<close>

definition upper_char :: "char \<Rightarrow> char" where
  "upper_char c = (if 97 \<le> byte c \<and> byte c \<le> 122 then char_of (byte c - 32) else c)"

function fold_name :: "bytes \<Rightarrow> bytes" where
  "fold_name [] = []"
| "fold_name (a # r) =
     (if a = CHR 0xC5 \<and> take 1 r = [CHR 0xBF] then CHR ''S'' # fold_name (drop 1 r)
      else if a = CHR 0xE2 \<and> take 2 r = [CHR 0x84, CHR 0xAA] then CHR ''K'' # fold_name (drop 2 r)
      else upper_char a # fold_name r)"
  by pat_completeness auto
termination
  by (relation "measure length") auto

definition same_field :: "string \<Rightarrow> string \<Rightarrow> bool" where
  "same_field name k \<longleftrightarrow> fold_name (json_unquote k) = fold_name name"

fun decode_field :: "(json \<Rightarrow> 'a option) \<Rightarrow> string \<Rightarrow> 'a \<Rightarrow> (string \<times> json) list \<Rightarrow> 'a option" where
  "decode_field conv name v [] = Some v"
| "decode_field conv name v ((k, j) # ms) =
     (if same_field name k \<and> j \<noteq> JNull then
        (case conv j of None \<Rightarrow> None | Some v' \<Rightarrow> decode_field conv name v' ms)
      else decode_field conv name v ms)"

fun struct_members :: "json \<Rightarrow> (string \<times> json) list option" where
  "struct_members (JObj ms) = Some ms"
| "struct_members JNull = Some []"
| "struct_members v = None"

fun conv_string :: "json \<Rightarrow> bytes option" where
  "conv_string (JStr raw) = Some (json_unquote raw)"
| "conv_string v = None"

lemma json_escape_id:
  "\<forall>c \<in> set s. 32 \<le> byte c \<and> byte c < 128 \<and> byte c \<notin> {34, 92, 60, 62, 38} \<Longrightarrow> json_escape s = s"
  by (induction s) (auto simp: json_escape.simps(2) escape_ascii_def Let_def)

section \<open>Building values\<close>

text \<open>Object members and string values from Go strings, and \<open>json.Marshal\<close>, which never fails on them.\<close>

definition json_member :: "string \<Rightarrow> json \<Rightarrow> string \<times> json" where
  "json_member name v = (json_escape name, v)"

definition json_string :: "bytes \<Rightarrow> json" where
  "json_string s = JStr (json_escape s)"

definition json_Marshal :: "json \<Rightarrow> string result" where
  "json_Marshal v = Inr (json_print v)"

lemma json_string_wf [simp]: "wf_json (json_string s)"
  by (simp add: json_string_def transparent_escape)

lemma json_member_wf [simp]: "transparent (fst (json_member k v))" "snd (json_member k v) = v"
  by (simp_all add: json_member_def transparent_escape)

lemma same_field_ascii:
  "valid_utf8 k \<Longrightarrow> same_field name (json_escape k) \<longleftrightarrow> fold_name k = fold_name name"
  by (simp add: same_field_def json_unquote_escape)

text \<open>Reading \<open>[]string\<close> and \<open>map[string]string\<close>.\<close>

fun conv_string_list :: "json \<Rightarrow> bytes list option" where
  "conv_string_list (JArr vs) = those (map conv_string vs)"
| "conv_string_list v = None"

fun conv_string_map :: "json \<Rightarrow> (bytes \<times> bytes) list option" where
  "conv_string_map (JObj ms) = those (map (\<lambda>(k, v). map_option (Pair (json_unquote k)) (conv_string v)) ms)"
| "conv_string_map v = None"

lemma those_map_Some: "(\<And>x. x \<in> set xs \<Longrightarrow> f x = Some (g x)) \<Longrightarrow> those (map f xs) = Some (map g xs)"
  by (induction xs) auto

lemma conv_string_list_json:
  assumes "\<forall>x \<in> set xs. valid_utf8 x"
  shows "conv_string_list (JArr (map json_string xs)) = Some xs"
proof -
  have "those (map (conv_string \<circ> json_string) xs) = Some (map id xs)"
    by (rule those_map_Some) (use assms in \<open>simp add: json_string_def json_unquote_escape\<close>)
  then show ?thesis by simp
qed

lemma conv_string_map_json:
  assumes "\<forall>(k, v) \<in> set ms. valid_utf8 k \<and> valid_utf8 v"
  shows "conv_string_map (JObj (map (\<lambda>(k, v). json_member k (json_string v)) ms)) = Some ms"
proof -
  have "those (map ((\<lambda>(k, v). map_option (Pair (json_unquote k)) (conv_string v)) \<circ>
      (\<lambda>(k, v). json_member k (json_string v))) ms) = Some (map id ms)"
    by (rule those_map_Some)
      (use assms in \<open>auto simp: json_string_def json_member_def json_unquote_escape\<close>)
  then show ?thesis by simp
qed

end
