(* ===== verification/Handle_Codec.thy ===== *)
theory Handle_Codec
  imports Provider_Iface Go_Json_Syntax
begin

text \<open>
  The credential handle in the annotation of the resource: \<open>storedHandle\<close>, \<open>encodeHandle\<close> and
  \<open>decodeHandle\<close> of \<open>src/internal/controller/ephemeralcredential_controller.go\<close>, over the models
  of \<open>encoding/json\<close> and \<open>encoding/base64\<close>. The locale \<open>handle_codec\<close> is what the reconciler relies
  on: encoding always succeeds, decoding inverts it, and the empty string (an absent
  annotation) decodes to no handle.
\<close>

record storedHandle =
  sh_ProviderName :: string
  sh_Opaque :: string

definition storedHandle_json :: "storedHandle \<Rightarrow> json" where
  "storedHandle_json sh =
     JObj [json_member ''providerName'' (json_string (sh_ProviderName sh)),
           json_member ''opaque'' (json_string (sh_Opaque sh))]"

definition unmarshal_storedHandle :: "bytes \<Rightarrow> storedHandle option" where
  "unmarshal_storedHandle b =
     (case Option.bind (json_parse b) struct_members of
        None \<Rightarrow> None
      | Some ms \<Rightarrow>
          (case (decode_field conv_string ''providerName'' [] ms, decode_field conv_string ''opaque'' [] ms) of
             (Some p, Some q) \<Rightarrow> Some \<lparr>sh_ProviderName = p, sh_Opaque = q\<rparr>
           | _ \<Rightarrow> None))"

definition encodeHandle :: "CredentialHandle \<Rightarrow> string result" where
  "encodeHandle h =
     (let sh = \<lparr>sh_ProviderName = h_ProviderName h, sh_Opaque = EncodeToString StdEncoding (h_Opaque h)\<rparr> in
      case json_Marshal (storedHandle_json sh) of
        Inl err \<Rightarrow> Inl err
      | Inr b \<Rightarrow> Inr (EncodeToString StdEncoding b))"

definition decodeHandle :: "string \<Rightarrow> CredentialHandle option" where
  "decodeHandle raw =
     (if raw = [] then None
      else
        (case DecodeString StdEncoding raw of
           None \<Rightarrow> None
         | Some b \<Rightarrow>
             (case unmarshal_storedHandle b of
                None \<Rightarrow> None
              | Some sh \<Rightarrow>
                  (case DecodeString StdEncoding (sh_Opaque sh) of
                     None \<Rightarrow> None
                   | Some opaque \<Rightarrow> Some \<lparr>h_ProviderName = sh_ProviderName sh, h_Opaque = opaque\<rparr>))))"

section \<open>The contract\<close>

locale handle_codec =
  fixes enc :: "'h \<Rightarrow> string result"
    and dec :: "string \<Rightarrow> 'h option"
    and sound :: "'h \<Rightarrow> bool"
  assumes enc_total: "\<exists>e. enc h = Inr e"
    and dec_enc: "sound h \<Longrightarrow> enc h = Inr e \<Longrightarrow> dec e = Some h"
    and dec_absent: "dec [] = None"
begin

lemma enc_inj: "sound h \<Longrightarrow> sound h' \<Longrightarrow> enc h = enc h' \<Longrightarrow> h = h'"
  using enc_total [of h] dec_enc by (metis option.inject)

lemma enc_present: "sound h \<Longrightarrow> enc h \<noteq> Inr []"
  using dec_enc dec_absent by force

end

section \<open>The broker's codec keeps it\<close>

lemma encoded_opaque_plain: "valid_utf8 (EncodeToString StdEncoding b)"
  using EncodeToString_alphabet [of StdEncoding b] by (intro valid_utf8_ascii) (auto dest: b64_alphabet_plain)

lemma field_names:
  "valid_utf8 ''providerName''" "valid_utf8 ''opaque''" "fold_name ''providerName'' \<noteq> fold_name ''opaque''"
  by (simp_all add: valid_utf8_ascii upper_char_def)

lemma unmarshal_marshal:
  assumes "valid_utf8 (sh_ProviderName sh)" and "valid_utf8 (sh_Opaque sh)"
  shows "unmarshal_storedHandle (json_print (storedHandle_json sh)) = Some sh"
proof -
  have "wf_json (storedHandle_json sh)" by (simp add: storedHandle_json_def)
  then show ?thesis
    using assms field_names
    by (simp add: unmarshal_storedHandle_def json_parse_print storedHandle_json_def json_member_def
        json_string_def same_field_ascii json_unquote_escape del: fold_name.simps json_print.simps)
qed

lemma storedHandle_text_nonempty [simp]: "json_print (storedHandle_json sh) \<noteq> []"
  by (simp add: storedHandle_json_def json_member_def)

interpretation stored_handle: handle_codec encodeHandle decodeHandle "\<lambda>h. valid_utf8 (h_ProviderName h)"
proof
  show "\<exists>e. encodeHandle h = Inr e" for h
    by (simp add: encodeHandle_def json_Marshal_def Let_def)
  show "decodeHandle e = Some h" if "valid_utf8 (h_ProviderName h)" and "encodeHandle h = Inr e" for h e
    using that
    by (auto simp: encodeHandle_def json_Marshal_def Let_def decodeHandle_def
        DecodeString_EncodeToString unmarshal_marshal encoded_opaque_plain)
  show "decodeHandle [] = None"
    by (simp add: decodeHandle_def)
qed

lemma encodeHandle_never_fails [simp]: "encodeHandle h \<noteq> Inl e"
  using stored_handle.enc_total [of h] by auto

section \<open>Property\<close>

text \<open>
  C15. The handle of a minted credential survives the annotation: for every handle whose
  provider name is valid UTF-8 and for arbitrary opaque bytes, encoding succeeds with a
  non-empty text, and decoding this text yields the handle.
\<close>

theorem handle_roundtrip:
  assumes "valid_utf8 (h_ProviderName h)"
  shows "\<exists>e. encodeHandle h = Inr e \<and> e \<noteq> [] \<and> decodeHandle e = Some h"
  using stored_handle.enc_total [of h] stored_handle.dec_enc [OF assms] stored_handle.enc_present [OF assms]
  by metis

theorem handle_roundtrip_witness:
  "\<exists>e. encodeHandle \<lparr>h_ProviderName = ''github-app'', h_Opaque = ''ghs_old''\<rparr> = Inr e \<and> e \<noteq> [] \<and>
     decodeHandle e = Some \<lparr>h_ProviderName = ''github-app'', h_Opaque = ''ghs_old''\<rparr>"
  by (rule handle_roundtrip) (simp add: valid_utf8_ascii)

end
