(* ===== verification/K8s_Client.thy ===== *)
theory K8s_Client
  imports Provider_Iface
begin

text \<open>
  The Kubernetes libraries the broker calls (\<open>client-go\<close>, \<open>controller-runtime\<close>,
  \<open>apimachinery\<close>) are not part of the repository: they are a parameter of the model. \<open>'s k8s\<close>
  collects the calls the reconciler makes, as operations on a state \<open>'s\<close>:

  \<^item> \<open>Get\<close>, \<open>Update\<close>, \<open>Status().Update\<close>, \<open>Delete\<close> of the client. \<open>Update\<close> and
    \<open>Status().Update\<close> overwrite the object they are given with the server's answer, so their
    result is the object the caller goes on with;
  \<^item> \<open>controllerutil.CreateOrUpdate\<close> with its mutate callback;
  \<^item> the pure helpers \<open>apierrors.IsNotFound\<close>, \<open>controllerutil.ContainsFinalizer\<close>,
    \<open>AddFinalizer\<close>, \<open>RemoveFinalizer\<close>, \<open>SetControllerReference\<close>;
  \<^item> \<open>meta.SetStatusCondition\<close>, which reads the clock for the transition time.

  The documented behaviour of these operations that a property rests on is stated in the
  locales of the theory \<open>Api_Server\<close>.
\<close>

record 's k8s =
  k_Get_EC :: "NamespacedName \<Rightarrow> ('s, EphemeralCredential result) action"
  k_Get_Secret :: "NamespacedName \<Rightarrow> ('s, Secret result) action"
  k_Update_EC :: "EphemeralCredential \<Rightarrow> ('s, EphemeralCredential result) action"
  k_Status_Update :: "EphemeralCredential \<Rightarrow> ('s, EphemeralCredential result) action"
  k_Delete_Secret :: "Secret \<Rightarrow> ('s, go_error option) action"
  k_CreateOrUpdate :: "Secret \<Rightarrow> (Secret \<Rightarrow> Secret result) \<Rightarrow> ('s, go_error option) action"
  k_IsNotFound :: "go_error \<Rightarrow> bool"
  k_ContainsFinalizer :: "ObjectMeta \<Rightarrow> string \<Rightarrow> bool"
  k_AddFinalizer :: "ObjectMeta \<Rightarrow> string \<Rightarrow> ObjectMeta"
  k_RemoveFinalizer :: "ObjectMeta \<Rightarrow> string \<Rightarrow> ObjectMeta"
  k_SetControllerReference :: "EphemeralCredential \<Rightarrow> Secret \<Rightarrow> Secret result"
  k_SetStatusCondition :: "Condition list \<Rightarrow> Condition \<Rightarrow> 's \<Rightarrow> Condition list"

text \<open>The event recorder: object, event type, reason, message.\<close>

type_synonym 's EventRecorder = "EphemeralCredential \<Rightarrow> string \<Rightarrow> string \<Rightarrow> msg \<Rightarrow> 's \<Rightarrow> 's"

definition EventTypeNormal :: string where [broker_defs]: "EventTypeNormal = ''Normal''"
definition EventTypeWarning :: string where [broker_defs]: "EventTypeWarning = ''Warning''"

text \<open>\<open>ctrl.Result\<close>: requeue at once, or after a delay.\<close>

record Result =
  res_Requeue :: bool
  res_RequeueAfter :: duration

definition emptyResult :: Result where
  "emptyResult = \<lparr>res_Requeue = False, res_RequeueAfter = 0\<rparr>"

type_synonym outcome = "Result \<times> go_error option"

end
