(* ===== verification/Reconciler.thy ===== *)
theory Reconciler
  imports Rotation Target_Secret Handle_Codec K8s_Client
begin

text \<open>
  The reconciler of \<open>src/internal/controller/ephemeralcredential_controller.go\<close>, one definition
  per function and every call that has an effect in the order of the source. \<open>Reconcile\<close> is cut
  where the source has a return on every path: \<open>ensureFinalizer\<close> (the finalizer step),
  \<open>rotateCredential\<close> (from the decoding of the previous handle to the handle annotation) and
  \<open>finishMint\<close> (status, event, revocation of the previous credential, next wake-up).

  A pointer to the resource that a function mutates is passed as a value and returned when
  the caller goes on with it. Log lines have no effect on anything the model talks about and
  are left out. \<open>r_timeNow\<close> is the system clock \<open>time.Now\<close>.
\<close>

definition handleAnnotationKey :: string where
  [broker_defs]: "handleAnnotationKey = ''broker.shivansh-sinha.dev/last-credential-handle''"

record 's Reconciler =
  r_Client :: "'s k8s"
  r_Providers :: "'s Registry"
  r_Recorder :: "'s EventRecorder option"
  r_Now :: "('s, time) action option"
  r_timeNow :: "('s, time) action"

definition now :: "'s Reconciler \<Rightarrow> ('s, time) io" where
  "now r = (case r_Now r of Some f \<Rightarrow> State f | None \<Rightarrow> State (r_timeNow r))"

definition event :: "'s Reconciler \<Rightarrow> EphemeralCredential \<Rightarrow> string \<Rightarrow> string \<Rightarrow> msg \<Rightarrow> ('s, unit) io" where
  "event r ec eventType reason message =
     (case r_Recorder r of
        None \<Rightarrow> State_Monad.return ()
      | Some recorder \<Rightarrow> State (\<lambda>s. ((), recorder ec eventType reason message s)))"

abbreviation status_update ::
  "(EphemeralCredentialStatus \<Rightarrow> EphemeralCredentialStatus) \<Rightarrow> EphemeralCredential \<Rightarrow> EphemeralCredential" where
  "status_update f ec \<equiv> ec\<lparr>ec_Status := f (ec_Status ec)\<rparr>"

definition setReadyCondition ::
  "'s Reconciler \<Rightarrow> EphemeralCredential \<Rightarrow> string \<Rightarrow> string \<Rightarrow> msg \<Rightarrow> ('s, EphemeralCredential) io" where
  "setReadyCondition r ec status reason message =
     State (\<lambda>s.
       (status_update (st_Conditions_update (\<lambda>cs.
          k_SetStatusCondition (r_Client r) cs
            \<lparr>cond_Type = ConditionReady, cond_Status = status, cond_Reason = reason,
             cond_Message = message, cond_ObservedGeneration = om_Generation (ec_Meta ec),
             cond_LastTransitionTime = zero_time\<rparr> s)) ec, s))"

definition target_key :: "EphemeralCredential \<Rightarrow> NamespacedName" where
  "target_key ec = (om_Namespace (ec_Meta ec), ts_Name (spec_TargetSecret (ec_Spec ec)))"

definition targetSecretExists :: "'s Reconciler \<Rightarrow> EphemeralCredential \<Rightarrow> ('s, bool result) io" where
  "targetSecretExists r ec =
     (if ts_Name (spec_TargetSecret (ec_Spec ec)) = [] then State_Monad.return (Inr False)
      else do {
        g \<leftarrow> State (k_Get_Secret (r_Client r) (target_key ec));
        State_Monad.return
          (case g of
             Inl err \<Rightarrow> if k_IsNotFound (r_Client r) err then Inr False
                        else Inl (Wrapf ''checking target secret: %w'' [] err)
           | Inr secret \<Rightarrow> Inr True)
      })"

definition deleteTargetSecret :: "'s Reconciler \<Rightarrow> EphemeralCredential \<Rightarrow> ('s, go_error option) io" where
  "deleteTargetSecret r ec =
     (if ts_Name (spec_TargetSecret (ec_Spec ec)) = [] then State_Monad.return None
      else do {
        g \<leftarrow> State (k_Get_Secret (r_Client r) (target_key ec));
        case g of
          Inl err \<Rightarrow> State_Monad.return
            (if k_IsNotFound (r_Client r) err then None
             else Some (Wrapf ''fetching target secret for deletion: %w'' [] err))
        | Inr secret \<Rightarrow> do {
            d \<leftarrow> State (k_Delete_Secret (r_Client r) secret);
            State_Monad.return
              (case d of
                 Some err \<Rightarrow> if \<not> k_IsNotFound (r_Client r) err
                              then Some (Wrapf ''deleting target secret: %w'' [] err) else None
               | None \<Rightarrow> None)
          }
      })"

definition newTargetSecret :: "EphemeralCredential \<Rightarrow> Secret" where
  "newTargetSecret ec =
    \<lparr>sec_Meta = \<lparr>om_Name = ts_Name (spec_TargetSecret (ec_Spec ec)), om_Namespace = om_Namespace (ec_Meta ec),
       om_UID = [], om_ResourceVersion = 0, om_Generation = 0, om_DeletionTimestamp = None,
       om_Finalizers = [], om_Annotations = None, om_OwnerReferences = []\<rparr>,
     sec_Data = None, sec_Type = []\<rparr>"

definition writeTargetSecret ::
  "'s Reconciler \<Rightarrow> EphemeralCredential \<Rightarrow> MintResult \<Rightarrow> ('s, go_error option) io" where
  "writeTargetSecret r ec mint = do {
     e \<leftarrow> State (k_CreateOrUpdate (r_Client r) (newTargetSecret ec)
           (\<lambda>secret. k_SetControllerReference (r_Client r) ec (mutateTargetSecret ec mint secret)));
     State_Monad.return
       (case e of
          Some err \<Rightarrow> Some (Wrapf ''writing target secret %q: %w''
                        [A_str (ts_Name (spec_TargetSecret (ec_Spec ec)))] err)
        | None \<Rightarrow> None)
   }"

definition failStatus ::
  "'s Reconciler \<Rightarrow> EphemeralCredential \<Rightarrow> string \<Rightarrow> msg \<Rightarrow> go_error option \<Rightarrow> bool \<Rightarrow> ('s, outcome) io" where
  "failStatus r ec reason message cause retryable = do {
     t \<leftarrow> now r;
     ec' \<leftarrow>
       (case st_ExpiresAt (ec_Status ec) of
          Some e \<Rightarrow>
            if time_Before t e then
              setReadyCondition r (status_update (st_State_update (\<lambda>_. StateExpiring)) ec)
                ConditionTrue ReasonRotationFailed
                (Sprintf ''credential in %q is still valid until %s, but the last rotation attempt failed: %s''
                   [A_str (ts_Name (spec_TargetSecret (ec_Spec ec))), A_time e, A_text message])
            else do {
              _ \<leftarrow> deleteTargetSecret r ec;
              setReadyCondition r (status_update (st_State_update (\<lambda>_. StateFailed)) ec)
                ConditionFalse reason message
            }
        | None \<Rightarrow>
            setReadyCondition r (status_update (st_State_update (\<lambda>_. StateFailed)) ec)
              ConditionFalse reason message);
     u \<leftarrow> State (k_Status_Update (r_Client r) ec');
     case u of
       Inl err \<Rightarrow> State_Monad.return (emptyResult, Some (Wrapf ''updating status after failure: %w'' [] err))
     | Inr ec'' \<Rightarrow> do {
         _ \<leftarrow> event r ec'' EventTypeWarning reason message;
         State_Monad.return
           (if \<not> retryable then (emptyResult, None)
            else (case cause of
                    Some c \<Rightarrow> (emptyResult, Some c)
                  | None \<Rightarrow> (emptyResult, Some (ErrNew message))))
       }
   }"

definition reconcileDelete :: "'s Reconciler \<Rightarrow> EphemeralCredential \<Rightarrow> ('s, outcome) io" where
  "reconcileDelete r ec =
     (if \<not> k_ContainsFinalizer (r_Client r) (ec_Meta ec) FinalizerName
      then State_Monad.return (emptyResult, None)
      else do {
        _ \<leftarrow>
          (case Registry_Get (r_Providers r) (spec_Provider (ec_Spec ec)) of
             None \<Rightarrow> State_Monad.return None
           | Some prov \<Rightarrow>
               (case decodeHandle (map_get_string (om_Annotations (ec_Meta ec)) handleAnnotationKey) of
                  None \<Rightarrow> State_Monad.return None
                | Some handle \<Rightarrow>
                    if h_ProviderName handle = prov_Name prov then State (prov_Revoke prov handle)
                    else State_Monad.return None));
        d \<leftarrow> deleteTargetSecret r ec;
        case d of
          Some err \<Rightarrow> State_Monad.return (emptyResult, Some err)
        | None \<Rightarrow> do {
            u \<leftarrow> State (k_Update_EC (r_Client r)
                    (ec\<lparr>ec_Meta := k_RemoveFinalizer (r_Client r) (ec_Meta ec) FinalizerName\<rparr>));
            State_Monad.return
              (case u of
                 Inl err \<Rightarrow> (emptyResult, Some (Wrapf ''removing finalizer: %w'' [] err))
               | Inr _ \<Rightarrow> (emptyResult, None))
          }
      })"

definition buildGitHubScope ::
  "'s k8s \<Rightarrow> string \<Rightarrow> EphemeralCredentialSpec \<Rightarrow> ('s, Scope result) io" where
  "buildGitHubScope c namespace spec =
     (case pc_GitHub (spec_ProviderConfig spec) of
        None \<Rightarrow> State_Monad.return
          (Inl (ErrNew (Lit ''provider github-app requires providerConfig.github to be set'')))
      | Some cfg \<Rightarrow> do {
          let ref = lor_Name (gh_AppConfigRef cfg);
          g \<leftarrow> State (k_Get_Secret c (namespace, ref));
          State_Monad.return
            (case g of
               Inl err \<Rightarrow> Inl (Wrapf ''fetching appConfigRef secret %q: %w'' [A_str ref] err)
             | Inr secret \<Rightarrow>
                 (case map_get (sec_Data secret) ''appId'' of
                    None \<Rightarrow> Inl (Errorf ''secret %q is missing required key %q'' [A_str ref, A_str ''appId''])
                  | Some appID \<Rightarrow>
                      if appID = [] then
                        Inl (Errorf ''secret %q is missing required key %q'' [A_str ref, A_str ''appId''])
                      else
                        (case map_get (sec_Data secret) ''privateKey'' of
                           None \<Rightarrow> Inl (Errorf ''secret %q is missing required key %q''
                                           [A_str ref, A_str ''privateKey''])
                         | Some privateKey \<Rightarrow>
                             if privateKey = [] then
                               Inl (Errorf ''secret %q is missing required key %q''
                                     [A_str ref, A_str ''privateKey''])
                             else
                               Inr \<lparr>scope_AppID = appID, scope_PrivateKeyPEM = privateKey,
                                    scope_Repositories = gh_Repositories cfg,
                                    scope_Permissions = gh_Permissions cfg\<rparr>)))
        })"

definition buildScope ::
  "'s k8s \<Rightarrow> string \<Rightarrow> EphemeralCredentialSpec \<Rightarrow> ('s, any_scope result) io" where
  "buildScope c namespace spec =
     (if spec_Provider spec = ProviderGitHubApp then do {
        g \<leftarrow> buildGitHubScope c namespace spec;
        State_Monad.return (case g of Inl err \<Rightarrow> Inl err | Inr sc \<Rightarrow> Inr (ScopeGitHub sc))
      }
      else if spec_Provider spec \<in> {ProviderAWSSTS, ProviderDatabase, ProviderVault} then
        State_Monad.return (Inl (Errorf
          ''provider %q is designed but not implemented in v1 -- see design doc section 4 and internal/provider/%s/doc.go''
          [A_str (spec_Provider spec), A_str (spec_Provider spec)]))
      else State_Monad.return (Inl (Errorf ''unknown provider %q'' [A_str (spec_Provider spec)])))"

definition revokePrevious ::
  "'s Reconciler \<Rightarrow> EphemeralCredential \<Rightarrow> 's Provider \<Rightarrow> CredentialHandle option \<Rightarrow> ('s, unit) io" where
  "revokePrevious r ec prov previousHandle =
     (case previousHandle of
        None \<Rightarrow> State_Monad.return ()
      | Some handle \<Rightarrow>
          if h_ProviderName handle = prov_Name prov then do {
            e \<leftarrow> State (prov_Revoke prov handle);
            case e of
              None \<Rightarrow> State_Monad.return ()
            | Some err \<Rightarrow>
                if \<not> errors_Is_ErrNoRevoke err
                then event r ec EventTypeWarning ReasonRevokeFailed (ErrorText err)
                else State_Monad.return ()
          }
          else State_Monad.return ())"

definition finishMint ::
  "'s Reconciler \<Rightarrow> EphemeralCredential \<Rightarrow> 's Provider \<Rightarrow> time \<Rightarrow> CredentialHandle option \<Rightarrow> MintResult \<Rightarrow>
     ('s, outcome) io" where
  "finishMint r ec prov t previousHandle mint = do {
     let expiresAt = mint_ExpiresAt mint;
     let ec1 = status_update (\<lambda>st. st\<lparr>st_State := StateActive, st_ExpiresAt := Some expiresAt,
           st_LastRotatedAt := Some t, st_ObservedGeneration := om_Generation (ec_Meta ec)\<rparr>) ec;
     ec2 \<leftarrow> setReadyCondition r ec1 ConditionTrue ReasonMintSucceeded
           (Sprintf ''minted via %s, expires %s'' [A_str (spec_Provider (ec_Spec ec)), A_time expiresAt]);
     u \<leftarrow> State (k_Status_Update (r_Client r) ec2);
     case u of
       Inl err \<Rightarrow> State_Monad.return (emptyResult, Some (Wrapf ''updating status after mint: %w'' [] err))
     | Inr ec3 \<Rightarrow> do {
         _ \<leftarrow> event r ec3 EventTypeNormal ReasonMintSucceeded
               (Sprintf ''minted credential via %s, expires at %s''
                  [A_str (spec_Provider (ec_Spec ec3)), A_time expiresAt]);
         _ \<leftarrow> revokePrevious r ec3 prov previousHandle;
         let (nextRotateBefore, clamped) =
           clampRotateBefore (requestedRotateBefore ec3) (time_Sub expiresAt t);
         _ \<leftarrow> (if clamped then
                event r ec3 EventTypeWarning ReasonRotationWindowClamped
                  (Sprintf ''rotateBeforeSeconds=%d is too large for the %s lifetime %s actually granted; using %s instead to avoid re-minting on every reconcile''
                    [A_int (sint (spec_RotateBeforeSeconds (ec_Spec ec3))),
                     A_dur (dur_Round (time_Sub expiresAt t) Second),
                     A_str (spec_Provider (ec_Spec ec3)), A_dur (dur_Round nextRotateBefore Second)])
              else State_Monad.return ());
         State_Monad.return
           (\<lparr>res_Requeue = False, res_RequeueAfter = requeueDelay expiresAt nextRotateBefore t\<rparr>, None)
       }
   }"

definition rotateCredential ::
  "'s Reconciler \<Rightarrow> EphemeralCredential \<Rightarrow> 's Provider \<Rightarrow> time \<Rightarrow> ('s, outcome) io" where
  "rotateCredential r ec prov t = do {
     let previousHandle = decodeHandle (map_get_string (om_Annotations (ec_Meta ec)) handleAnnotationKey);
     let isRotation = (st_ExpiresAt (ec_Status ec) \<noteq> None);
     sc \<leftarrow> buildScope (r_Client r) (om_Namespace (ec_Meta ec)) (ec_Spec ec);
     case sc of
       Inl err \<Rightarrow> failStatus r ec ReasonInvalidConfig (ErrorText err) (Some err) True
     | Inr scope \<Rightarrow> do {
         m \<leftarrow> State (prov_Mint prov
               \<lparr>mreq_Scope = scope,
                mreq_TTL = dur_mul (sint (spec_TTLSeconds (ec_Spec ec))) Second,
                mreq_Namespace = om_Namespace (ec_Meta ec),
                mreq_Name = om_Name (ec_Meta ec)\<rparr>);
         case m of
           Inl err \<Rightarrow>
             failStatus r ec (if isRotation then ReasonRotationFailed else ReasonMintFailed)
               (ErrorText err) (Some err) True
         | Inr mint \<Rightarrow> do {
             w \<leftarrow> writeTargetSecret r ec mint;
             case w of
               Some err \<Rightarrow> failStatus r ec ReasonSecretWriteFailed (ErrorText err) (Some err) True
             | None \<Rightarrow>
                 (case encodeHandle (mint_Handle mint) of
                    Inl err \<Rightarrow> finishMint r ec prov t previousHandle mint
                  | Inr encoded \<Rightarrow> do {
                      let ec1 = ec\<lparr>ec_Meta := (ec_Meta ec)\<lparr>om_Annotations :=
                            Some ((map_alloc (om_Annotations (ec_Meta ec)))(handleAnnotationKey \<mapsto> encoded))\<rparr>\<rparr>;
                      u \<leftarrow> State (k_Update_EC (r_Client r) ec1);
                      case u of
                        Inl err \<Rightarrow> State_Monad.return
                          (emptyResult, Some (Wrapf ''persisting new credential handle annotation: %w'' [] err))
                      | Inr ec2 \<Rightarrow> finishMint r ec2 prov t previousHandle mint
                    })
           }
       }
   }"

definition ensureFinalizer :: "'s Reconciler \<Rightarrow> EphemeralCredential \<Rightarrow> ('s, outcome) io" where
  "ensureFinalizer r ec = do {
     u \<leftarrow> State (k_Update_EC (r_Client r)
             (ec\<lparr>ec_Meta := k_AddFinalizer (r_Client r) (ec_Meta ec) FinalizerName\<rparr>));
     case u of
       Inl err \<Rightarrow> State_Monad.return (emptyResult, Some (Wrapf ''adding finalizer: %w'' [] err))
     | Inr ec1 \<Rightarrow>
         if st_State (ec_Status ec1) = StateUnset then do {
           ec2 \<leftarrow> setReadyCondition r (status_update (st_State_update (\<lambda>_. StatePending)) ec1)
                 ConditionFalse ReasonPending (Lit ''accepted; waiting for the first mint'');
           w \<leftarrow> State (k_Status_Update (r_Client r) ec2);
           State_Monad.return
             (case w of
                Inl err \<Rightarrow> (emptyResult, Some (Wrapf ''setting initial Pending status: %w'' [] err))
              | Inr _ \<Rightarrow> (emptyResult\<lparr>res_Requeue := True\<rparr>, None))
         }
         else State_Monad.return (emptyResult\<lparr>res_Requeue := True\<rparr>, None)
   }"

definition deletion_is_zero :: "time option \<Rightarrow> bool" where
  "deletion_is_zero d \<longleftrightarrow> (case d of None \<Rightarrow> True | Some t \<Rightarrow> t = zero_time)"

definition Reconcile :: "'s Reconciler \<Rightarrow> NamespacedName \<Rightarrow> ('s, outcome) io" where
  "Reconcile r req = do {
     g \<leftarrow> State (k_Get_EC (r_Client r) req);
     case g of
       Inl err \<Rightarrow> State_Monad.return
         (if k_IsNotFound (r_Client r) err then (emptyResult, None)
          else (emptyResult, Some (Wrapf ''fetching EphemeralCredential: %w'' [] err)))
     | Inr ec \<Rightarrow>
         if \<not> deletion_is_zero (om_DeletionTimestamp (ec_Meta ec)) then reconcileDelete r ec
         else if \<not> k_ContainsFinalizer (r_Client r) (ec_Meta ec) FinalizerName then ensureFinalizer r ec
         else
           (case Registry_Get (r_Providers r) (spec_Provider (ec_Spec ec)) of
              None \<Rightarrow>
                failStatus r ec ReasonProviderNotFound
                  (Sprintf ''no provider registered for %q -- is it implemented and wired up in cmd/main.go?''
                    [A_str (spec_Provider (ec_Spec ec))])
                  None False
            | Some prov \<Rightarrow> do {
                t \<leftarrow> now r;
                let rotateBefore = fst (clampRotateBefore (requestedRotateBefore ec) (grantedLifetime ec));
                if \<not> needsMint t rotateBefore ec then do {
                  ex \<leftarrow> targetSecretExists r ec;
                  case ex of
                    Inl err \<Rightarrow> State_Monad.return (emptyResult, Some err)
                  | Inr exists \<Rightarrow>
                      if exists then
                        State_Monad.return
                          (\<lparr>res_Requeue = False,
                            res_RequeueAfter =
                              requeueDelay (the (st_ExpiresAt (ec_Status ec))) rotateBefore t\<rparr>, None)
                      else do {
                        _ \<leftarrow> event r ec EventTypeWarning ReasonSecretMissing
                              (Sprintf ''target secret %q was missing; re-minting to restore it''
                                [A_str (ts_Name (spec_TargetSecret (ec_Spec ec)))]);
                        rotateCredential r ec prov t
                      }
                }
                else rotateCredential r ec prov t
              })
   }"

end
