(* ===== verification/Tape.thy ===== *)
theory Tape
  imports Broker_Prelude
begin

text \<open>
  Recording of effects. \<open>rec1 f ev\<close> performs \<open>f\<close> and appends an event, made from its result, to a list that
  is carried along with the state. \<open>emits m \<Phi>\<close> says that a computation \<open>m\<close> only appends to the record, and
  that its result and what it appends satisfy \<open>\<Phi>\<close>, from whatever state it is started; the
  rules \<open>emits_rules\<close> follow the structure of a computation.
\<close>

type_synonym ('s, 'e) tape = "'s \<times> 'e list"

definition rec1 :: "('s, 'a) action \<Rightarrow> ('a \<Rightarrow> 'e) \<Rightarrow> (('s, 'e) tape, 'a) action" where
  "rec1 f ev = (\<lambda>(s, es). case f s of (a, s') \<Rightarrow> (a, (s', es @ [ev a])))"

section \<open>Reasoning about the record\<close>

definition emits :: "(('s, 'e) tape, 'a) io \<Rightarrow> ('a \<Rightarrow> 'e list \<Rightarrow> bool) \<Rightarrow> bool" where
  "emits m \<Phi> \<longleftrightarrow> (\<forall>s es. wp m (\<lambda>a (s', es'). \<exists>new. es' = es @ new \<and> \<Phi> a new) (s, es))"

lemma wp_rec1 [wp_simps]:
  "wp (State (rec1 f ev)) Q (s, es) = (\<forall>a s'. f s = (a, s') \<longrightarrow> Q a (s', es @ [ev a]))"
  by (auto simp: wp_State rec1_def split: prod.splits)

lemma emits_return: "\<Phi> a [] \<Longrightarrow> emits (State_Monad.return a) \<Phi>"
  by (simp add: emits_def wp_simps)

lemma emits_rec1: "(\<And>a. \<Phi> a [ev a]) \<Longrightarrow> emits (State (rec1 f ev)) \<Phi>"
  by (auto simp: emits_def wp_rec1)

lemma emits_bind:
  fixes m :: "(('s, 'e) tape, 'a) io"
  assumes "emits m \<Phi>" and "\<And>a new. \<Phi> a new \<Longrightarrow> emits (f a) (\<lambda>b new'. \<Psi> b (new @ new'))"
  shows "emits (State_Monad.bind m f) \<Psi>"
  unfolding emits_def wp_bind
proof (intro allI)
  fix s es
  have "wp m (\<lambda>a (s', es'). \<exists>new. es' = es @ new \<and> \<Phi> a new) (s, es)"
    using assms(1) by (simp add: emits_def)
  then show "wp m (\<lambda>a. wp (f a) (\<lambda>b (s', es'). \<exists>new. es' = es @ new \<and> \<Psi> b new)) (s, es)"
  proof (rule wp_mono)
    fix a and x :: "('s, 'e) tape"
    assume "case x of (s', es') \<Rightarrow> \<exists>new. es' = es @ new \<and> \<Phi> a new"
    then obtain s' new where x: "x = (s', es @ new)" and new: "\<Phi> a new" by auto
    have "wp (f a) (\<lambda>b (s'', es''). \<exists>new'. es'' = (es @ new) @ new' \<and> \<Psi> b (new @ new')) (s', es @ new)"
      using assms(2) [OF new] unfolding emits_def by blast
    then show "wp (f a) (\<lambda>b (s', es'). \<exists>new. es' = es @ new \<and> \<Psi> b new) x"
      unfolding x by (rule wp_mono) auto
  qed
qed

lemma emits_bind_rec1:
  "(\<And>a. emits (f a) (\<lambda>b new. \<Psi> b (ev a # new))) \<Longrightarrow> emits (State_Monad.bind (State (rec1 g ev)) f) \<Psi>"
  by (rule emits_bind [where \<Phi> = "\<lambda>a new. new = [ev a]"]) (auto intro: emits_rec1)

lemma emits_bind_return: "emits (f a) \<Psi> \<Longrightarrow> emits (State_Monad.bind (State_Monad.return a) f) \<Psi>"
  by (simp add: emits_def wp_simps)

lemma emits_bind_assoc:
  "emits (State_Monad.bind m (\<lambda>a. State_Monad.bind (f a) g)) \<Psi> \<Longrightarrow>
   emits (State_Monad.bind (State_Monad.bind m f) g) \<Psi>"
  by (simp add: emits_def wp_simps)

lemma emits_if:
  "(b \<Longrightarrow> emits m \<Psi>) \<Longrightarrow> (\<not> b \<Longrightarrow> emits n \<Psi>) \<Longrightarrow> emits (if b then m else n) \<Psi>"
  by simp

lemma emits_bind_if:
  "(b \<Longrightarrow> emits (State_Monad.bind m f) \<Psi>) \<Longrightarrow> (\<not> b \<Longrightarrow> emits (State_Monad.bind n f) \<Psi>) \<Longrightarrow>
   emits (State_Monad.bind (if b then m else n) f) \<Psi>"
  by simp

lemma emits_case_sum:
  "(\<And>e. x = Inl e \<Longrightarrow> emits (m e) \<Psi>) \<Longrightarrow> (\<And>y. x = Inr y \<Longrightarrow> emits (n y) \<Psi>) \<Longrightarrow>
   emits (case x of Inl e \<Rightarrow> m e | Inr y \<Rightarrow> n y) \<Psi>"
  by (cases x) auto

lemma emits_case_option:
  "(x = None \<Longrightarrow> emits m \<Psi>) \<Longrightarrow> (\<And>y. x = Some y \<Longrightarrow> emits (n y) \<Psi>) \<Longrightarrow>
   emits (case x of None \<Rightarrow> m | Some y \<Rightarrow> n y) \<Psi>"
  by (cases x) auto

lemma emits_bind_case_option:
  "(x = None \<Longrightarrow> emits (State_Monad.bind m f) \<Psi>) \<Longrightarrow>
   (\<And>y. x = Some y \<Longrightarrow> emits (State_Monad.bind (n y) f) \<Psi>) \<Longrightarrow>
   emits (State_Monad.bind (case x of None \<Rightarrow> m | Some y \<Rightarrow> n y) f) \<Psi>"
  by (cases x) auto

lemmas emits_rules =
  emits_bind_rec1 emits_bind_return emits_bind_assoc emits_if emits_bind_if
  emits_case_sum emits_case_option emits_bind_case_option

lemma emits_mono:
  assumes "emits m \<Phi>" and "\<And>a new. \<Phi> a new \<Longrightarrow> \<Psi> a new"
  shows "emits m \<Psi>"
  unfolding emits_def
proof (intro allI)
  fix s es
  show "wp m (\<lambda>a (s', es'). \<exists>new. es' = es @ new \<and> \<Psi> a new) (s, es)"
    using assms(1) [unfolded emits_def, rule_format, of es s]
    by (rule wp_mono) (use assms(2) in auto)
qed


section \<open>Forgetting the record\<close>

text \<open>\<open>erases m m'\<close>: \<open>m\<close> without its record is \<open>m'\<close>, with the same result and the same final state.\<close>

definition erases :: "(('s, 'e) tape, 'a) io \<Rightarrow> ('s, 'a) io \<Rightarrow> bool" where
  "erases m m' \<longleftrightarrow>
     (\<forall>s es. run_state m' s = (fst (run_state m (s, es)), fst (snd (run_state m (s, es)))))"

lemma erases_return [intro!]: "erases (State_Monad.return a) (State_Monad.return a)"
  by (simp add: erases_def)

lemma erases_rec1 [intro!]: "erases (State (rec1 f ev)) (State f)"
  by (simp add: erases_def rec1_def split: prod.split)

lemma erases_bind [intro!]:
  assumes "erases m m'" and "\<And>a. erases (f a) (f' a)"
  shows "erases (State_Monad.bind m f) (State_Monad.bind m' f')"
proof -
  have "run_state (State_Monad.bind m' f') s =
      (fst (run_state (State_Monad.bind m f) (s, es)), fst (snd (run_state (State_Monad.bind m f) (s, es))))"
    for s es
  proof -
    obtain a s1 es1 where m: "run_state m (s, es) = (a, (s1, es1))" by (metis prod.exhaust)
    have "run_state m' s = (a, s1)" using assms(1) m by (metis erases_def fst_conv snd_conv)
    then show ?thesis using assms(2) [of a] m by (simp add: erases_def)
  qed
  then show ?thesis by (simp add: erases_def)
qed

lemma erases_if [intro!]:
  "(b \<Longrightarrow> erases m m') \<Longrightarrow> (\<not> b \<Longrightarrow> erases n n') \<Longrightarrow> erases (if b then m else n) (if b then m' else n')"
  by simp

lemma erases_case_sum [intro!]:
  "(\<And>e. x = Inl e \<Longrightarrow> erases (m e) (m' e)) \<Longrightarrow> (\<And>y. x = Inr y \<Longrightarrow> erases (n y) (n' y)) \<Longrightarrow>
   erases (case x of Inl e \<Rightarrow> m e | Inr y \<Rightarrow> n y) (case x of Inl e \<Rightarrow> m' e | Inr y \<Rightarrow> n' y)"
  by (cases x) auto

lemma erases_case_option [intro!]:
  "(x = None \<Longrightarrow> erases m m') \<Longrightarrow> (\<And>y. x = Some y \<Longrightarrow> erases (n y) (n' y)) \<Longrightarrow>
   erases (case x of None \<Rightarrow> m | Some y \<Rightarrow> n y) (case x of None \<Rightarrow> m' | Some y \<Rightarrow> n' y)"
  by (cases x) auto

end
