(* ===== verification/Effects.thy ===== *)
theory Effects
  imports Reconciler Tape
begin

text \<open>
  Recording what a reconcile does. \<open>logged r\<close> is the reconciler \<open>r\<close> over the same environment,
  except that every call to the outside (API server, provider, recorder, clock) is appended
  to a list with its arguments and its result. The functions of the theory \<open>Reconciler\<close> run on
  \<open>logged r\<close> unchanged, so a statement about the recorded list, for arbitrary \<open>r\<close>, is a
  statement about the order and the number of effects of the code in every environment:
  any sequence of answers and failures of the API server and of the provider.
\<close>

datatype effect =
    E_GetEC NamespacedName "EphemeralCredential result"
  | E_GetSecret NamespacedName "Secret result"
  | E_UpdateEC EphemeralCredential "EphemeralCredential result"
  | E_StatusUpdate EphemeralCredential "EphemeralCredential result"
  | E_DeleteSecret Secret "go_error option"
  | E_WriteSecret Secret "go_error option"
  | E_Mint string MintRequest "MintResult result"
  | E_Revoke string CredentialHandle "go_error option"
  | E_Event string string msg
  | E_Now time

type_synonym 's log = "('s, effect) tape"

definition logged_k8s :: "'s k8s \<Rightarrow> 's log k8s" where
  "logged_k8s K =
    \<lparr>k_Get_EC = (\<lambda>n. rec1 (k_Get_EC K n) (E_GetEC n)),
     k_Get_Secret = (\<lambda>n. rec1 (k_Get_Secret K n) (E_GetSecret n)),
     k_Update_EC = (\<lambda>ec. rec1 (k_Update_EC K ec) (E_UpdateEC ec)),
     k_Status_Update = (\<lambda>ec. rec1 (k_Status_Update K ec) (E_StatusUpdate ec)),
     k_Delete_Secret = (\<lambda>x. rec1 (k_Delete_Secret K x) (E_DeleteSecret x)),
     k_CreateOrUpdate = (\<lambda>x f. rec1 (k_CreateOrUpdate K x f) (E_WriteSecret x)),
     k_IsNotFound = k_IsNotFound K,
     k_ContainsFinalizer = k_ContainsFinalizer K,
     k_AddFinalizer = k_AddFinalizer K,
     k_RemoveFinalizer = k_RemoveFinalizer K,
     k_SetControllerReference = k_SetControllerReference K,
     k_SetStatusCondition = (\<lambda>cs c (s, es). k_SetStatusCondition K cs c s)\<rparr>"

definition logged_provider :: "'s Provider \<Rightarrow> 's log Provider" where
  "logged_provider p =
    \<lparr>prov_Name = prov_Name p,
     prov_Mint = (\<lambda>q. rec1 (prov_Mint p q) (E_Mint (prov_Name p) q)),
     prov_Revoke = (\<lambda>h. rec1 (prov_Revoke p h) (E_Revoke (prov_Name p) h))\<rparr>"

definition logged_registry :: "'s Registry \<Rightarrow> 's log Registry" where
  "logged_registry reg = \<lparr>reg_providers = (\<lambda>n. map_option logged_provider (reg_providers reg n))\<rparr>"

definition logged_recorder :: "'s EventRecorder \<Rightarrow> 's log EventRecorder" where
  "logged_recorder f = (\<lambda>ec ty re ms (s, es). (f ec ty re ms s, es @ [E_Event ty re ms]))"

definition logged :: "'s Reconciler \<Rightarrow> 's log Reconciler" where
  "logged r =
    \<lparr>r_Client = logged_k8s (r_Client r),
     r_Providers = logged_registry (r_Providers r),
     r_Recorder = map_option logged_recorder (r_Recorder r),
     r_Now = map_option (\<lambda>f. rec1 f E_Now) (r_Now r),
     r_timeNow = rec1 (r_timeNow r) E_Now\<rparr>"

lemma logged_simps [simp]:
  "r_Client (logged r) = logged_k8s (r_Client r)"
  "r_Providers (logged r) = logged_registry (r_Providers r)"
  "k_IsNotFound (logged_k8s K) = k_IsNotFound K"
  "k_ContainsFinalizer (logged_k8s K) = k_ContainsFinalizer K"
  "k_AddFinalizer (logged_k8s K) = k_AddFinalizer K"
  "k_RemoveFinalizer (logged_k8s K) = k_RemoveFinalizer K"
  "k_Get_EC (logged_k8s K) n = rec1 (k_Get_EC K n) (E_GetEC n)"
  "k_Get_Secret (logged_k8s K) n = rec1 (k_Get_Secret K n) (E_GetSecret n)"
  "k_Update_EC (logged_k8s K) ec = rec1 (k_Update_EC K ec) (E_UpdateEC ec)"
  "k_Status_Update (logged_k8s K) ec = rec1 (k_Status_Update K ec) (E_StatusUpdate ec)"
  "k_Delete_Secret (logged_k8s K) x = rec1 (k_Delete_Secret K x) (E_DeleteSecret x)"
  "k_CreateOrUpdate (logged_k8s K) x f = rec1 (k_CreateOrUpdate K x f) (E_WriteSecret x)"
  "prov_Name (logged_provider p) = prov_Name p"
  "prov_Mint (logged_provider p) q = rec1 (prov_Mint p q) (E_Mint (prov_Name p) q)"
  "prov_Revoke (logged_provider p) h = rec1 (prov_Revoke p h) (E_Revoke (prov_Name p) h)"
  "Registry_Get (logged_registry reg) nm = map_option logged_provider (Registry_Get reg nm)"
  by (simp_all add: logged_def logged_k8s_def logged_provider_def logged_registry_def Registry_Get_def)

text \<open>What a reconcile of the request \<open>req\<close> from the environment state \<open>s\<close> does, and how it ends.\<close>

definition effects_of :: "'s Reconciler \<Rightarrow> NamespacedName \<Rightarrow> 's \<Rightarrow> effect list" where
  "effects_of r req s = snd (snd (run_state (Reconcile (logged r) req) (s, [])))"

definition outcome_of :: "'s Reconciler \<Rightarrow> NamespacedName \<Rightarrow> 's \<Rightarrow> outcome" where
  "outcome_of r req s = fst (run_state (Reconcile (logged r) req) (s, []))"

section \<open>Kinds of effects\<close>

fun is_Mint :: "effect \<Rightarrow> bool" where
  "is_Mint (E_Mint n q m) = True" | "is_Mint e = False"

fun is_Revoke :: "effect \<Rightarrow> bool" where
  "is_Revoke (E_Revoke n h e) = True" | "is_Revoke e = False"

fun minted_ok :: "effect \<Rightarrow> bool" where
  "minted_ok (E_Mint n q (Inr m)) = True" | "minted_ok e = False"

fun wrote_ok :: "effect \<Rightarrow> bool" where
  "wrote_ok (E_WriteSecret x None) = True" | "wrote_ok e = False"

fun updated_ok :: "effect \<Rightarrow> bool" where
  "updated_ok (E_UpdateEC x (Inr y)) = True" | "updated_ok e = False"

fun status_ok :: "effect \<Rightarrow> bool" where
  "status_ok (E_StatusUpdate x (Inr y)) = True" | "status_ok e = False"

fun is_UpdateEC :: "effect \<Rightarrow> bool" where
  "is_UpdateEC (E_UpdateEC x y) = True" | "is_UpdateEC e = False"

fun is_StatusUpdate :: "effect \<Rightarrow> bool" where
  "is_StatusUpdate (E_StatusUpdate x y) = True" | "is_StatusUpdate e = False"

fun is_WriteSecret :: "effect \<Rightarrow> bool" where
  "is_WriteSecret (E_WriteSecret x y) = True" | "is_WriteSecret e = False"

fun is_DeleteSecret :: "effect \<Rightarrow> bool" where
  "is_DeleteSecret (E_DeleteSecret x y) = True" | "is_DeleteSecret e = False"

lemma emits_run:
  assumes "emits (Reconcile (logged r) req) \<Phi>"
  shows "\<Phi> (outcome_of r req s) (effects_of r req s)"
proof -
  have "wp (Reconcile (logged r) req) (\<lambda>a (s', es'). \<exists>new. es' = [] @ new \<and> \<Phi> a new) (s, [])"
    using assms unfolding emits_def by blast
  then show ?thesis
    by (auto simp: wp_def outcome_of_def effects_of_def split: prod.splits)
qed

end
