(* ===== verification/Reconcile_Trace.thy ===== *)
theory Reconcile_Trace
  imports Effects
begin

text \<open>
  The protocol a reconcile follows, as a language of effect lists. Each inductive predicate
  describes one function of the reconciler: with which result it can end and what it has then
  done, in order, for every sequence of answers of the environment. \<open>Reconcile_follows\<close> is the
  refinement statement: the code never does anything the protocol does not allow. The
  properties about order and number of effects are consequences of the protocol.
\<close>

section \<open>The protocol\<close>

definition event_trace :: "'s Reconciler \<Rightarrow> string \<Rightarrow> string \<Rightarrow> msg \<Rightarrow> effect list" where
  "event_trace r ty re ms = (if r_Recorder r = None then [] else [E_Event ty re ms])"

definition ready_condition :: "EphemeralCredential \<Rightarrow> string \<Rightarrow> string \<Rightarrow> msg \<Rightarrow> Condition" where
  "ready_condition ec status reason message =
    \<lparr>cond_Type = ConditionReady, cond_Status = status, cond_Reason = reason, cond_Message = message,
     cond_ObservedGeneration = om_Generation (ec_Meta ec), cond_LastTransitionTime = zero_time\<rparr>"

definition with_ready :: "'s k8s \<Rightarrow> EphemeralCredential \<Rightarrow> Condition \<Rightarrow> EphemeralCredential \<Rightarrow> bool" where
  "with_ready K ec c ec' \<longleftrightarrow>
     (\<exists>s. ec' = status_update (st_Conditions_update (\<lambda>cs. k_SetStatusCondition K cs c s)) ec)"

inductive delete_trace :: "'s k8s \<Rightarrow> EphemeralCredential \<Rightarrow> go_error option \<Rightarrow> effect list \<Rightarrow> bool"
  for K ec where
  unnamed: "ts_Name (spec_TargetSecret (ec_Spec ec)) = [] \<Longrightarrow> delete_trace K ec None []"
| absent: "k_IsNotFound K e \<Longrightarrow> delete_trace K ec None [E_GetSecret (target_key ec) (Inl e)]"
| unreadable: "\<not> k_IsNotFound K e \<Longrightarrow> delete_trace K ec (Some e') [E_GetSecret (target_key ec) (Inl e)]"
| deleted: "d = None \<or> (\<exists>e. d = Some e \<and> k_IsNotFound K e) \<Longrightarrow>
    delete_trace K ec None [E_GetSecret (target_key ec) (Inr sec), E_DeleteSecret sec d]"
| refused: "\<not> k_IsNotFound K e \<Longrightarrow>
    delete_trace K ec (Some e') [E_GetSecret (target_key ec) (Inr sec), E_DeleteSecret sec (Some e)]"

inductive probe_trace :: "'s k8s \<Rightarrow> EphemeralCredential \<Rightarrow> bool result \<Rightarrow> effect list \<Rightarrow> bool"
  for K ec where
  unnamed: "ts_Name (spec_TargetSecret (ec_Spec ec)) = [] \<Longrightarrow> probe_trace K ec (Inr False) []"
| missing: "k_IsNotFound K e \<Longrightarrow> probe_trace K ec (Inr False) [E_GetSecret (target_key ec) (Inl e)]"
| unknown: "\<not> k_IsNotFound K e \<Longrightarrow> probe_trace K ec (Inl e') [E_GetSecret (target_key ec) (Inl e)]"
| present: "ts_Name (spec_TargetSecret (ec_Spec ec)) \<noteq> [] \<Longrightarrow>
    probe_trace K ec (Inr True) [E_GetSecret (target_key ec) (Inr sec)]"

text \<open>The status a failed attempt reports at the instant \<open>t\<close>, and the deletion that precedes it.\<close>

inductive fail_report ::
  "'s k8s \<Rightarrow> EphemeralCredential \<Rightarrow> string \<Rightarrow> msg \<Rightarrow> time \<Rightarrow> effect list \<Rightarrow> EphemeralCredential \<Rightarrow> bool"
  for K ec reason message t where
  still_valid: "st_ExpiresAt (ec_Status ec) = Some e \<Longrightarrow> time_Before t e \<Longrightarrow>
    with_ready K (status_update (st_State_update (\<lambda>_. StateExpiring)) ec)
      (ready_condition ec ConditionTrue ReasonRotationFailed m) ec' \<Longrightarrow>
    fail_report K ec reason message t [] ec'"
| expired: "st_ExpiresAt (ec_Status ec) = Some e \<Longrightarrow> \<not> time_Before t e \<Longrightarrow> delete_trace K ec d del \<Longrightarrow>
    with_ready K (status_update (st_State_update (\<lambda>_. StateFailed)) ec)
      (ready_condition ec ConditionFalse reason message) ec' \<Longrightarrow>
    fail_report K ec reason message t del ec'"
| nothing_minted: "st_ExpiresAt (ec_Status ec) = None \<Longrightarrow>
    with_ready K (status_update (st_State_update (\<lambda>_. StateFailed)) ec)
      (ready_condition ec ConditionFalse reason message) ec' \<Longrightarrow>
    fail_report K ec reason message t [] ec'"

inductive fail_trace ::
  "'s Reconciler \<Rightarrow> EphemeralCredential \<Rightarrow> string \<Rightarrow> msg \<Rightarrow> go_error option \<Rightarrow> bool \<Rightarrow> outcome \<Rightarrow> effect list \<Rightarrow> bool"
  for r ec reason message cause retryable where
  unrecorded: "fail_report (r_Client r) ec reason message t del ec' \<Longrightarrow>
    fail_trace r ec reason message cause retryable (emptyResult, Some e')
      (E_Now t # del @ [E_StatusUpdate ec' (Inl e)])"
| recorded: "fail_report (r_Client r) ec reason message t del ec' \<Longrightarrow>
    err = (if \<not> retryable then None else case cause of Some c \<Rightarrow> Some c | None \<Rightarrow> Some (ErrNew message)) \<Longrightarrow>
    fail_trace r ec reason message cause retryable (emptyResult, err)
      (E_Now t # del @ E_StatusUpdate ec' (Inr ec'') # event_trace r EventTypeWarning reason message)"

inductive revoke_trace :: "'s Reconciler \<Rightarrow> 's Provider \<Rightarrow> CredentialHandle option \<Rightarrow> effect list \<Rightarrow> bool"
  for r prov where
  no_handle: "revoke_trace r prov None []"
| foreign: "h_ProviderName h \<noteq> prov_Name prov \<Longrightarrow> revoke_trace r prov (Some h) []"
| revoked: "h_ProviderName h = prov_Name prov \<Longrightarrow> e = None \<or> (\<exists>x. e = Some x \<and> errors_Is_ErrNoRevoke x) \<Longrightarrow>
    revoke_trace r prov (Some h) [E_Revoke (prov_Name prov) h e]"
| not_revoked: "h_ProviderName h = prov_Name prov \<Longrightarrow> \<not> errors_Is_ErrNoRevoke e \<Longrightarrow>
    revoke_trace r prov (Some h)
      (E_Revoke (prov_Name prov) h (Some e) # event_trace r EventTypeWarning ReasonRevokeFailed (ErrorText e))"

definition minted_status :: "EphemeralCredential \<Rightarrow> time \<Rightarrow> MintResult \<Rightarrow> EphemeralCredential" where
  "minted_status ec t mint =
     ec\<lparr>ec_Status := (ec_Status ec)\<lparr>st_State := StateActive, st_ExpiresAt := Some (mint_ExpiresAt mint),
       st_LastRotatedAt := Some t, st_ObservedGeneration := om_Generation (ec_Meta ec)\<rparr>\<rparr>"

inductive finish_trace ::
  "'s Reconciler \<Rightarrow> EphemeralCredential \<Rightarrow> 's Provider \<Rightarrow> time \<Rightarrow> CredentialHandle option \<Rightarrow> MintResult \<Rightarrow>
     outcome \<Rightarrow> effect list \<Rightarrow> bool"
  for r ec prov t prev mint where
  unrecorded: "with_ready (r_Client r) (minted_status ec t mint)
      (ready_condition ec ConditionTrue ReasonMintSucceeded m) ec' \<Longrightarrow>
    finish_trace r ec prov t prev mint (emptyResult, Some e') [E_StatusUpdate ec' (Inl e)]"
| recorded: "with_ready (r_Client r) (minted_status ec t mint)
      (ready_condition ec ConditionTrue ReasonMintSucceeded m) ec' \<Longrightarrow>
    revoke_trace r prov prev rv \<Longrightarrow>
    window = clampRotateBefore (requestedRotateBefore ec'') (time_Sub (mint_ExpiresAt mint) t) \<Longrightarrow>
    \<not> snd window \<Longrightarrow>
    finish_trace r ec prov t prev mint
      (\<lparr>res_Requeue = False, res_RequeueAfter = requeueDelay (mint_ExpiresAt mint) (fst window) t\<rparr>, None)
      (E_StatusUpdate ec' (Inr ec'') # event_trace r EventTypeNormal ReasonMintSucceeded mm @ rv)"
| clamped: "with_ready (r_Client r) (minted_status ec t mint)
      (ready_condition ec ConditionTrue ReasonMintSucceeded m) ec' \<Longrightarrow>
    revoke_trace r prov prev rv \<Longrightarrow>
    window = clampRotateBefore (requestedRotateBefore ec'') (time_Sub (mint_ExpiresAt mint) t) \<Longrightarrow>
    snd window \<Longrightarrow>
    finish_trace r ec prov t prev mint
      (\<lparr>res_Requeue = False, res_RequeueAfter = requeueDelay (mint_ExpiresAt mint) (fst window) t\<rparr>, None)
      (E_StatusUpdate ec' (Inr ec'') # event_trace r EventTypeNormal ReasonMintSucceeded mm @ rv @
       event_trace r EventTypeWarning ReasonRotationWindowClamped cm)"

text \<open>Reading the provider configuration: at most one read of the referenced Secret.\<close>

inductive scope_trace :: "string \<Rightarrow> EphemeralCredentialSpec \<Rightarrow> any_scope result \<Rightarrow> effect list \<Rightarrow> bool"
  for ns spec where
  unconfigured: "scope_trace ns spec (Inl e) []"
| unusable: "pc_GitHub (spec_ProviderConfig spec) = Some cfg \<Longrightarrow>
    scope_trace ns spec (Inl e) [E_GetSecret (ns, lor_Name (gh_AppConfigRef cfg)) g]"
| built: "spec_Provider spec = ProviderGitHubApp \<Longrightarrow> pc_GitHub (spec_ProviderConfig spec) = Some cfg \<Longrightarrow>
    map_get (sec_Data sec) ''appId'' = Some a \<Longrightarrow> a \<noteq> [] \<Longrightarrow>
    map_get (sec_Data sec) ''privateKey'' = Some k \<Longrightarrow> k \<noteq> [] \<Longrightarrow>
    scope_trace ns spec
      (Inr (ScopeGitHub \<lparr>scope_AppID = a, scope_PrivateKeyPEM = k,
         scope_Repositories = gh_Repositories cfg, scope_Permissions = gh_Permissions cfg\<rparr>))
      [E_GetSecret (ns, lor_Name (gh_AppConfigRef cfg)) (Inr sec)]"

definition mint_request :: "EphemeralCredential \<Rightarrow> any_scope \<Rightarrow> MintRequest" where
  "mint_request ec scope =
    \<lparr>mreq_Scope = scope, mreq_TTL = dur_mul (sint (spec_TTLSeconds (ec_Spec ec))) Second,
     mreq_Namespace = om_Namespace (ec_Meta ec), mreq_Name = om_Name (ec_Meta ec)\<rparr>"

definition with_handle :: "EphemeralCredential \<Rightarrow> string \<Rightarrow> EphemeralCredential" where
  "with_handle ec encoded =
     ec\<lparr>ec_Meta := (ec_Meta ec)\<lparr>om_Annotations :=
       Some ((map_alloc (om_Annotations (ec_Meta ec)))(handleAnnotationKey \<mapsto> encoded))\<rparr>\<rparr>"

abbreviation stored_handle_of :: "EphemeralCredential \<Rightarrow> CredentialHandle option" where
  "stored_handle_of ec \<equiv> decodeHandle (map_get_string (om_Annotations (ec_Meta ec)) handleAnnotationKey)"

inductive rotate_trace ::
  "'s Reconciler \<Rightarrow> EphemeralCredential \<Rightarrow> 's Provider \<Rightarrow> time \<Rightarrow> outcome \<Rightarrow> effect list \<Rightarrow> bool"
  for r ec prov t where
  bad_config: "scope_trace (om_Namespace (ec_Meta ec)) (ec_Spec ec) (Inl e) sc \<Longrightarrow>
    fail_trace r ec ReasonInvalidConfig (ErrorText e) (Some e) True out fl \<Longrightarrow>
    rotate_trace r ec prov t out (sc @ fl)"
| mint_failed: "scope_trace (om_Namespace (ec_Meta ec)) (ec_Spec ec) (Inr scope) sc \<Longrightarrow>
    reason = (if st_ExpiresAt (ec_Status ec) \<noteq> None then ReasonRotationFailed else ReasonMintFailed) \<Longrightarrow>
    fail_trace r ec reason (ErrorText e) (Some e) True out fl \<Longrightarrow>
    rotate_trace r ec prov t out (sc @ E_Mint (prov_Name prov) (mint_request ec scope) (Inl e) # fl)"
| write_failed: "scope_trace (om_Namespace (ec_Meta ec)) (ec_Spec ec) (Inr scope) sc \<Longrightarrow>
    fail_trace r ec ReasonSecretWriteFailed (ErrorText e') (Some e') True out fl \<Longrightarrow>
    rotate_trace r ec prov t out
      (sc @ E_Mint (prov_Name prov) (mint_request ec scope) (Inr mint) #
       E_WriteSecret (newTargetSecret ec) (Some e) # fl)"
| handle_lost: "scope_trace (om_Namespace (ec_Meta ec)) (ec_Spec ec) (Inr scope) sc \<Longrightarrow>
    encodeHandle (mint_Handle mint) = Inr encoded \<Longrightarrow>
    rotate_trace r ec prov t (emptyResult, Some e')
      (sc @ [E_Mint (prov_Name prov) (mint_request ec scope) (Inr mint),
             E_WriteSecret (newTargetSecret ec) None,
             E_UpdateEC (with_handle ec encoded) (Inl e)])"
| minted: "scope_trace (om_Namespace (ec_Meta ec)) (ec_Spec ec) (Inr scope) sc \<Longrightarrow>
    encodeHandle (mint_Handle mint) = Inr encoded \<Longrightarrow>
    finish_trace r ec' prov t (stored_handle_of ec) mint out fin \<Longrightarrow>
    rotate_trace r ec prov t out
      (sc @ E_Mint (prov_Name prov) (mint_request ec scope) (Inr mint) #
       E_WriteSecret (newTargetSecret ec) None #
       E_UpdateEC (with_handle ec encoded) (Inr ec') # fin)"

text \<open>The last revocation: of the stored handle, by the registered provider, if both exist and match.\<close>

inductive last_revoke :: "'s Reconciler \<Rightarrow> EphemeralCredential \<Rightarrow> effect list \<Rightarrow> bool"
  for r ec where
  impossible: "Registry_Get (r_Providers r) (spec_Provider (ec_Spec ec)) = None \<or> stored_handle_of ec = None \<or>
      (\<exists>prov h. Registry_Get (r_Providers r) (spec_Provider (ec_Spec ec)) = Some prov \<and>
         stored_handle_of ec = Some h \<and> h_ProviderName h \<noteq> prov_Name prov) \<Longrightarrow>
    last_revoke r ec []"
| attempted: "Registry_Get (r_Providers r) (spec_Provider (ec_Spec ec)) = Some prov \<Longrightarrow>
    stored_handle_of ec = Some h \<Longrightarrow> h_ProviderName h = prov_Name prov \<Longrightarrow>
    last_revoke r ec [E_Revoke (prov_Name prov) h e]"

inductive remove_trace :: "'s Reconciler \<Rightarrow> EphemeralCredential \<Rightarrow> outcome \<Rightarrow> effect list \<Rightarrow> bool"
  for r ec where
  no_finalizer: "\<not> k_ContainsFinalizer (r_Client r) (ec_Meta ec) FinalizerName \<Longrightarrow>
    remove_trace r ec (emptyResult, None) []"
| kept: "k_ContainsFinalizer (r_Client r) (ec_Meta ec) FinalizerName \<Longrightarrow>
    last_revoke r ec rv \<Longrightarrow> delete_trace (r_Client r) ec (Some e) del \<Longrightarrow>
    remove_trace r ec (emptyResult, Some e) (rv @ del)"
| released: "k_ContainsFinalizer (r_Client r) (ec_Meta ec) FinalizerName \<Longrightarrow>
    last_revoke r ec rv \<Longrightarrow> delete_trace (r_Client r) ec None del \<Longrightarrow>
    out = (case u of Inl e \<Rightarrow> (emptyResult, Some (Wrapf ''removing finalizer: %w'' [] e))
                   | Inr _ \<Rightarrow> (emptyResult, None)) \<Longrightarrow>
    remove_trace r ec out
      (rv @ del @ [E_UpdateEC (ec\<lparr>ec_Meta := k_RemoveFinalizer (r_Client r) (ec_Meta ec) FinalizerName\<rparr>) u])"


inductive finalizer_trace :: "'s Reconciler \<Rightarrow> EphemeralCredential \<Rightarrow> outcome \<Rightarrow> effect list \<Rightarrow> bool"
  for r ec where
  rejected: "finalizer_trace r ec (emptyResult, Some e')
    [E_UpdateEC (ec\<lparr>ec_Meta := k_AddFinalizer (r_Client r) (ec_Meta ec) FinalizerName\<rparr>) (Inl e)]"
| known: "st_State (ec_Status ec') \<noteq> StateUnset \<Longrightarrow>
    finalizer_trace r ec (emptyResult\<lparr>res_Requeue := True\<rparr>, None)
      [E_UpdateEC (ec\<lparr>ec_Meta := k_AddFinalizer (r_Client r) (ec_Meta ec) FinalizerName\<rparr>) (Inr ec')]"
| pending: "st_State (ec_Status ec') = StateUnset \<Longrightarrow>
    with_ready (r_Client r) (status_update (st_State_update (\<lambda>_. StatePending)) ec')
      (ready_condition ec' ConditionFalse ReasonPending m) ec'' \<Longrightarrow>
    out = (case u of Inl e \<Rightarrow> (emptyResult, Some (Wrapf ''setting initial Pending status: %w'' [] e))
                   | Inr _ \<Rightarrow> (emptyResult\<lparr>res_Requeue := True\<rparr>, None)) \<Longrightarrow>
    finalizer_trace r ec out
      [E_UpdateEC (ec\<lparr>ec_Meta := k_AddFinalizer (r_Client r) (ec_Meta ec) FinalizerName\<rparr>) (Inr ec'),
       E_StatusUpdate ec'' u]"

text \<open>The effective rotation window of a fetched resource.\<close>

abbreviation effective_window :: "EphemeralCredential \<Rightarrow> duration" where
  "effective_window ec \<equiv> fst (clampRotateBefore (requestedRotateBefore ec) (grantedLifetime ec))"

abbreviation live :: "'s Reconciler \<Rightarrow> EphemeralCredential \<Rightarrow> bool" where
  "live r ec \<equiv> deletion_is_zero (om_DeletionTimestamp (ec_Meta ec)) \<and>
     k_ContainsFinalizer (r_Client r) (ec_Meta ec) FinalizerName"

inductive reconcile_trace :: "'s Reconciler \<Rightarrow> NamespacedName \<Rightarrow> outcome \<Rightarrow> effect list \<Rightarrow> bool"
  for r req where
  gone: "k_IsNotFound (r_Client r) e \<Longrightarrow>
    reconcile_trace r req (emptyResult, None) [E_GetEC req (Inl e)]"
| unreachable: "\<not> k_IsNotFound (r_Client r) e \<Longrightarrow>
    reconcile_trace r req (emptyResult, Some e') [E_GetEC req (Inl e)]"
| deleting: "\<not> deletion_is_zero (om_DeletionTimestamp (ec_Meta ec)) \<Longrightarrow> remove_trace r ec out es \<Longrightarrow>
    reconcile_trace r req out (E_GetEC req (Inr ec) # es)"
| unprotected: "deletion_is_zero (om_DeletionTimestamp (ec_Meta ec)) \<Longrightarrow>
    \<not> k_ContainsFinalizer (r_Client r) (ec_Meta ec) FinalizerName \<Longrightarrow> finalizer_trace r ec out es \<Longrightarrow>
    reconcile_trace r req out (E_GetEC req (Inr ec) # es)"
| unregistered: "live r ec \<Longrightarrow> Registry_Get (r_Providers r) (spec_Provider (ec_Spec ec)) = None \<Longrightarrow>
    fail_trace r ec ReasonProviderNotFound m None False out es \<Longrightarrow>
    reconcile_trace r req out (E_GetEC req (Inr ec) # es)"
| due: "live r ec \<Longrightarrow> Registry_Get (r_Providers r) (spec_Provider (ec_Spec ec)) = Some prov \<Longrightarrow>
    needsMint t (effective_window ec) ec \<Longrightarrow> rotate_trace r ec prov t out es \<Longrightarrow>
    reconcile_trace r req out (E_GetEC req (Inr ec) # E_Now t # es)"
| unprobed: "live r ec \<Longrightarrow> Registry_Get (r_Providers r) (spec_Provider (ec_Spec ec)) = Some prov \<Longrightarrow>
    \<not> needsMint t (effective_window ec) ec \<Longrightarrow> probe_trace (r_Client r) ec (Inl e) pr \<Longrightarrow>
    reconcile_trace r req (emptyResult, Some e) (E_GetEC req (Inr ec) # E_Now t # pr)"
| healthy: "live r ec \<Longrightarrow> Registry_Get (r_Providers r) (spec_Provider (ec_Spec ec)) = Some prov \<Longrightarrow>
    \<not> needsMint t (effective_window ec) ec \<Longrightarrow> probe_trace (r_Client r) ec (Inr True) pr \<Longrightarrow>
    reconcile_trace r req
      (\<lparr>res_Requeue = False,
        res_RequeueAfter = requeueDelay (the (st_ExpiresAt (ec_Status ec))) (effective_window ec) t\<rparr>, None)
      (E_GetEC req (Inr ec) # E_Now t # pr)"
| repair: "live r ec \<Longrightarrow> Registry_Get (r_Providers r) (spec_Provider (ec_Spec ec)) = Some prov \<Longrightarrow>
    \<not> needsMint t (effective_window ec) ec \<Longrightarrow> probe_trace (r_Client r) ec (Inr False) pr \<Longrightarrow>
    rotate_trace r ec prov t out es \<Longrightarrow>
    reconcile_trace r req out
      (E_GetEC req (Inr ec) # E_Now t # pr @ event_trace r EventTypeWarning ReasonSecretMissing m @ es)"

section \<open>The code follows the protocol\<close>

lemma emits_now: "emits (now (logged r)) (\<lambda>t new. new = [E_Now t])"
  by (auto simp: now_def logged_def intro: emits_rec1 split: option.split)

lemma emits_event:
  "emits (event (logged r) ec ty re ms) (\<lambda>_ new. new = event_trace r ty re ms)"
  by (auto simp: event_def logged_def logged_recorder_def event_trace_def emits_def wp_simps split: option.split)

lemma emits_setReady:
  "emits (setReadyCondition (logged r) ec status reason message)
     (\<lambda>ec' new. new = [] \<and> with_ready (r_Client r) ec (ready_condition ec status reason message) ec')"
  by (auto simp: emits_def setReadyCondition_def wp_simps with_ready_def ready_condition_def logged_def logged_k8s_def)

lemma emits_now_then:
  "(\<And>t. emits (f t) (\<lambda>b new. \<Psi> b (E_Now t # new))) \<Longrightarrow> emits (State_Monad.bind (now (logged r)) f) \<Psi>"
  by (rule emits_bind [OF emits_now]) simp

lemma emits_event_then:
  "(emits (f ()) (\<lambda>b new. \<Psi> b (event_trace r ty re ms @ new))) \<Longrightarrow>
   emits (State_Monad.bind (event (logged r) ec ty re ms) f) \<Psi>"
  by (rule emits_bind [OF emits_event]) simp

lemma emits_ready_then:
  "(\<And>ec'. with_ready (r_Client r) ec (ready_condition ec status reason message) ec' \<Longrightarrow> emits (f ec') \<Psi>) \<Longrightarrow>
   emits (State_Monad.bind (setReadyCondition (logged r) ec status reason message) f) \<Psi>"
  by (rule emits_bind [OF emits_setReady]) simp

lemmas emits_steps = emits_now_then emits_event_then emits_ready_then

lemma emits_deleteTargetSecret:
  "emits (deleteTargetSecret (logged r) ec) (delete_trace (r_Client r) ec)"
  unfolding deleteTargetSecret_def logged_simps
  by (intro emits_rules emits_return) (auto intro: delete_trace.intros split: option.split)

lemma ready_condition_status [simp]:
  "ready_condition (ec\<lparr>ec_Status := st\<rparr>) = ready_condition ec"
  "ready_condition (minted_status ec t mint) = ready_condition ec"
  by (simp_all add: ready_condition_def minted_status_def fun_eq_iff)

lemma fail_recorded:
  assumes "fail_report (r_Client r) ec reason message t del ec'"
    and "out = (if \<not> retryable then (emptyResult, None)
                else case cause of Some c \<Rightarrow> (emptyResult, Some c) | None \<Rightarrow> (emptyResult, Some (ErrNew message)))"
  shows "fail_trace r ec reason message cause retryable out
    (E_Now t # del @ E_StatusUpdate ec' (Inr ec'') # event_trace r EventTypeWarning reason message)"
  using fail_trace.recorded [OF assms(1) refl, where cause = cause and retryable = retryable and ec'' = ec''] by (auto simp: assms(2) split: option.splits if_splits)

lemmas fail_leaves = fail_trace.unrecorded fail_recorded
  fail_trace.unrecorded [where del = "[]", unfolded append_Nil] fail_recorded [where del = "[]", unfolded append_Nil]

lemma emits_failStatus:
  "emits (failStatus (logged r) ec reason message cause retryable)
     (fail_trace r ec reason message cause retryable)"
  unfolding failStatus_def logged_simps
  by (intro emits_rules emits_steps emits_return emits_bind [OF emits_deleteTargetSecret])
     (auto intro!: fail_leaves intro: fail_report.intros)

lemma emits_revokePrevious:
  "emits (revokePrevious (logged r) ec (logged_provider prov) prev) (\<lambda>_. revoke_trace r prov prev)"
  unfolding revokePrevious_def logged_simps
  by (intro emits_rules emits_return emits_mono [OF emits_event])
     (auto intro: revoke_trace.intros)


lemma emits_finishMint:
  "emits (finishMint (logged r) ec (logged_provider prov) t prev mint) (finish_trace r ec prov t prev mint)"
  unfolding finishMint_def logged_simps Let_def case_prod_unfold minted_status_def [symmetric]
  by (intro emits_rules emits_steps emits_return emits_bind [OF emits_revokePrevious])
     (auto intro: finish_trace.intros)

lemma emits_buildScope:
  "emits (buildScope (logged_k8s K) ns spec) (scope_trace ns spec)"
  unfolding buildScope_def buildGitHubScope_def logged_simps Let_def
  by (intro emits_rules emits_return)
     (auto intro: scope_trace.intros split: sum.split option.split)

lemma emits_writeTargetSecret:
  "emits (writeTargetSecret (logged r) ec mint)
     (\<lambda>w new. \<exists>e. new = [E_WriteSecret (newTargetSecret ec) e] \<and> (w = None \<longleftrightarrow> e = None))"
  unfolding writeTargetSecret_def logged_simps
  by (intro emits_rules emits_return) (auto split: option.split)

lemma emits_targetSecretExists:
  "emits (targetSecretExists (logged r) ec) (probe_trace (r_Client r) ec)"
  unfolding targetSecretExists_def logged_simps
  by (intro emits_rules emits_return) (auto intro: probe_trace.intros split: sum.split)

lemma emits_ensureFinalizer:
  "emits (ensureFinalizer (logged r) ec) (finalizer_trace r ec)"
  unfolding ensureFinalizer_def logged_simps
  by (intro emits_rules emits_steps emits_return)
     (auto intro: finalizer_trace.intros)

lemma emits_last_revoke:
  "emits (case Registry_Get (logged_registry (r_Providers r)) (spec_Provider (ec_Spec ec)) of
       None \<Rightarrow> State_Monad.return None
     | Some prov \<Rightarrow>
         (case stored_handle_of ec of
            None \<Rightarrow> State_Monad.return None
          | Some handle \<Rightarrow>
              if h_ProviderName handle = prov_Name prov then State (prov_Revoke prov handle)
              else State_Monad.return None))
     (\<lambda>_. last_revoke r ec)"
  by (intro emits_rules emits_return) (auto intro!: emits_rec1 intro: last_revoke.intros)

lemma emits_reconcileDelete:
  "emits (reconcileDelete (logged r) ec) (remove_trace r ec)"
  unfolding reconcileDelete_def logged_simps(1-6)
  apply (rule emits_if)
   apply (auto intro: emits_return remove_trace.intros) [1]
  apply (rule emits_bind [OF emits_last_revoke], rule emits_bind [OF emits_deleteTargetSecret])
  apply (rule emits_case_option)
   apply (auto intro!: emits_bind_rec1 emits_return remove_trace.released) [1]
  apply (auto intro!: emits_return simp: remove_trace.kept)
  done

lemma emits_rotateCredential:
  "emits (rotateCredential (logged r) ec (logged_provider prov) t) (rotate_trace r ec prov t)"
  unfolding rotateCredential_def logged_simps Let_def mint_request_def [symmetric] with_handle_def [symmetric]
  apply (rule emits_bind [OF emits_buildScope], rule emits_case_sum)
   apply (auto intro: emits_mono [OF emits_failStatus] rotate_trace.bad_config) [1]
  by (intro emits_rules emits_return emits_bind [OF emits_writeTargetSecret]
      emits_mono [OF emits_failStatus] emits_mono [OF emits_finishMint])
     (auto intro: rotate_trace.intros)

lemma Reconcile_after_fetch:
  "\<exists>f. Reconcile (logged r) req =
       State_Monad.bind (State (rec1 (k_Get_EC (r_Client r) req) (E_GetEC req))) f \<and>
     (\<forall>x. emits (f x) (\<lambda>out es. reconcile_trace r req out (E_GetEC req x # es)))"
  unfolding Reconcile_def logged_simps(1,3-7) Let_def
  apply (intro exI conjI allI, rule refl)
  by (intro emits_rules emits_return emits_mono [OF emits_failStatus] emits_mono [OF emits_reconcileDelete]
      emits_mono [OF emits_ensureFinalizer] emits_bind [OF emits_targetSecretExists] emits_steps)
     (auto intro: reconcile_trace.intros intro!: emits_mono [OF emits_rotateCredential])

lemma Reconcile_follows: "emits (Reconcile (logged r) req) (reconcile_trace r req)"
  using Reconcile_after_fetch [of r req] by (auto intro!: emits_bind_rec1)

text \<open>The first effect is the fetch, with the answer the API server gives in the initial state.\<close>

lemma fetch_first:
  assumes "k_Get_EC (r_Client r) req s = (x, s')"
  shows "\<exists>es. effects_of r req s = E_GetEC req x # es \<and>
    reconcile_trace r req (outcome_of r req s) (E_GetEC req x # es)"
proof -
  obtain f where R: "Reconcile (logged r) req =
       State_Monad.bind (State (rec1 (k_Get_EC (r_Client r) req) (E_GetEC req))) f"
    and f: "emits (f x) (\<lambda>out es. reconcile_trace r req out (E_GetEC req x # es))"
    using Reconcile_after_fetch by blast
  have "wp (f x) (\<lambda>out (s'', es'). \<exists>new. es' = [E_GetEC req x] @ new \<and>
      reconcile_trace r req out (E_GetEC req x # new)) (s', [E_GetEC req x])"
    using f unfolding emits_def by blast
  then show ?thesis
    using assms by (auto simp: effects_of_def outcome_of_def R rec1_def wp_def split: prod.splits)
qed

end
