(* ===== verification/Api_Server.thy ===== *)
theory Api_Server
  imports Reconciler
begin

text \<open>
  What the reconciler relies on of the Kubernetes API server and client libraries, as the
  laws of the locale \<open>cluster\<close>, and an in-memory API server that satisfies them.

  \<open>ecs s\<close> and \<open>secs s\<close> are the resources and Secrets stored in the state \<open>s\<close>. The laws are those of
  the API conventions: a successful write stores what was sent (\<open>Update\<close> everything but the status,
  \<open>Status().Update\<close> only the status, with times in whole seconds), bumps neither the generation nor
  the other parts, and is accepted only for the current version of the object; a failed write and
  a read store nothing; a Secret is gone once its deletion is accepted, or, if it carries finalizers, marked as deleted;
  \<open>CreateOrUpdate\<close> applies the callback to the stored Secret, or to the given one if none is stored.
\<close>

section \<open>The laws\<close>

definition wire_time :: "time \<Rightarrow> time" where
  "wire_time t = t div Second * Second"

lemma wire_time_bounds: "wire_time t \<le> t" "t - Second < wire_time t"
  using div_mult_mod_eq [of t Second] pos_mod_bound [of Second t] pos_mod_sign [of Second t]
  by (simp_all add: wire_time_def Second_def)

text \<open>The Ready condition of a resource: status, reason, message.\<close>

definition ready_of :: "EphemeralCredential \<Rightarrow> (string \<times> string \<times> msg) option" where
  "ready_of ec =
     map_option (\<lambda>c. (cond_Status c, cond_Reason c, cond_Message c))
       (find (\<lambda>c. cond_Type c = ConditionReady) (st_Conditions (ec_Status ec)))"

text \<open>What a status write leaves of the resource: all but the status and the version.\<close>

definition same_object :: "EphemeralCredential \<Rightarrow> EphemeralCredential \<Rightarrow> bool" where
  "same_object ec ec' \<longleftrightarrow>
     ec_Spec ec' = ec_Spec ec \<and>
     ec_Meta ec' = (ec_Meta ec)\<lparr>om_ResourceVersion := om_ResourceVersion (ec_Meta ec')\<rparr>"

lemma same_object_fields:
  assumes "same_object ec ec'"
  shows "ec_key ec' = ec_key ec" "om_Generation (ec_Meta ec') = om_Generation (ec_Meta ec)"
    "om_Annotations (ec_Meta ec') = om_Annotations (ec_Meta ec)" "om_Finalizers (ec_Meta ec') = om_Finalizers (ec_Meta ec)"
    "ec_Spec ec' = ec_Spec ec"
proof -
  obtain v where "ec_Meta ec' = (ec_Meta ec)\<lparr>om_ResourceVersion := v\<rparr>" and spec: "ec_Spec ec' = ec_Spec ec"
    using assms unfolding same_object_def by blast
  then show "ec_key ec' = ec_key ec" "om_Generation (ec_Meta ec') = om_Generation (ec_Meta ec)"
    "om_Annotations (ec_Meta ec') = om_Annotations (ec_Meta ec)" "om_Finalizers (ec_Meta ec') = om_Finalizers (ec_Meta ec)"
    "ec_Spec ec' = ec_Spec ec"
    by (simp_all add: object_key_def)
qed

definition same_status :: "EphemeralCredential \<Rightarrow> EphemeralCredential \<Rightarrow> bool" where
  "same_status ec ec' \<longleftrightarrow>
     st_State (ec_Status ec') = st_State (ec_Status ec) \<and>
     st_ObservedGeneration (ec_Status ec') = st_ObservedGeneration (ec_Status ec) \<and>
     st_ExpiresAt (ec_Status ec') = map_option wire_time (st_ExpiresAt (ec_Status ec)) \<and>
     st_LastRotatedAt (ec_Status ec') = map_option wire_time (st_LastRotatedAt (ec_Status ec)) \<and>
     ready_of ec' = ready_of ec"

definition same_secret :: "Secret \<Rightarrow> Secret \<Rightarrow> bool" where
  "same_secret x y \<longleftrightarrow> sec_Data y = sec_Data x \<and> sec_Type y = sec_Type x \<and>
     om_Annotations (sec_Meta y) = om_Annotations (sec_Meta x)"

text \<open>
  What an accepted deletion makes of a Secret: one without finalizers is gone, one with finalizers stays with a deletion
  timestamp until whoever set them lets it go.
\<close>

definition after_delete :: "Secret option \<Rightarrow> Secret option \<Rightarrow> bool" where
  "after_delete x y \<longleftrightarrow>
     (case x of
        None \<Rightarrow> y = None
      | Some v \<Rightarrow>
          if om_Finalizers (sec_Meta v) = [] then y = None
          else (\<exists>z. y = Some z \<and> sec_key z = sec_key v \<and> om_DeletionTimestamp (sec_Meta z) \<noteq> None))"

lemma after_delete_None [simp]: "after_delete None y \<longleftrightarrow> y = None"
  by (simp add: after_delete_def)

text \<open>The condition list: the last report of a condition is the one that is read.\<close>

locale conditions =
  fixes K :: "'s k8s"
  assumes set_condition: "cond_Type c = ConditionReady \<Longrightarrow>
      ready_of (status_update (st_Conditions_update (\<lambda>cs. k_SetStatusCondition K cs c s)) ec) =
        Some (cond_Status c, cond_Reason c, cond_Message c)"

locale cluster = conditions K for K :: "'s k8s" +
  fixes ecs :: "'s \<Rightarrow> NamespacedName \<Rightarrow> EphemeralCredential option"
    and secs :: "'s \<Rightarrow> NamespacedName \<Rightarrow> Secret option"
  assumes get_ec: "k_Get_EC K n s = (x, s') \<Longrightarrow> ecs s' = ecs s \<and> secs s' = secs s"
    and get_ec_found: "k_Get_EC K n s = (Inr ec, s') \<Longrightarrow> ecs s n = Some ec \<and> ec_key ec = n"
    and get_secret: "k_Get_Secret K n s = (y, s') \<Longrightarrow> ecs s' = ecs s \<and> secs s' = secs s"
    and get_secret_found: "k_Get_Secret K n s = (Inr sec, s') \<Longrightarrow> secs s n = Some sec \<and> sec_key sec = n"
    and get_secret_absent: "k_Get_Secret K n s = (Inl e, s') \<Longrightarrow> k_IsNotFound K e \<Longrightarrow> secs s n = None"
    and update_ec: "k_Update_EC K ec s = (Inr ec', s') \<Longrightarrow>
      same_object ec ec' \<and> secs s' = secs s \<and>
      ecs s' = (ecs s)(ec_key ec := (if \<not> deletion_is_zero (om_DeletionTimestamp (ec_Meta ec)) \<and>
        om_Finalizers (ec_Meta ec) = [] then None else Some ec'))"
    and status_update: "k_Status_Update K ec s = (Inr ec', s') \<Longrightarrow>
      same_object ec ec' \<and> same_status ec ec' \<and> secs s' = secs s \<and> ecs s' = (ecs s)(ec_key ec \<mapsto> ec')"
    and delete_secret: "k_Delete_Secret K sec s = (d, s') \<Longrightarrow>
      d = None \<or> (\<exists>e. d = Some e \<and> k_IsNotFound K e) \<Longrightarrow>
      ecs s' = ecs s \<and> (\<exists>y. secs s' = (secs s)(sec_key sec := y) \<and> after_delete (secs s (sec_key sec)) y)"
    and create_or_update: "k_CreateOrUpdate K sec f s = (None, s') \<Longrightarrow>
      ecs s' = ecs s \<and>
      (\<exists>out stored. f (case secs s (sec_key sec) of None \<Rightarrow> sec | Some old \<Rightarrow> old) = Inr out \<and>
         same_secret out stored \<and> secs s' = (secs s)(sec_key sec \<mapsto> stored))"
    and controller_reference: "k_SetControllerReference K ec sec = Inr sec' \<Longrightarrow> same_secret sec sec'"
    and add_finalizer: "k_ContainsFinalizer K (k_AddFinalizer K m fin) fin"
    and remove_finalizer: "\<not> k_ContainsFinalizer K (k_RemoveFinalizer K m fin) fin"
    and remove_finalizer_key: "object_key (k_RemoveFinalizer K m fin) = object_key m"
    and contains_finalizer: "k_ContainsFinalizer K m fin \<longleftrightarrow> fin \<in> set (om_Finalizers m)"

section \<open>An in-memory API server\<close>

text \<open>
  Resources and Secrets by name, with optimistic concurrency on the resource version, the status
  subresource and finalizer-controlled deletion. \<open>m_clock\<close> is the wall clock, \<open>m_tokens\<close> the
  number of credentials the provider of the witnesses has issued, \<open>m_revoked\<close> what it revoked.
\<close>

record mem_world =
  m_ecs :: "NamespacedName \<Rightarrow> EphemeralCredential option"
  m_secs :: "NamespacedName \<Rightarrow> Secret option"
  m_clock :: time
  m_revoked :: "CredentialHandle list"

definition NotFound :: go_error where "NotFound = ErrExt ''NotFound''"
definition Conflict :: go_error where "Conflict = ErrExt ''Conflict''"

fun mem_IsNotFound :: "go_error \<Rightarrow> bool" where
  "mem_IsNotFound (ErrExt x) = (x = ''NotFound'')"
| "mem_IsNotFound (Wrapf f as e) = mem_IsNotFound e"
| "mem_IsNotFound e = False"

definition mem_Get_EC :: "NamespacedName \<Rightarrow> (mem_world, EphemeralCredential result) action" where
  "mem_Get_EC n w =
     (case m_ecs w n of Some ec \<Rightarrow> if ec_key ec = n then (Inr ec, w) else (Inl NotFound, w) | None \<Rightarrow> (Inl NotFound, w))"

definition mem_Get_Secret :: "NamespacedName \<Rightarrow> (mem_world, Secret result) action" where
  "mem_Get_Secret n w =
     (case m_secs w n of
        Some x \<Rightarrow> if sec_key x = n then (Inr x, w) else (Inl Conflict, w)
      | None \<Rightarrow> (Inl NotFound, w))"

abbreviation bump :: "ObjectMeta \<Rightarrow> ObjectMeta" where
  "bump m \<equiv> m\<lparr>om_ResourceVersion := Suc (om_ResourceVersion m)\<rparr>"

definition mem_Update_EC :: "EphemeralCredential \<Rightarrow> (mem_world, EphemeralCredential result) action" where
  "mem_Update_EC ec w =
     (case m_ecs w (ec_key ec) of
        None \<Rightarrow> (Inl NotFound, w)
      | Some old \<Rightarrow>
          if om_ResourceVersion (ec_Meta old) \<noteq> om_ResourceVersion (ec_Meta ec) then (Inl Conflict, w)
          else
            (let new = ec\<lparr>ec_Meta := bump (ec_Meta ec), ec_Status := ec_Status old\<rparr> in
             (Inr new,
              w\<lparr>m_ecs := (m_ecs w)(ec_key ec :=
                 (if \<not> deletion_is_zero (om_DeletionTimestamp (ec_Meta ec)) \<and> om_Finalizers (ec_Meta ec) = []
                  then None else Some new))\<rparr>)))"

definition wire_status :: "EphemeralCredentialStatus \<Rightarrow> EphemeralCredentialStatus" where
  "wire_status st = st\<lparr>st_ExpiresAt := map_option wire_time (st_ExpiresAt st),
     st_LastRotatedAt := map_option wire_time (st_LastRotatedAt st)\<rparr>"

definition mem_Status_Update :: "EphemeralCredential \<Rightarrow> (mem_world, EphemeralCredential result) action" where
  "mem_Status_Update ec w =
     (case m_ecs w (ec_key ec) of
        None \<Rightarrow> (Inl NotFound, w)
      | Some old \<Rightarrow>
          if om_ResourceVersion (ec_Meta old) \<noteq> om_ResourceVersion (ec_Meta ec) then (Inl Conflict, w)
          else
            (let new = ec\<lparr>ec_Meta := bump (ec_Meta ec), ec_Status := wire_status (ec_Status ec)\<rparr> in
             (Inr new, w\<lparr>m_ecs := (m_ecs w)(ec_key ec \<mapsto> new)\<rparr>)))"

definition mem_Delete_Secret :: "Secret \<Rightarrow> (mem_world, go_error option) action" where
  "mem_Delete_Secret x w =
     (case m_secs w (sec_key x) of
        None \<Rightarrow> (Some NotFound, w)
      | Some old \<Rightarrow>
          (None, w\<lparr>m_secs := (m_secs w)(sec_key x :=
             (if om_Finalizers (sec_Meta old) = [] then None
              else Some (old\<lparr>sec_Meta := (sec_Meta old)\<lparr>om_DeletionTimestamp := Some (m_clock w)\<rparr>\<rparr>)))\<rparr>))"

definition mem_CreateOrUpdate ::
  "Secret \<Rightarrow> (Secret \<Rightarrow> Secret result) \<Rightarrow> (mem_world, go_error option) action" where
  "mem_CreateOrUpdate x f w =
     (case f (case m_secs w (sec_key x) of None \<Rightarrow> x | Some old \<Rightarrow> old) of
        Inl e \<Rightarrow> (Some e, w)
      | Inr out \<Rightarrow>
          (None, w\<lparr>m_secs := (m_secs w)(sec_key x \<mapsto> out\<lparr>sec_Meta := bump (sec_Meta out)\<rparr>)\<rparr>))"

definition mem_SetControllerReference :: "EphemeralCredential \<Rightarrow> Secret \<Rightarrow> Secret result" where
  "mem_SetControllerReference ec x =
     (if \<exists>o' \<in> set (om_OwnerReferences (sec_Meta x)). or_Controller o' \<and> or_UID o' \<noteq> om_UID (ec_Meta ec)
      then Inl (ErrExt ''AlreadyOwned'')
      else Inr (x\<lparr>sec_Meta := (sec_Meta x)\<lparr>om_OwnerReferences :=
             [\<lparr>or_UID = om_UID (ec_Meta ec), or_Controller = True\<rparr>]\<rparr>\<rparr>))"

fun set_condition_at :: "Condition list \<Rightarrow> Condition \<Rightarrow> time \<Rightarrow> Condition list" where
  "set_condition_at [] c t = [c\<lparr>cond_LastTransitionTime := t\<rparr>]"
| "set_condition_at (x # xs) c t =
     (if cond_Type x = cond_Type c
      then c\<lparr>cond_LastTransitionTime :=
             (if cond_Status x = cond_Status c then cond_LastTransitionTime x else t)\<rparr> # xs
      else x # set_condition_at xs c t)"

definition mem_k8s :: "mem_world k8s" where
  "mem_k8s =
    \<lparr>k_Get_EC = mem_Get_EC, k_Get_Secret = mem_Get_Secret, k_Update_EC = mem_Update_EC,
     k_Status_Update = mem_Status_Update, k_Delete_Secret = mem_Delete_Secret,
     k_CreateOrUpdate = mem_CreateOrUpdate, k_IsNotFound = mem_IsNotFound,
     k_ContainsFinalizer = (\<lambda>m f. f \<in> set (om_Finalizers m)),
     k_AddFinalizer = (\<lambda>m f. if f \<in> set (om_Finalizers m) then m else m\<lparr>om_Finalizers := om_Finalizers m @ [f]\<rparr>),
     k_RemoveFinalizer = (\<lambda>m f. m\<lparr>om_Finalizers := filter (\<lambda>x. x \<noteq> f) (om_Finalizers m)\<rparr>),
     k_SetControllerReference = mem_SetControllerReference,
     k_SetStatusCondition = (\<lambda>cs c w. set_condition_at cs c (m_clock w))\<rparr>"

lemma find_set_condition:
  "find (\<lambda>x. cond_Type x = cond_Type c) (set_condition_at cs c t) = Some d \<longrightarrow>
     cond_Status d = cond_Status c \<and> cond_Reason d = cond_Reason c \<and> cond_Message d = cond_Message c"
  "find (\<lambda>x. cond_Type x = cond_Type c) (set_condition_at cs c t) \<noteq> None"
  by (induction cs) auto

lemma mem_create_or_update:
  assumes "mem_CreateOrUpdate sec f w = (None, w')"
  shows "m_ecs w' = m_ecs w \<and>
    (\<exists>out stored. f (case m_secs w (sec_key sec) of None \<Rightarrow> sec | Some old \<Rightarrow> old) = Inr out \<and>
       same_secret out stored \<and> m_secs w' = (m_secs w)(sec_key sec \<mapsto> stored))"
proof -
  obtain out where out: "f (case m_secs w (sec_key sec) of None \<Rightarrow> sec | Some old \<Rightarrow> old) = Inr out"
    and w': "w' = w\<lparr>m_secs := (m_secs w)(sec_key sec \<mapsto> out\<lparr>sec_Meta := bump (sec_Meta out)\<rparr>)\<rparr>"
    using assms by (auto simp: mem_CreateOrUpdate_def split: sum.splits)
  show ?thesis
    by (intro conjI exI [of _ out] exI [of _ "out\<lparr>sec_Meta := bump (sec_Meta out)\<rparr>"])
       (simp_all add: out w' same_secret_def)
qed

interpretation mem: cluster mem_k8s m_ecs m_secs
proof
  show "m_ecs s' = m_ecs s \<and>
    (\<exists>out stored. f (case m_secs s (sec_key sec) of None \<Rightarrow> sec | Some old \<Rightarrow> old) = Inr out \<and>
       same_secret out stored \<and> m_secs s' = (m_secs s)(sec_key sec \<mapsto> stored))"
    if "k_CreateOrUpdate mem_k8s sec f s = (None, s')" for sec f s s'
    using that by (intro mem_create_or_update) (simp add: mem_k8s_def)
  show "m_ecs s' = m_ecs s \<and> (\<exists>y. m_secs s' = (m_secs s)(sec_key sec := y) \<and> after_delete (m_secs s (sec_key sec)) y)"
    if "k_Delete_Secret mem_k8s sec s = (d, s')" for sec s d s'
    using that
    by (auto simp: mem_k8s_def mem_Delete_Secret_def after_delete_def object_key_def fun_upd_idem split: option.splits if_splits)
  show "ready_of (status_update (st_Conditions_update (\<lambda>cs. k_SetStatusCondition mem_k8s cs c s)) ec) =
      Some (cond_Status c, cond_Reason c, cond_Message c)" if "cond_Type c = ConditionReady" for c s ec
    using find_set_condition [of c "st_Conditions (ec_Status ec)" "m_clock s"] that
    by (auto simp: ready_of_def mem_k8s_def)
qed (auto simp: mem_k8s_def mem_Get_EC_def mem_Get_Secret_def mem_Update_EC_def mem_Status_Update_def
    mem_Delete_Secret_def mem_SetControllerReference_def NotFound_def Conflict_def Let_def
    same_object_def same_status_def same_secret_def wire_status_def ready_of_def object_key_def fun_eq_iff
    split: option.splits if_splits sum.splits)


section \<open>A broker on the in-memory server\<close>

text \<open>
  The environment of the witnesses: one provider named \<open>github-app\<close> that grants an hour, the clock
  of the world, no event recorder; one resource with its configuration Secret.
\<close>

definition mem_provider :: "mem_world Provider" where
  "mem_provider =
    \<lparr>prov_Name = ''github-app'',
     prov_Mint = (\<lambda>q w. (Inr (sample_mint ''ghs_new'' (m_clock w + 3600 * Second)), w)),
     prov_Revoke = (\<lambda>h w. if h_ProviderName h = ''github-app'' then (None, w\<lparr>m_revoked := h # m_revoked w\<rparr>)
        else (Some (ErrExt ''foreign handle''), w))\<rparr>"

definition mem_reconciler :: "mem_world Reconciler" where
  "mem_reconciler =
    \<lparr>r_Client = mem_k8s, r_Providers = NewRegistry [mem_provider], r_Recorder = None,
     r_Now = Some (\<lambda>w. (m_clock w, w)), r_timeNow = (\<lambda>w. (m_clock w, w))\<rparr>"

abbreviation sample_req :: NamespacedName where
  "sample_req \<equiv> (''builds'', ''ci-github-token'')"

definition sample_config :: Secret where
  "sample_config =
    \<lparr>sec_Meta = \<lparr>om_Name = ''broker-github-app'', om_Namespace = ''builds'', om_UID = ''u3'',
       om_ResourceVersion = 1, om_Generation = 0, om_DeletionTimestamp = None, om_Finalizers = [],
       om_Annotations = None, om_OwnerReferences = []\<rparr>,
     sec_Data = Some [''appId'' \<mapsto> ''12345'', ''privateKey'' \<mapsto> ''pem''], sec_Type = ''Opaque''\<rparr>"

definition sample_world :: "EphemeralCredential \<Rightarrow> mem_world" where
  "sample_world ec =
    \<lparr>m_ecs = [sample_req \<mapsto> ec],
     m_secs = [(''builds'', ''broker-github-app'') \<mapsto> sample_config, (''builds'', ''github-token'') \<mapsto> sample_secret],
     m_clock = 1000 * Second, m_revoked = []\<rparr>"

abbreviation fresh_ec :: EphemeralCredential where
  "fresh_ec \<equiv> sample_ec Map.empty"

abbreviation with_deletion :: "EphemeralCredential \<Rightarrow> EphemeralCredential" where
  "with_deletion ec \<equiv> ec\<lparr>ec_Meta := (ec_Meta ec)\<lparr>om_DeletionTimestamp := Some (999 * Second)\<rparr>\<rparr>"

abbreviation with_expiry :: "time \<Rightarrow> EphemeralCredential \<Rightarrow> EphemeralCredential" where
  "with_expiry e ec \<equiv> ec\<lparr>ec_Status := (ec_Status ec)\<lparr>st_State := StateActive, st_ExpiresAt := Some e,
     st_LastRotatedAt := Some (e - 3600 * Second), st_ObservedGeneration := 1\<rparr>\<rparr>"

lemmas sample_defs = mem_reconciler_def mem_k8s_def sample_world_def sample_ec_def sample_config_def mem_provider_def

lemma sample_fetch:
  "ec_key ec = sample_req \<Longrightarrow>
     k_Get_EC (r_Client mem_reconciler) sample_req (sample_world ec) = (Inr ec, sample_world ec)"
  by (simp add: mem_reconciler_def mem_k8s_def mem_Get_EC_def sample_world_def)

lemma sample_key [simp]: "ec_key (sample_ec ks) = sample_req"
  by (simp add: sample_ec_def object_key_def)

lemma sample_live [simp]:
  "deletion_is_zero (om_DeletionTimestamp (ec_Meta (sample_ec ks)))"
  "k_ContainsFinalizer (r_Client mem_reconciler) (ec_Meta (sample_ec ks)) FinalizerName"
  "ts_Name (spec_TargetSecret (ec_Spec (sample_ec ks))) = ''github-token''"
  "om_Namespace (ec_Meta (sample_ec ks)) = ''builds''"
  "om_Generation (ec_Meta (sample_ec ks)) = 1"
  "spec_Provider (ec_Spec (sample_ec ks)) = ''github-app''"
  "sint (spec_RotateBeforeSeconds (ec_Spec (sample_ec ks))) = 600"
  by (simp_all add: sample_ec_def mem_reconciler_def mem_k8s_def deletion_is_zero_def)

lemma sample_registry [simp]:
  "Registry_Get (r_Providers mem_reconciler) n = (if n = ''github-app'' then Some mem_provider else None)"
  by (simp add: mem_reconciler_def NewRegistry_def Registry_Get_def mem_provider_def)

lemma sample_clock [simp]: "run_state (now mem_reconciler) w = (m_clock w, w)"
  by (simp add: now_def mem_reconciler_def)

lemma sample_secret_fetch:
  "k_Get_Secret (r_Client mem_reconciler) (''builds'', ''github-token'') (sample_world ec) = (Inr sample_secret, sample_world ec)"
  by (simp add: mem_reconciler_def mem_k8s_def mem_Get_Secret_def sample_world_def sample_secret_def object_key_def)

lemma sample_secret_deleted [simp]: "after_delete (m_secs (sample_world ec) (''builds'', ''github-token'')) y \<longleftrightarrow> y = None"
  by (simp add: sample_world_def after_delete_def sample_secret_def)

lemma sample_world_clock [simp]: "m_clock (sample_world ec) = 1000 * Second"
  by (simp add: sample_world_def)

lemma sample_recorder [simp]: "r_Recorder mem_reconciler = None"
  by (simp add: mem_reconciler_def)

text \<open>The definitions a run on the in-memory server unfolds to.\<close>

lemmas run_defs = Reconcile_def Let_def mem_reconciler_def mem_k8s_def now_def event_def setReadyCondition_def
  mem_Get_EC_def mem_Get_Secret_def mem_Update_EC_def mem_Status_Update_def mem_Delete_Secret_def
  object_key_def deletion_is_zero_def target_key_def

end
