(* ===== verification/Reconcile_Props.thy ===== *)
theory Reconcile_Props
  imports Reconcile_Trace Api_Server
begin

text \<open>
  What the protocol guarantees: which effects happen, at most how often, and in which order,
  whatever the API server, the provider and the clock answer. All statements are about
  \<open>effects_of r req s\<close> and \<open>outcome_of r req s\<close> for an arbitrary environment \<open>r\<close> and state \<open>s\<close>.
\<close>

section \<open>The code follows the protocol\<close>

text \<open>
  C22. Refinement: whatever the API server, the provider, the recorder and the clock answer, the list of
  effects of a reconcile together with its result is one that the protocol \<open>reconcile_trace\<close> allows.
\<close>

theorem reconcile_refines_protocol:
  "reconcile_trace r req (outcome_of r req s) (effects_of r req s)"
  by (rule emits_run [OF Reconcile_follows])

section \<open>What each part of the protocol leaves alone\<close>

lemma follows: "reconcile_trace r req (outcome_of r req s) (effects_of r req s)"
  by (rule emits_run [OF Reconcile_follows])

lemma never_event_trace [simp]:
  "(\<And>ty re ms. \<not> P (E_Event ty re ms)) \<Longrightarrow> never P (event_trace r ty re ms)"
  by (simp add: event_trace_def)

definition quiet :: "effect list \<Rightarrow> bool" where
  "quiet es \<longleftrightarrow> never is_Mint es \<and> never is_Revoke es \<and> never is_WriteSecret es \<and> never is_UpdateEC es"

lemma quiet_simps [simp]:
  "quiet []"
  "quiet (e # es) \<longleftrightarrow> \<not> is_Mint e \<and> \<not> is_Revoke e \<and> \<not> is_WriteSecret e \<and> \<not> is_UpdateEC e \<and> quiet es"
  "quiet (xs @ ys) \<longleftrightarrow> quiet xs \<and> quiet ys"
  "quiet (event_trace r ty re ms)"
  by (auto simp: quiet_def)

lemma ok_kinds:
  "minted_ok e \<Longrightarrow> is_Mint e"
  "wrote_ok e \<Longrightarrow> is_WriteSecret e"
  "updated_ok e \<Longrightarrow> is_UpdateEC e"
  "status_ok e \<Longrightarrow> is_StatusUpdate e"
  by (cases e; simp)+

lemma quietD:
  assumes "quiet es"
  shows "never is_Mint es" and "never is_Revoke es" and "never is_WriteSecret es" and "never is_UpdateEC es"
    and "never minted_ok es" and "never wrote_ok es" and "never updated_ok es"
  using assms by (auto simp: quiet_def never_def dest: ok_kinds)

lemma delete_quiet: "delete_trace K ec d es \<Longrightarrow> quiet es"
  by (auto elim: delete_trace.cases)

lemma probe_quiet: "probe_trace K ec x es \<Longrightarrow> quiet es \<and> never is_StatusUpdate es \<and> never is_DeleteSecret es"
  by (auto elim: probe_trace.cases)

lemma fail_quiet: "fail_trace r ec re ms c b out es \<Longrightarrow> quiet es"
  by (auto elim!: fail_trace.cases fail_report.cases dest: delete_quiet)

lemma scope_quiet: "scope_trace ns spec x es \<Longrightarrow> quiet es \<and> never is_StatusUpdate es \<and> never is_DeleteSecret es"
  by (auto elim: scope_trace.cases)

lemma last_revoke_quiet:
  "last_revoke r ec es \<Longrightarrow> never is_Mint es \<and> never is_WriteSecret es \<and> never is_UpdateEC es \<and>
     never is_StatusUpdate es \<and> never is_DeleteSecret es"
  by (auto elim: last_revoke.cases)

lemma revoke_quiet:
  "revoke_trace r prov prev es \<Longrightarrow> never is_Mint es \<and> never is_WriteSecret es \<and> never is_UpdateEC es \<and>
     never is_StatusUpdate es \<and> never is_DeleteSecret es"
  by (auto elim: revoke_trace.cases)

lemma finish_quiet:
  "finish_trace r ec prov t prev mint out es \<Longrightarrow>
     never is_Mint es \<and> never is_WriteSecret es \<and> never is_UpdateEC es \<and> never is_DeleteSecret es"
  by (auto elim!: finish_trace.cases dest: revoke_quiet)


lemma remove_quiet:
  "remove_trace r ec out es \<Longrightarrow> never is_Mint es \<and> never is_WriteSecret es \<and> never is_StatusUpdate es"
  by (auto elim!: remove_trace.cases delete_trace.cases dest!: last_revoke_quiet)

lemma finalizer_quiet:
  "finalizer_trace r ec out es \<Longrightarrow>
     never is_Mint es \<and> never is_Revoke es \<and> never is_WriteSecret es \<and> never is_DeleteSecret es"
  by (auto elim: finalizer_trace.cases)

lemmas quiet_rules = delete_quiet probe_quiet fail_quiet scope_quiet last_revoke_quiet revoke_quiet
  finish_quiet remove_quiet finalizer_quiet

section \<open>Order of the effects\<close>

text \<open>The resource was fetched and is marked for deletion; it was fetched, is not, and has the finalizer.\<close>

definition fetched_deleting :: "NamespacedName \<Rightarrow> effect \<Rightarrow> bool" where
  "fetched_deleting req e \<longleftrightarrow>
     (\<exists>ec. e = E_GetEC req (Inr ec) \<and> \<not> deletion_is_zero (om_DeletionTimestamp (ec_Meta ec)))"

definition fetched_live :: "'s Reconciler \<Rightarrow> NamespacedName \<Rightarrow> effect \<Rightarrow> bool" where
  "fetched_live r req e \<longleftrightarrow> (\<exists>ec. e = E_GetEC req (Inr ec) \<and> live r ec)"

lemma fetched_simps [simp]:
  "fetched_deleting req (E_GetEC req (Inr ec)) \<longleftrightarrow> \<not> deletion_is_zero (om_DeletionTimestamp (ec_Meta ec))"
  "fetched_live r req (E_GetEC req (Inr ec)) \<longleftrightarrow> live r ec"
  by (auto simp: fetched_deleting_def fetched_live_def)

lemma rotate_order:
  assumes "rotate_trace r ec prov t out es"
  shows "precedes minted_ok is_WriteSecret es \<and> precedes (\<lambda>e. minted_ok e \<or> X e) is_Revoke es \<and>
    precedes (\<lambda>e. wrote_ok e \<or> X e) is_Revoke es \<and> precedes (\<lambda>e. updated_ok e \<or> X e) is_Revoke es \<and>
    precedes (\<lambda>e. status_ok e \<or> X e) is_Revoke es"
proof -
  have "precedes minted_ok is_WriteSecret es" "precedes minted_ok is_Revoke es" "precedes wrote_ok is_Revoke es"
    "precedes updated_ok is_Revoke es" "precedes status_ok is_Revoke es"
    using assms
    by (auto elim!: rotate_trace.cases finish_trace.cases
        dest!: scope_quiet fail_quiet revoke_quiet simp: never_precedes quietD)
  then show ?thesis by (blast intro: precedes_mono)
qed

text \<open>
  C2. No credential is minted that a later delete could not clean up: a mint happens only after
  the resource was fetched with the broker's finalizer on it and without a deletion mark.
\<close>

theorem finalizer_before_mint:
  "precedes (fetched_live r req) is_Mint (effects_of r req s)"
  using follows [of r req s]
  by (auto elim!: reconcile_trace.cases dest!: quiet_rules simp: never_precedes quietD)

text \<open>
  C1. Consumers never see a gap: outside of deletion, a credential is revoked only after its
  replacement was minted, written into the target Secret, its handle persisted and the status
  updated, each of them successfully. The target Secret is written only after a successful mint.
\<close>

theorem revoke_after_replacement:
  "precedes (\<lambda>e. minted_ok e \<or> fetched_deleting req e) is_Revoke (effects_of r req s) \<and>
   precedes (\<lambda>e. wrote_ok e \<or> fetched_deleting req e) is_Revoke (effects_of r req s) \<and>
   precedes (\<lambda>e. updated_ok e \<or> fetched_deleting req e) is_Revoke (effects_of r req s) \<and>
   precedes (\<lambda>e. status_ok e \<or> fetched_deleting req e) is_Revoke (effects_of r req s) \<and>
   precedes minted_ok is_WriteSecret (effects_of r req s)"
  using follows [of r req s]
  by (auto elim!: reconcile_trace.cases dest!: quiet_rules rotate_order [where X = "fetched_deleting req"] simp: never_precedes quietD)


section \<open>Number and arguments of the provider calls\<close>

lemma filter_quiet:
  "never Q es \<Longrightarrow> filter Q es = []"
  by (auto simp: never_def filter_empty_conv)

lemma scope_no_mint: "scope_trace ns spec x sc \<Longrightarrow> filter is_Mint sc = []"
  using scope_quiet [of ns spec x sc] by (simp add: filter_quiet quietD)

lemma rotate_mint_once:
  assumes "rotate_trace r ec prov t out es"
  shows "filter is_Mint es = [] \<or>
    (\<exists>scope sc m. scope_trace (om_Namespace (ec_Meta ec)) (ec_Spec ec) (Inr scope) sc \<and> set sc \<subseteq> set es \<and>
       filter is_Mint es = [E_Mint (prov_Name prov) (mint_request ec scope) m])"
  using assms
  by (cases rule: rotate_trace.cases)
     (fastforce dest!: finish_quiet fail_quiet simp: filter_quiet quietD scope_no_mint)+

lemma mint_request_scope:
  assumes "scope_trace (om_Namespace (ec_Meta ec)) (ec_Spec ec) (Inr scope) sc"
  shows "\<exists>cfg sec appId key.
      pc_GitHub (spec_ProviderConfig (ec_Spec ec)) = Some cfg \<and>
      sc = [E_GetSecret (om_Namespace (ec_Meta ec), lor_Name (gh_AppConfigRef cfg)) (Inr sec)] \<and>
      map_get (sec_Data sec) ''appId'' = Some appId \<and> appId \<noteq> [] \<and>
      map_get (sec_Data sec) ''privateKey'' = Some key \<and> key \<noteq> [] \<and>
      mint_request ec scope =
        \<lparr>mreq_Scope = ScopeGitHub \<lparr>scope_AppID = appId, scope_PrivateKeyPEM = key,
             scope_Repositories = gh_Repositories cfg, scope_Permissions = gh_Permissions cfg\<rparr>,
         mreq_TTL = sint (spec_TTLSeconds (ec_Spec ec)) * Second,
         mreq_Namespace = om_Namespace (ec_Meta ec), mreq_Name = om_Name (ec_Meta ec)\<rparr>"
  using assms by (cases rule: scope_trace.cases) (auto simp: mint_request_def dur_mul_int32 [unfolded Second_def] Second_def)

text \<open>The fetched resource and the rotation that a mint belongs to.\<close>

lemma mint_in_rotation:
  "filter is_Mint (effects_of r req s) = [] \<or>
   (\<exists>ec prov t es pre. effects_of r req s = E_GetEC req (Inr ec) # pre @ es \<and>
      quiet pre \<and> never is_StatusUpdate pre \<and>
      Registry_Get (r_Providers r) (spec_Provider (ec_Spec ec)) = Some prov \<and> rotate_trace r ec prov t (outcome_of r req s) es)"
  using follows [of r req s]
proof (cases rule: reconcile_trace.cases)
  case (due ec prov t es)
  then show ?thesis
    by (intro disjI2 exI [of _ ec] exI [of _ prov] exI [of _ t] exI [of _ es]
        exI [of _ "[E_Now t]"]) auto
next
  case (repair ec prov t pr es m)
  let ?pre = "E_Now t # pr @ event_trace r EventTypeWarning ReasonSecretMissing m"
  have "quiet ?pre \<and> never is_StatusUpdate ?pre"
    using probe_quiet [OF repair(5)] by simp
  then show ?thesis using repair
    by (intro disjI2 exI [of _ ec] exI [of _ prov] exI [of _ t] exI [of _ es]
        exI [of _ ?pre]) auto
qed (auto dest!: quiet_rules simp: filter_quiet quietD)

lemma revoke_once:
  "revoke_trace r prov prev es \<Longrightarrow>
     filter is_Revoke es = [] \<or>
     (\<exists>h e. prev = Some h \<and> h_ProviderName h = prov_Name prov \<and>
        filter is_Revoke es = [E_Revoke (prov_Name prov) h e])"
  by (auto elim!: revoke_trace.cases simp: filter_quiet)

lemma rotate_revoke_once:
  assumes "rotate_trace r ec prov t out es"
  shows "filter is_Revoke es = [] \<or>
    (\<exists>h e. stored_handle_of ec = Some h \<and> h_ProviderName h = prov_Name prov \<and>
       filter is_Revoke es = [E_Revoke (prov_Name prov) h e])"
  using assms
  by (auto elim!: rotate_trace.cases finish_trace.cases dest!: scope_quiet fail_quiet
      simp: filter_quiet quietD dest: revoke_once)

text \<open>
  C10. A reconcile mints at most once, and it asks for exactly what the resource says: the
  provider is the one registered for \<open>spec.provider\<close>, the TTL, namespace and name are those of the
  resource, repositories and permissions are those of \<open>spec.providerConfig.github\<close>, neither widened nor
  narrowed, and App ID and key come from the Secret named by \<open>appConfigRef\<close>, both non-empty.
\<close>

theorem mint_once_as_specified:
  "filter is_Mint (effects_of r req s) = [] \<or>
   (\<exists>ec es prov cfg sec appId key m.
      effects_of r req s = E_GetEC req (Inr ec) # es \<and>
      Registry_Get (r_Providers r) (spec_Provider (ec_Spec ec)) = Some prov \<and>
      pc_GitHub (spec_ProviderConfig (ec_Spec ec)) = Some cfg \<and>
      E_GetSecret (om_Namespace (ec_Meta ec), lor_Name (gh_AppConfigRef cfg)) (Inr sec) \<in> set es \<and>
      map_get (sec_Data sec) ''appId'' = Some appId \<and> appId \<noteq> [] \<and>
      map_get (sec_Data sec) ''privateKey'' = Some key \<and> key \<noteq> [] \<and>
      filter is_Mint (effects_of r req s) =
        [E_Mint (prov_Name prov)
          \<lparr>mreq_Scope = ScopeGitHub \<lparr>scope_AppID = appId, scope_PrivateKeyPEM = key,
             scope_Repositories = gh_Repositories cfg, scope_Permissions = gh_Permissions cfg\<rparr>,
           mreq_TTL = sint (spec_TTLSeconds (ec_Spec ec)) * Second,
           mreq_Namespace = om_Namespace (ec_Meta ec), mreq_Name = om_Name (ec_Meta ec)\<rparr> m])"
proof (cases "filter is_Mint (effects_of r req s) = []")
  case False
  then obtain ec prov t out es pre where
    eff: "effects_of r req s = E_GetEC req (Inr ec) # pre @ es" and pre: "quiet pre"
    and prov: "Registry_Get (r_Providers r) (spec_Provider (ec_Spec ec)) = Some prov"
    and rot: "rotate_trace r ec prov t out es"
    using mint_in_rotation [of r req s] by blast
  then obtain scope sc m where
    scope: "scope_trace (om_Namespace (ec_Meta ec)) (ec_Spec ec) (Inr scope) sc" and "set sc \<subseteq> set es"
    and "filter is_Mint (effects_of r req s) = [E_Mint (prov_Name prov) (mint_request ec scope) m]"
    using rotate_mint_once [OF rot] False by (auto simp: filter_quiet quietD)
  then show ?thesis
    using mint_request_scope [OF scope] eff prov by fastforce
qed simp

text \<open>
  C19. A reconcile revokes at most once, and only the credential whose handle was stored on the
  resource when it was fetched, through the registered provider that minted it. In particular the
  credential minted by this reconcile is never revoked by it.
\<close>

theorem revoke_once_stored_handle:
  "filter is_Revoke (effects_of r req s) = [] \<or>
   (\<exists>ec es prov h e.
      effects_of r req s = E_GetEC req (Inr ec) # es \<and>
      Registry_Get (r_Providers r) (spec_Provider (ec_Spec ec)) = Some prov \<and>
      decodeHandle (map_get_string (om_Annotations (ec_Meta ec)) handleAnnotationKey) = Some h \<and>
      h_ProviderName h = prov_Name prov \<and>
      filter is_Revoke (effects_of r req s) = [E_Revoke (prov_Name prov) h e])"
  using follows [of r req s]
proof (cases rule: reconcile_trace.cases)
  case (deleting ec es)
  then show ?thesis
    by (auto elim!: remove_trace.cases last_revoke.cases dest!: delete_quiet simp: filter_quiet quietD)
qed (auto dest!: finalizer_quiet fail_quiet probe_quiet rotate_revoke_once simp: filter_quiet quietD)


section \<open>When a credential is minted and when a Secret is deleted\<close>

definition target_deleted_when_expired :: "EphemeralCredential \<Rightarrow> effect list \<Rightarrow> bool" where
  "target_deleted_when_expired ec es \<longleftrightarrow>
     never is_DeleteSecret es \<or>
     (\<exists>sec d t e pre post. es = pre @ E_GetSecret (target_key ec) (Inr sec) # E_DeleteSecret sec d # post \<and>
        never is_DeleteSecret pre \<and> never is_DeleteSecret post \<and>
        E_Now t \<in> set pre \<and> st_ExpiresAt (ec_Status ec) = Some e \<and> e \<le> t)"

lemma never_deleted: "never is_DeleteSecret es \<Longrightarrow> target_deleted_when_expired ec es"
  by (simp add: target_deleted_when_expired_def)

lemma deleted_when_expired_append:
  assumes "target_deleted_when_expired ec es" and "never is_DeleteSecret xs"
  shows "target_deleted_when_expired ec (xs @ es)"
proof (cases "never is_DeleteSecret es")
  case False
  then obtain sec d t e pre post where
    "es = pre @ E_GetSecret (target_key ec) (Inr sec) # E_DeleteSecret sec d # post"
    "never is_DeleteSecret pre" "never is_DeleteSecret post"
    "E_Now t \<in> set pre" "st_ExpiresAt (ec_Status ec) = Some e" "e \<le> t"
    using assms(1) unfolding target_deleted_when_expired_def by blast
  then show ?thesis unfolding target_deleted_when_expired_def using assms(2)
    by (intro disjI2 exI [of _ sec] exI [of _ d] exI [of _ t] exI [of _ e] exI [of _ "xs @ pre"] exI [of _ post]) auto
qed (use assms in \<open>auto intro: never_deleted\<close>)

lemma deleted_after_reading:
  assumes "st_ExpiresAt (ec_Status ec) = Some e" and "\<not> time_Before t e" and "never is_DeleteSecret post"
  shows "target_deleted_when_expired ec
    (E_Now t # E_GetSecret (target_key ec) (Inr sec) # E_DeleteSecret sec d # post)"
  unfolding target_deleted_when_expired_def using assms
  by (intro disjI2 exI [of _ sec] exI [of _ d] exI [of _ t] exI [of _ e] exI [of _ "[E_Now t]"] exI [of _ post])
     (auto simp: time_Before_def)

lemma fail_deletes_expired:
  assumes "fail_trace r ec re ms c b out es"
  shows "target_deleted_when_expired ec es"
proof -
  have "target_deleted_when_expired ec (E_Now t # del @ post)"
    if "fail_report (r_Client r) ec re ms t del ec'" "never is_DeleteSecret post" for t del ec' post
    using that
  proof (cases rule: fail_report.cases)
    case (expired e d)
    from expired(3) show ?thesis
      by (cases rule: delete_trace.cases) (use expired that(2) in \<open>auto intro: never_deleted deleted_after_reading\<close>)
  qed (auto intro: never_deleted)
  then show ?thesis
    using assms by (auto elim!: fail_trace.cases)
qed

lemma rotate_deletes_expired:
  assumes "rotate_trace r ec prov t out es"
  shows "target_deleted_when_expired ec es"
  using assms
proof (cases rule: rotate_trace.cases)
  case (bad_config e sc fl)
  then show ?thesis
    using deleted_when_expired_append [OF fail_deletes_expired [OF bad_config(3)], of sc] by (auto dest: scope_quiet)
next
  case (mint_failed scope sc reason e fl)
  then show ?thesis
    using deleted_when_expired_append [OF fail_deletes_expired [OF mint_failed(4)], of "sc @ [E_Mint _ _ _]"]
    by (auto dest: scope_quiet)
next
  case (write_failed scope sc e' fl mint e)
  then show ?thesis
    using deleted_when_expired_append [OF fail_deletes_expired [OF write_failed(3)],
        of "sc @ [E_Mint _ _ _, E_WriteSecret _ _]"]
    by (auto dest: scope_quiet)
qed (auto intro!: never_deleted dest!: scope_quiet finish_quiet)

text \<open>
  C11. Outside of deletion, the broker deletes at most one Secret, it is the target Secret it has
  just read, and only after a clock reading at or past the recorded expiry: a failed rotation never
  takes a credential away that is still valid.
\<close>

theorem valid_credential_not_deleted:
  "never is_DeleteSecret (effects_of r req s) \<or>
   (\<exists>ec es. effects_of r req s = E_GetEC req (Inr ec) # es \<and>
      ((\<exists>t. om_DeletionTimestamp (ec_Meta ec) = Some t \<and> t \<noteq> zero_time) \<or>
       (\<exists>sec d t e pre post. es = pre @ E_GetSecret (target_key ec) (Inr sec) # E_DeleteSecret sec d # post \<and>
          never is_DeleteSecret pre \<and> never is_DeleteSecret post \<and>
          E_Now t \<in> set pre \<and> st_ExpiresAt (ec_Status ec) = Some e \<and> e \<le> t)))"
proof -
  have main: "never is_DeleteSecret (effects_of r req s) \<or>
     (\<exists>ec es. effects_of r req s = E_GetEC req (Inr ec) # es \<and>
       (\<not> deletion_is_zero (om_DeletionTimestamp (ec_Meta ec)) \<or> target_deleted_when_expired ec es))"
    using follows [of r req s]
  proof (cases rule: reconcile_trace.cases)
    case (due ec prov t es)
    then have "target_deleted_when_expired ec es" by (intro rotate_deletes_expired) simp
    then show ?thesis
      using due deleted_when_expired_append [of ec es "[E_Now t]"] by auto
  next
    case (repair ec prov t pr es m)
    then have "target_deleted_when_expired ec es" and "never is_DeleteSecret pr"
      by (auto intro: rotate_deletes_expired dest: probe_quiet)
    then show ?thesis
      using repair deleted_when_expired_append
        [of ec es "E_Now t # pr @ event_trace r EventTypeWarning ReasonSecretMissing m"] by auto
  qed (auto dest!: finalizer_quiet probe_quiet fail_deletes_expired)
  have dz: "\<not> deletion_is_zero d \<longleftrightarrow> (\<exists>t. d = Some t \<and> t \<noteq> zero_time)" for d
    by (simp add: deletion_is_zero_def split: option.split)
  show ?thesis
    using main unfolding dz target_deleted_when_expired_def
    by (elim disjE exE conjE) (simp, blast, simp, blast)
qed

text \<open>
  C20. A credential is minted only when one is due. A reconcile that calls a provider's \<open>Mint\<close> has fetched the resource and read the
  clock, and one of these holds: nothing was minted yet; the spec has changed since the last mint; the recorded expiry is no further away
  than the rotation window (the requested seconds, or ten minutes for a request that is not positive, and at most half of the granted
  lifetime); or the target Secret has no name, or the read that follows has answered that it does not exist.
\<close>

theorem mint_only_when_due:
  assumes "E_Mint n q m \<in> set (effects_of r req s)"
  shows "\<exists>ec t es. effects_of r req s = E_GetEC req (Inr ec) # E_Now t # es \<and>
    (st_ExpiresAt (ec_Status ec) = None \<or>
     om_Generation (ec_Meta ec) \<noteq> st_ObservedGeneration (ec_Status ec) \<or>
     (\<exists>e. st_ExpiresAt (ec_Status ec) = Some e \<and> e \<le> t + rotation_window ec) \<or>
     ts_Name (spec_TargetSecret (ec_Spec ec)) = [] \<or>
     (\<exists>e es'. es = E_GetSecret (target_key ec) (Inl e) # es' \<and> k_IsNotFound (r_Client r) e))"
proof -
  have due: "st_ExpiresAt (ec_Status ec) = None \<or> om_Generation (ec_Meta ec) \<noteq> st_ObservedGeneration (ec_Status ec) \<or>
     (\<exists>e. st_ExpiresAt (ec_Status ec) = Some e \<and> e \<le> t + rotation_window ec)" if "needsMint t (effective_window ec) ec" for t ec
    using that unfolding needsMint_iff outside_window_def by force
  have "filter is_Mint (effects_of r req s) \<noteq> []"
    using assms by (force simp: filter_empty_conv)
  with follows [of r req s] show ?thesis
    by (cases rule: reconcile_trace.cases)
      (auto dest!: due remove_quiet finalizer_quiet fail_quiet elim!: probe_trace.cases simp: filter_quiet quietD)
qed

lemma wakeup_floor: "5 * Second \<le> requeueDelay e rb t"
  by (simp add: requeueDelay_def Let_def Second_def)

lemma fail_result: "fail_trace r ec re ms c b out es \<Longrightarrow> \<exists>err. out = (emptyResult, err)"
  by (auto elim: fail_trace.cases)

lemma rotate_result:
  "rotate_trace r ec prov t out es \<Longrightarrow>
     (\<exists>e. out = (emptyResult, e)) \<or>
     (\<exists>d. 5 * Second \<le> d \<and> out = (\<lparr>res_Requeue = False, res_RequeueAfter = d\<rparr>, None))"
  by (auto elim!: rotate_trace.cases finish_trace.cases dest!: fail_result simp: wakeup_floor)

text \<open>How many calls each part makes.\<close>

lemma event_length: "length (event_trace r ty re ms) \<le> 1"
  by (simp add: event_trace_def)

lemma part_lengths:
  "delete_trace K ec d es \<Longrightarrow> length es \<le> 2"
  "probe_trace K ec x es \<Longrightarrow> length es \<le> 1"
  "scope_trace ns spec sc es \<Longrightarrow> length es \<le> 1"
  "last_revoke r ec es \<Longrightarrow> length es \<le> 1"
  "finalizer_trace r ec out es \<Longrightarrow> length es \<le> 2"
  by (auto elim: delete_trace.cases probe_trace.cases scope_trace.cases last_revoke.cases finalizer_trace.cases)

lemma fail_length: "fail_trace r ec re ms c b out es \<Longrightarrow> length es \<le> 5"
  using event_length [of r EventTypeWarning re ms]
  by (auto elim!: fail_trace.cases fail_report.cases dest!: part_lengths(1))

lemma revoke_length: "revoke_trace r prov prev es \<Longrightarrow> length es \<le> 2"
  by (auto elim!: revoke_trace.cases simp: event_trace_def)

lemma finish_length: "finish_trace r ec prov t prev mint out es \<Longrightarrow> length es \<le> 5"
  by (auto elim!: finish_trace.cases dest!: revoke_length simp: event_trace_def)

lemma rotate_length: "rotate_trace r ec prov t out es \<Longrightarrow> length es \<le> 9"
  by (auto elim!: rotate_trace.cases dest!: part_lengths(3) fail_length finish_length)

lemma remove_length: "remove_trace r ec out es \<Longrightarrow> length es \<le> 4"
  by (auto elim!: remove_trace.cases dest!: part_lengths(1,4))

lemma reconcile_length: "reconcile_trace r req out es \<Longrightarrow> length es \<le> 13"
  by (auto elim!: reconcile_trace.cases simp: event_trace_def
      dest!: remove_length part_lengths(2,5) fail_length rotate_length)

text \<open>
  C32. How a reconcile ends: after at most thirteen calls to the API server, the provider, the clock and the
  recorder, whatever they answer, and with one of four results: with an error and an empty result, which makes the
  work queue back off; with nothing more to do; with an immediate requeue, when the finalizer was added; or with a
  wake-up that is at least five seconds away. It never loops and never asks for a busy loop.
\<close>

theorem result_discipline:
  "length (effects_of r req s) \<le> 13 \<and>
   ((\<exists>e. outcome_of r req s = (emptyResult, Some e)) \<or>
    outcome_of r req s = (emptyResult, None) \<or>
    outcome_of r req s = (emptyResult\<lparr>res_Requeue := True\<rparr>, None) \<or>
    (\<exists>d. 5 * Second \<le> d \<and> outcome_of r req s = (\<lparr>res_Requeue = False, res_RequeueAfter = d\<rparr>, None)))"
proof
  show "length (effects_of r req s) \<le> 13" by (rule reconcile_length [OF follows])
  show "(\<exists>e. outcome_of r req s = (emptyResult, Some e)) \<or>
    outcome_of r req s = (emptyResult, None) \<or>
    outcome_of r req s = (emptyResult\<lparr>res_Requeue := True\<rparr>, None) \<or>
    (\<exists>d. 5 * Second \<le> d \<and> outcome_of r req s = (\<lparr>res_Requeue = False, res_RequeueAfter = d\<rparr>, None))"
    using follows [of r req s]
    by (auto elim!: reconcile_trace.cases remove_trace.cases finalizer_trace.cases
        dest!: fail_result rotate_result simp: wakeup_floor split: sum.splits)
qed


section \<open>Functional behaviour of the quiet paths\<close>

lemma unregistered_parks:
  assumes "k_Get_EC (r_Client r) req s = (Inr ec, s1)"
    and "deletion_is_zero (om_DeletionTimestamp (ec_Meta ec))"
    and "k_ContainsFinalizer (r_Client r) (ec_Meta ec) FinalizerName"
    and "Registry_Get (r_Providers r) (spec_Provider (ec_Spec ec)) = None"
  shows "never is_Mint (effects_of r req s) \<and> never is_Revoke (effects_of r req s) \<and>
    never is_WriteSecret (effects_of r req s) \<and> occurs is_StatusUpdate (effects_of r req s) = 1 \<and>
    fst (outcome_of r req s) = emptyResult \<and>
    (snd (outcome_of r req s) = None \<longleftrightarrow> (\<exists>e \<in> set (effects_of r req s). status_ok e))"
proof -
  obtain es m where eff: "effects_of r req s = E_GetEC req (Inr ec) # es"
    and fl: "fail_trace r ec ReasonProviderNotFound m None False (outcome_of r req s) es"
    using fetch_first [OF assms(1)] assms(2-4) by (auto elim!: reconcile_trace.cases)
  have del: "delete_trace K ec d del \<Longrightarrow> occurs is_StatusUpdate del = 0 \<and> \<not> (\<exists>e \<in> set del. status_ok e)"
    for K :: "'a k8s" and d del
    by (auto elim!: delete_trace.cases)
  have ev: "occurs is_StatusUpdate (event_trace r ty re ms) = 0 \<and> \<not> (\<exists>e \<in> set (event_trace r ty re ms). status_ok e)"
    for ty re ms by (simp add: event_trace_def)
  show ?thesis
    unfolding eff using fl fail_quiet [OF fl]
    by (auto elim!: fail_trace.cases fail_report.cases dest!: del simp: ev quietD)
qed

text \<open>
  C35. A resource that names a provider nobody registered: no provider is called and no Secret is
  written, the failure is put into the status, and unless that write fails the reconcile ends
  without an error and without a wake-up, also when a still valid credential will expire later.
\<close>

theorem unregistered_provider_parks:
  assumes "k_Get_EC (r_Client r) req s = (Inr ec, s1)"
    and "deletion_is_zero (om_DeletionTimestamp (ec_Meta ec))"
    and "k_ContainsFinalizer (r_Client r) (ec_Meta ec) FinalizerName"
    and "Registry_Get (r_Providers r) (spec_Provider (ec_Spec ec)) = None"
  shows "never is_Mint (effects_of r req s) \<and> never is_Revoke (effects_of r req s) \<and>
    never is_WriteSecret (effects_of r req s) \<and> occurs is_StatusUpdate (effects_of r req s) = 1 \<and>
    fst (outcome_of r req s) = emptyResult \<and>
    (snd (outcome_of r req s) = None \<longleftrightarrow> (\<exists>e \<in> set (effects_of r req s). status_ok e))"
  using assms by (rule unregistered_parks)

text \<open>Evidence that the target Secret does not exist any more.\<close>

definition secret_gone :: "'s k8s \<Rightarrow> EphemeralCredential \<Rightarrow> effect \<Rightarrow> bool" where
  "secret_gone K ec x \<longleftrightarrow>
     (\<exists>e. x = E_GetSecret (target_key ec) (Inl e) \<and> k_IsNotFound K e) \<or>
     (\<exists>sec d. x = E_DeleteSecret sec d \<and> (d = None \<or> (\<exists>e. d = Some e \<and> k_IsNotFound K e)))"

text \<open>
  C21. Deletion: nothing is minted, written or reported; the finalizer is removed only after the
  target Secret was found absent or its deletion was accepted, and a reconcile of a protected resource that
  ends without an error has removed the finalizer. A revocation that fails does not stand in the way.
\<close>

theorem deletion_order:
  assumes "k_Get_EC (r_Client r) req s = (Inr ec, s1)"
    and "\<not> deletion_is_zero (om_DeletionTimestamp (ec_Meta ec))"
    and "ts_Name (spec_TargetSecret (ec_Spec ec)) \<noteq> []"
  shows "never is_Mint (effects_of r req s) \<and> never is_WriteSecret (effects_of r req s) \<and>
    never is_StatusUpdate (effects_of r req s) \<and>
    precedes (secret_gone (r_Client r) ec) is_UpdateEC (effects_of r req s) \<and>
    (snd (outcome_of r req s) = None \<longrightarrow> k_ContainsFinalizer (r_Client r) (ec_Meta ec) FinalizerName \<longrightarrow>
       (\<exists>x. last (effects_of r req s) =
          E_UpdateEC (ec\<lparr>ec_Meta := k_RemoveFinalizer (r_Client r) (ec_Meta ec) FinalizerName\<rparr>) (Inr x)))"
proof -
  obtain es where eff: "effects_of r req s = E_GetEC req (Inr ec) # es"
    and rm: "remove_trace r ec (outcome_of r req s) es"
    using fetch_first [OF assms(1)] assms(2) by (auto elim!: reconcile_trace.cases)
  have "precedes (secret_gone (r_Client r) ec) is_UpdateEC es"
    using rm assms(3)
    by (auto elim!: remove_trace.cases delete_trace.cases dest!: last_revoke_quiet
        simp: never_precedes secret_gone_def)
  moreover have "snd (outcome_of r req s) = None \<longrightarrow> k_ContainsFinalizer (r_Client r) (ec_Meta ec) FinalizerName \<longrightarrow>
       (\<exists>x. last es = E_UpdateEC (ec\<lparr>ec_Meta := k_RemoveFinalizer (r_Client r) (ec_Meta ec) FinalizerName\<rparr>) (Inr x)) \<and> es \<noteq> []"
    using rm by (auto elim!: remove_trace.cases split: sum.splits)
  ultimately show ?thesis
    unfolding eff using remove_quiet [OF rm] by auto
qed


section \<open>What the broker writes on a resource\<close>

lemma update_in_rotation:
  assumes "rotate_trace r ec prov t out es"
  shows "filter is_UpdateEC es = [] \<or>
    (\<exists>u n q mint y encoded. filter is_UpdateEC es = [E_UpdateEC (with_handle ec encoded) u] \<and> E_Mint n q (Inr mint) \<in> set es \<and>
       E_WriteSecret y None \<in> set es \<and> encodeHandle (mint_Handle mint) = Inr encoded)"
  using assms
  by (cases rule: rotate_trace.cases)
    (fastforce dest!: scope_quiet fail_quiet finish_quiet simp: filter_quiet quietD)+

lemma reconcile_updates:
  assumes "reconcile_trace r req out es"
  shows "filter is_UpdateEC es = [] \<or>
    (\<exists>ec es' x u. es = E_GetEC req (Inr ec) # es' \<and> filter is_UpdateEC es = [E_UpdateEC x u] \<and>
       (deletion_is_zero (om_DeletionTimestamp (ec_Meta ec)) \<and> \<not> k_ContainsFinalizer (r_Client r) (ec_Meta ec) FinalizerName \<and>
          x = ec\<lparr>ec_Meta := k_AddFinalizer (r_Client r) (ec_Meta ec) FinalizerName\<rparr> \<or>
        \<not> deletion_is_zero (om_DeletionTimestamp (ec_Meta ec)) \<and> k_ContainsFinalizer (r_Client r) (ec_Meta ec) FinalizerName \<and>
          x = ec\<lparr>ec_Meta := k_RemoveFinalizer (r_Client r) (ec_Meta ec) FinalizerName\<rparr> \<or>
        live r ec \<and> (\<exists>n q mint y encoded. E_Mint n q (Inr mint) \<in> set es' \<and> E_WriteSecret y None \<in> set es' \<and>
          encodeHandle (mint_Handle mint) = Inr encoded \<and> x = with_handle ec encoded)))"
  using assms
proof (cases rule: reconcile_trace.cases)
  case (deleting ec es)
  then show ?thesis
    by (auto elim!: remove_trace.cases dest!: last_revoke_quiet delete_quiet simp: filter_quiet quietD)
next
  case (unprotected ec es)
  then show ?thesis by (auto elim!: finalizer_trace.cases)
next
  case (due ec prov t es)
  from update_in_rotation [OF due(5)] show ?thesis unfolding due(1) using due(2) by fastforce
next
  case (repair ec prov t pr es m)
  have "filter is_UpdateEC pr = []" using probe_quiet [OF repair(5)] by (simp add: filter_quiet quietD)
  moreover have "filter is_UpdateEC (event_trace r EventTypeWarning ReasonSecretMissing m) = []" by (simp add: event_trace_def)
  ultimately show ?thesis using update_in_rotation [OF repair(6)] unfolding repair(1) using repair(2) by fastforce
qed (auto dest!: fail_quiet probe_quiet simp: filter_quiet quietD)

text \<open>
  C18. The broker leaves its mark and nothing else on a resource. A reconcile updates the resource at most once, with what it has fetched,
  changed in one place only: its finalizer is added to a live resource that lacks it, or removed from a deleted one that has it, or, on a live
  resource with the finalizer, after a mint and a write of the target Secret that both succeeded, the annotation of the handle is set to
  the handle of this mint. The spec, the status and every other annotation are sent back as they were read.
\<close>

theorem update_sets_one_mark:
  assumes "E_UpdateEC x u \<in> set (effects_of r req s)"
  shows "occurs is_UpdateEC (effects_of r req s) = 1 \<and>
    (\<exists>ec es. effects_of r req s = E_GetEC req (Inr ec) # es \<and>
      (deletion_is_zero (om_DeletionTimestamp (ec_Meta ec)) \<and> \<not> k_ContainsFinalizer (r_Client r) (ec_Meta ec) FinalizerName \<and>
         x = ec\<lparr>ec_Meta := k_AddFinalizer (r_Client r) (ec_Meta ec) FinalizerName\<rparr> \<or>
       \<not> deletion_is_zero (om_DeletionTimestamp (ec_Meta ec)) \<and> k_ContainsFinalizer (r_Client r) (ec_Meta ec) FinalizerName \<and>
         x = ec\<lparr>ec_Meta := k_RemoveFinalizer (r_Client r) (ec_Meta ec) FinalizerName\<rparr> \<or>
       deletion_is_zero (om_DeletionTimestamp (ec_Meta ec)) \<and> k_ContainsFinalizer (r_Client r) (ec_Meta ec) FinalizerName \<and>
         (\<exists>n q mint y encoded. E_Mint n q (Inr mint) \<in> set es \<and> E_WriteSecret y None \<in> set es \<and>
            encodeHandle (mint_Handle mint) = Inr encoded \<and>
            x = ec\<lparr>ec_Meta := (ec_Meta ec)\<lparr>om_Annotations :=
              Some ((map_alloc (om_Annotations (ec_Meta ec)))(handleAnnotationKey \<mapsto> encoded))\<rparr>\<rparr>)))"
proof -
  define F where "F = filter is_UpdateEC (effects_of r req s)"
  have mem: "E_UpdateEC x u \<in> set F" using assms by (simp add: F_def)
  note updates = reconcile_updates [OF follows, of r req s, folded F_def, unfolded with_handle_def]
  from updates mem obtain u' where F: "F = [E_UpdateEC x u']" by auto
  have "occurs is_UpdateEC (effects_of r req s) = 1" using F by (simp add: F_def occurs_def)
  then show ?thesis using updates [unfolded F] by (simp add: conj_assoc)
qed

section \<open>Status reports\<close>

context conditions
begin

lemma with_ready_reports:
  "with_ready K ec (ready_condition ec0 status reason m) ec' \<Longrightarrow> ready_of ec' = Some (status, reason, m)"
  using set_condition by (auto simp: with_ready_def ready_condition_def)

end

lemma with_ready_keeps:
  assumes "with_ready K ec c ec'"
  shows "st_State (ec_Status ec') = st_State (ec_Status ec)"
    and "st_ExpiresAt (ec_Status ec') = st_ExpiresAt (ec_Status ec)"
  using assms by (auto simp: with_ready_def)

text \<open>
  \<open>grounded es x\<close>: the effects \<open>es\<close> that the status write of \<open>x\<close> rests on.
\<close>

definition grounded :: "effect list \<Rightarrow> EphemeralCredential \<Rightarrow> bool" where
  "grounded es x \<longleftrightarrow>
     (\<exists>status reason m. ready_of x = Some (status, reason, m) \<and>
       (st_State (ec_Status x) = StatePending \<and> status = ConditionFalse \<or>
        st_State (ec_Status x) = StateActive \<and> status = ConditionTrue \<and>
          (\<exists>n q mint y. E_Mint n q (Inr mint) \<in> set es \<and> E_WriteSecret y None \<in> set es \<and>
             st_ExpiresAt (ec_Status x) = Some (mint_ExpiresAt mint)) \<or>
        st_State (ec_Status x) = StateExpiring \<and> status = ConditionTrue \<and> reason = ReasonRotationFailed \<and>
          (\<exists>t e. E_Now t \<in> set es \<and> st_ExpiresAt (ec_Status x) = Some e \<and> t < e) \<or>
        st_State (ec_Status x) = StateFailed \<and> status = ConditionFalse \<and>
          (st_ExpiresAt (ec_Status x) = None \<or>
           (\<exists>t e. E_Now t \<in> set es \<and> st_ExpiresAt (ec_Status x) = Some e \<and> e \<le> t))))"

lemma grounded_mono: "grounded es x \<Longrightarrow> set es \<subseteq> set es' \<Longrightarrow> grounded es' x"
  unfolding grounded_def by blast

lemma no_status_effect: "never is_StatusUpdate es \<Longrightarrow> E_StatusUpdate x u \<notin> set es"
  by (force simp: never_def)

lemma fail_report_grounded:
  assumes "conditions K" and "fail_report K ec re ms t del x"
  shows "grounded [E_Now t] x"
  using assms(2)
  by (cases rule: fail_report.cases)
     (auto simp: grounded_def conditions.with_ready_reports [OF assms(1)] with_ready_keeps time_Before_def)

lemma no_status_in_parts:
  "fail_report K ec re ms t del x' \<Longrightarrow> E_StatusUpdate x u \<notin> set del"
  "probe_trace K ec y pr \<Longrightarrow> E_StatusUpdate x u \<notin> set pr"
  "scope_trace ns spec z sc \<Longrightarrow> E_StatusUpdate x u \<notin> set sc"
  "revoke_trace r prov prev rv \<Longrightarrow> E_StatusUpdate x u \<notin> set rv"
  "E_StatusUpdate x u \<notin> set (event_trace r' ty re' ms')"
  by (auto elim!: fail_report.cases delete_trace.cases dest!: probe_quiet scope_quiet revoke_quiet
      simp: no_status_effect event_trace_def)

lemma fail_grounded:
  assumes "conditions (r_Client r)" and "fail_trace r ec re ms c b out es" and "E_StatusUpdate x u \<in> set es"
  shows "grounded es x"
proof -
  obtain t del where rep: "fail_report (r_Client r) ec re ms t del x" and "E_Now t \<in> set es"
    using assms(2,3) by (auto elim!: fail_trace.cases simp: no_status_in_parts)
  then show ?thesis
    using grounded_mono [OF fail_report_grounded [OF assms(1) rep]] by simp
qed

lemma finish_grounded:
  assumes "conditions (r_Client r)" and "finish_trace r ec prov t prev mint out es" and "E_StatusUpdate x u \<in> set es"
  shows "grounded [E_Mint n q (Inr mint), E_WriteSecret sec None] x"
proof -
  obtain m where "with_ready (r_Client r) (minted_status ec t mint) (ready_condition ec ConditionTrue ReasonMintSucceeded m) x"
    using assms(2,3) by (auto elim!: finish_trace.cases simp: no_status_in_parts)
  then show ?thesis
    by (auto simp: grounded_def conditions.with_ready_reports [OF assms(1)] with_ready_keeps minted_status_def)
qed

lemma rotate_grounded:
  assumes "conditions (r_Client r)" and "rotate_trace r ec prov t out es" and "E_StatusUpdate x u \<in> set es"
  shows "grounded es x"
  using assms(2)
proof (cases rule: rotate_trace.cases)
  case (minted scope sc mint encoded ec' fin)
  then have "E_StatusUpdate x u \<in> set fin" using assms(3) by (auto simp: no_status_in_parts)
  from finish_grounded [OF assms(1) minted(4) this] show ?thesis
    by (rule grounded_mono) (auto simp: minted(1))
qed (use assms(3) in \<open>auto simp: no_status_in_parts dest!: fail_grounded [OF assms(1)] elim: grounded_mono\<close>)

lemma finalizer_grounded:
  assumes "conditions (r_Client r)" and "finalizer_trace r ec out es" and "E_StatusUpdate x u \<in> set es"
  shows "grounded es x"
  using assms(2,3)
  by (auto elim!: finalizer_trace.cases
      simp: grounded_def conditions.with_ready_reports [OF assms(1)] with_ready_keeps)

text \<open>
  A reconcile that reports Expiring has left the Secrets alone: it has deleted none, and no write of one succeeded.
\<close>

lemma report_expiring: "fail_report K ec re ms t del x \<Longrightarrow> st_State (ec_Status x) = StateExpiring \<Longrightarrow> del = []"
  by (auto elim!: fail_report.cases dest!: with_ready_keeps(1))

lemma fail_expiring:
  assumes "fail_trace r ec re ms c b out es" and "E_StatusUpdate x u \<in> set es" and "st_State (ec_Status x) = StateExpiring"
  shows "never is_DeleteSecret es"
proof -
  obtain t del u' tl where es: "es = E_Now t # del @ E_StatusUpdate x u' # tl" and "never is_DeleteSecret tl"
    and "fail_report (r_Client r) ec re ms t del x"
    using assms(1,2) by (cases rule: fail_trace.cases) (auto simp: no_status_in_parts)
  then show ?thesis using report_expiring [OF _ assms(3)] by fastforce
qed

lemma finish_active:
  assumes "finish_trace r ec prov t prev mint out es" and "E_StatusUpdate x u \<in> set es"
  shows "st_State (ec_Status x) = StateActive"
  using assms by (auto elim!: finish_trace.cases simp: no_status_in_parts minted_status_def dest: with_ready_keeps(1))

lemma rotate_expiring:
  assumes "rotate_trace r ec prov t out es" and "E_StatusUpdate x u \<in> set es" and "st_State (ec_Status x) = StateExpiring"
  shows "never is_DeleteSecret es \<and> never wrote_ok es"
  using assms(1)
proof (cases rule: rotate_trace.cases)
  case (minted scope sc mint encoded ec' fin)
  then show ?thesis using assms(2,3) finish_active [OF minted(4)] by (auto simp: no_status_in_parts)
qed (use assms(2,3) in \<open>auto simp: no_status_in_parts quietD dest!: scope_quiet dest: fail_expiring fail_quiet\<close>)

lemma finalizer_pending:
  assumes "finalizer_trace r ec out es" and "E_StatusUpdate x u \<in> set es"
  shows "st_State (ec_Status x) = StatePending"
  using assms by (auto elim!: finalizer_trace.cases dest: with_ready_keeps(1))

lemma reconcile_expiring:
  assumes "reconcile_trace r req out es" and "E_StatusUpdate x u \<in> set es" and "st_State (ec_Status x) = StateExpiring"
  shows "never is_DeleteSecret es \<and> never wrote_ok es"
  using assms
  by (cases rule: reconcile_trace.cases)
    (auto dest!: remove_quiet probe_quiet simp: no_status_in_parts no_status_effect quietD
      dest: rotate_expiring fail_expiring fail_quiet finalizer_pending)

text \<open>
  \<open>seen_missing K es x\<close>: a read in \<open>es\<close> was answered that the target Secret of \<open>x\<close> does not exist. \<open>backed K es x\<close>: the status write of
  \<open>x\<close> is right in the sense of the API documentation as far as the broker has looked. Ready=True then means that the credential
  was just written, or that its expiry is ahead, the Secret was left as it was, and no read has found it missing.
\<close>

definition seen_missing :: "'s k8s \<Rightarrow> effect list \<Rightarrow> EphemeralCredential \<Rightarrow> bool" where
  "seen_missing K es x \<longleftrightarrow> (\<exists>e. E_GetSecret (target_key x) (Inl e) \<in> set es \<and> k_IsNotFound K e)"

definition backed :: "'s k8s \<Rightarrow> effect list \<Rightarrow> EphemeralCredential \<Rightarrow> bool" where
  "backed K es x \<longleftrightarrow> grounded es x \<and>
     (st_State (ec_Status x) = StateExpiring \<longrightarrow>
        never is_DeleteSecret es \<and> never wrote_ok es \<and> \<not> seen_missing K es x)"

lemma groundedE:
  assumes "conditions (r_Client r)" and "E_StatusUpdate x u \<in> set (effects_of r req s)"
  shows "grounded (effects_of r req s) x"
  using follows [of r req s] assms(2)
  by (cases rule: reconcile_trace.cases)
     (auto dest!: finalizer_grounded [OF assms(1)] rotate_grounded [OF assms(1)] fail_grounded [OF assms(1)] remove_quiet
       simp: no_status_in_parts no_status_effect elim!: grounded_mono)

text \<open>
  C12. What the status reports rest on. Every status the broker writes says Pending with Ready=False; or Active with
  Ready=True, after a mint and a write of the target Secret in this reconcile that both succeeded, and with the expiry of this mint; or
  Expiring with Ready=True, when a clock reading was before the recorded expiry and this reconcile has neither deleted nor
  written a Secret; or Failed with Ready=False, when there is no recorded expiry or a clock reading was not before it. Ready=True is
  backed in the sense of the API documentation, with one exception, which the second alternative describes: Expiring with
  Ready=True is also written when this reconcile itself has read that the target Secret does not exist. The hypothesis is the
  documented behaviour of \<open>meta.SetStatusCondition\<close>.
\<close>

theorem status_reports_backed:
  assumes "conditions (r_Client r)" and "E_StatusUpdate x u \<in> set (effects_of r req s)"
  shows "backed (r_Client r) (effects_of r req s) x \<or>
    (seen_missing (r_Client r) (effects_of r req s) x \<and> st_State (ec_Status x) = StateExpiring \<and>
     (\<exists>m. ready_of x = Some (ConditionTrue, ReasonRotationFailed, m)) \<and>
     (\<exists>t e. E_Now t \<in> set (effects_of r req s) \<and> st_ExpiresAt (ec_Status x) = Some e \<and> t < e) \<and>
     never is_DeleteSecret (effects_of r req s) \<and> never wrote_ok (effects_of r req s))"
  using groundedE [OF assms] reconcile_expiring [OF follows assms(2)]
  unfolding backed_def by (cases "st_State (ec_Status x) = StateExpiring") (auto simp: grounded_def)

section \<open>Witnesses\<close>

text \<open>The same resource for a provider that is not registered.\<close>

abbreviation vault_ec :: EphemeralCredential where
  "vault_ec \<equiv> fresh_ec\<lparr>ec_Spec := (ec_Spec fresh_ec)\<lparr>spec_Provider := ''vault''\<rparr>\<rparr>"

theorem unregistered_provider_parks_witness:
  "let es = effects_of mem_reconciler sample_req (sample_world vault_ec) in
   never is_Mint es \<and> occurs is_StatusUpdate es = 1 \<and>
   fst (outcome_of mem_reconciler sample_req (sample_world vault_ec)) = emptyResult"
  using unregistered_provider_parks [OF sample_fetch, of vault_ec] by simp

text \<open>The resource is being deleted; its Secret still exists.\<close>

theorem deletion_order_witness:
  "let es = effects_of mem_reconciler sample_req (sample_world (with_deletion fresh_ec)) in
   never is_Mint es \<and> precedes (secret_gone mem_k8s (with_deletion fresh_ec)) is_UpdateEC es"
  using deletion_order [OF sample_fetch, of "with_deletion fresh_ec"]
  by (simp add: object_key_def sample_ec_def deletion_is_zero_def zero_time_def Second_def mem_reconciler_def)


text \<open>A resource the broker sees for the first time.\<close>

abbreviation new_ec :: EphemeralCredential where
  "new_ec \<equiv> fresh_ec\<lparr>ec_Meta := (ec_Meta fresh_ec)\<lparr>om_Finalizers := []\<rparr>\<rparr>"

theorem status_reports_backed_witness:
  "\<exists>x u. E_StatusUpdate x u \<in> set (effects_of mem_reconciler sample_req (sample_world new_ec)) \<and>
     backed mem_k8s (effects_of mem_reconciler sample_req (sample_world new_ec)) x \<and> st_State (ec_Status x) = StatePending"
proof -
  have "\<exists>x u. E_StatusUpdate x u \<in> set (effects_of mem_reconciler sample_req (sample_world new_ec)) \<and>
      st_State (ec_Status x) = StatePending"
    by (simp add: effects_of_def Reconcile_def rec1_def logged_def logged_k8s_def mem_reconciler_def mem_k8s_def
        mem_Get_EC_def sample_world_def sample_ec_def object_key_def deletion_is_zero_def ensureFinalizer_def
        mem_Update_EC_def Let_def setReadyCondition_def mem_Status_Update_def)
  then show ?thesis
    using status_reports_backed [of mem_reconciler] mem.conditions_axioms by (fastforce simp: mem_reconciler_def)
qed

lemma fresh_mints: "\<exists>n q m. E_Mint n q m \<in> set (effects_of mem_reconciler sample_req (sample_world fresh_ec))"
proof -
  obtain e where "encodeHandle \<lparr>h_ProviderName = ''github-app'', h_Opaque = ''ghs_new''\<rparr> = Inr e"
    using stored_handle.enc_total by blast
  then show ?thesis
    by (simp add: run_defs effects_of_def logged_def logged_k8s_def logged_registry_def logged_provider_def
        rec1_def rotateCredential_def finishMint_def revokePrevious_def writeTargetSecret_def
        buildScope_def buildGitHubScope_def mem_CreateOrUpdate_def mem_SetControllerReference_def needsMint_def
        sample_world_def sample_ec_def sample_secret_def sample_config_def ProviderGitHubApp_def mutateTargetSecret_def
        NewRegistry_def Registry_Get_def mem_provider_def sample_mint_def decodeHandle_def newTargetSecret_def split: prod.split)
qed

theorem mint_only_when_due_witness:
  "\<exists>ec t es. effects_of mem_reconciler sample_req (sample_world fresh_ec) = E_GetEC sample_req (Inr ec) # E_Now t # es \<and>
    (st_ExpiresAt (ec_Status ec) = None \<or> om_Generation (ec_Meta ec) \<noteq> st_ObservedGeneration (ec_Status ec) \<or>
     (\<exists>e. st_ExpiresAt (ec_Status ec) = Some e \<and> e \<le> t + rotation_window ec) \<or>
     ts_Name (spec_TargetSecret (ec_Spec ec)) = [] \<or>
     (\<exists>e es'. es = E_GetSecret (target_key ec) (Inl e) # es' \<and> k_IsNotFound (r_Client mem_reconciler) e))"
  using fresh_mints mint_only_when_due [of _ _ _ mem_reconciler sample_req "sample_world fresh_ec"] by blast

theorem update_sets_one_mark_witness:
  "occurs is_UpdateEC (effects_of mem_reconciler sample_req (sample_world new_ec)) = 1"
proof -
  obtain x u where "E_UpdateEC x u \<in> set (effects_of mem_reconciler sample_req (sample_world new_ec))"
    by (fastforce simp: effects_of_def Reconcile_def rec1_def logged_def logged_k8s_def mem_reconciler_def mem_k8s_def
        mem_Get_EC_def sample_world_def sample_ec_def object_key_def deletion_is_zero_def ensureFinalizer_def
        mem_Update_EC_def Let_def setReadyCondition_def mem_Status_Update_def)
  from update_sets_one_mark [OF this] show ?thesis by blast
qed

end
