(* ===== verification/Recording.thy ===== *)
theory Recording
  imports Effects
begin

text \<open>
  Recording changes nothing: a computation of the reconciler over the recording environment
  has the result and the final state it has over the environment itself. So what is shown of the
  recorded effects is shown of the code.
\<close>

lemma erases_provider:
  "(x = None \<Longrightarrow> erases m m') \<Longrightarrow> (\<And>p. x = Some p \<Longrightarrow> erases (n (logged_provider p)) (n' p)) \<Longrightarrow>
   erases (case map_option logged_provider x of None \<Rightarrow> m | Some y \<Rightarrow> n y) (case x of None \<Rightarrow> m' | Some y \<Rightarrow> n' y)"
  by (cases x) auto

lemma erases_now [intro!]: "erases (now (logged r)) (now r)"
  by (auto simp: now_def logged_def split: option.split)

lemma erases_event [intro!]: "erases (event (logged r) ec ty re ms) (event r ec ty re ms)"
  by (auto simp: event_def logged_def logged_recorder_def erases_def split: option.split)

lemma erases_setReady [intro!]: "erases (setReadyCondition (logged r) ec st re ms) (setReadyCondition r ec st re ms)"
  by (auto simp: setReadyCondition_def logged_def logged_k8s_def erases_def)

lemma erases_deleteTargetSecret [intro!]: "erases (deleteTargetSecret (logged r) ec) (deleteTargetSecret r ec)"
  unfolding deleteTargetSecret_def logged_simps by blast

lemma erases_targetSecretExists [intro!]: "erases (targetSecretExists (logged r) ec) (targetSecretExists r ec)"
  unfolding targetSecretExists_def logged_simps by blast

lemma erases_writeTargetSecret [intro!]:
  "erases (writeTargetSecret (logged r) ec mint) (writeTargetSecret r ec mint)"
proof -
  have ref: "k_SetControllerReference (logged_k8s K) = k_SetControllerReference K" for K :: "'a k8s"
    by (simp add: logged_k8s_def)
  show ?thesis unfolding writeTargetSecret_def logged_simps ref by blast
qed

lemma erases_failStatus [intro!]:
  "erases (failStatus (logged r) ec re ms c b) (failStatus r ec re ms c b)"
  unfolding failStatus_def logged_simps by blast

lemma erases_reconcileDelete [intro!]: "erases (reconcileDelete (logged r) ec) (reconcileDelete r ec)"
  unfolding reconcileDelete_def logged_simps by (intro erases_if erases_bind erases_provider) auto

lemma erases_buildScope [intro!]: "erases (buildScope (logged_k8s K) ns spec) (buildScope K ns spec)"
  unfolding buildScope_def buildGitHubScope_def logged_simps Let_def by blast

lemma erases_revokePrevious [intro!]:
  "erases (revokePrevious (logged r) ec (logged_provider p) prev) (revokePrevious r ec p prev)"
  unfolding revokePrevious_def logged_simps by blast

lemma erases_finishMint [intro!]:
  "erases (finishMint (logged r) ec (logged_provider p) t prev mint) (finishMint r ec p t prev mint)"
  unfolding finishMint_def logged_simps Let_def case_prod_unfold by blast

lemma erases_rotateCredential [intro!]:
  "erases (rotateCredential (logged r) ec (logged_provider p) t) (rotateCredential r ec p t)"
  unfolding rotateCredential_def logged_simps Let_def by blast

lemma erases_ensureFinalizer [intro!]: "erases (ensureFinalizer (logged r) ec) (ensureFinalizer r ec)"
  unfolding ensureFinalizer_def logged_simps by blast

lemma erases_Reconcile: "erases (Reconcile (logged r) req) (Reconcile r req)"
  unfolding Reconcile_def logged_simps Let_def
  by (intro erases_bind erases_case_sum erases_if erases_provider) auto

text \<open>
  The recorded run is the run: reconciling over the recording environment ends with the
  result and in the environment state with which reconciling over the environment itself ends.
\<close>

lemma recording_transparent:
  "run_state (Reconcile r req) s =
     (outcome_of r req s, fst (snd (run_state (Reconcile (logged r) req) (s, []))))"
  using erases_Reconcile [of r req] by (simp add: erases_def outcome_of_def)

end
