(* ===== verification/Cluster_Props.thy ===== *)
theory Cluster_Props
  imports Recording Api_Server
begin

text \<open>
  What a successful reconcile establishes in the cluster. The environment is the locale
  \<open>broker_env\<close>: an API server that obeys the laws of \<open>cluster\<close>, and a provider, an event recorder and a
  clock that do not themselves write resources or Secrets; a registered provider keeps the
  \<open>provider_contract\<close>, and its name is valid UTF-8.
\<close>

text \<open>The status a successful mint leaves behind, as the API server stores it.\<close>

definition minted_as :: "EphemeralCredential \<Rightarrow> time \<Rightarrow> MintResult \<Rightarrow> EphemeralCredential \<Rightarrow> bool" where
  "minted_as ec t mint ec' \<longleftrightarrow>
     ec_Spec ec' = ec_Spec ec \<and> ec_key ec' = ec_key ec \<and>
     st_State (ec_Status ec') = StateActive \<and>
     st_ExpiresAt (ec_Status ec') = Some (wire_time (mint_ExpiresAt mint)) \<and>
     st_LastRotatedAt (ec_Status ec') = Some (wire_time t) \<and>
     st_ObservedGeneration (ec_Status ec') = om_Generation (ec_Meta ec') \<and>
     (\<exists>m. ready_of ec' = Some (ConditionTrue, ReasonMintSucceeded, m))"

text \<open>
  \<open>rotated ecs secs p ec t old s\<close>: in the state \<open>s\<close> a credential that the provider \<open>p\<close> minted for \<open>ec\<close> is in
  place. The target Secret holds it, as the write of \<open>mutateTargetSecret\<close> over the Secret \<open>old\<close> that was
  there before, the resource is Active with the granted expiry, and its annotation decodes to the
  handle with which the credential can be revoked.
\<close>

definition rotated ::
  "('s \<Rightarrow> NamespacedName \<Rightarrow> EphemeralCredential option) \<Rightarrow> ('s \<Rightarrow> NamespacedName \<Rightarrow> Secret option) \<Rightarrow>
   's Provider \<Rightarrow> EphemeralCredential \<Rightarrow> time \<Rightarrow> Secret option \<Rightarrow> 's \<Rightarrow> bool" where
  "rotated ecs secs p ec t old s \<longleftrightarrow>
     (\<exists>mint q s1 s2 ec' sec.
        prov_Mint p q s1 = (Inr mint, s2) \<and>
        ecs s (ec_key ec) = Some ec' \<and> minted_as ec t mint ec' \<and>
        decodeHandle (map_get_string (om_Annotations (ec_Meta ec')) handleAnnotationKey) = Some (mint_Handle mint) \<and>
        secs s (target_key ec) = Some sec \<and>
        same_secret (mutateTargetSecret ec mint (case old of None \<Rightarrow> newTargetSecret ec | Some x \<Rightarrow> x)) sec)"

locale broker_env = cluster "r_Client r" ecs secs
  for r :: "'s Reconciler"
    and ecs :: "'s \<Rightarrow> NamespacedName \<Rightarrow> EphemeralCredential option"
    and secs :: "'s \<Rightarrow> NamespacedName \<Rightarrow> Secret option" +
  assumes clock_keeps: "run_state (now r) s = (t, s') \<Longrightarrow> ecs s' = ecs s \<and> secs s' = secs s"
    and event_keeps: "r_Recorder r = Some f \<Longrightarrow> ecs (f ec ty re ms s) = ecs s \<and> secs (f ec ty re ms s) = secs s"
    and mint_keeps: "Registry_Get (r_Providers r) n = Some p \<Longrightarrow> prov_Mint p q s = (m, s') \<Longrightarrow>
      ecs s' = ecs s \<and> secs s' = secs s"
    and revoke_keeps: "Registry_Get (r_Providers r) n = Some p \<Longrightarrow> prov_Revoke p h s = (e, s') \<Longrightarrow>
      ecs s' = ecs s \<and> secs s' = secs s"
    and contract: "Registry_Get (r_Providers r) n = Some p \<Longrightarrow> provider_contract p \<and> valid_utf8 (prov_Name p)"
begin

abbreviation keeps :: "'s \<Rightarrow> 's \<Rightarrow> bool" where
  "keeps s s' \<equiv> ecs s' = ecs s \<and> secs s' = secs s"

lemma wp_now: "(\<And>t s'. keeps s s' \<Longrightarrow> Q t s') \<Longrightarrow> wp (now r) Q s"
  by (rule wp_I) (use clock_keeps in blast)

lemma wp_event: "(\<And>s'. keeps s s' \<Longrightarrow> Q () s') \<Longrightarrow> wp (event r ec ty re ms) Q s"
  by (cases "r_Recorder r") (auto simp: event_def wp_simps dest: event_keeps)

lemma wp_setReady:
  assumes "\<And>ec' cs. ready_of ec' = Some (status, reason, m) \<Longrightarrow>
    ec' = ec\<lparr>ec_Status := (ec_Status ec)\<lparr>st_Conditions := cs\<rparr>\<rparr> \<Longrightarrow> Q ec' s"
  shows "wp (setReadyCondition r ec status reason m) Q s"
  unfolding setReadyCondition_def wp_State
proof (clarsimp, rule assms)
  show "status_update (st_Conditions_update (\<lambda>cs. k_SetStatusCondition (r_Client r) cs c s)) ec =
      ec\<lparr>ec_Status := (ec_Status ec)\<lparr>st_Conditions := k_SetStatusCondition (r_Client r) (st_Conditions (ec_Status ec)) c s\<rparr>\<rparr>" for c
    by (cases "ec_Status ec") simp
qed (simp add: set_condition)

lemma wp_Status_Update:
  assumes "\<And>e s'. Q (Inl e) s'"
    and "\<And>ec' s'. same_object ec ec' \<Longrightarrow> same_status ec ec' \<Longrightarrow> secs s' = secs s \<Longrightarrow>
      ecs s' = (ecs s)(ec_key ec \<mapsto> ec') \<Longrightarrow> Q (Inr ec') s'"
  shows "wp (State (k_Status_Update (r_Client r) ec)) Q s"
  unfolding wp_State using assms status_update by (metis Inl_Inr_False obj_sumE)

lemma wp_Update_EC:
  assumes "\<And>e s'. Q (Inl e) s'"
    and "\<And>ec' s'. same_object ec ec' \<Longrightarrow> secs s' = secs s \<Longrightarrow>
      ecs s' = (ecs s)(ec_key ec := (if \<not> deletion_is_zero (om_DeletionTimestamp (ec_Meta ec)) \<and>
        om_Finalizers (ec_Meta ec) = [] then None else Some ec')) \<Longrightarrow> Q (Inr ec') s'"
  shows "wp (State (k_Update_EC (r_Client r) ec)) Q s"
  unfolding wp_State using assms update_ec by (metis obj_sumE)

lemma wp_revokePrevious:
  assumes "Registry_Get (r_Providers r) n = Some p" and "\<And>s'. keeps s s' \<Longrightarrow> Q () s'"
  shows "wp (revokePrevious r ec p prev) Q s"
  unfolding revokePrevious_def
  by (auto simp: wp_simps assms(2) split: option.split intro!: wp_event dest!: revoke_keeps [OF assms(1)])

lemma fail_reports_error: "wp (failStatus r ec re ms (Some c) True) (\<lambda>out s'. snd out \<noteq> None) s"
  by (auto simp: failStatus_def wp_def split: prod.splits sum.splits)

lemma minted_as_stored:
  assumes "same_object x ec'" and "same_status x ec'"
    and "ready_of x = Some (ConditionTrue, ReasonMintSucceeded, m)"
    and "x = ec\<lparr>ec_Status := st\<lparr>st_State := StateActive, st_ExpiresAt := Some (mint_ExpiresAt mint),
           st_LastRotatedAt := Some t, st_ObservedGeneration := om_Generation (ec_Meta ec), st_Conditions := cs\<rparr>\<rparr>"
  shows "minted_as ec t mint ec' \<and> om_Annotations (ec_Meta ec') = om_Annotations (ec_Meta ec)"
  using assms same_object_fields [OF assms(1)] by (simp add: minted_as_def same_status_def)

lemma finish_establishes:
  assumes "Registry_Get (r_Providers r) n = Some p"
  shows "wp (finishMint r ec p t prev mint)
    (\<lambda>out s'. snd out = None \<longrightarrow> secs s' = secs s \<and>
       (\<exists>ec'. ecs s' (ec_key ec) = Some ec' \<and> minted_as ec t mint ec' \<and>
          om_Annotations (ec_Meta ec') = om_Annotations (ec_Meta ec))) s"
  unfolding finishMint_def wp_bind Let_def case_prod_unfold
  apply (rule wp_setReady)
  apply (rule wp_Status_Update)
   apply (simp add: wp_simps)
  apply (simp add: wp_simps)
  apply (auto intro!: wp_event wp_revokePrevious [OF assms] dest!: minted_as_stored simp: object_key_def wp_simps)
  done

lemma wp_fail: "(\<And>out s'. snd out \<noteq> None \<Longrightarrow> Q out s') \<Longrightarrow> wp (failStatus r ec re ms (Some c) True) Q s"
  by (rule wp_mono [OF fail_reports_error])

lemma wp_buildScope: "(\<And>x s'. keeps s s' \<Longrightarrow> Q x s') \<Longrightarrow> wp (buildScope (r_Client r) ns spec) Q s"
  by (auto simp: buildScope_def buildGitHubScope_def Let_def wp_simps split: option.split dest!: get_secret)

lemma wp_mint:
  assumes "Registry_Get (r_Providers r) n = Some p" and "\<And>e s'. Q (Inl e) s'"
    and "\<And>m s'. prov_Mint p q s = (Inr m, s') \<Longrightarrow> keeps s s' \<Longrightarrow> Q (Inr m) s'"
  shows "wp (State (prov_Mint p q)) Q s"
  unfolding wp_State
proof (intro allI impI)
  fix x s' assume "prov_Mint p q s = (x, s')"
  then show "Q x s'" using assms(2,3) mint_keeps [OF assms(1)] by (cases x) auto
qed

lemma wp_writeTargetSecret:
  assumes "\<And>e s'. Q (Some e) s'"
    and "\<And>stored s'. ecs s' = ecs s \<Longrightarrow> secs s' = (secs s)(target_key ec \<mapsto> stored) \<Longrightarrow>
      same_secret (mutateTargetSecret ec mint
        (case secs s (target_key ec) of None \<Rightarrow> newTargetSecret ec | Some old \<Rightarrow> old)) stored \<Longrightarrow> Q None s'"
  shows "wp (writeTargetSecret r ec mint) Q s"
  unfolding writeTargetSecret_def wp_simps
proof (intro allI impI)
  fix e s'
  let ?f = "\<lambda>secret. k_SetControllerReference (r_Client r) ec (mutateTargetSecret ec mint secret)"
  assume w: "k_CreateOrUpdate (r_Client r) (newTargetSecret ec) ?f s = (e, s')"
  have key: "sec_key (newTargetSecret ec) = target_key ec"
    by (simp add: newTargetSecret_def target_key_def object_key_def)
  show "Q (case e of None \<Rightarrow> None | Some err \<Rightarrow> Some (Wrapf ''writing target secret %q: %w''
      [A_str (ts_Name (spec_TargetSecret (ec_Spec ec)))] err)) s'"
  proof (cases e)
    case None
    then obtain out stored where
      "?f (case secs s (target_key ec) of None \<Rightarrow> newTargetSecret ec | Some old \<Rightarrow> old) = Inr out"
      "same_secret out stored" "secs s' = (secs s)(target_key ec \<mapsto> stored)" "ecs s' = ecs s"
      using create_or_update [of "newTargetSecret ec" ?f s s'] w key by auto
    then show ?thesis
      using None assms(2) controller_reference by (fastforce simp: same_secret_def)
  qed (simp add: assms(1))
qed

lemma handle_readable:
  assumes "Registry_Get (r_Providers r) n = Some p" and "prov_Mint p q s = (Inr mint, s')"
    and "encodeHandle (mint_Handle mint) = Inr e"
  shows "decodeHandle e = Some (mint_Handle mint)"
  using stored_handle.dec_enc contract [OF assms(1)] provider_contract.mint_label assms(2,3) by metis

lemma finish_with_handle:
  assumes p: "Registry_Get (r_Providers r) n = Some p" and mint: "prov_Mint p q s0 = (Inr mint, s1)"
    and enc: "encodeHandle (mint_Handle mint) = Inr encoded"
    and obj: "same_object (ec\<lparr>ec_Meta := (ec_Meta ec)\<lparr>om_Annotations :=
        Some ((map_alloc (om_Annotations (ec_Meta ec)))(handleAnnotationKey \<mapsto> encoded))\<rparr>\<rparr>) ec2"
  shows "wp (finishMint r ec2 p t prev mint)
    (\<lambda>out s'. snd out = None \<longrightarrow> secs s' = secs s \<and>
       (\<exists>ec'. ecs s' (ec_key ec) = Some ec' \<and> minted_as ec t mint ec' \<and>
          decodeHandle (map_get_string (om_Annotations (ec_Meta ec')) handleAnnotationKey) = Some (mint_Handle mint))) s"
proof (rule wp_mono [OF finish_establishes [OF p]], intro impI)
  fix out s'
  assume "snd out = None \<longrightarrow> secs s' = secs s \<and>
      (\<exists>ec'. ecs s' (ec_key ec2) = Some ec' \<and> minted_as ec2 t mint ec' \<and>
         om_Annotations (ec_Meta ec') = om_Annotations (ec_Meta ec2))" and "snd out = None"
  moreover note same_object_fields [OF obj]
  ultimately show "secs s' = secs s \<and>
       (\<exists>ec'. ecs s' (ec_key ec) = Some ec' \<and> minted_as ec t mint ec' \<and>
          decodeHandle (map_get_string (om_Annotations (ec_Meta ec')) handleAnnotationKey) = Some (mint_Handle mint))"
    using handle_readable [OF p mint enc] by (fastforce simp: object_key_def minted_as_def)
qed

lemma rotate_establishes:
  assumes p: "Registry_Get (r_Providers r) n = Some p"
  shows "wp (rotateCredential r ec p t)
    (\<lambda>out s'. snd out = None \<longrightarrow> rotated ecs secs p ec t (secs s (target_key ec)) s') s"
  unfolding rotateCredential_def wp_bind Let_def
  apply (rule wp_buildScope, rule wp_sumI, rule wp_fail, blast)
  apply (simp only: wp_bind, rule wp_mint [OF p], simp only: sum.case, rule wp_fail, blast)
  apply (simp only: sum.case wp_bind, rule wp_writeTargetSecret, simp only: option.case, rule wp_fail, blast)
  apply (simp only: option.case wp_bind, rule wp_sumI, erule notE [OF encodeHandle_never_fails])
  apply (simp only: wp_bind, rule wp_Update_EC, simp add: wp_simps)
  apply (simp only: sum.case, rule wp_mono [OF finish_with_handle [OF p]], assumption+)
  apply (auto simp: rotated_def)
  done

lemma wp_Get_Secret:
  assumes "\<And>e s'. keeps s s' \<Longrightarrow> (k_IsNotFound (r_Client r) e \<Longrightarrow> secs s n = None) \<Longrightarrow> Q (Inl e) s'"
    and "\<And>sec s'. keeps s s' \<Longrightarrow> secs s n = Some sec \<Longrightarrow> sec_key sec = n \<Longrightarrow> Q (Inr sec) s'"
  shows "wp (State (k_Get_Secret (r_Client r) n)) Q s"
  unfolding wp_State
proof (intro allI impI)
  fix g s' assume g: "k_Get_Secret (r_Client r) n s = (g, s')"
  show "Q g s'"
    using assms get_secret [OF g] get_secret_found [of n s] get_secret_absent [of n s] g by (cases g) auto
qed

lemma wp_targetSecretExists:
  assumes "\<And>x s'. keeps s s' \<Longrightarrow> x \<noteq> Inr True \<Longrightarrow> Q x s'"
    and "\<And>sec s'. keeps s s' \<Longrightarrow> secs s (target_key ec) = Some sec \<Longrightarrow> Q (Inr True) s'"
  shows "wp (targetSecretExists r ec) Q s"
proof (cases "ts_Name (spec_TargetSecret (ec_Spec ec)) = []")
  case False
  show ?thesis
    unfolding targetSecretExists_def if_not_P [OF False] wp_bind
    by (rule wp_Get_Secret) (auto simp: wp_simps intro!: assms)
qed (simp add: targetSecretExists_def wp_simps assms(1))

text \<open>A reconcile that ends without an error either found everything in place or put it there.\<close>

lemma reconcile_in_place:
  assumes get: "k_Get_EC (r_Client r) req s = (Inr ec, s1)"
    and live: "deletion_is_zero (om_DeletionTimestamp (ec_Meta ec))"
      "k_ContainsFinalizer (r_Client r) (ec_Meta ec) FinalizerName"
    and p: "Registry_Get (r_Providers r) (spec_Provider (ec_Spec ec)) = Some p"
  shows "wp (Reconcile r req)
    (\<lambda>out s'. snd out = None \<longrightarrow>
       (let t = fst (run_state (now r) s1) in
          ecs s' = ecs s \<and> secs s' = secs s \<and> secs s (target_key ec) \<noteq> None \<and> outside_window t ec \<or>
          rotated ecs secs p ec t (secs s (target_key ec)) s')) s"
proof -
  have same: "keeps s s1" using get_ec [OF get] .
  have rot: "wp (rotateCredential r ec p t) Q s'"
    if "keeps s s'" and "\<And>out s'. snd out = None \<longrightarrow> rotated ecs secs p ec t (secs s (target_key ec)) s' \<Longrightarrow> Q out s'"
    for t s' Q
    by (rule wp_mono [OF rotate_establishes [OF p, of ec t s']]) (use that in simp)
  obtain t s2 where clock: "run_state (now r) s1 = (t, s2)" by fastforce
  then have same2: "keeps s s2" using clock_keeps [OF clock] same by simp
  have read: "wp (now r) Q s1" if "Q t s2" for Q using that clock by (simp add: wp_def)
  show ?thesis
    unfolding Reconcile_def wp_bind Let_def needsMint_iff
    using get live p same2
    apply (simp add: wp_simps clock)
    apply (rule read)
    apply (auto simp: wp_simps intro!: wp_targetSecretExists wp_event rot split: sum.split)
    done
qed

lemma wp_Delete_Secret:
  assumes "\<And>e s'. \<not> k_IsNotFound (r_Client r) e \<Longrightarrow> Q (Some e) s'"
    and "\<And>d s' y. ecs s' = ecs s \<Longrightarrow> secs s' = (secs s)(sec_key sec := y) \<Longrightarrow> after_delete (secs s (sec_key sec)) y \<Longrightarrow>
      d = None \<or> (\<exists>e. d = Some e \<and> k_IsNotFound (r_Client r) e) \<Longrightarrow> Q d s'"
  shows "wp (State (k_Delete_Secret (r_Client r) sec)) Q s"
  unfolding wp_State
proof (intro allI impI)
  fix d s' assume d: "k_Delete_Secret (r_Client r) sec s = (d, s')"
  consider "d = None \<or> (\<exists>e. d = Some e \<and> k_IsNotFound (r_Client r) e)"
    | e where "d = Some e" "\<not> k_IsNotFound (r_Client r) e"
    by (cases d) auto
  then show "Q d s'"
    by cases (use delete_secret [OF d] assms in blast)+
qed

lemma wp_deleteTargetSecret:
  assumes "\<And>e s'. Q (Some e) s'"
    and "\<And>s'. ecs s' = ecs s \<Longrightarrow>
      (ts_Name (spec_TargetSecret (ec_Spec ec)) \<noteq> [] \<Longrightarrow>
         \<exists>y. secs s' = (secs s)(target_key ec := y) \<and> after_delete (secs s (target_key ec)) y) \<Longrightarrow> Q None s'"
  shows "wp (deleteTargetSecret r ec) Q s"
proof (cases "ts_Name (spec_TargetSecret (ec_Spec ec)) = []")
  case False
  show ?thesis
    unfolding deleteTargetSecret_def if_not_P [OF False] wp_bind
  proof (rule wp_Get_Secret, goal_cases)
    case (2 sec s')
    then show ?case
      unfolding sum.case wp_bind by (intro wp_Delete_Secret) (auto simp: wp_simps intro!: assms(1) intro!: assms(2), blast+)
  qed (auto simp: wp_simps fun_upd_idem intro!: assms)
qed (simp add: deleteTargetSecret_def wp_simps assms(2))

text \<open>
  A deletion that ends without an error leaves neither the target Secret nor the finalizer behind; a target Secret with
  finalizers of its own is marked as deleted.
\<close>

lemma reconcile_delete_cleans:
  assumes get: "k_Get_EC (r_Client r) req s = (Inr ec, s1)"
    and del: "\<not> deletion_is_zero (om_DeletionTimestamp (ec_Meta ec))"
      "k_ContainsFinalizer (r_Client r) (ec_Meta ec) FinalizerName"
  shows "wp (Reconcile r req)
    (\<lambda>out s'. snd out = None \<longrightarrow>
       (ts_Name (spec_TargetSecret (ec_Spec ec)) \<noteq> [] \<longrightarrow> after_delete (secs s (target_key ec)) (secs s' (target_key ec))) \<and>
       (case ecs s' req of None \<Rightarrow> True | Some ec' \<Rightarrow> FinalizerName \<notin> set (om_Finalizers (ec_Meta ec')))) s"
proof -
  have key: "ec_key ec = req" and same: "keeps s s1" using get_ec_found [OF get] get_ec [OF get] by auto
  have fin: "FinalizerName \<notin> set (om_Finalizers (k_RemoveFinalizer (r_Client r) (ec_Meta ec) FinalizerName))"
    using remove_finalizer contains_finalizer by auto
  have revoke: "wp (case Registry_Get (r_Providers r) n of None \<Rightarrow> State_Monad.return None
      | Some prov \<Rightarrow> (case h of None \<Rightarrow> State_Monad.return None
         | Some handle \<Rightarrow> if b handle prov then State (prov_Revoke prov handle) else State_Monad.return None))
      (\<lambda>_ s'. keeps s s') s1" for n h b
    using same by (auto simp: wp_simps split: option.split dest: revoke_keeps)
  have "wp (reconcileDelete r ec) (\<lambda>out s'. snd out = None \<longrightarrow>
       (ts_Name (spec_TargetSecret (ec_Spec ec)) \<noteq> [] \<longrightarrow> after_delete (secs s (target_key ec)) (secs s' (target_key ec))) \<and>
       (case ecs s' req of None \<Rightarrow> True | Some ec' \<Rightarrow> FinalizerName \<notin> set (om_Finalizers (ec_Meta ec')))) s1"
    unfolding reconcileDelete_def
    using del
    apply (simp add: wp_bind)
    apply (rule wp_mono [where P = "\<lambda>_ s'. keeps s s'"], rule revoke)
    apply (simp only: wp_bind, rule wp_deleteTargetSecret)
     apply (simp add: wp_simps)
    apply (simp only: option.case wp_bind, rule wp_Update_EC)
     apply (simp_all add: wp_simps)
    apply (auto simp: key remove_finalizer_key fin dest: same_object_fields)
    done
  then show ?thesis
    using get del by (simp add: Reconcile_def wp_simps)
qed

end


interpretation mem_broker: broker_env mem_reconciler m_ecs m_secs
proof (rule broker_env.intro)
  show "cluster (r_Client mem_reconciler) m_ecs m_secs"
    using mem.cluster_axioms by (simp add: mem_reconciler_def)
  have utf: "valid_utf8 ''github-app''" by code_simp
  have "provider_contract mem_provider"
    by unfold_locales (auto simp: mem_provider_def sample_mint_def)
  then show "broker_env_axioms mem_reconciler m_ecs m_secs"
    by unfold_locales (auto simp: utf mem_provider_def sample_mint_def split: if_splits)
qed

section \<open>Properties\<close>

text \<open>
  C6. A reconcile that returns no error for a resource with a registered provider leaves a usable
  credential in place. Let \<open>t\<close> be what the clock shows when the reconcile reads it, right after it has fetched the resource. Either
  the target Secret exists, the stored credential was minted for the current spec and expires later than the rotation window after \<open>t\<close>,
  and nothing was changed; or, and in particular whenever the window is open at \<open>t\<close>, a credential was minted at \<open>t\<close>, its data is in the target Secret, the status says Active with the granted expiry, and
  the annotation holds the handle for its revocation. The hypothesis is the documented behaviour of
  the API server and the providers.
\<close>

theorem reconcile_puts_credential_in_place:
  assumes "broker_env r ecs secs"
    and "k_Get_EC (r_Client r) req s = (Inr ec, s1)"
    and "deletion_is_zero (om_DeletionTimestamp (ec_Meta ec))"
    and "k_ContainsFinalizer (r_Client r) (ec_Meta ec) FinalizerName"
    and "Registry_Get (r_Providers r) (spec_Provider (ec_Spec ec)) = Some p"
    and "run_state (Reconcile r req) s = ((res, None), s')"
    and "run_state (now r) s1 = (t, s2)"
  shows "ecs s' = ecs s \<and> secs s' = secs s \<and> secs s (target_key ec) \<noteq> None \<and>
      om_Generation (ec_Meta ec) = st_ObservedGeneration (ec_Status ec) \<and>
      (\<exists>e. st_ExpiresAt (ec_Status ec) = Some e \<and> t + rotation_window ec < e) \<or>
    rotated ecs secs p ec t (secs s (target_key ec)) s'"
  using wp_run [OF broker_env.reconcile_in_place [OF assms(1-5)] assms(6)] assms(7)
  by (simp add: Let_def outside_window_def)

text \<open>
  When the deletion of a protected resource succeeds, the target Secret does not exist any more (or is marked as deleted, if it carries
  finalizers) and the resource has lost the broker's finalizer or is gone, whatever became of the revocation.
\<close>

lemma deletion_leaves_nothing:
  assumes "broker_env r ecs secs"
    and "k_Get_EC (r_Client r) req s = (Inr ec, s1)"
    and "\<not> deletion_is_zero (om_DeletionTimestamp (ec_Meta ec))"
    and "k_ContainsFinalizer (r_Client r) (ec_Meta ec) FinalizerName"
    and "ts_Name (spec_TargetSecret (ec_Spec ec)) \<noteq> []"
    and "run_state (Reconcile r req) s = ((res, None), s')"
  shows "after_delete (secs s (target_key ec)) (secs s' (target_key ec)) \<and>
    (case ecs s' req of None \<Rightarrow> True | Some ec' \<Rightarrow> FinalizerName \<notin> set (om_Finalizers (ec_Meta ec')))"
  using wp_run [OF broker_env.reconcile_delete_cleans [OF assms(1-4)] assms(6)] assms(5) by simp


section \<open>Witnesses\<close>

lemma sample_deletion_succeeds:
  "snd (fst (run_state (Reconcile mem_reconciler sample_req) (sample_world (with_deletion fresh_ec)))) = None"
  by (simp add: run_defs reconcileDelete_def deleteTargetSecret_def sample_world_def sample_ec_def sample_secret_def
      NewRegistry_def Registry_Get_def mem_provider_def decodeHandle_def zero_time_def Second_def)

lemma deletion_leaves_nothing_example:
  "m_secs (snd (run_state (Reconcile mem_reconciler sample_req) (sample_world (with_deletion fresh_ec))))
     (''builds'', ''github-token'') = None"
proof -
  let ?run = "run_state (Reconcile mem_reconciler sample_req) (sample_world (with_deletion fresh_ec))"
  have "?run = ((fst (fst ?run), None), snd ?run)"
    using sample_deletion_succeeds by (metis prod.collapse)
  moreover have "k_Get_EC (r_Client mem_reconciler) sample_req (sample_world (with_deletion fresh_ec)) =
      (Inr (with_deletion fresh_ec), sample_world (with_deletion fresh_ec))"
    by (rule sample_fetch) (simp add: object_key_def sample_ec_def)
  moreover have "\<not> deletion_is_zero (om_DeletionTimestamp (ec_Meta (with_deletion fresh_ec)))"
    by (simp add: deletion_is_zero_def zero_time_def Second_def)
  moreover have "k_ContainsFinalizer (r_Client mem_reconciler) (ec_Meta (with_deletion fresh_ec)) FinalizerName"
    by (simp add: sample_ec_def mem_reconciler_def mem_k8s_def)
  ultimately show ?thesis
    using deletion_leaves_nothing [OF mem_broker.broker_env_axioms, of sample_req "sample_world (with_deletion fresh_ec)"
        "with_deletion fresh_ec" "sample_world (with_deletion fresh_ec)" "fst (fst ?run)" "snd ?run"]
    by (simp add: target_key_def)
qed


lemma sample_mint_succeeds:
  "snd (fst (run_state (Reconcile mem_reconciler sample_req) (sample_world fresh_ec))) = None"
proof -
  obtain e where "encodeHandle \<lparr>h_ProviderName = ''github-app'', h_Opaque = ''ghs_new''\<rparr> = Inr e"
    using stored_handle.enc_total by blast
  then show ?thesis
    by (simp add: run_defs rotateCredential_def finishMint_def revokePrevious_def writeTargetSecret_def
        buildScope_def buildGitHubScope_def mem_CreateOrUpdate_def mem_SetControllerReference_def needsMint_def
        sample_world_def sample_ec_def sample_secret_def sample_config_def ProviderGitHubApp_def mutateTargetSecret_def
        NewRegistry_def Registry_Get_def mem_provider_def sample_mint_def decodeHandle_def newTargetSecret_def split: prod.split)
qed

theorem reconcile_puts_credential_in_place_witness:
  "rotated m_ecs m_secs mem_provider fresh_ec (1000 * Second) (Some sample_secret)
     (snd (run_state (Reconcile mem_reconciler sample_req) (sample_world fresh_ec)))"
proof -
  let ?run = "run_state (Reconcile mem_reconciler sample_req) (sample_world fresh_ec)"
  have run: "?run = ((fst (fst ?run), None), snd ?run)"
    using sample_mint_succeeds by (metis prod.collapse)
  have due: "st_ExpiresAt (ec_Status fresh_ec) = None" by (simp add: sample_ec_def)
  have old: "m_secs (sample_world fresh_ec) (target_key fresh_ec) = Some sample_secret"
    by (simp add: sample_world_def target_key_def)
  show ?thesis
    using reconcile_puts_credential_in_place [OF mem_broker.broker_env_axioms sample_fetch [OF sample_key] _ _ _ run, of mem_provider]
    by (simp add: due old)
qed

end
