(* ===== verification/Failure_Modes.thy ===== *)
theory Failure_Modes
  imports Reconcile_Props Cluster_Props
begin

text \<open>
  Behaviour under partial failure that a reader of the comments would not expect. Each theorem
  describes exactly what the code does.
\<close>

section \<open>A failed status write forgets the previous credential\<close>

lemma finish_status_failed:
  assumes "finish_trace r ec prov t prev mint out es" and "E_StatusUpdate z (Inl e) \<in> set es"
  shows "es = [E_StatusUpdate z (Inl e)]"
  using assms by (auto elim!: finish_trace.cases simp: no_status_in_parts)

lemma quiet_no_update: "quiet es \<Longrightarrow> updated_ok u \<Longrightarrow> u \<in> set es \<Longrightarrow> False"
  using quietD(7) by (auto simp: never_def)

lemma rotate_status_failed:
  assumes "rotate_trace r ec prov t out es"
    and "updated_ok u" and "u \<in> set es" and "E_StatusUpdate z (Inl e) \<in> set es"
  shows "\<exists>sc n q mint encoded y.
    es = sc @ [E_Mint n q (Inr mint), E_WriteSecret (newTargetSecret ec) None,
               E_UpdateEC (with_handle ec encoded) (Inr y), E_StatusUpdate z (Inl e)] \<and>
    never is_Mint sc \<and> never is_Revoke sc \<and> never is_UpdateEC sc \<and> encodeHandle (mint_Handle mint) = Inr encoded"
  using assms(1)
proof (cases rule: rotate_trace.cases)
  case (minted scope sc mint encoded ec' fin)
  then have "E_StatusUpdate z (Inl e) \<in> set fin" using assms(4) by (auto simp: no_status_in_parts)
  then have "fin = [E_StatusUpdate z (Inl e)]" by (rule finish_status_failed [OF minted(4)])
  then show ?thesis
    using minted scope_quiet [OF minted(2)]
    by (intro exI [of _ sc] exI [of _ "prov_Name prov"] exI [of _ "mint_request ec scope"] exI [of _ mint]
        exI [of _ encoded] exI [of _ ec']) (simp add: quietD)
qed (use assms(2-4) in \<open>auto simp: no_status_in_parts dest!: scope_quiet fail_quiet dest: quiet_no_update\<close>)

text \<open>
  C38. When the status write after a mint fails, nothing is revoked, and the annotation that was just
  persisted holds the handle of the new credential. The handle of the previous credential, which was
  only in the annotation that has been overwritten, is lost: no later reconcile can revoke it.
\<close>

theorem status_failure_forgets_previous_handle:
  assumes "E_Mint n q (Inr mint) \<in> set (effects_of r req s)" and "E_UpdateEC x (Inr y) \<in> set (effects_of r req s)"
    and "E_StatusUpdate z (Inl e) \<in> set (effects_of r req s)" and "valid_utf8 (h_ProviderName (mint_Handle mint))"
  shows "never is_Revoke (effects_of r req s) \<and>
    decodeHandle (map_get_string (om_Annotations (ec_Meta x)) handleAnnotationKey) = Some (mint_Handle mint)"
proof -
  have "filter is_Mint (effects_of r req s) \<noteq> []"
    using assms(1) by (force simp: filter_empty_conv)
  then obtain ec prov t out es pre where eff: "effects_of r req s = E_GetEC req (Inr ec) # pre @ es"
    and pre: "quiet pre" "never is_StatusUpdate pre" and rot: "rotate_trace r ec prov t out es"
    using mint_in_rotation [of r req s] by blast
  have mem: "E_UpdateEC x (Inr y) \<in> set es" "E_StatusUpdate z (Inl e) \<in> set es" "E_Mint n q (Inr mint) \<in> set es"
    using assms(1-3) eff pre by (auto simp: quiet_def never_def)
  obtain sc n' q' mint' encoded y' where es: "es = sc @ [E_Mint n' q' (Inr mint'), E_WriteSecret (newTargetSecret ec) None,
      E_UpdateEC (with_handle ec encoded) (Inr y'), E_StatusUpdate z (Inl e)]"
    and sc: "never is_Mint sc" "never is_Revoke sc" "never is_UpdateEC sc" and enc: "encodeHandle (mint_Handle mint') = Inr encoded"
    using rotate_status_failed [OF rot _ mem(1,2)] by auto
  have "mint' = mint" and "x = with_handle ec encoded"
    using mem sc by (auto simp: es never_def)
  then show ?thesis
    using eff es sc pre enc stored_handle.dec_enc [OF assms(4)] by (simp add: quietD with_handle_def)
qed

text \<open>
  The in-memory server with a status subresource that refuses every write, and a resource whose
  previous credential is about to expire.
\<close>

definition flaky_reconciler :: "mem_world Reconciler" where
  "flaky_reconciler = mem_reconciler\<lparr>r_Client := mem_k8s\<lparr>k_Status_Update := (\<lambda>ec w. (Inl Conflict, w))\<rparr>\<rparr>"

lemma flaky_effects:
  "\<exists>q x y z. E_Mint ''github-app'' q (Inr (sample_mint ''ghs_new'' (4600 * Second)))
        \<in> set (effects_of flaky_reconciler sample_req (sample_world fresh_ec)) \<and>
      E_UpdateEC x (Inr y) \<in> set (effects_of flaky_reconciler sample_req (sample_world fresh_ec)) \<and>
      E_StatusUpdate z (Inl Conflict) \<in> set (effects_of flaky_reconciler sample_req (sample_world fresh_ec))"
proof -
  obtain e where "encodeHandle \<lparr>h_ProviderName = ''github-app'', h_Opaque = ''ghs_new''\<rparr> = Inr e"
    using stored_handle.enc_total by blast
  then show ?thesis
    by (simp add: run_defs effects_of_def flaky_reconciler_def logged_def logged_k8s_def logged_registry_def logged_provider_def
        rec1_def rotateCredential_def finishMint_def revokePrevious_def writeTargetSecret_def
        buildScope_def buildGitHubScope_def mem_CreateOrUpdate_def mem_SetControllerReference_def needsMint_def
        sample_world_def sample_ec_def sample_secret_def sample_config_def ProviderGitHubApp_def mutateTargetSecret_def
        NewRegistry_def Registry_Get_def mem_provider_def sample_mint_def decodeHandle_def newTargetSecret_def split: prod.split)
qed

theorem status_failure_forgets_previous_handle_witness:
  "\<exists>x y. E_UpdateEC x (Inr y) \<in> set (effects_of flaky_reconciler sample_req (sample_world fresh_ec)) \<and>
     never is_Revoke (effects_of flaky_reconciler sample_req (sample_world fresh_ec)) \<and>
     decodeHandle (map_get_string (om_Annotations (ec_Meta x)) handleAnnotationKey) =
       Some \<lparr>h_ProviderName = ''github-app'', h_Opaque = ''ghs_new''\<rparr>"
proof -
  have utf: "valid_utf8 (h_ProviderName (mint_Handle (sample_mint ''ghs_new'' (4600 * Second))))"
    by (simp add: sample_mint_def) code_simp
  show ?thesis
    using flaky_effects status_failure_forgets_previous_handle [OF _ _ _ utf] by (fastforce simp: sample_mint_def)
qed


section \<open>A credential without a handle\<close>

lemma fail_ends_with_error: "fail_trace r ec re ms (Some c) True out es \<Longrightarrow> snd out \<noteq> None"
  by (auto elim!: fail_trace.cases)

lemma quiet_no_mint: "quiet es \<Longrightarrow> E_Mint n q m \<notin> set es"
  using quietD(1) by (fastforce simp: never_def)

lemma rotate_handle_fate:
  assumes "rotate_trace r ec prov t out es" and mint: "E_Mint n q (Inr mint) \<in> set es"
    and "valid_utf8 (h_ProviderName (mint_Handle mint))"
  shows "(\<exists>x y. E_UpdateEC x (Inr y) \<in> set es \<and> stored_handle_of x = Some (mint_Handle mint)) \<or>
    (never is_Revoke es \<and> never updated_ok es \<and> snd out \<noteq> None \<and>
     ((\<exists>x e. E_WriteSecret x (Some e) \<in> set es) \<or> (\<exists>x e. E_UpdateEC x (Inl e) \<in> set es)))"
  using assms(1)
proof (cases rule: rotate_trace.cases)
  case (bad_config e sc fl)
  then show ?thesis using mint by (auto dest!: scope_quiet fail_quiet simp: quiet_no_mint)
next
  case (mint_failed scope sc reason e fl)
  then show ?thesis using mint by (auto dest!: scope_quiet fail_quiet simp: quiet_no_mint)
next
  case (write_failed scope sc e' fl mint' e)
  then have "quiet sc" "quiet fl" using scope_quiet fail_quiet by blast+
  then show ?thesis
    using write_failed(1) fail_ends_with_error [OF write_failed(3)] by (intro disjI2) (auto simp: quietD)
next
  case (handle_lost scope sc mint' encoded e' e)
  then have "quiet sc" using scope_quiet by blast
  then show ?thesis using handle_lost(1,2) by (intro disjI2) (auto simp: quietD)
next
  case (minted scope sc mint' encoded ec' fin)
  have "mint' = mint"
    using mint minted(1) scope_quiet [OF minted(2)] finish_quiet [OF minted(4)] by (auto simp: quiet_no_mint never_def)
  then show ?thesis
    using minted stored_handle.dec_enc [OF assms(3)] by (intro disjI1) (auto simp: with_handle_def)
qed

text \<open>
  C39. What becomes of the handle of a minted credential: it is persisted on the resource, or the reconcile ends with an
  error, because the write of the target Secret or of the annotation failed, and then it has revoked nothing. In the second case the
  handle is in neither place and the credential cannot be revoked any more, while the retry mints another one.
\<close>

theorem minted_handle_kept_or_lost:
  assumes "E_Mint n q (Inr mint) \<in> set (effects_of r req s)" and "valid_utf8 (h_ProviderName (mint_Handle mint))"
  shows "(\<exists>x y. E_UpdateEC x (Inr y) \<in> set (effects_of r req s) \<and>
       decodeHandle (map_get_string (om_Annotations (ec_Meta x)) handleAnnotationKey) = Some (mint_Handle mint)) \<or>
    (never is_Revoke (effects_of r req s) \<and> never updated_ok (effects_of r req s) \<and> snd (outcome_of r req s) \<noteq> None \<and>
     ((\<exists>x e. E_WriteSecret x (Some e) \<in> set (effects_of r req s)) \<or> (\<exists>x e. E_UpdateEC x (Inl e) \<in> set (effects_of r req s))))"
proof -
  have "filter is_Mint (effects_of r req s) \<noteq> []"
    using assms(1) by (force simp: filter_empty_conv)
  then obtain ec prov t es pre where eff: "effects_of r req s = E_GetEC req (Inr ec) # pre @ es"
    and pre: "quiet pre" and rot: "rotate_trace r ec prov t (outcome_of r req s) es"
    using mint_in_rotation [of r req s] by blast
  have "E_Mint n q (Inr mint) \<in> set es" using assms(1) eff pre by (auto simp: quiet_def never_def)
  from rotate_handle_fate [OF rot this assms(2)] show ?thesis
    unfolding eff using pre by (auto simp: quietD)
qed

text \<open>The target Secret belongs to another controller, so the write is refused.\<close>

definition foreign_world :: mem_world where
  "foreign_world = (sample_world fresh_ec)\<lparr>m_secs :=
     (m_secs (sample_world fresh_ec))((''builds'', ''github-token'') \<mapsto> sample_secret\<lparr>sec_Meta :=
       (sec_Meta sample_secret)\<lparr>om_OwnerReferences := [\<lparr>or_UID = ''other'', or_Controller = True\<rparr>]\<rparr>\<rparr>)\<rparr>"

lemma foreign_effects:
  "\<exists>q. E_Mint ''github-app'' q (Inr (sample_mint ''ghs_new'' (4600 * Second))) \<in> set (effects_of mem_reconciler sample_req foreign_world)"
  "never updated_ok (effects_of mem_reconciler sample_req foreign_world)"
  by (simp_all add: run_defs effects_of_def foreign_world_def logged_def logged_k8s_def logged_registry_def logged_provider_def
      rec1_def rotateCredential_def writeTargetSecret_def failStatus_def
      buildScope_def buildGitHubScope_def mem_CreateOrUpdate_def mem_SetControllerReference_def needsMint_def
      sample_world_def sample_ec_def sample_secret_def sample_config_def ProviderGitHubApp_def mutateTargetSecret_def
      NewRegistry_def Registry_Get_def mem_provider_def sample_mint_def decodeHandle_def newTargetSecret_def split: prod.split)

theorem minted_handle_kept_or_lost_witness:
  "never is_Revoke (effects_of mem_reconciler sample_req foreign_world) \<and>
   snd (outcome_of mem_reconciler sample_req foreign_world) \<noteq> None"
proof -
  have utf: "valid_utf8 (h_ProviderName (mint_Handle (sample_mint ''ghs_new'' (4600 * Second))))"
    by (simp add: sample_mint_def) code_simp
  obtain q where "E_Mint ''github-app'' q (Inr (sample_mint ''ghs_new'' (4600 * Second))) \<in> set (effects_of mem_reconciler sample_req foreign_world)"
    using foreign_effects(1) by blast
  moreover have "E_UpdateEC x (Inr y) \<notin> set (effects_of mem_reconciler sample_req foreign_world)" for x y
    using foreign_effects(2) unfolding never_def by fastforce
  ultimately show ?thesis using minted_handle_kept_or_lost [OF _ utf] by metis
qed

end
