(* ===== verification/Go_RFC3339.thy ===== *)
theory Go_RFC3339
  imports Go_Json_Syntax
begin

text \<open>
  The reading of an RFC 3339 timestamp from JSON, as \<open>time.Time\<close> does it: the strict form
  \<open>2006-01-02T15:04:05[.fraction](Z|+hh:mm|-hh:mm)\<close> of the library's \<open>parseRFC3339\<close>. A text of another
  form is handed to the general \<open>time.Parse\<close>, which is a parameter here.
\<close>

definition parseUint :: "string \<Rightarrow> int \<Rightarrow> int \<Rightarrow> int option" where
  "parseUint s lo hi =
     (if list_all is_digit s then
        (let x = foldl (\<lambda>x c. x * 10 + (int (byte c) - 48)) 0 s in
         if x < lo \<or> hi < x then None else Some x)
      else None)"

definition is_leap :: "int \<Rightarrow> bool" where
  "is_leap y \<longleftrightarrow> y mod 4 = 0 \<and> (y mod 100 \<noteq> 0 \<or> y mod 400 = 0)"

definition daysIn :: "int \<Rightarrow> int \<Rightarrow> int" where
  "daysIn m y = (if m = 2 then (if is_leap y then 29 else 28) else if m \<in> {4, 6, 9, 11} then 30 else 31)"

text \<open>Days from 1970-01-01 to a day of the Gregorian calendar, for years from 0 on.\<close>

definition days_before_month :: "int \<Rightarrow> int \<Rightarrow> int" where
  "days_before_month m y = (\<Sum>i \<leftarrow> [1..m - 1]. daysIn i y)"

definition unix_day :: "int \<Rightarrow> int \<Rightarrow> int \<Rightarrow> int" where
  "unix_day y m d =
     365 * y + (y + 3) div 4 - (y + 99) div 100 + (y + 399) div 400 + days_before_month m y + (d - 1) - 719528"

text \<open>The digits after the point, cut to nine, in nanoseconds.\<close>

definition nanoseconds :: "string \<Rightarrow> int" where
  "nanoseconds ds =
     (let d = take 9 ds in foldl (\<lambda>x c. x * 10 + (int (byte c) - 48)) 0 d * 10 ^ (9 - length d))"

definition substring :: "string \<Rightarrow> nat \<Rightarrow> nat \<Rightarrow> string" where
  "substring s i j = drop i (take j s)"

definition parse_fraction :: "string \<Rightarrow> int \<times> string" where
  "parse_fraction s =
     (if 2 \<le> length s \<and> s ! 0 = CHR ''.'' \<and> is_digit (s ! 1)
      then (nanoseconds (takeWhile is_digit (tl s)), dropWhile is_digit (tl s)) else (0, s))"

definition parse_zone :: "string \<Rightarrow> int option" where
  "parse_zone s =
     (if s = ''Z'' then Some 0
      else if length s \<noteq> 6 \<or> s ! 3 \<noteq> CHR '':'' \<or> s ! 0 \<notin> {CHR ''+'', CHR ''-''} then None
      else (case (parseUint (substring s 1 3) 0 23, parseUint (substring s 4 6) 0 59) of
              (Some hr, Some mm) \<Rightarrow> Some ((if s ! 0 = CHR ''-'' then -1 else 1) * (hr * 60 + mm) * 60)
            | _ \<Rightarrow> None))"

definition parseRFC3339 :: "string \<Rightarrow> time option" where
  "parseRFC3339 s =
     (if length s < 19 \<or>
         \<not> (s ! 4 = CHR ''-'' \<and> s ! 7 = CHR ''-'' \<and> s ! 10 = CHR ''T'' \<and> s ! 13 = CHR '':'' \<and> s ! 16 = CHR '':'')
      then None
      else
        (case (parseUint (substring s 0 4) 0 9999, parseUint (substring s 5 7) 1 12, parseUint (substring s 11 13) 0 23,
               parseUint (substring s 14 16) 0 59, parseUint (substring s 17 19) 0 59) of
           (Some y, Some mo, Some h, Some mi, Some sec) \<Rightarrow>
             (case (parseUint (substring s 8 10) 1 (daysIn mo y), parse_fraction (drop 19 s)) of
                (Some d, (nsec, zone)) \<Rightarrow>
                  (case parse_zone zone of
                     Some off \<Rightarrow> Some ((unix_day y mo d * 86400 + h * 3600 + mi * 60 + sec - off) * Second + nsec)
                   | None \<Rightarrow> None)
              | _ \<Rightarrow> None)
         | _ \<Rightarrow> None))"

fun conv_time :: "(string \<Rightarrow> time option) \<Rightarrow> json \<Rightarrow> time option" where
  "conv_time parse (JStr raw) = (case parseRFC3339 raw of Some t \<Rightarrow> Some t | None \<Rightarrow> parse raw)"
| "conv_time parse v = None"

lemma rfc3339_samples:
  "parseRFC3339 ''1970-01-01T00:00:00Z'' = Some 0"
  "parseRFC3339 ''2024-02-29T12:00:00Z'' = Some (1709208000 * Second)"
  "parseRFC3339 ''2024-02-29T12:00:00.5+05:30'' = Some ((1709208000 - 19800) * Second + 500000000)"
  "parseRFC3339 ''2023-02-29T12:00:00Z'' = None"
  by code_simp+

end
