(* ===== verification/GitHub_Provider.thy ===== *)
theory GitHub_Provider
  imports Provider_Iface Go_RFC3339 Tape
begin

text \<open>
  The provider for GitHub App installation tokens, \<open>src/internal/provider/github/github.go\<close>.

  The network and the cryptographic packages are parameters, collected in the record
  \<open>stdlib\<close>: the HTTP client (\<open>Do\<close>), the clock, \<open>url.Parse\<close> (only whether it fails),
  \<open>pem.Decode\<close>, the two key parsers of \<open>crypto/x509\<close>, \<open>sha256.Sum256\<close>, \<open>rsa.SignPKCS1v15\<close>, and the general
  \<open>time.Parse\<close>. A private key is of a type \<open>'k\<close>. A response body whose transfer breaks off is the bytes
  that arrived.
\<close>

section \<open>The libraries it uses\<close>

record HttpRequest =
  rq_Method :: string
  rq_URL :: string
  rq_Header :: "(string \<times> string) list"
  rq_Body :: bytes

record HttpResponse =
  rs_StatusCode :: int
  rs_Body :: bytes

type_synonym 's http_client = "HttpRequest \<Rightarrow> ('s, HttpResponse result) action"

datatype 'k any_key = RSAKey 'k | OtherKey

record ('s, 'k) stdlib =
  lib_DefaultClient :: "'s http_client"
  lib_timeNow :: "('s, time) action"
  lib_url_Parse :: "string \<Rightarrow> go_error option"
  lib_pem_Decode :: "bytes \<Rightarrow> bytes option"
  lib_ParsePKCS1PrivateKey :: "bytes \<Rightarrow> 'k result"
  lib_ParsePKCS8PrivateKey :: "bytes \<Rightarrow> 'k any_key result"
  lib_Sum256 :: "bytes \<Rightarrow> bytes"
  lib_SignPKCS1v15 :: "'k \<Rightarrow> bytes \<Rightarrow> ('s, bytes result) action"
  lib_time_Parse :: "string \<Rightarrow> time option"

definition NewRequest :: "('s, 'k) stdlib \<Rightarrow> string \<Rightarrow> string \<Rightarrow> bytes \<Rightarrow> HttpRequest result" where
  "NewRequest lib method url body =
     (case lib_url_Parse lib url of
        Some err \<Rightarrow> Inl err
      | None \<Rightarrow> Inr \<lparr>rq_Method = method, rq_URL = url, rq_Header = [], rq_Body = body\<rparr>)"

definition Header_Set :: "string \<Rightarrow> string \<Rightarrow> HttpRequest \<Rightarrow> HttpRequest" where
  "Header_Set k v rq = rq\<lparr>rq_Header := filter (\<lambda>h. fst h \<noteq> k) (rq_Header rq) @ [(k, v)]\<rparr>"

section \<open>The provider\<close>

definition Name :: string where [broker_defs]: "Name = ''github-app''"

definition defaultAPIBaseURL :: string where
  [broker_defs]: "defaultAPIBaseURL = ''https://api.github.com''"

definition jwtMaxLifetime :: duration where "jwtMaxLifetime = dur_mul 10 Minute"
definition jwtClockSkewGuard :: duration where "jwtClockSkewGuard = dur_mul 60 Second"

record 's GitHubProvider =
  gp_APIBaseURL :: string
  gp_HTTPClient :: "'s http_client option"
  gp_Now :: "('s, time) action option"

definition New :: "('s, 'k) stdlib \<Rightarrow> 's GitHubProvider" where
  "New lib = \<lparr>gp_APIBaseURL = defaultAPIBaseURL, gp_HTTPClient = Some (lib_DefaultClient lib),
     gp_Now = Some (lib_timeNow lib)\<rparr>"

definition gh_client :: "('s, 'k) stdlib \<Rightarrow> 's GitHubProvider \<Rightarrow> 's http_client" where
  "gh_client lib p = (case gp_HTTPClient p of Some c \<Rightarrow> c | None \<Rightarrow> lib_DefaultClient lib)"

definition gh_now :: "('s, 'k) stdlib \<Rightarrow> 's GitHubProvider \<Rightarrow> ('s, time) io" where
  "gh_now lib p = (case gp_Now p of Some f \<Rightarrow> State f | None \<Rightarrow> State (lib_timeNow lib))"

definition baseURL :: "'s GitHubProvider \<Rightarrow> string" where
  "baseURL p = (if gp_APIBaseURL p \<noteq> [] then gp_APIBaseURL p else defaultAPIBaseURL)"

definition readBody :: "HttpResponse \<Rightarrow> string" where
  "readBody resp = take 4096 (rs_Body resp)"

definition parsePrivateKey :: "('s, 'k) stdlib \<Rightarrow> bytes \<Rightarrow> 'k result" where
  "parsePrivateKey lib pemBytes =
     (case lib_pem_Decode lib pemBytes of
        None \<Rightarrow> Inl (ErrNew (Lit ''no PEM block found''))
      | Some block \<Rightarrow>
          (case lib_ParsePKCS1PrivateKey lib block of
             Inr key \<Rightarrow> Inr key
           | Inl _ \<Rightarrow>
               (case lib_ParsePKCS8PrivateKey lib block of
                  Inl err \<Rightarrow> Inl (Wrapf ''not a PKCS#1 or PKCS#8 key: %w'' [] err)
                | Inr (RSAKey key) \<Rightarrow> Inr key
                | Inr OtherKey \<Rightarrow> Inl (ErrNew (Lit ''private key is not an RSA key'')))))"

definition marshalB64 :: "json \<Rightarrow> string result" where
  "marshalB64 v =
     (case json_Marshal v of Inl err \<Rightarrow> Inl err | Inr b \<Rightarrow> Inr (EncodeToString RawURLEncoding b))"

text \<open>The two maps of \<open>signAppJWT\<close>; \<open>json.Marshal\<close> writes the keys of a map in sorted order.\<close>

definition jwt_header :: json where
  "jwt_header = JObj [json_member ''alg'' (json_string ''RS256''), json_member ''typ'' (json_string ''JWT'')]"

definition jwt_claims :: "string \<Rightarrow> time \<Rightarrow> json" where
  "jwt_claims appID now =
     JObj [json_member ''exp'' (JNum (show_int (time_Unix (time_Add now (dur_sub jwtMaxLifetime jwtClockSkewGuard))))),
           json_member ''iat'' (JNum (show_int (time_Unix (time_Add now (dur_neg jwtClockSkewGuard))))),
           json_member ''iss'' (json_string appID)]"

definition signAppJWT ::
  "('s, 'k) stdlib \<Rightarrow> 's GitHubProvider \<Rightarrow> string \<Rightarrow> 'k \<Rightarrow> ('s, string result) io" where
  "signAppJWT lib p appID key = do {
     now \<leftarrow> gh_now lib p;
     case marshalB64 jwt_header of
       Inl err \<Rightarrow> State_Monad.return (Inl err)
     | Inr headerB64 \<Rightarrow>
         (case marshalB64 (jwt_claims appID now) of
            Inl err \<Rightarrow> State_Monad.return (Inl err)
          | Inr claimsB64 \<Rightarrow> do {
              let signingInput = headerB64 @ ''.'' @ claimsB64;
              sig \<leftarrow> State (lib_SignPKCS1v15 lib key (lib_Sum256 lib signingInput));
              State_Monad.return
                (case sig of
                   Inl err \<Rightarrow> Inl err
                 | Inr s \<Rightarrow> Inr (signingInput @ ''.'' @ EncodeToString RawURLEncoding s))
            })
   }"

text \<open>\<open>strconv.ParseInt(s, 10, 64)\<close>, on the number literals of JSON.\<close>

fun conv_int64 :: "json \<Rightarrow> int64 option" where
  "conv_int64 (JNum s) =
     (case scan_sign s of (sg, ds) \<Rightarrow>
        if list_all is_digit ds then
          (let x = (if sg = [] then 1 else -1) * foldl (\<lambda>x c. x * 10 + (int (byte c) - 48)) 0 ds in
           if - (2 ^ 63) \<le> x \<and> x < 2 ^ 63 then Some (word_of_int x) else None)
        else None)"
| "conv_int64 v = None"

text \<open>\<open>json.NewDecoder(resp.Body).Decode(&out)\<close> for the two response structs.\<close>

record installationResponse =
  ir_ID :: int64

definition decode_installationResponse :: "bytes \<Rightarrow> installationResponse option" where
  "decode_installationResponse b =
     (case Option.bind (json_decode_first b) struct_members of
        None \<Rightarrow> None
      | Some ms \<Rightarrow> map_option (\<lambda>i. \<lparr>ir_ID = i\<rparr>) (decode_field conv_int64 ''id'' 0 ms))"

definition resolveInstallationID ::
  "('s, 'k) stdlib \<Rightarrow> 's GitHubProvider \<Rightarrow> string \<Rightarrow> string \<Rightarrow> ('s, int64 result) io" where
  "resolveInstallationID lib p appJWT repoFullName =
     (case NewRequest lib ''GET'' (baseURL p @ ''/repos/'' @ repoFullName @ ''/installation'') [] of
        Inl err \<Rightarrow> State_Monad.return (Inl err)
      | Inr httpReq0 \<Rightarrow> do {
          let httpReq = Header_Set ''Accept'' ''application/vnd.github+json''
                (Header_Set ''Authorization'' (''Bearer '' @ appJWT) httpReq0);
          d \<leftarrow> State (gh_client lib p httpReq);
          State_Monad.return
            (case d of
               Inl err \<Rightarrow> Inl err
             | Inr resp \<Rightarrow>
                 if rs_StatusCode resp \<noteq> 200 then
                   Inl (Errorf ''unexpected status %d resolving installation for %s: %s''
                         [A_int (rs_StatusCode resp), A_str repoFullName, A_str (readBody resp)])
                 else
                   (case decode_installationResponse (rs_Body resp) of
                      None \<Rightarrow> Inl (Wrapf ''decoding installation response: %w'' [] (ErrExt ''json''))
                    | Some out \<Rightarrow> Inr (ir_ID out)))
        })"

record createTokenRequest =
  ctr_Repositories :: "string list"
  ctr_Permissions :: "(string \<times> string) list"

definition createTokenRequest_json :: "createTokenRequest \<Rightarrow> json" where
  "createTokenRequest_json r =
     JObj ((if ctr_Repositories r = [] then []
            else [json_member ''repositories'' (JArr (map json_string (ctr_Repositories r)))]) @
           (if ctr_Permissions r = [] then []
            else [json_member ''permissions''
                    (JObj (map (\<lambda>(k, v). json_member k (json_string v)) (sort_key fst (ctr_Permissions r))))]))"

record createTokenResponse =
  ctp_Token :: string
  ctp_ExpiresAt :: time

definition decode_createTokenResponse :: "('s, 'k) stdlib \<Rightarrow> bytes \<Rightarrow> createTokenResponse option" where
  "decode_createTokenResponse lib b =
     (case Option.bind (json_decode_first b) struct_members of
        None \<Rightarrow> None
      | Some ms \<Rightarrow>
          (case (decode_field conv_string ''token'' [] ms,
                 decode_field (conv_time (lib_time_Parse lib)) ''expires_at'' zero_time ms) of
             (Some t, Some e) \<Rightarrow> Some \<lparr>ctp_Token = t, ctp_ExpiresAt = e\<rparr>
           | _ \<Rightarrow> None))"

definition createInstallationToken ::
  "('s, 'k) stdlib \<Rightarrow> 's GitHubProvider \<Rightarrow> string \<Rightarrow> int64 \<Rightarrow> string list \<Rightarrow> (string \<times> string) list \<Rightarrow>
     ('s, (string \<times> time) result) io" where
  "createInstallationToken lib p appJWT installationID repos perms =
     (case json_Marshal (createTokenRequest_json \<lparr>ctr_Repositories = repos, ctr_Permissions = perms\<rparr>) of
        Inl err \<Rightarrow> State_Monad.return (Inl err)
      | Inr body \<Rightarrow>
          (case NewRequest lib ''POST''
                  (baseURL p @ ''/app/installations/'' @ show_int (sint installationID) @ ''/access_tokens'') body of
             Inl err \<Rightarrow> State_Monad.return (Inl err)
           | Inr httpReq0 \<Rightarrow> do {
               let httpReq = Header_Set ''Content-Type'' ''application/json''
                     (Header_Set ''Accept'' ''application/vnd.github+json''
                       (Header_Set ''Authorization'' (''Bearer '' @ appJWT) httpReq0));
               d \<leftarrow> State (gh_client lib p httpReq);
               State_Monad.return
                 (case d of
                    Inl err \<Rightarrow> Inl err
                  | Inr resp \<Rightarrow>
                      if rs_StatusCode resp \<noteq> 201 then
                        Inl (Errorf ''unexpected status %d creating installation token: %s''
                              [A_int (rs_StatusCode resp), A_str (readBody resp)])
                      else
                        (case decode_createTokenResponse lib (rs_Body resp) of
                           None \<Rightarrow> Inl (Wrapf ''decoding token response: %w'' [] (ErrExt ''json''))
                         | Some out \<Rightarrow> Inr (ctp_Token out, ctp_ExpiresAt out)))
             }))"

fun scope_type :: "any_scope \<Rightarrow> string" where
  "scope_type ScopeNil = ''<nil>''"
| "scope_type (ScopeGitHub s) = ''github.Scope''"
| "scope_type (ScopeOther n) = n"

definition Mint :: "('s, 'k) stdlib \<Rightarrow> 's GitHubProvider \<Rightarrow> MintRequest \<Rightarrow> ('s, MintResult result) io" where
  "Mint lib p req =
     (case mreq_Scope req of
        ScopeGitHub scope \<Rightarrow>
          if scope_AppID scope = [] \<or> scope_PrivateKeyPEM scope = [] then
            State_Monad.return (Inl (ErrNew (Lit ''github: Scope.AppID and Scope.PrivateKeyPEM are required'')))
          else if scope_Repositories scope = [] then
            State_Monad.return (Inl (ErrNew (Lit ''github: Scope.Repositories must not be empty'')))
          else
            (case parsePrivateKey lib (scope_PrivateKeyPEM scope) of
               Inl err \<Rightarrow> State_Monad.return (Inl (Wrapf ''github: parsing App private key: %w'' [] err))
             | Inr key \<Rightarrow> do {
                 j \<leftarrow> signAppJWT lib p (scope_AppID scope) key;
                 case j of
                   Inl err \<Rightarrow> State_Monad.return (Inl (Wrapf ''github: signing App JWT: %w'' [] err))
                 | Inr appJWT \<Rightarrow> do {
                     i \<leftarrow> resolveInstallationID lib p appJWT (hd (scope_Repositories scope));
                     case i of
                       Inl err \<Rightarrow> State_Monad.return (Inl (Wrapf ''github: resolving installation: %w'' [] err))
                     | Inr installationID \<Rightarrow> do {
                         c \<leftarrow> createInstallationToken lib p appJWT installationID
                               (scope_Repositories scope) (scope_Permissions scope);
                         State_Monad.return
                           (case c of
                              Inl err \<Rightarrow> Inl (Wrapf ''github: minting installation token: %w'' [] err)
                            | Inr (tok, expiresAt) \<Rightarrow>
                                Inr \<lparr>mint_Data = [(''token'', tok)], mint_ExpiresAt = expiresAt,
                                     mint_Handle = \<lparr>h_ProviderName = Name, h_Opaque = tok\<rparr>\<rparr>)
                       }
                   }
               })
      | other \<Rightarrow> State_Monad.return
          (Inl (Errorf ''github: MintRequest.Scope must be github.Scope, got %T'' [A_str (scope_type other)])))"

definition Revoke :: "('s, 'k) stdlib \<Rightarrow> 's GitHubProvider \<Rightarrow> CredentialHandle \<Rightarrow> ('s, go_error option) io" where
  "Revoke lib p handle =
     (if h_ProviderName handle \<noteq> Name then
        State_Monad.return (Some (Errorf ''github: cannot revoke a handle minted by provider %q''
          [A_str (h_ProviderName handle)]))
      else if h_Opaque handle = [] then
        State_Monad.return (Some (ErrNew (Lit ''github: empty credential handle'')))
      else
        (case NewRequest lib ''DELETE'' (baseURL p @ ''/installation/token'') [] of
           Inl err \<Rightarrow> State_Monad.return (Some err)
         | Inr httpReq0 \<Rightarrow> do {
             let httpReq = Header_Set ''Accept'' ''application/vnd.github+json''
                   (Header_Set ''Authorization'' (''Bearer '' @ h_Opaque handle) httpReq0);
             d \<leftarrow> State (gh_client lib p httpReq);
             State_Monad.return
               (case d of
                  Inl err \<Rightarrow> Some err
                | Inr resp \<Rightarrow>
                    if rs_StatusCode resp \<noteq> 204 then
                      Some (Errorf ''github: revoke installation token: unexpected status %d: %s''
                             [A_int (rs_StatusCode resp), A_str (readBody resp)])
                    else None)
           }))"

text \<open>The type implements the interface \<open>provider.Provider\<close> (the last declaration of the file).\<close>

definition as_Provider :: "('s, 'k) stdlib \<Rightarrow> 's GitHubProvider \<Rightarrow> 's Provider" where
  "as_Provider lib p =
    \<lparr>prov_Name = Name, prov_Mint = (\<lambda>q. run_state (Mint lib p q)), prov_Revoke = (\<lambda>h. run_state (Revoke lib p h))\<rparr>"

end
