(* ===== verification/GitHub_Props.thy ===== *)
theory GitHub_Props
  imports GitHub_Provider Go_Strings
begin

text \<open>
  What the GitHub provider does on the wire. Calls are recorded as in the theory \<open>Tape\<close>: \<open>taped lib\<close>
  and \<open>taped_provider p\<close> are the same libraries and the same provider, with every HTTP call, clock reading and signature
  written down. The predicate \<open>mint_talk\<close> is the conversation a mint can have, for every behaviour
  of the network and of the libraries.
\<close>

section \<open>Recording the conversation\<close>

datatype 'k gh_event =
    G_Do HttpRequest "HttpResponse result"
  | G_Now time
  | G_Sign 'k bytes "bytes result"

definition taped :: "('s, 'k) stdlib \<Rightarrow> (('s, 'k gh_event) tape, 'k) stdlib" where
  "taped lib =
    \<lparr>lib_DefaultClient = (\<lambda>rq. rec1 (lib_DefaultClient lib rq) (G_Do rq)),
     lib_timeNow = rec1 (lib_timeNow lib) G_Now,
     lib_url_Parse = lib_url_Parse lib, lib_pem_Decode = lib_pem_Decode lib,
     lib_ParsePKCS1PrivateKey = lib_ParsePKCS1PrivateKey lib,
     lib_ParsePKCS8PrivateKey = lib_ParsePKCS8PrivateKey lib,
     lib_Sum256 = lib_Sum256 lib,
     lib_SignPKCS1v15 = (\<lambda>k d. rec1 (lib_SignPKCS1v15 lib k d) (G_Sign k d)),
     lib_time_Parse = lib_time_Parse lib\<rparr>"

definition taped_provider :: "'s GitHubProvider \<Rightarrow> ('s, 'k gh_event) tape GitHubProvider" where
  "taped_provider p =
    \<lparr>gp_APIBaseURL = gp_APIBaseURL p,
     gp_HTTPClient = map_option (\<lambda>c rq. rec1 (c rq) (G_Do rq)) (gp_HTTPClient p),
     gp_Now = map_option (\<lambda>f. rec1 f G_Now) (gp_Now p)\<rparr>"

lemma taped_simps [simp]:
  "NewRequest (taped lib) = NewRequest lib"
  "parsePrivateKey (taped lib) = parsePrivateKey lib"
  "decode_createTokenResponse (taped lib) = decode_createTokenResponse lib"
  "baseURL (taped_provider p) = baseURL p"
  "gh_client (taped lib) (taped_provider p) rq = rec1 (gh_client lib p rq) (G_Do rq)"
  "lib_Sum256 (taped lib) = lib_Sum256 lib"
  "lib_SignPKCS1v15 (taped lib) k d = rec1 (lib_SignPKCS1v15 lib k d) (G_Sign k d)"
  by (auto simp: taped_def taped_provider_def NewRequest_def parsePrivateKey_def decode_createTokenResponse_def
      baseURL_def gh_client_def fun_eq_iff split: option.split sum.split)

lemma emits_gh_now: "emits (gh_now (taped lib) (taped_provider p)) (\<lambda>t new. new = [G_Now t])"
  by (auto simp: gh_now_def taped_def taped_provider_def intro: emits_rec1 split: option.split)

section \<open>The requests\<close>

definition jwt_of :: "string \<Rightarrow> time \<Rightarrow> bytes \<Rightarrow> string" where
  "jwt_of appID t sig =
     EncodeToString RawURLEncoding (json_print jwt_header) @ ''.'' @
     EncodeToString RawURLEncoding (json_print (jwt_claims appID t)) @ ''.'' @ EncodeToString RawURLEncoding sig"

definition signing_input :: "string \<Rightarrow> time \<Rightarrow> string" where
  "signing_input appID t =
     EncodeToString RawURLEncoding (json_print jwt_header) @ ''.'' @
     EncodeToString RawURLEncoding (json_print (jwt_claims appID t))"

definition resolve_request :: "'s GitHubProvider \<Rightarrow> string \<Rightarrow> string \<Rightarrow> HttpRequest" where
  "resolve_request p jwt repo =
    \<lparr>rq_Method = ''GET'', rq_URL = baseURL p @ ''/repos/'' @ repo @ ''/installation'',
     rq_Header = [(''Authorization'', ''Bearer '' @ jwt), (''Accept'', ''application/vnd.github+json'')], rq_Body = []\<rparr>"

definition token_request ::
  "'s GitHubProvider \<Rightarrow> string \<Rightarrow> int64 \<Rightarrow> string list \<Rightarrow> (string \<times> string) list \<Rightarrow> HttpRequest" where
  "token_request p jwt i repos perms =
    \<lparr>rq_Method = ''POST'',
     rq_URL = baseURL p @ ''/app/installations/'' @ show_int (sint i) @ ''/access_tokens'',
     rq_Header = [(''Authorization'', ''Bearer '' @ jwt), (''Accept'', ''application/vnd.github+json''),
                  (''Content-Type'', ''application/json'')],
     rq_Body = json_print (createTokenRequest_json \<lparr>ctr_Repositories = repos, ctr_Permissions = perms\<rparr>)\<rparr>"

definition revoke_request :: "'s GitHubProvider \<Rightarrow> string \<Rightarrow> HttpRequest" where
  "revoke_request p tok =
    \<lparr>rq_Method = ''DELETE'', rq_URL = baseURL p @ ''/installation/token'',
     rq_Header = [(''Authorization'', ''Bearer '' @ tok), (''Accept'', ''application/vnd.github+json'')], rq_Body = []\<rparr>"


section \<open>The conversation of a mint\<close>

definition mint_input :: "('s, 'k) stdlib \<Rightarrow> MintRequest \<Rightarrow> Scope \<Rightarrow> 'k \<Rightarrow> bool" where
  "mint_input lib q scope key \<longleftrightarrow>
     mreq_Scope q = ScopeGitHub scope \<and> scope_AppID scope \<noteq> [] \<and> scope_PrivateKeyPEM scope \<noteq> [] \<and>
     scope_Repositories scope \<noteq> [] \<and> parsePrivateKey lib (scope_PrivateKeyPEM scope) = Inr key"

inductive mint_talk ::
  "('s, 'k) stdlib \<Rightarrow> 's GitHubProvider \<Rightarrow> MintRequest \<Rightarrow> MintResult result \<Rightarrow> 'k gh_event list \<Rightarrow> bool"
  for lib p q where
  rejected: "\<nexists>scope key. mint_input lib q scope key \<Longrightarrow> mint_talk lib p q (Inl e) []"
| unsigned: "mint_input lib q scope key \<Longrightarrow>
    mint_talk lib p q (Inl e')
      [G_Now t, G_Sign key (lib_Sum256 lib (signing_input (scope_AppID scope) t)) (Inl e)]"
| unsent: "mint_input lib q scope key \<Longrightarrow>
    mint_talk lib p q (Inl e)
      [G_Now t, G_Sign key (lib_Sum256 lib (signing_input (scope_AppID scope) t)) (Inr sig)]"
| unresolved: "mint_input lib q scope key \<Longrightarrow>
    mint_talk lib p q (Inl e)
      [G_Now t, G_Sign key (lib_Sum256 lib (signing_input (scope_AppID scope) t)) (Inr sig),
       G_Do (resolve_request p (jwt_of (scope_AppID scope) t sig) (hd (scope_Repositories scope))) r1]"
| refused: "mint_input lib q scope key \<Longrightarrow> rs_StatusCode resp = 200 \<Longrightarrow>
    decode_installationResponse (rs_Body resp) = Some inst \<Longrightarrow>
    mint_talk lib p q (Inl e)
      [G_Now t, G_Sign key (lib_Sum256 lib (signing_input (scope_AppID scope) t)) (Inr sig),
       G_Do (resolve_request p (jwt_of (scope_AppID scope) t sig) (hd (scope_Repositories scope))) (Inr resp),
       G_Do (token_request p (jwt_of (scope_AppID scope) t sig) (ir_ID inst) (scope_Repositories scope) (scope_Permissions scope)) r2]"
| granted: "mint_input lib q scope key \<Longrightarrow> rs_StatusCode resp = 200 \<Longrightarrow>
    decode_installationResponse (rs_Body resp) = Some inst \<Longrightarrow> rs_StatusCode resp' = 201 \<Longrightarrow>
    decode_createTokenResponse lib (rs_Body resp') = Some out \<Longrightarrow>
    mint_talk lib p q
      (Inr \<lparr>mint_Data = [(''token'', ctp_Token out)], mint_ExpiresAt = ctp_ExpiresAt out,
            mint_Handle = \<lparr>h_ProviderName = Name, h_Opaque = ctp_Token out\<rparr>\<rparr>)
      [G_Now t, G_Sign key (lib_Sum256 lib (signing_input (scope_AppID scope) t)) (Inr sig),
       G_Do (resolve_request p (jwt_of (scope_AppID scope) t sig) (hd (scope_Repositories scope))) (Inr resp),
       G_Do (token_request p (jwt_of (scope_AppID scope) t sig) (ir_ID inst) (scope_Repositories scope) (scope_Permissions scope))
         (Inr resp')]"

lemma emits_signAppJWT:
  "emits (signAppJWT (taped lib) (taped_provider p) appID key)
     (\<lambda>j es. \<exists>t.
        (\<exists>e. es = [G_Now t, G_Sign key (lib_Sum256 lib (signing_input appID t)) (Inl e)] \<and> j = Inl e) \<or>
        (\<exists>sig. es = [G_Now t, G_Sign key (lib_Sum256 lib (signing_input appID t)) (Inr sig)] \<and>
           j = Inr (jwt_of appID t sig)))"
  unfolding signAppJWT_def marshalB64_def json_Marshal_def sum.case Let_def taped_simps
  apply (rule emits_bind [OF emits_gh_now])
  apply (rule emits_bind_rec1, rule emits_return)
  apply (auto simp: signing_input_def jwt_of_def split: sum.split)
  done

lemma emits_resolve:
  "emits (resolveInstallationID (taped lib) (taped_provider p) jwt repo)
     (\<lambda>i es. (es = [] \<and> (\<exists>e. i = Inl e)) \<or>
       (\<exists>r1. es = [G_Do (resolve_request p jwt repo) r1] \<and>
          ((\<exists>e. i = Inl e) \<or> (\<exists>resp inst. r1 = Inr resp \<and> rs_StatusCode resp = 200 \<and>
             decode_installationResponse (rs_Body resp) = Some inst \<and> i = Inr (ir_ID inst)))))"
  unfolding resolveInstallationID_def taped_simps Let_def
  by (intro emits_rules emits_return)
     (auto simp: NewRequest_def resolve_request_def Header_Set_def split: option.splits sum.split)

lemma emits_createToken:
  "emits (createInstallationToken (taped lib) (taped_provider p) jwt i repos perms)
     (\<lambda>c es. (es = [] \<and> (\<exists>e. c = Inl e)) \<or>
       (\<exists>r2. es = [G_Do (token_request p jwt i repos perms) r2] \<and>
          ((\<exists>e. c = Inl e) \<or> (\<exists>resp out. r2 = Inr resp \<and> rs_StatusCode resp = 201 \<and>
             decode_createTokenResponse lib (rs_Body resp) = Some out \<and> c = Inr (ctp_Token out, ctp_ExpiresAt out)))))"
  unfolding createInstallationToken_def json_Marshal_def sum.case taped_simps Let_def
  by (intro emits_rules emits_return)
     (auto simp: NewRequest_def token_request_def Header_Set_def split: option.splits sum.split)

lemma Mint_follows: "emits (Mint (taped lib) (taped_provider p) q) (mint_talk lib p q)"
proof (cases "\<exists>scope key. mint_input lib q scope key")
  case False
  then show ?thesis
    by (auto simp: Mint_def mint_input_def intro!: emits_return mint_talk.rejected split: any_scope.split sum.split)
next
  case True
  then obtain scope key where inp: "mint_input lib q scope key" by blast
  have body: "Mint (taped lib) (taped_provider p) q = do {
      j \<leftarrow> signAppJWT (taped lib) (taped_provider p) (scope_AppID scope) key;
      case j of
        Inl err \<Rightarrow> State_Monad.return (Inl (Wrapf ''github: signing App JWT: %w'' [] err))
      | Inr appJWT \<Rightarrow> do {
          i \<leftarrow> resolveInstallationID (taped lib) (taped_provider p) appJWT (hd (scope_Repositories scope));
          case i of
            Inl err \<Rightarrow> State_Monad.return (Inl (Wrapf ''github: resolving installation: %w'' [] err))
          | Inr installationID \<Rightarrow> do {
              c \<leftarrow> createInstallationToken (taped lib) (taped_provider p) appJWT installationID
                    (scope_Repositories scope) (scope_Permissions scope);
              State_Monad.return
                (case c of
                   Inl err \<Rightarrow> Inl (Wrapf ''github: minting installation token: %w'' [] err)
                 | Inr (tok, expiresAt) \<Rightarrow>
                     Inr \<lparr>mint_Data = [(''token'', tok)], mint_ExpiresAt = expiresAt,
                          mint_Handle = \<lparr>h_ProviderName = Name, h_Opaque = tok\<rparr>\<rparr>)
            }
        }
    }"
    using inp by (simp add: Mint_def mint_input_def)
  show ?thesis
    unfolding body
    by (intro emits_bind [OF emits_signAppJWT] emits_rules emits_return emits_bind [OF emits_resolve]
        emits_bind [OF emits_createToken]) (use inp in \<open>auto intro: mint_talk.intros\<close>)
qed


definition mint_events :: "('s, 'k) stdlib \<Rightarrow> 's GitHubProvider \<Rightarrow> MintRequest \<Rightarrow> 's \<Rightarrow> 'k gh_event list" where
  "mint_events lib p q s = snd (snd (run_state (Mint (taped lib) (taped_provider p) q) (s, [])))"

definition revoke_events :: "('s, 'k) stdlib \<Rightarrow> 's GitHubProvider \<Rightarrow> CredentialHandle \<Rightarrow> 's \<Rightarrow> 'k gh_event list" where
  "revoke_events lib p h s = snd (snd (run_state (Revoke (taped lib) (taped_provider p) h) (s, [])))"

fun is_Do :: "'k gh_event \<Rightarrow> bool" where
  "is_Do (G_Do rq r) = True" | "is_Do e = False"

lemma emits_result:
  assumes "emits m \<Phi>" and "erases m m'"
  shows "\<Phi> (fst (run_state m' s)) (snd (snd (run_state m (s, []))))"
proof -
  have "wp m (\<lambda>a (s', es'). \<exists>new. es' = [] @ new \<and> \<Phi> a new) (s, [])"
    using assms(1) unfolding emits_def by blast
  moreover have "run_state m' s = (fst (run_state m (s, [])), fst (snd (run_state m (s, []))))"
    using assms(2) unfolding erases_def by blast
  ultimately show ?thesis by (auto simp: wp_def split: prod.splits)
qed

lemma erases_gh_now: "erases (gh_now (taped lib) (taped_provider p)) (gh_now lib p)"
  by (auto simp: gh_now_def taped_def taped_provider_def split: option.split)

lemma erases_Mint: "erases (Mint (taped lib) (taped_provider p) q) (Mint lib p q)"
  unfolding Mint_def signAppJWT_def resolveInstallationID_def createInstallationToken_def taped_simps Let_def
  by (auto intro!: erases_gh_now split: any_scope.split)

lemma erases_Revoke: "erases (Revoke (taped lib) (taped_provider p) h) (Revoke lib p h)"
  unfolding Revoke_def taped_simps Let_def by blast

lemmas mint_talks = emits_result [OF Mint_follows erases_Mint, folded mint_events_def]

section \<open>Properties\<close>

text \<open>
  C25. The conversation of a mint: with an unusable scope or key GitHub is not contacted at all;
  otherwise there are at most two calls, first the lookup of the installation of the first repository, then,
  only if that was answered with 200 and an installation, one request for a token of this
  installation, for exactly the repositories and permissions of the scope. Both calls carry the same App JWT.
\<close>

theorem github_mint_conversation:
  "let calls = filter is_Do (mint_events lib p q s) in
   calls = [] \<or>
   (\<exists>scope key t sig.
      mint_input lib q scope key \<and>
      (let jwt = jwt_of (scope_AppID scope) t sig; repos = scope_Repositories scope in
       (\<exists>r. calls = [G_Do (resolve_request p jwt (hd repos)) r]) \<or>
       (\<exists>resp inst r. rs_StatusCode resp = 200 \<and> decode_installationResponse (rs_Body resp) = Some inst \<and>
          calls = [G_Do (resolve_request p jwt (hd repos)) (Inr resp),
                   G_Do (token_request p jwt (ir_ID inst) repos (scope_Permissions scope)) r])))"
  using mint_talks [of lib p q s] unfolding Let_def by (cases rule: mint_talk.cases; auto; blast)

text \<open>The handle of a GitHub credential is the credential.\<close>

lemma github_handle_is_token:
  assumes "prov_Mint (as_Provider lib p) q s = (Inr mint, s')"
  shows "mint_Data mint = [(''token'', h_Opaque (mint_Handle mint))]"
proof -
  have "fst (run_state (Mint lib p q) s) = Inr mint" using assms by (simp add: as_Provider_def)
  then show ?thesis using mint_talks [of lib p q s] by (auto elim!: mint_talk.cases)
qed

text \<open>
  C28. A mint succeeds only with what GitHub granted: the last event is the answer 201 to the token
  request, and the credential is the token of this answer, under the key \<open>token\<close>, with the expiry of this
  answer and a handle that names the provider and consists of the token itself.
\<close>

theorem github_mint_result:
  "(\<exists>e. fst (run_state (Mint lib p q) s) = Inl e) \<or>
   (\<exists>rq resp out. last (mint_events lib p q s) = G_Do rq (Inr resp) \<and> rs_StatusCode resp = 201 \<and>
      decode_createTokenResponse lib (rs_Body resp) = Some out \<and>
      fst (run_state (Mint lib p q) s) =
        Inr \<lparr>mint_Data = [(''token'', ctp_Token out)], mint_ExpiresAt = ctp_ExpiresAt out,
             mint_Handle = \<lparr>h_ProviderName = ''github-app'', h_Opaque = ctp_Token out\<rparr>\<rparr>)"
  using mint_talks [of lib p q s] by (cases rule: mint_talk.cases) (auto simp: Name_def)

text \<open>
  C29. Revocation: a handle of another provider and an empty handle are refused without a call. Any other
  handle is revoked with one DELETE that presents the token itself (unless the URL is malformed), and the
  revocation counts as done exactly when the answer is 204.
\<close>

theorem github_revoke:
  "if h_ProviderName h = ''github-app'' \<and> h_Opaque h \<noteq> []
   then
     revoke_events lib p h s = [] \<and> fst (run_state (Revoke lib p h) s) \<noteq> None \<and>
       lib_url_Parse lib (baseURL p @ ''/installation/token'') \<noteq> None \<or>
     (\<exists>r. revoke_events lib p h s = [G_Do (revoke_request p (h_Opaque h)) r] \<and>
        (fst (run_state (Revoke lib p h) s) = None \<longleftrightarrow> (\<exists>resp. r = Inr resp \<and> rs_StatusCode resp = 204)))
   else revoke_events lib p h s = [] \<and> fst (run_state (Revoke lib p h) s) \<noteq> None"
proof -
  have "emits (Revoke (taped lib) (taped_provider p) h)
    (\<lambda>res es. if h_ProviderName h = ''github-app'' \<and> h_Opaque h \<noteq> []
       then es = [] \<and> res \<noteq> None \<and> lib_url_Parse lib (baseURL p @ ''/installation/token'') \<noteq> None \<or>
         (\<exists>r. es = [G_Do (revoke_request p (h_Opaque h)) r] \<and>
            (res = None \<longleftrightarrow> (\<exists>resp. r = Inr resp \<and> rs_StatusCode resp = 204)))
       else es = [] \<and> res \<noteq> None)"
    unfolding Revoke_def taped_simps Let_def
    by (intro emits_rules emits_return)
       (auto simp: Name_def NewRequest_def revoke_request_def Header_Set_def split: option.splits sum.split)
  from emits_result [OF this erases_Revoke, folded revoke_events_def] show ?thesis .
qed

interpretation github: provider_contract "as_Provider lib p" for lib :: "('s, 'k) stdlib" and p
proof
  show "h_ProviderName (mint_Handle m) = prov_Name (as_Provider lib p)"
    if "prov_Mint (as_Provider lib p) q s = (Inr m, s')" for q s m s'
  proof -
    have "fst (run_state (Mint lib p q) s) = Inr m" using that by (simp add: as_Provider_def)
    then show ?thesis
      using mint_talks [of lib p q s] by (auto elim: mint_talk.cases simp: as_Provider_def)
  qed
  show "\<exists>e. prov_Revoke (as_Provider lib p) h s = (Some e, s)"
    if "h_ProviderName h \<noteq> prov_Name (as_Provider lib p)" for h s
    using that by (simp add: as_Provider_def Revoke_def)
qed


section \<open>The App JWT\<close>

lemma encoded_no_dot: "CHR ''.'' \<notin> set (EncodeToString v b)"
  using EncodeToString_alphabet [of v b] by (auto dest!: subsetD b64_alphabet_plain(3))

lemma split_jwt:
  "strings_Split (EncodeToString v a @ ''.'' @ EncodeToString v b @ ''.'' @ EncodeToString v c) CHR ''.'' =
     [EncodeToString v a, EncodeToString v b, EncodeToString v c]"
  by (simp add: strings_Split_append_sep strings_Split_no_sep encoded_no_dot)

lemma jwt_instants:
  "time_Unix (time_Add t (dur_sub jwtMaxLifetime jwtClockSkewGuard)) = t div Second + 540"
  "time_Unix (time_Add t (dur_neg jwtClockSkewGuard)) = t div Second - 60"
  by (simp_all add: time_Unix_def time_Add_def dur_sub_def dur_neg_def jwtMaxLifetime_def jwtClockSkewGuard_def
      dur_mul_def wrap64_def Minute_def Second_def)

lemma claims_wf: "wf_json (jwt_claims appID t)"
  by (auto simp: jwt_claims_def)

text \<open>
  C27. The App JWT is what GitHub asks for: three segments in URL-safe base64, a header that says RS256,
  claims whose issuer is the App ID, issued a minute before the clock reading, expiring nine
  minutes after it, ten minutes in all, and a signature by the App's key over the digest of exactly the first two segments.
\<close>

theorem github_jwt:
  assumes "run_state (signAppJWT lib p appID key) s = (Inr jwt, s')" and "valid_utf8 appID"
  shows "\<exists>t s1 header claims signature sig iss.
    run_state (gh_now lib p) s = (t, s1) \<and>
    strings_Split jwt CHR ''.'' = [header, claims, signature] \<and>
    DecodeString RawURLEncoding header = Some (json_print (JObj [(''alg'', JStr ''RS256''), (''typ'', JStr ''JWT'')])) \<and>
    Option.bind (DecodeString RawURLEncoding claims) json_parse =
      Some (JObj [(''exp'', JNum (show_int (t div Second + 540))), (''iat'', JNum (show_int (t div Second - 60))), (''iss'', iss)]) \<and>
    conv_string iss = Some appID \<and>
    DecodeString RawURLEncoding signature = Some sig \<and>
    lib_SignPKCS1v15 lib key (lib_Sum256 lib (header @ ''.'' @ claims)) s1 = (Inr sig, s')"
proof -
  let ?e = "EncodeToString RawURLEncoding"
  obtain t s1 where now: "run_state (gh_now lib p) s = (t, s1)" by fastforce
  let ?h = "?e (json_print jwt_header)" and ?c = "?e (json_print (jwt_claims appID t))"
  obtain sig where sig: "lib_SignPKCS1v15 lib key (lib_Sum256 lib (?h @ ''.'' @ ?c)) s1 = (Inr sig, s')"
    and jwt: "jwt = ?h @ ''.'' @ ?c @ ''.'' @ ?e sig"
    using assms(1) now
    by (auto simp: signAppJWT_def marshalB64_def json_Marshal_def Let_def split: prod.splits sum.splits)
  have esc: "json_escape ''alg'' = ''alg''" "json_escape ''typ'' = ''typ''" "json_escape ''RS256'' = ''RS256''"
    "json_escape ''JWT'' = ''JWT''" "json_escape ''exp'' = ''exp''" "json_escape ''iat'' = ''iat''" "json_escape ''iss'' = ''iss''"
    by (simp_all add: json_escape_id)
  have "jwt_header = JObj [(''alg'', JStr ''RS256''), (''typ'', JStr ''JWT'')]"
    by (simp add: jwt_header_def json_member_def json_string_def esc)
  moreover have "jwt_claims appID t =
      JObj [(''exp'', JNum (show_int (t div Second + 540))), (''iat'', JNum (show_int (t div Second - 60))), (''iss'', json_string appID)]"
    by (simp add: jwt_claims_def json_member_def esc jwt_instants)
  moreover have "conv_string (json_string appID) = Some appID"
    using assms(2) by (simp add: json_string_def json_unquote_escape)
  ultimately show ?thesis
    using now sig json_parse_print [OF claims_wf, of appID t]
    by (intro exI [of _ t] exI [of _ s1] exI [of _ ?h] exI [of _ ?c] exI [of _ "?e sig"] exI [of _ sig]
        exI [of _ "json_string appID"]) (simp add: jwt split_jwt [simplified] DecodeString_EncodeToString)
qed

section \<open>The token request\<close>

lemma request_fields:
  "valid_utf8 ''repositories''" "valid_utf8 ''permissions''" "fold_name ''repositories'' \<noteq> fold_name ''permissions''"
  by (simp_all add: valid_utf8_ascii upper_char_def)

lemma map_of_sort_key: "distinct (map fst xs) \<Longrightarrow> map_of (sort_key fst xs) = map_of xs"
  by (subst map_of_inject_set) (simp_all add: distinct_map)

lemma request_wf: "wf_json (createTokenRequest_json r)"
  by (auto simp: createTokenRequest_json_def)

text \<open>
  C26. The broker asks for exactly the scope of the resource: reading the body of the token request back as
  JSON gives the repositories in their order and the permissions, nothing added and nothing dropped, for
  arbitrary text in UTF-8.
\<close>

theorem github_request_exact:
  assumes "\<forall>x \<in> set repos. valid_utf8 x" and "\<forall>(k, v) \<in> set perms. valid_utf8 k \<and> valid_utf8 v"
    and "distinct (map fst perms)"
  shows "\<exists>body ms ps.
    json_Marshal (createTokenRequest_json \<lparr>ctr_Repositories = repos, ctr_Permissions = perms\<rparr>) = Inr body \<and>
    json_parse body = Some (JObj ms) \<and>
    decode_field conv_string_list ''repositories'' [] ms = Some repos \<and>
    decode_field conv_string_map ''permissions'' [] ms = Some ps \<and> map_of ps = map_of perms \<and> mset ps = mset perms"
proof -
  let ?r = "\<lparr>ctr_Repositories = repos, ctr_Permissions = perms\<rparr>"
  obtain ms where ms: "createTokenRequest_json ?r = JObj ms" by (simp add: createTokenRequest_json_def)
  let ?ps = "sort_key fst perms"
  have ps: "\<forall>(k, v) \<in> set ?ps. valid_utf8 k \<and> valid_utf8 v" using assms(2) by simp
  have nonempty: "sort_key fst perms = [] \<longleftrightarrow> perms = []" by (metis set_sort set_empty)
  have "decode_field conv_string_list ''repositories'' [] ms = Some repos"
    using ms request_fields conv_string_list_json [OF assms(1)]
    by (auto simp: createTokenRequest_json_def json_member_def same_field_ascii simp del: fold_name.simps conv_string_list.simps)
  moreover have "decode_field conv_string_map ''permissions'' [] ms = Some ?ps"
    using ms request_fields conv_string_map_json [OF ps] nonempty
    by (auto simp: createTokenRequest_json_def json_member_def same_field_ascii simp del: fold_name.simps conv_string_map.simps)
  ultimately show ?thesis
    using json_parse_print [OF request_wf, of ?r] ms map_of_sort_key [OF assms(3)]
    by (intro exI [of _ "json_print (JObj ms)"] exI [of _ ms] exI [of _ ?ps]) (simp add: json_Marshal_def)
qed


section \<open>Witnesses\<close>

text \<open>Libraries with a clock at second 1000, a key that is the text \<open>key\<close> and a network that is down.\<close>

definition sample_lib :: "(unit, string) stdlib" where
  "sample_lib =
    \<lparr>lib_DefaultClient = (\<lambda>rq s. (Inl (ErrExt ''connection refused''), s)),
     lib_timeNow = (\<lambda>s. (1000 * Second, s)), lib_url_Parse = (\<lambda>u. None), lib_pem_Decode = Some,
     lib_ParsePKCS1PrivateKey = Inr, lib_ParsePKCS8PrivateKey = (\<lambda>b. Inl (ErrExt ''x509'')),
     lib_Sum256 = take 32, lib_SignPKCS1v15 = (\<lambda>k d s. (Inr (k @ d), s)), lib_time_Parse = (\<lambda>s. None)\<rparr>"

theorem github_jwt_witness:
  "\<exists>jwt header claims signature iss.
     fst (run_state (signAppJWT sample_lib (New sample_lib) ''12345'' ''key'') ()) = Inr jwt \<and>
     strings_Split jwt CHR ''.'' = [header, claims, signature] \<and>
     Option.bind (DecodeString RawURLEncoding claims) json_parse =
       Some (JObj [(''exp'', JNum (show_int 1540)), (''iat'', JNum (show_int 940)), (''iss'', iss)]) \<and>
     conv_string iss = Some ''12345''"
proof -
  obtain jwt where run: "run_state (signAppJWT sample_lib (New sample_lib) ''12345'' ''key'') () = (Inr jwt, ())"
    by (simp add: signAppJWT_def gh_now_def New_def sample_lib_def marshalB64_def json_Marshal_def Let_def)
  have clock: "run_state (gh_now sample_lib (New sample_lib)) () = (1000 * Second, ())"
    by (simp add: gh_now_def New_def sample_lib_def)
  show ?thesis
    using github_jwt [OF run] run clock by (fastforce simp: valid_utf8_ascii Second_def)
qed

theorem github_request_exact_witness:
  "\<exists>body ms ps.
     json_Marshal (createTokenRequest_json \<lparr>ctr_Repositories = [''myorg/a'', ''myorg/b''],
        ctr_Permissions = [(''contents'', ''read'')]\<rparr>) = Inr body \<and>
     json_parse body = Some (JObj ms) \<and>
     decode_field conv_string_list ''repositories'' [] ms = Some [''myorg/a'', ''myorg/b''] \<and>
     decode_field conv_string_map ''permissions'' [] ms = Some ps \<and> map_of ps = [''contents'' \<mapsto> ''read'']"
proof -
  have "\<forall>x \<in> set [''myorg/a'', ''myorg/b'']. valid_utf8 x"
    and "\<forall>(k, v) \<in> set [(''contents'', ''read'')]. valid_utf8 k \<and> valid_utf8 v"
    by (simp_all add: valid_utf8_ascii)
  moreover have "distinct (map fst [(''contents'', ''read'')])" by simp
  ultimately obtain body ms ps where
    "json_Marshal (createTokenRequest_json \<lparr>ctr_Repositories = [''myorg/a'', ''myorg/b''],
       ctr_Permissions = [(''contents'', ''read'')]\<rparr>) = Inr body"
    "json_parse body = Some (JObj ms)"
    "decode_field conv_string_list ''repositories'' [] ms = Some [''myorg/a'', ''myorg/b'']"
    "decode_field conv_string_map ''permissions'' [] ms = Some ps" "map_of ps = map_of [(''contents'', ''read'')]"
    using github_request_exact by blast
  then show ?thesis
    by (intro exI [of _ body] exI [of _ ms] exI [of _ ps] conjI) (assumption+, simp only: map_of.simps fst_conv snd_conv)
qed

end
