(* ===== verification/Go_Flag.thy ===== *)
theory Go_Flag
  imports Broker_Prelude
begin

text \<open>
  Go's package \<open>flag\<close>, as far as \<open>main\<close> uses it. A flag set maps the name of a flag to its value, which
  is known by two methods: whether it is a boolean flag, and \<open>Set\<close>, which reads a text into the
  variables the flags are bound to (the type \<open>'f\<close>) or refuses it. \<open>flag_Parse\<close> reads the
  command line with \<open>parseOne\<close>, one flag at a time, until an argument that is not a flag, the end, or an error.
\<close>

record 'f flag_value =
  fv_IsBoolFlag :: bool
  fv_Set :: "string \<Rightarrow> 'f \<Rightarrow> 'f option"

type_synonym 'f flag_set = "string \<Rightarrow> 'f flag_value option"

datatype flag_error =
    ErrHelp
  | BadSyntax string
  | NotDefined string
  | InvalidBool string string
  | NeedsArgument string
  | InvalidValue string string

text \<open>The values of \<open>BoolVar\<close> and \<open>StringVar\<close>: \<open>strconv.ParseBool\<close>, and any text.\<close>

definition ParseBool :: "string \<Rightarrow> bool option" where
  "ParseBool s =
     (if s \<in> {''1'', ''t'', ''T'', ''TRUE'', ''true'', ''True''} then Some True
      else if s \<in> {''0'', ''f'', ''F'', ''FALSE'', ''false'', ''False''} then Some False
      else None)"

definition bool_value :: "(bool \<Rightarrow> 'f \<Rightarrow> 'f) \<Rightarrow> 'f flag_value" where
  "bool_value upd = \<lparr>fv_IsBoolFlag = True, fv_Set = (\<lambda>s f. map_option (\<lambda>b. upd b f) (ParseBool s))\<rparr>"

definition string_value :: "(string \<Rightarrow> 'f \<Rightarrow> 'f) \<Rightarrow> 'f flag_value" where
  "string_value upd = \<lparr>fv_IsBoolFlag = False, fv_Set = (\<lambda>s f. Some (upd s f))\<rparr>"

section \<open>Reading a command line\<close>

text \<open>The name and the value of an argument \<open>name=value\<close>; the first character of the name is never the separator.\<close>

definition split_equals :: "string \<Rightarrow> string \<times> string option" where
  "split_equals name =
     (let n = takeWhile (\<lambda>c. c \<noteq> CHR ''='') (tl name) in
      (hd name # n,
       if length n = length (tl name) then None else Some (drop (Suc (length n)) (tl name))))"

text \<open>
  One step: \<open>Inl\<close> an error; \<open>Inr None\<close> and the rest when no flag is left; \<open>Inr (Some f)\<close>, the variables
  after the flag was set, and the rest.
\<close>

definition set_flag :: "string \<Rightarrow> string option \<Rightarrow> string list \<Rightarrow> 'f flag_value \<Rightarrow> 'f \<Rightarrow>
    flag_error + 'f option \<times> string list" where
  "set_flag name val args fv f =
     (if fv_IsBoolFlag fv then
        (let text = (case val of Some v \<Rightarrow> v | None \<Rightarrow> ''true'') in
         case fv_Set fv text f of
           None \<Rightarrow> Inl (InvalidBool text name)
         | Some f' \<Rightarrow> Inr (Some f', args))
      else
        (case (val, args) of
           (None, []) \<Rightarrow> Inl (NeedsArgument name)
         | (None, v # rest) \<Rightarrow>
             (case fv_Set fv v f of None \<Rightarrow> Inl (InvalidValue v name) | Some f' \<Rightarrow> Inr (Some f', rest))
         | (Some v, _) \<Rightarrow>
             (case fv_Set fv v f of None \<Rightarrow> Inl (InvalidValue v name) | Some f' \<Rightarrow> Inr (Some f', args))))"

definition parseOne :: "'f flag_set \<Rightarrow> string list \<Rightarrow> 'f \<Rightarrow> flag_error + 'f option \<times> string list" where
  "parseOne formal args f =
     (case args of
        [] \<Rightarrow> Inr (None, [])
      | s # rest \<Rightarrow>
          if length s < 2 \<or> s ! 0 \<noteq> CHR ''-'' then Inr (None, args)
          else if s = ''--'' then Inr (None, rest)
          else
            (let name = drop (if s ! 1 = CHR ''-'' then 2 else 1) s in
             if name ! 0 = CHR ''-'' \<or> name ! 0 = CHR ''='' then Inl (BadSyntax s)
             else
               (let (name, val) = split_equals name in
                case formal name of
                  None \<Rightarrow> Inl (if name \<in> {''help'', ''h''} then ErrHelp else NotDefined name)
                | Some fv \<Rightarrow> set_flag name val rest fv f)))"

lemma set_flag_shorter: "set_flag name val args fv f = Inr (Some f', rest) \<Longrightarrow> length rest \<le> length args"
  by (auto simp: set_flag_def Let_def split: if_splits option.splits list.splits)

lemma parseOne_shorter: "parseOne formal args f = Inr (Some f', rest) \<Longrightarrow> length rest < length args"
  by (auto simp: parseOne_def Let_def less_Suc_eq_le split: if_splits option.splits list.splits prod.splits dest!: set_flag_shorter)

function flag_Parse :: "'f flag_set \<Rightarrow> string list \<Rightarrow> 'f \<Rightarrow> flag_error + 'f \<times> string list" where
  "flag_Parse formal args f =
     (case parseOne formal args f of
        Inl e \<Rightarrow> Inl e
      | Inr (None, rest) \<Rightarrow> Inr (f, rest)
      | Inr (Some f', rest) \<Rightarrow> flag_Parse formal rest f')"
  by pat_completeness auto
termination
  by (relation "measure (\<lambda>(formal, args, f). length args)") (auto dest: parseOne_shorter)

declare flag_Parse.simps [simp del]

text \<open>An argument of the form \<open>--name=value\<close> sets the flag of that name to that value.\<close>

lemma split_equals_arg:
  assumes "name \<noteq> []" and "CHR ''='' \<notin> set name"
  shows "split_equals (name @ CHR ''='' # v) = (name, Some v)"
proof -
  obtain c n where n: "name = c # n" using assms(1) by (cases name) auto
  have "takeWhile (\<lambda>c. c \<noteq> CHR ''='') (n @ CHR ''='' # v) = n"
    using assms(2) n by (induction n arbitrary: name) (auto simp: takeWhile_append)
  then show ?thesis by (simp add: split_equals_def n)
qed

lemma parse_assignment:
  assumes "name \<noteq> []" and "CHR ''='' \<notin> set name" and "hd name \<noteq> CHR ''-''" and "formal name = Some fv"
    and "fv_Set fv v f = Some f'"
  shows "flag_Parse formal ((''--'' @ name @ ''='' @ v) # args) f = flag_Parse formal args f'"
proof -
  have "hd name \<noteq> CHR ''=''" using assms(1,2) by (metis list.set_sel(1))
  then have "parseOne formal ((''--'' @ name @ ''='' @ v) # args) f = Inr (Some f', args)"
    using assms split_equals_arg [OF assms(1,2), of v]
    by (cases name) (auto simp: parseOne_def set_flag_def Let_def)
  then show ?thesis by (subst flag_Parse.simps) simp
qed

lemma parse_end: "flag_Parse formal [] f = Inr (f, [])"
  by (subst flag_Parse.simps) (simp add: parseOne_def)

text \<open>
  What only one flag can change stays as it is when no argument names that flag. The name an argument
  gives, if it is a flag, is what stands between its dashes and its first equals sign.
\<close>

definition arg_name :: "string \<Rightarrow> string" where
  "arg_name s = fst (split_equals (dropWhile (\<lambda>c. c = CHR ''-'') s))"

lemma set_flag_cases:
  assumes "set_flag name val args fv f = Inr (Some f', rest)"
  obtains v where "fv_Set fv v f = Some f'" and "set rest \<subseteq> set args"
  using assms by (auto simp: set_flag_def Let_def split: if_splits option.splits list.splits)

lemma parseOne_cases:
  assumes "parseOne formal args f = Inr (Some f', rest)"
  obtains s v fv where "s \<in> set args" "formal (arg_name s) = Some fv" "fv_Set fv v f = Some f'" "set rest \<subseteq> set args"
proof -
  from assms obtain s as where args: "args = s # as" and s: "2 \<le> length s" "s ! 0 = CHR ''-''" "s \<noteq> ''--''"
    by (auto simp: parseOne_def split: list.splits if_splits)
  define name where "name = drop (if s ! 1 = CHR ''-'' then 2 else 1) s"
  have first: "name ! 0 \<noteq> CHR ''-''" using assms args s by (auto simp: parseOne_def name_def Let_def split: if_splits)
  obtain c d ds where cd: "s = c # d # ds" using s(1) by (cases s rule: remdups_adj.cases) auto
  have "dropWhile (\<lambda>c. c = CHR ''-'') s = name"
    using first s(2,3) by (cases ds) (auto simp: name_def cd)
  then have n: "arg_name s = fst (split_equals name)" by (simp add: arg_name_def)
  obtain fv where fv: "formal (fst (split_equals name)) = Some fv"
    "set_flag (fst (split_equals name)) (snd (split_equals name)) as fv f = Inr (Some f', rest)"
    using assms args s first
    by (auto simp: parseOne_def name_def Let_def split: if_splits prod.splits option.splits)
  from set_flag_cases [OF fv(2)] obtain v where "fv_Set fv v f = Some f'" "set rest \<subseteq> set as" .
  then show ?thesis using that [of s fv v] fv(1) n args by auto
qed

lemma flag_Parse_keeps:
  assumes "flag_Parse formal args f = Inr (f', rest)" and "P f"
    and "\<And>n fv v g g'. formal n = Some fv \<Longrightarrow> n \<noteq> x \<Longrightarrow> fv_Set fv v g = Some g' \<Longrightarrow> P g \<Longrightarrow> P g'"
    and "\<And>a. a \<in> set args \<Longrightarrow> arg_name a \<noteq> x"
  shows "P f'"
  using assms
proof (induction formal args f rule: flag_Parse.induct)
  case (1 formal args f)
  show ?case
  proof (cases "parseOne formal args f")
    case (Inr y)
    then obtain o' as where one: "parseOne formal args f = Inr (o', as)" by (cases y) auto
    show ?thesis
    proof (cases o')
      case None
      then show ?thesis using 1(2,3) one by (simp add: flag_Parse.simps [of formal args f])
    next
      case (Some g)
      from parseOne_cases [OF one [unfolded Some]] obtain s v fv where
        s: "s \<in> set args" "formal (arg_name s) = Some fv" "fv_Set fv v f = Some g" "set as \<subseteq> set args" .
      have Pg: "P g" using 1(4) [OF s(2) 1(5) [OF s(1)] s(3) 1(3)] .
      have run: "flag_Parse formal as g = Inr (f', rest)"
        using 1(2) one Some by (simp add: flag_Parse.simps [of formal args f])
      show ?thesis
      proof (rule 1(1) [OF one refl Some run Pg])
        show "P g'" if "formal n = Some fv" "n \<noteq> x" "fv_Set fv v g = Some g'" "P g" for n fv v g g'
          using 1(4) [OF that] .
        show "arg_name a \<noteq> x" if "a \<in> set as" for a using 1(5) s(4) that by blast
      qed
    qed
  qed (use 1(2) in \<open>simp add: flag_Parse.simps [of formal args f]\<close>)
qed

end
