(* ===== verification/Manager_Main.thy ===== *)
theory Manager_Main
  imports Failure_Modes GitHub_Props Go_Flag
begin

text \<open>
  The process: \<open>main\<close> of \<open>src/cmd/main.go\<close> and \<open>SetupWithManager\<close> of the controller. The manager of
  controller-runtime is a parameter (\<open>'m\<close> is its type, \<open>mgr_lib\<close> its operations), and so are the flags that
  other packages add to the command line (those of zap, and \<open>kubeconfig\<close>) with the variables \<open>'x\<close> they set. The
  logger has no effect the model talks about and is left out; the scheme is in \<open>Scheme_Setup\<close>. The result of
  \<open>main\<close> is the exit code: 2 for a command line that cannot be read, 0 after its help text, 1 for \<open>os.Exit(1)\<close>
  and a missing cluster configuration, 0 when \<open>Start\<close> returns without an error.
\<close>

section \<open>Configuration\<close>

record main_flags =
  fl_metricsAddr :: string
  fl_probeAddr :: string
  fl_secureMetrics :: bool
  fl_enableHTTP2 :: bool

definition default_flags :: main_flags where
  "default_flags = \<lparr>fl_metricsAddr = ''0'', fl_probeAddr = '':8081'', fl_secureMetrics = False, fl_enableHTTP2 = False\<rparr>"

text \<open>The flags of \<open>main\<close> next to those of other packages, over the variables of both.\<close>

definition other_flag :: "'x flag_value \<Rightarrow> (main_flags \<times> 'x) flag_value" where
  "other_flag fv = \<lparr>fv_IsBoolFlag = fv_IsBoolFlag fv, fv_Set = (\<lambda>v (fl, x). map_option (Pair fl) (fv_Set fv v x))\<rparr>"

definition main_flag_set :: "'x flag_set \<Rightarrow> (main_flags \<times> 'x) flag_set" where
  "main_flag_set others n =
     (if n = ''metrics-bind-address'' then Some (string_value (\<lambda>v (fl, x). (fl\<lparr>fl_metricsAddr := v\<rparr>, x)))
      else if n = ''health-probe-bind-address'' then Some (string_value (\<lambda>v (fl, x). (fl\<lparr>fl_probeAddr := v\<rparr>, x)))
      else if n = ''metrics-secure'' then Some (bool_value (\<lambda>b (fl, x). (fl\<lparr>fl_secureMetrics := b\<rparr>, x)))
      else if n = ''enable-http2'' then Some (bool_value (\<lambda>b (fl, x). (fl\<lparr>fl_enableHTTP2 := b\<rparr>, x)))
      else map_option other_flag (others n))"

record tls_config =
  tls_NextProtos :: "string list"

definition disableHTTP2 :: "bool \<Rightarrow> tls_config \<Rightarrow> tls_config" where
  "disableHTTP2 enableHTTP2 c = (if \<not> enableHTTP2 then c\<lparr>tls_NextProtos := [''http/1.1'']\<rparr> else c)"

record manager_options =
  mo_MetricsBindAddress :: string
  mo_SecureServing :: bool
  mo_MetricsTLSOpts :: "(tls_config \<Rightarrow> tls_config) list"
  mo_WebhookTLSOpts :: "(tls_config \<Rightarrow> tls_config) list"
  mo_HealthProbeBindAddress :: string
  mo_LeaderElection :: bool

definition main_options :: "main_flags \<Rightarrow> manager_options" where
  "main_options fl =
    \<lparr>mo_MetricsBindAddress = fl_metricsAddr fl, mo_SecureServing = fl_secureMetrics fl,
     mo_MetricsTLSOpts = [disableHTTP2 (fl_enableHTTP2 fl)], mo_WebhookTLSOpts = [disableHTTP2 (fl_enableHTTP2 fl)],
     mo_HealthProbeBindAddress = fl_probeAddr fl, mo_LeaderElection = False\<rparr>"

section \<open>Wiring\<close>

datatype kind = EphemeralCredentialKind | SecretKind

record controller_spec =
  cs_For :: kind
  cs_Owns :: "kind list"

record ('s, 'm, 'c, 'x) mgr_lib =
  ml_Flags :: "'x flag_set"
  ml_FlagDefaults :: 'x
  ml_GetConfig :: "'x \<Rightarrow> ('s, 'c result) action"
  ml_NewManager :: "'c \<Rightarrow> manager_options \<Rightarrow> ('s, 'm result) action"
  ml_GetClient :: "'m \<Rightarrow> 's k8s"
  ml_GetEventRecorderFor :: "'m \<Rightarrow> string \<Rightarrow> 's EventRecorder"
  ml_Complete :: "'m \<Rightarrow> controller_spec \<Rightarrow> 's Reconciler \<Rightarrow> ('s, go_error option) action"
  ml_AddHealthzCheck :: "'m \<Rightarrow> string \<Rightarrow> ('s, go_error option) action"
  ml_AddReadyzCheck :: "'m \<Rightarrow> string \<Rightarrow> ('s, go_error option) action"
  ml_Start :: "'m \<Rightarrow> ('s, go_error option) action"

definition SetupWithManager :: "('s, 'm, 'c, 'x) mgr_lib \<Rightarrow> 's Reconciler \<Rightarrow> 'm \<Rightarrow> ('s, go_error option) io" where
  "SetupWithManager ml r mgr =
     State (ml_Complete ml mgr \<lparr>cs_For = EphemeralCredentialKind, cs_Owns = [SecretKind]\<rparr> r)"

definition main_providers :: "('s, 'k) stdlib \<Rightarrow> 's Registry" where
  "main_providers lib = NewRegistry [as_Provider lib (New lib)]"

definition main_reconciler :: "'s k8s \<Rightarrow> 's EventRecorder \<Rightarrow> ('s, 'k) stdlib \<Rightarrow> 's Reconciler" where
  "main_reconciler K recorder lib =
    \<lparr>r_Client = K, r_Providers = main_providers lib, r_Recorder = Some recorder, r_Now = None,
     r_timeNow = lib_timeNow lib\<rparr>"

text \<open>\<open>main\<close> after the flags are parsed and the configuration is loaded.\<close>

definition run_manager :: "main_flags \<Rightarrow> 'c \<Rightarrow> ('s, 'm, 'c, 'x) mgr_lib \<Rightarrow> ('s, 'k) stdlib \<Rightarrow> ('s, int) io" where
  "run_manager fl cfg ml lib = do {
     m \<leftarrow> State (ml_NewManager ml cfg (main_options fl));
     case m of
       Inl err \<Rightarrow> State_Monad.return 1
     | Inr mgr \<Rightarrow> do {
         e1 \<leftarrow> SetupWithManager ml
                (main_reconciler (ml_GetClient ml mgr)
                  (ml_GetEventRecorderFor ml mgr ''ephemeral-credential-broker'') lib) mgr;
         if e1 \<noteq> None then State_Monad.return 1
         else do {
           e2 \<leftarrow> State (ml_AddHealthzCheck ml mgr ''healthz'');
           if e2 \<noteq> None then State_Monad.return 1
           else do {
             e3 \<leftarrow> State (ml_AddReadyzCheck ml mgr ''readyz'');
             if e3 \<noteq> None then State_Monad.return 1
             else do {
               e4 \<leftarrow> State (ml_Start ml mgr);
               State_Monad.return (if e4 \<noteq> None then 1 else 0)
             }
           }
         }
       }
   }"

definition main :: "string list \<Rightarrow> ('s, 'm, 'c, 'x) mgr_lib \<Rightarrow> ('s, 'k) stdlib \<Rightarrow> ('s, int) io" where
  "main args ml lib =
     (case flag_Parse (main_flag_set (ml_Flags ml)) args (default_flags, ml_FlagDefaults ml) of
        Inl ErrHelp \<Rightarrow> State_Monad.return 0
      | Inl err \<Rightarrow> State_Monad.return 2
      | Inr ((fl, x), rest) \<Rightarrow> do {
          c \<leftarrow> State (ml_GetConfig ml x);
          case c of
            Inl err \<Rightarrow> State_Monad.return 1
          | Inr cfg \<Rightarrow> run_manager fl cfg ml lib
        })"

section \<open>Properties\<close>

lemma main_registry [simp]:
  "Registry_Get (r_Providers (main_reconciler K rec lib)) n =
     (if n = ''github-app'' then Some (as_Provider lib (New lib)) else None)"
  by (simp add: main_reconciler_def main_providers_def NewRegistry_def Registry_Get_def as_Provider_def Name_def)

lemma main_client [simp]: "r_Client (main_reconciler K rec lib) = K"
  by (simp add: main_reconciler_def)

lemma run_manager_exit_code:
  "fst (run_state (run_manager fl cfg ml lib) s) \<in> {0, 1}"
  "fst (run_state (run_manager fl cfg ml lib) s) = 0 \<longleftrightarrow>
     (\<exists>mgr s1 s2 s3 s4 s5.
        ml_NewManager ml cfg (main_options fl) s = (Inr mgr, s1) \<and>
        ml_Complete ml mgr \<lparr>cs_For = EphemeralCredentialKind, cs_Owns = [SecretKind]\<rparr>
          (main_reconciler (ml_GetClient ml mgr) (ml_GetEventRecorderFor ml mgr ''ephemeral-credential-broker'') lib) s1 = (None, s2) \<and>
        ml_AddHealthzCheck ml mgr ''healthz'' s2 = (None, s3) \<and>
        ml_AddReadyzCheck ml mgr ''readyz'' s3 = (None, s4) \<and>
        ml_Start ml mgr s4 = (None, s5))"
  by (auto simp: run_manager_def SetupWithManager_def split: prod.splits sum.splits if_splits)

text \<open>
  C36. The process exits with 2 exactly if the command line cannot be read. It exits with 0 only after its help text, or if the
  cluster configuration was loaded, the manager was created with leader election off, the controller
  for the resource and its owned Secrets was registered with exactly the GitHub provider, both
  health checks were added, and the manager ran and stopped without an error, in this order; it exits with 1 in every other case.
\<close>

theorem main_exit_code:
  "let parsed = flag_Parse (main_flag_set (ml_Flags ml)) args (default_flags, ml_FlagDefaults ml);
       code = fst (run_state (main args ml lib) s)
   in code \<in> {0, 1, 2} \<and> (code = 2 \<longleftrightarrow> (\<exists>e. parsed = Inl e \<and> e \<noteq> ErrHelp)) \<and>
   (code = 0 \<longleftrightarrow> parsed = Inl ErrHelp \<or>
     (\<exists>fl x rest cfg mgr s0 s1 s2 s3 s4 s5.
        parsed = Inr ((fl, x), rest) \<and> ml_GetConfig ml x s = (Inr cfg, s0) \<and>
        ml_NewManager ml cfg
          \<lparr>mo_MetricsBindAddress = fl_metricsAddr fl, mo_SecureServing = fl_secureMetrics fl,
           mo_MetricsTLSOpts = [disableHTTP2 (fl_enableHTTP2 fl)], mo_WebhookTLSOpts = [disableHTTP2 (fl_enableHTTP2 fl)],
           mo_HealthProbeBindAddress = fl_probeAddr fl, mo_LeaderElection = False\<rparr> s0 = (Inr mgr, s1) \<and>
        ml_Complete ml mgr \<lparr>cs_For = EphemeralCredentialKind, cs_Owns = [SecretKind]\<rparr>
          \<lparr>r_Client = ml_GetClient ml mgr,
           r_Providers = \<lparr>reg_providers = [''github-app'' \<mapsto> as_Provider lib (New lib)]\<rparr>,
           r_Recorder = Some (ml_GetEventRecorderFor ml mgr ''ephemeral-credential-broker''),
           r_Now = None, r_timeNow = lib_timeNow lib\<rparr> s1 = (None, s2) \<and>
        ml_AddHealthzCheck ml mgr ''healthz'' s2 = (None, s3) \<and>
        ml_AddReadyzCheck ml mgr ''readyz'' s3 = (None, s4) \<and>
        ml_Start ml mgr s4 = (None, s5)))"
proof -
  have reg: "main_providers lib = \<lparr>reg_providers = [''github-app'' \<mapsto> as_Provider lib (New lib)]\<rparr>"
    by (simp add: main_providers_def NewRegistry_def as_Provider_def Name_def)
  note defs = main_reconciler_def main_options_def reg
  note codes = run_manager_exit_code [where ml = ml and lib = lib, unfolded defs]
  let ?parsed = "flag_Parse (main_flag_set (ml_Flags ml)) args (default_flags, ml_FlagDefaults ml)"
  consider (refused) e where "?parsed = Inl e" | (parsed) fl x rest where "?parsed = Inr ((fl, x), rest)"
    by (metis obj_sumE surj_pair)
  then show ?thesis
  proof cases
    case refused
    then show ?thesis by (cases e) (auto simp: main_def Let_def)
  next
    case parsed
    have two: "fst (run_state (run_manager fl cfg ml lib) s0) \<noteq> 2" for cfg s0 using codes(1) [of fl cfg s0] by auto
    show ?thesis
      using codes two unfolding Let_def main_def parsed by (auto split: prod.splits sum.splits)
  qed
qed

section \<open>The command line\<close>

text \<open>The command line that sets every flag of \<open>main\<close>.\<close>

definition show_bool :: "bool \<Rightarrow> string" where
  "show_bool b = (if b then ''true'' else ''false'')"

definition flag_args :: "main_flags \<Rightarrow> string list" where
  "flag_args fl =
    [''--metrics-bind-address='' @ fl_metricsAddr fl, ''--health-probe-bind-address='' @ fl_probeAddr fl,
     ''--metrics-secure='' @ show_bool (fl_secureMetrics fl), ''--enable-http2='' @ show_bool (fl_enableHTTP2 fl)]"

lemma ParseBool_show [simp]: "ParseBool (show_bool b) = Some b"
  by (simp add: ParseBool_def show_bool_def)

lemma main_flags_set [simp]:
  "main_flag_set others ''metrics-bind-address'' = Some (string_value (\<lambda>v (fl, x). (fl\<lparr>fl_metricsAddr := v\<rparr>, x)))"
  "main_flag_set others ''health-probe-bind-address'' = Some (string_value (\<lambda>v (fl, x). (fl\<lparr>fl_probeAddr := v\<rparr>, x)))"
  "main_flag_set others ''metrics-secure'' = Some (bool_value (\<lambda>b (fl, x). (fl\<lparr>fl_secureMetrics := b\<rparr>, x)))"
  "main_flag_set others ''enable-http2'' = Some (bool_value (\<lambda>b (fl, x). (fl\<lparr>fl_enableHTTP2 := b\<rparr>, x)))"
  by (simp_all add: main_flag_set_def)

lemma parse_string_flag:
  assumes "main_flag_set others name = Some (string_value upd)" and "name \<noteq> []" and "CHR ''='' \<notin> set name" and "hd name \<noteq> CHR ''-''"
  shows "flag_Parse (main_flag_set others) ((''--'' @ name @ ''='' @ v) # args) f = flag_Parse (main_flag_set others) args (upd v f)"
  by (rule parse_assignment [where fv = "string_value upd"]) (use assms in \<open>simp_all add: string_value_def\<close>)

lemma parse_bool_flag:
  assumes "main_flag_set others name = Some (bool_value upd)" and "name \<noteq> []" and "CHR ''='' \<notin> set name" and "hd name \<noteq> CHR ''-''"
  shows "flag_Parse (main_flag_set others) ((''--'' @ name @ ''='' @ show_bool b) # args) f =
    flag_Parse (main_flag_set others) args (upd b f)"
  by (rule parse_assignment [where fv = "bool_value upd"]) (use assms in \<open>simp_all add: bool_value_def\<close>)

lemmas parse_main_flags = parse_string_flag [OF main_flags_set(1), simplified] parse_string_flag [OF main_flags_set(2), simplified]
  parse_bool_flag [OF main_flags_set(3), simplified] parse_bool_flag [OF main_flags_set(4), simplified]

text \<open>
  C37. Every configuration can be given on the command line: the four flags, written as assignments, set exactly the
  variables they name, for every text (one with dashes or equals signs too), whatever was set before and
  whatever flags other packages have added; the rest of the command line is read as if they were not there.
\<close>

theorem command_line_roundtrip:
  "flag_Parse (main_flag_set others) (flag_args fl @ rest) (fl0, x) = flag_Parse (main_flag_set others) rest (fl, x) \<and>
   flag_Parse (main_flag_set others) (flag_args fl) (fl0, x) = Inr ((fl, x), [])"
proof -
  have "flag_Parse (main_flag_set others) (flag_args fl @ rest) (fl0, x) = flag_Parse (main_flag_set others) rest (fl, x)" for rest
    by (cases fl0, cases fl) (simp add: flag_args_def parse_main_flags)
  from this [of rest] this [of "[]"] show ?thesis by (simp add: parse_end)
qed

text \<open>
  HTTP/2 is off unless it is asked for: when no argument of the command line names the flag \<open>enable-http2\<close>, the TLS options of
  the metrics server and of the webhook server leave only HTTP/1.1, for every other flag that is given, also by other packages.
\<close>

lemma http2_only_on_request:
  assumes "flag_Parse (main_flag_set others) args (default_flags, x0) = Inr ((fl, x), rest)"
    and "\<forall>a \<in> set args. arg_name a \<noteq> ''enable-http2''"
  shows "tls_NextProtos (foldl (\<lambda>c f. f c) c (mo_MetricsTLSOpts (main_options fl))) = [''http/1.1''] \<and>
    tls_NextProtos (foldl (\<lambda>c f. f c) c (mo_WebhookTLSOpts (main_options fl))) = [''http/1.1'']"
proof -
  have "\<not> fl_enableHTTP2 (fst (fl, x))"
  proof (rule flag_Parse_keeps [OF assms(1), where P = "\<lambda>f. \<not> fl_enableHTTP2 (fst f)" and x = "''enable-http2''"])
    fix n fv v and g g' :: "main_flags \<times> 'a"
    assume "main_flag_set others n = Some fv" "n \<noteq> ''enable-http2''" "fv_Set fv v g = Some g'" "\<not> fl_enableHTTP2 (fst g)"
    then show "\<not> fl_enableHTTP2 (fst g')"
      by (cases g) (auto simp: main_flag_set_def string_value_def bool_value_def other_flag_def split: if_splits)
  qed (use assms(2) in \<open>auto simp: default_flags_def\<close>)
  then show ?thesis by (simp add: main_options_def disableHTTP2_def)
qed

text \<open>
  With the registry of \<open>main\<close>, a resource for any other provider than \<open>github-app\<close> is parked: no
  provider is called and no Secret is written, one status write reports that no provider is registered, and the
  reconcile asks for no wake-up. So the branch of \<open>buildScope\<close> for the designed providers is not reached.
\<close>

lemma only_github_is_served:
  assumes "k_Get_EC K req s = (Inr ec, s1)"
    and "deletion_is_zero (om_DeletionTimestamp (ec_Meta ec))"
    and "k_ContainsFinalizer K (ec_Meta ec) FinalizerName"
    and "spec_Provider (ec_Spec ec) \<noteq> ''github-app''"
  shows "let es = effects_of (main_reconciler K rec lib) req s; out = outcome_of (main_reconciler K rec lib) req s in
    never is_Mint es \<and> never is_Revoke es \<and> never is_WriteSecret es \<and> occurs is_StatusUpdate es = 1 \<and>
    fst out = emptyResult \<and> (snd out = None \<longleftrightarrow> (\<exists>e \<in> set es. status_ok e))"
  unfolding Let_def using assms
  by (intro unregistered_parks) simp_all

section \<open>The GitHub provider keeps what the reconciler relies on\<close>

lemma Mint_preserves:
  assumes "\<And>rq. preserves I (State (gh_client lib p rq))" and "preserves I (gh_now lib p)"
    and "\<And>k d. preserves I (State (lib_SignPKCS1v15 lib k d))"
  shows "preserves I (Mint lib p q)"
  unfolding Mint_def signAppJWT_def resolveInstallationID_def createInstallationToken_def Let_def
  using assms by (auto split: any_scope.split)

lemma Revoke_preserves:
  assumes "\<And>rq. preserves I (State (gh_client lib p rq))"
  shows "preserves I (Revoke lib p h)"
  unfolding Revoke_def Let_def using assms by auto

lemma main_reconciler_env:
  assumes "cluster K ecs secs"
    and "\<And>rq s r s'. lib_DefaultClient lib rq s = (r, s') \<Longrightarrow> ecs s' = ecs s \<and> secs s' = secs s"
    and "\<And>s t s'. lib_timeNow lib s = (t, s') \<Longrightarrow> ecs s' = ecs s \<and> secs s' = secs s"
    and "\<And>k d s r s'. lib_SignPKCS1v15 lib k d s = (r, s') \<Longrightarrow> ecs s' = ecs s \<and> secs s' = secs s"
    and "\<And>ec ty re ms s. ecs (rec ec ty re ms s) = ecs s \<and> secs (rec ec ty re ms s) = secs s"
  shows "broker_env (main_reconciler K rec lib) ecs secs"
proof (rule broker_env.intro)
  show "cluster (r_Client (main_reconciler K rec lib)) ecs secs" using assms(1) by simp
  have lib: "preserves (\<lambda>s. ecs s = E \<and> secs s = S) (State (gh_client lib (New lib) rq))"
    "preserves (\<lambda>s. ecs s = E \<and> secs s = S) (gh_now lib (New lib))"
    "preserves (\<lambda>s. ecs s = E \<and> secs s = S) (State (lib_SignPKCS1v15 lib k d))" for E S rq k d
    using assms(2-4) by (auto simp: preserves_def gh_client_def gh_now_def New_def, (metis prod.collapse)+)
  have keep: "ecs s' = ecs s \<and> secs s' = secs s"
    if "run_state (Mint lib (New lib) q) s = (m, s')" for q s m s'
    using Mint_preserves [OF lib, of "ecs s" "secs s" q] that by (auto simp: preserves_def dest!: spec [of _ s])
  have keep': "ecs s' = ecs s \<and> secs s' = secs s"
    if "run_state (Revoke lib (New lib) h) s = (m, s')" for h s m s'
    using Revoke_preserves [OF lib(1), of "ecs s" "secs s" h] that by (auto simp: preserves_def dest!: spec [of _ s])
  have utf: "valid_utf8 Name" by (simp add: Name_def valid_utf8_ascii)
  show "broker_env_axioms (main_reconciler K rec lib) ecs secs"
  proof
    fix s t s' assume "run_state (now (main_reconciler K rec lib)) s = (t, s')"
    then show "ecs s' = ecs s \<and> secs s' = secs s"
      using assms(3) by (simp add: now_def main_reconciler_def)
  next
    fix f ec ty re ms s assume "r_Recorder (main_reconciler K rec lib) = Some f"
    then show "ecs (f ec ty re ms s) = ecs s \<and> secs (f ec ty re ms s) = secs s"
      using assms(5) by (simp add: main_reconciler_def)
  next
    fix n p assume "Registry_Get (r_Providers (main_reconciler K rec lib)) n = Some p"
    then show "provider_contract p \<and> valid_utf8 (prov_Name p)"
      using github.provider_contract_axioms utf by (auto simp: as_Provider_def split: if_splits)
  qed (use keep keep' in \<open>auto simp: as_Provider_def split: if_splits\<close>)
qed

text \<open>
  C30. The reconciler that \<open>main\<close> assembles is an environment for which the cluster properties hold: with an
  API server that obeys its laws, and a network, a clock, a signer and a recorder that do not write into the cluster,
  the GitHub provider satisfies everything the reconciler assumes of a provider.
\<close>

theorem main_reconciler_environment:
  assumes "cluster K ecs secs"
    and "\<And>rq s r s'. lib_DefaultClient lib rq s = (r, s') \<Longrightarrow> ecs s' = ecs s \<and> secs s' = secs s"
    and "\<And>s t s'. lib_timeNow lib s = (t, s') \<Longrightarrow> ecs s' = ecs s \<and> secs s' = secs s"
    and "\<And>k d s r s'. lib_SignPKCS1v15 lib k d s = (r, s') \<Longrightarrow> ecs s' = ecs s \<and> secs s' = secs s"
    and "\<And>ec ty re ms s. ecs (rec ec ty re ms s) = ecs s \<and> secs (rec ec ty re ms s) = secs s"
  shows "broker_env (main_reconciler K rec lib) ecs secs"
  by (rule main_reconciler_env) (fact assms)+

section \<open>Where the token can be read\<close>

text \<open>
  C31. The token is stored twice. After a reconcile of the process that minted, the target Secret holds the GitHub token under the mapped
  key, and the annotation of the resource itself decodes to a handle that consists of the same token: who may read the resource can
  read the credential, without any right on Secrets.
\<close>

theorem token_readable_from_resource:
  assumes "broker_env (main_reconciler K rec lib) ecs secs"
    and "k_Get_EC K req s = (Inr ec, s1)"
    and "deletion_is_zero (om_DeletionTimestamp (ec_Meta ec))" and "k_ContainsFinalizer K (ec_Meta ec) FinalizerName"
    and "spec_Provider (ec_Spec ec) = ''github-app''" and "st_ExpiresAt (ec_Status ec) = None"
    and "run_state (Reconcile (main_reconciler K rec lib) req) s = ((res, None), s')"
  shows "\<exists>ec' sec handle. ecs s' (ec_key ec) = Some ec' \<and>
    decodeHandle (map_get_string (om_Annotations (ec_Meta ec')) handleAnnotationKey) = Some handle \<and>
    secs s' (target_key ec) = Some sec \<and>
    map_get (sec_Data sec) (secretKey (spec_TargetSecret (ec_Spec ec)) ''token'') = Some (h_Opaque handle)"
proof -
  have due: "\<not> outside_window t ec" for t using assms(6) by (simp add: outside_window_def)
  have p: "Registry_Get (r_Providers (main_reconciler K rec lib)) (spec_Provider (ec_Spec ec)) = Some (as_Provider lib (New lib))"
    using assms(5) by simp
  from wp_run [OF broker_env.reconcile_in_place [OF assms(1) _ assms(3) _ p] assms(7)] assms(2,4) due
  obtain t where "rotated ecs secs (as_Provider lib (New lib)) ec t (secs s (target_key ec)) s'" by (auto simp: Let_def)
  then obtain mint q sa sb ec' sec old where m: "prov_Mint (as_Provider lib (New lib)) q sa = (Inr mint, sb)"
    and ec': "ecs s' (ec_key ec) = Some ec'"
      "decodeHandle (map_get_string (om_Annotations (ec_Meta ec')) handleAnnotationKey) = Some (mint_Handle mint)"
    and sec: "secs s' (target_key ec) = Some sec" "same_secret (mutateTargetSecret ec mint old) sec"
    unfolding rotated_def by blast
  have "map_get (sec_Data (mutateTargetSecret ec mint old)) (secretKey (spec_TargetSecret (ec_Spec ec)) ''token'') =
      Some (h_Opaque (mint_Handle mint))"
    using mutate_Data [of ec mint old] github_handle_is_token [OF m] by (simp add: written_entries_def)
  then show ?thesis using ec' sec by (auto simp: same_secret_def)
qed

section \<open>Witnesses\<close>

lemma http2_only_on_request_example:
  "\<exists>fl. flag_Parse (main_flag_set Map.empty) [''-metrics-secure'', ''--metrics-bind-address'', '':8443''] (default_flags, ()) = Inr ((fl, ()), []) \<and>
     tls_NextProtos (foldl (\<lambda>c f. f c) \<lparr>tls_NextProtos = [''h2'']\<rparr> (mo_MetricsTLSOpts (main_options fl))) = [''http/1.1'']"
proof -
  let ?args = "[''-metrics-secure'', ''--metrics-bind-address'', '':8443'']"
  let ?fl = "default_flags\<lparr>fl_secureMetrics := True, fl_metricsAddr := '':8443''\<rparr>"
  have "flag_Parse (main_flag_set Map.empty) ?args (default_flags, ()) = Inr ((?fl, ()), [])"
    by (simp add: flag_Parse.simps parseOne_def set_flag_def split_equals_def Let_def string_value_def bool_value_def ParseBool_def)
  moreover have "\<forall>a \<in> set ?args. arg_name a \<noteq> ''enable-http2''"
    by (simp add: arg_name_def split_equals_def Let_def)
  ultimately show ?thesis
    using http2_only_on_request [of Map.empty ?args "()" ?fl "()" "[]" "\<lparr>tls_NextProtos = [''h2'']\<rparr>"] by (intro exI [of _ ?fl]) simp
qed

text \<open>The libraries of the process on the in-memory world, with GitHub out of reach.\<close>

definition mem_lib :: "(mem_world, string) stdlib" where
  "mem_lib =
    \<lparr>lib_DefaultClient = (\<lambda>rq w. (Inl (ErrExt ''connection refused''), w)),
     lib_timeNow = (\<lambda>w. (m_clock w, w)), lib_url_Parse = (\<lambda>u. None), lib_pem_Decode = Some,
     lib_ParsePKCS1PrivateKey = Inr, lib_ParsePKCS8PrivateKey = (\<lambda>b. Inl (ErrExt ''x509'')),
     lib_Sum256 = take 32, lib_SignPKCS1v15 = (\<lambda>k d w. (Inr (k @ d), w)), lib_time_Parse = (\<lambda>s. None)\<rparr>"

abbreviation mem_recorder :: "mem_world EventRecorder" where
  "mem_recorder \<equiv> \<lambda>ec ty re ms w. w"

lemma only_github_is_served_example:
  "never is_Mint (effects_of (main_reconciler mem_k8s mem_recorder mem_lib) sample_req (sample_world vault_ec)) \<and>
   fst (outcome_of (main_reconciler mem_k8s mem_recorder mem_lib) sample_req (sample_world vault_ec)) = emptyResult"
proof -
  have get: "k_Get_EC mem_k8s sample_req (sample_world vault_ec) = (Inr vault_ec, sample_world vault_ec)"
    using sample_fetch [of vault_ec] by (simp add: mem_reconciler_def)
  have fin: "k_ContainsFinalizer mem_k8s (ec_Meta vault_ec) FinalizerName"
    using sample_live(2) by (simp add: mem_reconciler_def)
  have live: "deletion_is_zero (om_DeletionTimestamp (ec_Meta vault_ec))"
    and other: "spec_Provider (ec_Spec vault_ec) \<noteq> ''github-app''"
    by simp_all
  show ?thesis
    using only_github_is_served [OF get live fin other, where rec = mem_recorder and lib = mem_lib]
    unfolding Let_def by blast
qed

theorem main_reconciler_environment_witness:
  "broker_env (main_reconciler mem_k8s mem_recorder mem_lib) m_ecs m_secs"
  by (rule main_reconciler_environment [OF mem.cluster_axioms]) (auto simp: mem_lib_def)

text \<open>The same libraries with a GitHub that answers.\<close>

definition online_lib :: "(mem_world, string) stdlib" where
  "online_lib = mem_lib\<lparr>lib_DefaultClient := (\<lambda>rq w.
     (Inr (if rq_Method rq = ''GET'' then \<lparr>rs_StatusCode = 200, rs_Body = ''{\"id\":42}''\<rparr>
           else \<lparr>rs_StatusCode = 201, rs_Body = ''{\"token\":\"ghs_x\",\"expires_at\":\"1970-01-01T01:10:00Z\"}''\<rparr>), w))\<rparr>"

lemma online_answers:
  "decode_installationResponse ''{\"id\":42}'' = Some \<lparr>ir_ID = 42\<rparr>"
  "decode_createTokenResponse online_lib ''{\"token\":\"ghs_x\",\"expires_at\":\"1970-01-01T01:10:00Z\"}'' =
     Some \<lparr>ctp_Token = ''ghs_x'', ctp_ExpiresAt = 4200 * Second\<rparr>"
  by code_simp+

lemma online_mint:
  assumes "a \<noteq> []" and "k \<noteq> []" and "repos \<noteq> []"
  shows "run_state (Mint online_lib (New online_lib)
      \<lparr>mreq_Scope = ScopeGitHub \<lparr>scope_AppID = a, scope_PrivateKeyPEM = k, scope_Repositories = repos, scope_Permissions = ps\<rparr>,
       mreq_TTL = d, mreq_Namespace = ns, mreq_Name = n\<rparr>) w = (Inr (sample_mint ''ghs_x'' (4200 * Second)), w)"
proof -
  obtain jwt where "run_state (signAppJWT online_lib (New online_lib) a k) w = (Inr jwt, w)"
    by (simp add: signAppJWT_def gh_now_def New_def online_lib_def mem_lib_def marshalB64_def json_Marshal_def Let_def)
  moreover have "parsePrivateKey online_lib k = Inr k" by (simp add: parsePrivateKey_def online_lib_def mem_lib_def)
  moreover have "NewRequest online_lib m u b = Inr \<lparr>rq_Method = m, rq_URL = u, rq_Header = [], rq_Body = b\<rparr>" for m u b
    by (simp add: NewRequest_def online_lib_def mem_lib_def)
  moreover have "gh_client online_lib (New online_lib) = lib_DefaultClient online_lib" by (simp add: gh_client_def New_def)
  moreover have "lib_DefaultClient online_lib rq w =
     (Inr (if rq_Method rq = ''GET'' then \<lparr>rs_StatusCode = 200, rs_Body = ''{\"id\":42}''\<rparr>
           else \<lparr>rs_StatusCode = 201, rs_Body = ''{\"token\":\"ghs_x\",\"expires_at\":\"1970-01-01T01:10:00Z\"}''\<rparr>), w)" for rq
    by (simp add: online_lib_def)
  ultimately show ?thesis
    using assms online_answers
    by (simp add: Mint_def resolveInstallationID_def createInstallationToken_def json_Marshal_def Header_Set_def sample_mint_def
        Name_def Let_def)
qed

lemma online_mint_succeeds:
  "snd (fst (run_state (Reconcile (main_reconciler mem_k8s mem_recorder online_lib) sample_req) (sample_world fresh_ec))) = None"
proof -
  obtain e where "encodeHandle \<lparr>h_ProviderName = ''github-app'', h_Opaque = ''ghs_x''\<rparr> = Inr e"
    using stored_handle.enc_total by blast
  moreover have "lib_timeNow online_lib = (\<lambda>w. (m_clock w, w))" by (simp add: online_lib_def mem_lib_def)
  ultimately show ?thesis
    using online_mint [of "''12345''" "''pem''" "[''myorg/myrepo'']"]
    by (simp add: run_defs main_reconciler_def main_providers_def as_Provider_def Name_def
        rotateCredential_def finishMint_def revokePrevious_def writeTargetSecret_def
        buildScope_def buildGitHubScope_def mem_CreateOrUpdate_def mem_SetControllerReference_def needsMint_def
        sample_world_def sample_ec_def sample_secret_def sample_config_def ProviderGitHubApp_def mutateTargetSecret_def
        NewRegistry_def Registry_Get_def sample_mint_def decodeHandle_def newTargetSecret_def split: prod.split)
qed

theorem token_readable_from_resource_witness:
  "\<exists>ec' sec handle w. w = snd (run_state (Reconcile (main_reconciler mem_k8s mem_recorder online_lib) sample_req) (sample_world fresh_ec)) \<and>
     m_ecs w sample_req = Some ec' \<and>
     decodeHandle (map_get_string (om_Annotations (ec_Meta ec')) handleAnnotationKey) = Some handle \<and>
     m_secs w (''builds'', ''github-token'') = Some sec \<and> map_get (sec_Data sec) ''token'' = Some (h_Opaque handle)"
proof -
  let ?r = "main_reconciler mem_k8s mem_recorder online_lib"
  let ?run = "run_state (Reconcile ?r sample_req) (sample_world fresh_ec)"
  have env: "broker_env ?r m_ecs m_secs"
    by (rule main_reconciler_env [OF mem.cluster_axioms]) (auto simp: online_lib_def mem_lib_def)
  have get: "k_Get_EC mem_k8s sample_req (sample_world fresh_ec) = (Inr fresh_ec, sample_world fresh_ec)"
    using sample_fetch [of fresh_ec] by (simp add: mem_reconciler_def)
  have fin: "k_ContainsFinalizer mem_k8s (ec_Meta fresh_ec) FinalizerName"
    using sample_live(2) by (simp add: mem_reconciler_def)
  have run: "?run = ((fst (fst ?run), None), snd ?run)" using online_mint_succeeds by (metis prod.collapse)
  from token_readable_from_resource [OF env get _ fin _ _ run] show ?thesis
    by (simp add: target_key_def secretKey_def sample_ec_def object_key_def deletion_is_zero_def)
qed

end
