(* ===== verification/Isolation.thy ===== *)
theory Isolation
  imports Cluster_Props
begin

text \<open>
  What a reconcile leaves alone. Every write of a reconcile goes to the resource it was called for or to the target Secret
  that this resource names. The first section follows a state predicate through \<open>Reconcile\<close>, with a second
  predicate on the resource that the calls hand on; the locale \<open>framed_api\<close> adds to \<open>broker_env\<close> that a call of the API server, also one that
  fails, changes no object but the one it names.
\<close>

section \<open>State predicates through a reconcile\<close>

text \<open>\<open>yields I m R\<close>: \<open>m\<close> keeps \<open>I\<close>, and its result satisfies \<open>R\<close>.\<close>

definition yields :: "('s \<Rightarrow> bool) \<Rightarrow> ('s, 'a) io \<Rightarrow> ('a \<Rightarrow> bool) \<Rightarrow> bool" where
  "yields I m R \<longleftrightarrow> (\<forall>s. I s \<longrightarrow> I (snd (run_state m s)) \<and> R (fst (run_state m s)))"

lemma yields_bind: "yields I m R \<Longrightarrow> (\<And>a. R a \<Longrightarrow> preserves I (f a)) \<Longrightarrow> preserves I (State_Monad.bind m f)"
  by (auto simp: yields_def preserves_def split: prod.splits)

lemma yieldsI: "(\<And>s1 a s2. I s1 \<Longrightarrow> run_state m s1 = (a, s2) \<Longrightarrow> I s2 \<and> R a) \<Longrightarrow> yields I m R"
  unfolding yields_def by (metis prod.collapse)

lemma preservesI: "(\<And>s1 a s2. I s1 \<Longrightarrow> run_state m s1 = (a, s2) \<Longrightarrow> I s2) \<Longrightarrow> preserves I m"
  unfolding preserves_def by (metis prod.collapse)

lemma preserves_after:
  assumes "run_state m s = (a, s1)" and "I s1" and "preserves I (f a)"
  shows "I (snd (run_state (State_Monad.bind m f) s))"
  using assms by (simp add: preserves_def)

lemma yields_preserves: "yields I m R \<Longrightarrow> preserves I m"
  by (simp add: yields_def preserves_def)

lemma yields_after: "preserves I m \<Longrightarrow> (\<And>a. yields I (f a) R) \<Longrightarrow> yields I (State_Monad.bind m f) R"
  by (auto simp: yields_def preserves_def split: prod.splits)

lemma preserves_yields: "preserves I m \<Longrightarrow> yields I m (\<lambda>_. True)"
  by (simp add: yields_def preserves_def)

text \<open>
  \<open>mine\<close> holds of the resource that was fetched and of every version of it that the broker writes or gets back. What every
  call with such a resource keeps, a reconcile keeps.
\<close>

lemma Reconcile_keeps:
  assumes get: "\<And>g s1. k_Get_EC (r_Client r) req s = (g, s1) \<Longrightarrow> I s1 \<and> (\<forall>ec. g = Inr ec \<longrightarrow> mine ec)"
    and read: "\<And>n. yields I (State (k_Get_Secret (r_Client r) n)) (\<lambda>g. \<forall>x. g = Inr x \<longrightarrow> found n x)"
    and update: "\<And>ec. mine ec \<Longrightarrow> yields I (State (k_Update_EC (r_Client r) ec)) (\<lambda>u. \<forall>y. u = Inr y \<longrightarrow> mine y)"
    and status: "\<And>ec. mine ec \<Longrightarrow> yields I (State (k_Status_Update (r_Client r) ec)) (\<lambda>u. \<forall>y. u = Inr y \<longrightarrow> mine y)"
    and drop: "\<And>ec x. mine ec \<Longrightarrow> found (target_key ec) x \<Longrightarrow> preserves I (State (k_Delete_Secret (r_Client r) x))"
    and put: "\<And>ec f. mine ec \<Longrightarrow> preserves I (State (k_CreateOrUpdate (r_Client r) (newTargetSecret ec) f))"
    and clock: "preserves I (now r)" and event: "\<And>ec ty re ms. preserves I (event r ec ty re ms)"
    and prov: "\<And>n p q. Registry_Get (r_Providers r) n = Some p \<Longrightarrow> preserves I (State (prov_Mint p q))"
      "\<And>n p h. Registry_Get (r_Providers r) n = Some p \<Longrightarrow> preserves I (State (prov_Revoke p h))"
    and mine: "\<And>ec st. mine ec \<Longrightarrow> mine (ec\<lparr>ec_Status := st\<rparr>)"
      "\<And>ec a. mine ec \<Longrightarrow> mine (ec\<lparr>ec_Meta := (ec_Meta ec)\<lparr>om_Annotations := a\<rparr>\<rparr>)"
      "\<And>ec. mine ec \<Longrightarrow> mine (ec\<lparr>ec_Meta := k_AddFinalizer (r_Client r) (ec_Meta ec) FinalizerName\<rparr>)"
      "\<And>ec. mine ec \<Longrightarrow> mine (ec\<lparr>ec_Meta := k_RemoveFinalizer (r_Client r) (ec_Meta ec) FinalizerName\<rparr>)"
  shows "I (snd (run_state (Reconcile r req) s))"
proof -
  have ready: "yields I (setReadyCondition r ec a b c) mine" if "mine ec" for ec a b c
    unfolding setReadyCondition_def yields_def using mine(1) [OF that] by (cases ec) simp
  have report: "mine (status_update f ec)" if "mine ec" for f ec
    using mine(1) [OF that] by (cases ec) simp
  have delete: "preserves I (deleteTargetSecret r ec)" if "mine ec" for ec
    unfolding deleteTargetSecret_def using drop [OF that] by (auto intro!: yields_bind [OF read])
  have probe: "preserves I (targetSecretExists r ec)" for ec
    unfolding targetSecretExists_def using yields_preserves [OF read] by blast
  have written: "preserves I (writeTargetSecret r ec m)" if "mine ec" for ec m
    unfolding writeTargetSecret_def using put [OF that] by blast
  have post: "preserves I (State_Monad.bind (setReadyCondition r x a b c) (\<lambda>y. State_Monad.bind (State (k_Status_Update (r_Client r) y)) k))"
    if "mine x" "\<And>u. (\<forall>y. u = Inr y \<longrightarrow> mine y) \<Longrightarrow> preserves I (k u)" for x a b c and k :: "EphemeralCredential result \<Rightarrow> ('a, 'c) io"
    by (rule yields_bind [OF ready [OF that(1)]], rule yields_bind [OF status]) (use that in auto)
  have fail: "preserves I (failStatus r ec re ms c b)" if "mine ec" for ec re ms c b
    unfolding failStatus_def
    by (intro preserves_bind [OF clock] yields_bind [where R = mine])
      (auto intro!: ready report that yields_after [OF delete] event yields_preserves [OF status] split: option.split)
  have protect: "preserves I (ensureFinalizer r ec)" if "mine ec" for ec
    unfolding ensureFinalizer_def
    by (rule yields_bind [OF update [OF mine(3) [OF that]]]) (auto intro!: post report)
  have remove: "preserves I (reconcileDelete r ec)" if "mine ec" for ec
    unfolding reconcileDelete_def using delete [OF that] yields_preserves [OF update [OF mine(4) [OF that]]] prov(2) by blast
  have scope: "preserves I (buildScope (r_Client r) ns spec)" for ns spec
    unfolding buildScope_def buildGitHubScope_def Let_def using yields_preserves [OF read] by blast
  have rotate: "preserves I (rotateCredential r ec p t)" if p: "Registry_Get (r_Providers r) n = Some p" and "mine ec" for n ec p t
  proof -
    have revoke: "preserves I (revokePrevious r x p h)" for x h
      unfolding revokePrevious_def using prov(2) [OF p] event by auto
    have finish: "preserves I (finishMint r x p t h m)" if "mine x" for x h m
      unfolding finishMint_def Let_def by (rule post [OF report [OF that]]) (auto intro!: event revoke)
    show ?thesis
      unfolding rotateCredential_def Let_def using scope written fail prov(1) [OF p] finish \<open>mine ec\<close> 
      by (auto intro!: yields_bind [OF update [OF mine(2)]])
  qed
  obtain g s1 where g: "k_Get_EC (r_Client r) req s = (g, s1)" by fastforce
  show ?thesis
    unfolding Reconcile_def Let_def
    by (rule preserves_after [of _ _ g s1]) (use get [OF g] g in \<open>auto intro!: clock event remove protect fail probe rotate\<close>)
qed

section \<open>An API server that changes only what it is asked to change\<close>

locale framed_api = broker_env r ecs secs
  for r :: "'s Reconciler"
    and ecs :: "'s \<Rightarrow> NamespacedName \<Rightarrow> EphemeralCredential option"
    and secs :: "'s \<Rightarrow> NamespacedName \<Rightarrow> Secret option" +
  assumes update_frame: "k_Update_EC (r_Client r) ec s = (u, s') \<Longrightarrow>
      secs s' = secs s \<and> (\<forall>n. n \<noteq> ec_key ec \<longrightarrow> ecs s' n = ecs s n)"
    and status_frame: "k_Status_Update (r_Client r) ec s = (u, s') \<Longrightarrow>
      secs s' = secs s \<and> (\<forall>n. n \<noteq> ec_key ec \<longrightarrow> ecs s' n = ecs s n)"
    and delete_frame: "k_Delete_Secret (r_Client r) x s = (d, s') \<Longrightarrow>
      ecs s' = ecs s \<and> (\<forall>n. n \<noteq> sec_key x \<longrightarrow> secs s' n = secs s n)"
    and write_frame: "k_CreateOrUpdate (r_Client r) x f s = (d, s') \<Longrightarrow>
      ecs s' = ecs s \<and> (\<forall>n. n \<noteq> sec_key x \<longrightarrow> secs s' n = secs s n)"
    and add_finalizer_key: "object_key (k_AddFinalizer (r_Client r) m fin) = object_key m"
begin

text \<open>\<open>outside req k s s'\<close>: between \<open>s\<close> and \<open>s'\<close> nothing has changed but the resource \<open>req\<close> and the Secret \<open>k\<close>.\<close>

definition outside :: "NamespacedName \<Rightarrow> NamespacedName \<Rightarrow> 's \<Rightarrow> 's \<Rightarrow> bool" where
  "outside req k s s' \<longleftrightarrow> (\<forall>n. n \<noteq> req \<longrightarrow> ecs s' n = ecs s n) \<and> (\<forall>n. n \<noteq> k \<longrightarrow> secs s' n = secs s n)"

lemma outside_preserves:
  assumes "\<And>s1 a s2. run_state m s1 = (a, s2) \<Longrightarrow> keeps s1 s2"
  shows "preserves (outside req k s) m"
  by (rule preservesI) (use assms in \<open>auto simp: outside_def\<close>)

lemma same_target: "same_object ec y \<Longrightarrow> ec_key y = ec_key ec \<and> target_key y = target_key ec"
  using same_object_fields [of ec y] by (auto simp: target_key_def object_key_def)

lemma outside_update:
  assumes "ec_key ec = req" and "target_key ec = k"
  shows "yields (outside req k s) (State (k_Update_EC (r_Client r) ec)) (\<lambda>u. \<forall>y. u = Inr y \<longrightarrow> ec_key y = req \<and> target_key y = k)"
    and "yields (outside req k s) (State (k_Status_Update (r_Client r) ec)) (\<lambda>u. \<forall>y. u = Inr y \<longrightarrow> ec_key y = req \<and> target_key y = k)"
  by (rule yieldsI, use update_frame [of ec] update_ec [of ec] same_target [of ec] assms in \<open>fastforce simp: outside_def\<close>)
     (rule yieldsI, use status_frame [of ec] status_update [of ec] same_target [of ec] assms in \<open>fastforce simp: outside_def\<close>)

lemma reconcile_outside:
  assumes "ecs s req = Some ec0" and "run_state (Reconcile r req) s = (out, s')"
  shows "outside req (target_key ec0) s s'"
proof -
  let ?mine = "\<lambda>ec. ec_key ec = req \<and> target_key ec = target_key ec0"
  let ?I = "outside req (target_key ec0) s"
  have "?I (snd (run_state (Reconcile r req) s))"
  proof (rule Reconcile_keeps [where mine = ?mine and found = "\<lambda>n x. sec_key x = n"], goal_cases)
    case (1 g s1)
    show ?case using get_ec [OF 1] get_ec_found [of req s _ s1] 1 assms(1) by (auto simp: outside_def)
  next
    case (2 n)
    show ?case
      by (rule yieldsI) (use get_secret [of n] get_secret_found [of n] in \<open>auto simp: outside_def\<close>)
  next
    case (3 ec)
    then show ?case by (intro outside_update) simp_all
  next
    case (4 ec)
    then show ?case by (intro outside_update) simp_all
  next
    case (5 ec x)
    show ?case
      by (rule preservesI) (use 5 delete_frame [of x] in \<open>auto simp: outside_def\<close>)
  next
    case (6 ec f)
    have "sec_key (newTargetSecret ec) = target_key ec" by (simp add: newTargetSecret_def target_key_def object_key_def)
    with 6 show ?case
      by (intro preservesI) (use write_frame [of "newTargetSecret ec" f] in \<open>auto simp: outside_def\<close>)
  next
    case 7
    show ?case by (rule outside_preserves) (rule clock_keeps)
  next
    case (8 ec ty re ms)
    show ?case by (rule outside_preserves) (cases "r_Recorder r"; auto simp: event_def dest: event_keeps)
  next
    case (9 n p q)
    show ?case by (rule outside_preserves) (simp add: mint_keeps [OF 9])
  next
    case (10 n p h)
    show ?case by (rule outside_preserves) (simp add: revoke_keeps [OF 10])
  qed (use add_finalizer_key remove_finalizer_key in \<open>auto simp: target_key_def object_key_def\<close>)
  then show ?thesis using assms(2) by simp
qed

lemma reconcile_absent:
  assumes "ecs s req = None" and "run_state (Reconcile r req) s = (out, s')"
  shows "keeps s s'"
proof -
  obtain g s1 where g: "k_Get_EC (r_Client r) req s = (g, s1)" by fastforce
  then obtain e where "g = Inl e" using get_ec_found assms(1) by (cases g) auto
  then show ?thesis using assms(2) g get_ec [OF g] by (auto simp: Reconcile_def)
qed

end

interpretation mem_framed: framed_api mem_reconciler m_ecs m_secs
  by (rule framed_api.intro [OF mem_broker.broker_env_axioms], unfold_locales)
    (auto simp: mem_reconciler_def mem_k8s_def mem_Update_EC_def mem_Status_Update_def mem_Delete_Secret_def mem_CreateOrUpdate_def
      object_key_def Let_def split: option.splits sum.splits if_splits)

text \<open>On the in-memory server a reconcile takes no time, when its clock, its recorder and its providers take none.\<close>

lemma mem_clock_stands:
  assumes "r_Client r = mem_k8s" and clock: "\<And>w. m_clock (snd (run_state (now r) w)) = m_clock w"
    and recorder: "\<And>h ec ty re ms w. r_Recorder r = Some h \<Longrightarrow> m_clock (h ec ty re ms w) = m_clock w"
    and prov: "\<And>n p q w. Registry_Get (r_Providers r) n = Some p \<Longrightarrow> m_clock (snd (prov_Mint p q w)) = m_clock w"
      "\<And>n p h w. Registry_Get (r_Providers r) n = Some p \<Longrightarrow> m_clock (snd (prov_Revoke p h w)) = m_clock w"
  shows "m_clock (snd (run_state (Reconcile r req) w)) = m_clock w"
proof (rule Reconcile_keeps [where I = "\<lambda>s. m_clock s = m_clock w" and mine = "\<lambda>_. True" and found = "\<lambda>_ _. True"], goal_cases)
  case (8 ec ty re ms)
  show ?case using recorder by (cases "r_Recorder r") (auto simp: event_def preserves_def)
qed (use clock prov in \<open>auto simp: assms(1) yields_def preserves_def mem_k8s_def mem_Get_EC_def mem_Get_Secret_def mem_Update_EC_def
      mem_Status_Update_def mem_Delete_Secret_def mem_CreateOrUpdate_def Let_def split: option.split sum.split option.split_asm if_splits\<close>)

lemma mem_reconciler_clock [simp]: "m_clock (snd (run_state (Reconcile mem_reconciler req) w)) = m_clock w"
  by (rule mem_clock_stands) (auto simp: mem_reconciler_def now_def NewRegistry_def Registry_Get_def mem_provider_def split: if_splits)

section \<open>The property\<close>

text \<open>
  C8. A reconcile touches nothing that is not its own. Whatever the API server and the providers answer, and whether it succeeds
  or not: no resource but the one it was called for has changed, and no Secret but the target Secret that this
  resource names.
\<close>

theorem reconcile_isolated:
  assumes "framed_api r ecs secs" and "run_state (Reconcile r req) s = (out, s')"
  shows "(ecs s' n = ecs s n \<or> n = req) \<and>
    (secs s' k = secs s k \<or> (\<exists>ec. ecs s req = Some ec \<and> k = target_key ec))"
proof (cases "ecs s req")
  case None
  then show ?thesis using framed_api.reconcile_absent [OF assms(1) None assms(2)] by simp
next
  case (Some ec)
  then show ?thesis
    using framed_api.reconcile_outside [OF assms(1) Some assms(2)] framed_api.outside_def [OF assms(1)] by blast
qed

text \<open>
  The resource names another target Secret than before. The old one, which holds the previous credential, stays
  as it is after the reconcile that serves the new one.
\<close>

definition renamed_ec :: EphemeralCredential where
  "renamed_ec = fresh_ec\<lparr>ec_Spec := (ec_Spec fresh_ec)\<lparr>spec_TargetSecret :=
     (spec_TargetSecret (ec_Spec fresh_ec))\<lparr>ts_Name := ''new-token''\<rparr>\<rparr>\<rparr>"

theorem reconcile_isolated_witness:
  "m_secs (snd (run_state (Reconcile mem_reconciler sample_req) (sample_world renamed_ec))) (''builds'', ''github-token'') =
   Some sample_secret"
proof -
  let ?run = "run_state (Reconcile mem_reconciler sample_req) (sample_world renamed_ec)"
  have other: "m_ecs (sample_world renamed_ec) sample_req = Some renamed_ec" "target_key renamed_ec \<noteq> (''builds'', ''github-token'')"
    by (simp_all add: sample_world_def renamed_ec_def target_key_def)
  have "m_secs (snd ?run) (''builds'', ''github-token'') = m_secs (sample_world renamed_ec) (''builds'', ''github-token'')"
    using reconcile_isolated [OF mem_framed.framed_api_axioms prod.collapse [symmetric],
        of sample_req "sample_world renamed_ec" sample_req "(''builds'', ''github-token'')"] other by auto
  then show ?thesis by (simp add: sample_world_def)
qed

end
