(* ===== verification/Responsive.thy ===== *)
theory Responsive
  imports Isolation Reconcile_Props
begin

text \<open>
  An API server that answers, and time. The locale \<open>responsive_api\<close> adds to \<open>broker_env\<close> that a call of
  the API server finds what is stored and accepts a write of the current version of an object (an
  \<open>Update\<close> leaves the status as it is), that Secrets are created, updated and deleted, and that a clock runs:
  \<open>clock s\<close> is the time in the state \<open>s\<close>, no call turns it back, and the broker reads a time between the
  beginning and the end of its reading. Nothing is assumed of the answers of a provider.

  In such an environment a reconcile never leaves an expired credential behind: it replaces it, or it
  removes the target Secret and reports the failure; and a deletion completes with the first reconcile.
\<close>

text \<open>A Secret that the broker can take over: it has the name of the target, and no other owner controls it.\<close>

definition adoptable :: "EphemeralCredential \<Rightarrow> Secret \<Rightarrow> bool" where
  "adoptable ec x \<longleftrightarrow> sec_key x = target_key ec \<and>
     (\<forall>o' \<in> set (om_OwnerReferences (sec_Meta x)). or_Controller o' \<longrightarrow> or_UID o' = om_UID (ec_Meta ec))"

text \<open>
  \<open>removed ecs secs ec old s\<close>: what remains in the state \<open>s\<close> of a credential that expired and was not replaced, no
  Secret (the Secret \<open>old\<close> is marked as deleted, if it has finalizers) and a status that says so.
\<close>

definition removed ::
  "('s \<Rightarrow> NamespacedName \<Rightarrow> EphemeralCredential option) \<Rightarrow> ('s \<Rightarrow> NamespacedName \<Rightarrow> Secret option) \<Rightarrow>
   EphemeralCredential \<Rightarrow> Secret option \<Rightarrow> 's \<Rightarrow> bool" where
  "removed ecs secs ec old s \<longleftrightarrow> after_delete old (secs s (target_key ec)) \<and>
     (\<exists>ec' re ms. ecs s (ec_key ec) = Some ec' \<and> st_State (ec_Status ec') = StateFailed \<and>
        ready_of ec' = Some (ConditionFalse, re, ms))"

text \<open>
  \<open>dismissed ecs secs ec s s'\<close>: the deleted resource \<open>ec\<close> is released, its Secret is gone (marked as deleted, if it has finalizers), and nothing else has changed
  between \<open>s\<close> and \<open>s'\<close>.
\<close>

definition dismissed ::
  "('s \<Rightarrow> NamespacedName \<Rightarrow> EphemeralCredential option) \<Rightarrow> ('s \<Rightarrow> NamespacedName \<Rightarrow> Secret option) \<Rightarrow>
   EphemeralCredential \<Rightarrow> 's \<Rightarrow> 's \<Rightarrow> bool" where
  "dismissed ecs secs ec s s' \<longleftrightarrow>
     after_delete (secs s (target_key ec)) (secs s' (target_key ec)) \<and> (\<forall>n. n \<noteq> target_key ec \<longrightarrow> secs s' n = secs s n) \<and>
     (\<forall>n. n \<noteq> ec_key ec \<longrightarrow> ecs s' n = ecs s n) \<and>
     (case ecs s' (ec_key ec) of
        None \<Rightarrow> set (om_Finalizers (ec_Meta ec)) = {FinalizerName}
      | Some ec' \<Rightarrow> set (om_Finalizers (ec_Meta ec')) = set (om_Finalizers (ec_Meta ec)) - {FinalizerName} \<and>
          om_Finalizers (ec_Meta ec') \<noteq> [])"

text \<open>
  \<open>stays_ready ecs ec s\<close>: the status in the state \<open>s\<close> says that the credential is usable and that its rotation failed.
\<close>

definition stays_ready :: "('s \<Rightarrow> NamespacedName \<Rightarrow> EphemeralCredential option) \<Rightarrow> EphemeralCredential \<Rightarrow> 's \<Rightarrow> bool" where
  "stays_ready ecs ec s \<longleftrightarrow>
     (\<exists>ec' m. ecs s (ec_key ec) = Some ec' \<and> st_State (ec_Status ec') = StateExpiring \<and>
        ready_of ec' = Some (ConditionTrue, ReasonRotationFailed, m))"

locale responsive_api = broker_env r ecs secs
  for r :: "'s Reconciler"
    and ecs :: "'s \<Rightarrow> NamespacedName \<Rightarrow> EphemeralCredential option"
    and secs :: "'s \<Rightarrow> NamespacedName \<Rightarrow> Secret option" +
  fixes clock :: "'s \<Rightarrow> time"
  assumes get_ok: "ecs s n = Some ec \<Longrightarrow> ec_key ec = n \<Longrightarrow> fst (k_Get_EC (r_Client r) n s) = Inr ec"
    and get_secret_ok: "secs s n = Some x \<Longrightarrow> sec_key x = n \<Longrightarrow> fst (k_Get_Secret (r_Client r) n s) = Inr x"
    and get_secret_none: "secs s n = None \<Longrightarrow>
      \<exists>e. fst (k_Get_Secret (r_Client r) n s) = Inl e \<and> k_IsNotFound (r_Client r) e"
    and update_ok: "ecs s (ec_key ec) = Some old \<Longrightarrow>
      om_ResourceVersion (ec_Meta old) = om_ResourceVersion (ec_Meta ec) \<Longrightarrow>
      \<exists>ec'. fst (k_Update_EC (r_Client r) ec s) = Inr ec' \<and> ec_Status ec' = ec_Status old"
    and status_ok: "ecs s (ec_key ec) = Some old \<Longrightarrow>
      om_ResourceVersion (ec_Meta old) = om_ResourceVersion (ec_Meta ec) \<Longrightarrow>
      \<exists>ec'. fst (k_Status_Update (r_Client r) ec s) = Inr ec'"
    and delete_ok: "secs s (sec_key x) = Some x \<Longrightarrow> fst (k_Delete_Secret (r_Client r) x s) = None"
    and write_ok: "f (case secs s (sec_key x) of None \<Rightarrow> x | Some old \<Rightarrow> old) = Inr out \<Longrightarrow>
      fst (k_CreateOrUpdate (r_Client r) x f s) = None"
    and write_refused: "f (case secs s (sec_key x) of None \<Rightarrow> x | Some old \<Rightarrow> old) = Inl e \<Longrightarrow>
      k_CreateOrUpdate (r_Client r) x f s = (w, s') \<Longrightarrow> w \<noteq> None \<and> ecs s' = ecs s \<and> secs s' = secs s"
    and written_meta: "k_CreateOrUpdate (r_Client r) x f s = (None, s') \<Longrightarrow>
      f (case secs s (sec_key x) of None \<Rightarrow> x | Some old \<Rightarrow> old) = Inr out \<Longrightarrow> secs s' (sec_key x) = Some y \<Longrightarrow>
      object_key (sec_Meta y) = object_key (sec_Meta out) \<and> om_OwnerReferences (sec_Meta y) = om_OwnerReferences (sec_Meta out)"
    and reference_ok: "adoptable ec x \<Longrightarrow> \<exists>y. k_SetControllerReference (r_Client r) ec x = Inr y"
    and reference_meta: "k_SetControllerReference (r_Client r) ec x = Inr y \<Longrightarrow> adoptable ec x \<Longrightarrow> adoptable ec y"
    and add_only: "k_AddFinalizer (r_Client r) meta fin =
      meta\<lparr>om_Finalizers := om_Finalizers (k_AddFinalizer (r_Client r) meta fin)\<rparr>"
    and add_keeps: "set (om_Finalizers meta) \<subseteq> set (om_Finalizers (k_AddFinalizer (r_Client r) meta fin))"
    and remove_only: "k_RemoveFinalizer (r_Client r) meta fin = meta\<lparr>om_Finalizers := filter (\<lambda>x. x \<noteq> fin) (om_Finalizers meta)\<rparr>"
    and now_time: "run_state (now r) s = (t, s') \<Longrightarrow> clock s \<le> t \<and> t \<le> clock s'"
    and get_time: "clock s \<le> clock (snd (k_Get_EC (r_Client r) n s))"
    and get_secret_time: "clock s \<le> clock (snd (k_Get_Secret (r_Client r) n s))"
    and update_time: "clock s \<le> clock (snd (k_Update_EC (r_Client r) ec s))"
    and status_time: "clock s \<le> clock (snd (k_Status_Update (r_Client r) ec s))"
    and delete_time: "clock s \<le> clock (snd (k_Delete_Secret (r_Client r) x s))"
    and write_time: "clock s \<le> clock (snd (k_CreateOrUpdate (r_Client r) x f s))"
    and event_time: "r_Recorder r = Some h \<Longrightarrow> clock s \<le> clock (h ec ty re ms s)"
    and mint_time: "Registry_Get (r_Providers r) nm = Some p \<Longrightarrow> clock s \<le> clock (snd (prov_Mint p q s))"
    and revoke_time: "Registry_Get (r_Providers r) nm = Some p \<Longrightarrow> clock s \<le> clock (snd (prov_Revoke p cred s))"
begin

text \<open>Nothing changes but the time.\<close>

abbreviation calm :: "'s \<Rightarrow> 's \<Rightarrow> bool" where
  "calm s s' \<equiv> ecs s' = ecs s \<and> secs s' = secs s \<and> clock s \<le> clock s'"

lemma wp_now_at: "(\<And>t s'. calm s s' \<Longrightarrow> clock s \<le> t \<Longrightarrow> t \<le> clock s' \<Longrightarrow> Q t s') \<Longrightarrow> wp (now r) Q s"
  by (rule wp_I) (use clock_keeps now_time in force)

lemma wp_event_calm: "(\<And>s'. calm s s' \<Longrightarrow> Q () s') \<Longrightarrow> wp (event r ec ty re ms) Q s"
  by (cases "r_Recorder r") (auto simp: event_def wp_simps dest: event_keeps event_time)

lemma wp_get_ok:
  assumes "ecs s n = Some ec" and "ec_key ec = n" and "\<And>s'. calm s s' \<Longrightarrow> Q (Inr ec) s'"
  shows "wp (State (k_Get_EC (r_Client r) n)) Q s"
  unfolding wp_State using assms get_ok [OF assms(1,2)] get_ec [of n s] get_time [of s n] by auto

lemma wp_get_secret_ok:
  assumes "secs s n = Some x" and "sec_key x = n" and "\<And>s'. calm s s' \<Longrightarrow> Q (Inr x) s'"
  shows "wp (State (k_Get_Secret (r_Client r) n)) Q s"
  unfolding wp_State using assms get_secret_ok [OF assms(1,2)] get_secret [of n s] get_secret_time [of s n] by auto

lemma wp_get_secret_none:
  assumes "secs s n = None" and "\<And>e s'. calm s s' \<Longrightarrow> k_IsNotFound (r_Client r) e \<Longrightarrow> Q (Inl e) s'"
  shows "wp (State (k_Get_Secret (r_Client r) n)) Q s"
  unfolding wp_State using assms get_secret_none [OF assms(1)] get_secret [of n s] get_secret_time [of s n] by auto

lemma wp_get_secret_calm:
  assumes "\<And>x s'. calm s s' \<Longrightarrow> Q x s'"
  shows "wp (State (k_Get_Secret (r_Client r) n)) Q s"
  unfolding wp_State using assms get_secret [of n s] get_secret_time [of s n] by auto

lemma wp_mint_calm:
  assumes "Registry_Get (r_Providers r) nm = Some p"
    and "\<And>m s'. prov_Mint p q s = (m, s') \<Longrightarrow> calm s s' \<Longrightarrow> Q m s'"
  shows "wp (State (prov_Mint p q)) Q s"
  unfolding wp_State using assms mint_keeps [OF assms(1), of q s] mint_time [OF assms(1), of s q] by auto

lemma wp_revokePrevious_calm:
  assumes "Registry_Get (r_Providers r) nm = Some p" and "\<And>s'. calm s s' \<Longrightarrow> Q () s'"
  shows "wp (revokePrevious r ec p prev) Q s"
proof -
  have "calm s s'" if "prov_Revoke p h s = (e, s')" for h e s'
    using that revoke_keeps [OF assms(1) that] revoke_time [OF assms(1), of s h] by simp
  then show ?thesis
    unfolding revokePrevious_def
    by (auto simp: wp_simps assms(2) split: option.split intro!: wp_event_calm assms(2) dest: order_trans)
qed

lemma wp_update_ok:
  assumes "ecs s (ec_key ec) = Some old" and "om_ResourceVersion (ec_Meta old) = om_ResourceVersion (ec_Meta ec)"
    and "deletion_is_zero (om_DeletionTimestamp (ec_Meta ec))"
    and "\<And>ec' s'. same_object ec ec' \<Longrightarrow> ec_Status ec' = ec_Status old \<Longrightarrow> secs s' = secs s \<Longrightarrow> clock s \<le> clock s' \<Longrightarrow>
      ecs s' (ec_key ec') = Some ec' \<Longrightarrow> Q (Inr ec') s'"
  shows "wp (State (k_Update_EC (r_Client r) ec)) Q s"
  unfolding wp_State
proof (intro allI impI)
  fix u s' assume run: "k_Update_EC (r_Client r) ec s = (u, s')"
  then obtain ec' where u: "u = Inr ec'" "ec_Status ec' = ec_Status old" using update_ok [OF assms(1,2)] by auto
  have so: "same_object ec ec'" using update_ec [OF run [unfolded u]] by blast
  moreover have "secs s' = secs s" "ecs s' (ec_key ec') = Some ec'"
    using update_ec [OF run [unfolded u]] assms(3) same_object_fields(1) [OF so] by simp_all
  moreover have "clock s \<le> clock s'" using update_time [of s ec] run by simp
  ultimately show "Q u s'" using assms(4) u by simp
qed

lemma wp_status_ok:
  assumes "ecs s (ec_key ec) = Some old" and "om_ResourceVersion (ec_Meta old) = om_ResourceVersion (ec_Meta ec)"
    and "\<And>ec' s'. same_object ec ec' \<Longrightarrow> same_status ec ec' \<Longrightarrow> secs s' = secs s \<Longrightarrow> clock s \<le> clock s' \<Longrightarrow>
      ecs s' (ec_key ec') = Some ec' \<Longrightarrow> Q (Inr ec') s'"
  shows "wp (State (k_Status_Update (r_Client r) ec)) Q s"
  unfolding wp_State
proof (intro allI impI)
  fix u s' assume run: "k_Status_Update (r_Client r) ec s = (u, s')"
  then obtain ec' where u: "u = Inr ec'" using status_ok [OF assms(1,2)] by auto
  have so: "same_object ec ec'" "same_status ec ec'" using status_update [OF run [unfolded u]] by blast+
  moreover have "secs s' = secs s" "ecs s' (ec_key ec') = Some ec'"
    using status_update [OF run [unfolded u]] same_object_fields(1) [OF so(1)] by simp_all
  moreover have "clock s \<le> clock s'" using status_time [of s ec] run by simp
  ultimately show "Q u s'" using assms(3) u by simp
qed

lemma scope_calm:
  assumes "\<And>x s'. calm s s' \<Longrightarrow> Q x s'"
  shows "wp (buildScope (r_Client r) ns spec) Q s"
  unfolding buildScope_def buildGitHubScope_def Let_def
  by (auto simp: wp_bind wp_return assms split: option.split intro!: wp_get_secret_calm)

section \<open>The write of the target Secret\<close>

lemma write_target:
  assumes key: "\<And>x. secs s (target_key ec) = Some x \<Longrightarrow> sec_key x = target_key ec"
    and refused: "\<And>e s'. calm s s' \<Longrightarrow> \<not> (\<forall>x. secs s (target_key ec) = Some x \<longrightarrow> adoptable ec x) \<Longrightarrow> Q (Some e) s'"
    and written: "\<And>y s'. ecs s' = ecs s \<Longrightarrow> clock s \<le> clock s' \<Longrightarrow> secs s' = (secs s)(target_key ec \<mapsto> y) \<Longrightarrow>
      same_secret (mutateTargetSecret ec mint
        (case secs s (target_key ec) of None \<Rightarrow> newTargetSecret ec | Some old \<Rightarrow> old)) y \<Longrightarrow>
      ((\<forall>x. secs s (target_key ec) = Some x \<longrightarrow> adoptable ec x) \<Longrightarrow> adoptable ec y) \<Longrightarrow> Q None s'"
  shows "wp (writeTargetSecret r ec mint) Q s"
proof -
  let ?f = "\<lambda>secret. k_SetControllerReference (r_Client r) ec (mutateTargetSecret ec mint secret)"
  let ?old = "case secs s (target_key ec) of None \<Rightarrow> newTargetSecret ec | Some old \<Rightarrow> old"
  have nkey: "sec_key (newTargetSecret ec) = target_key ec"
    by (simp add: newTargetSecret_def target_key_def object_key_def)
  have old: "adoptable ec (mutateTargetSecret ec mint ?old)" if "\<forall>x. secs s (target_key ec) = Some x \<longrightarrow> adoptable ec x"
  proof -
    have "adoptable ec ?old"
      using that nkey by (auto simp: adoptable_def newTargetSecret_def split: option.split)
    then show ?thesis by (simp add: adoptable_def mutate_Meta object_key_def)
  qed
  have time: "clock s \<le> clock s'" if "k_CreateOrUpdate (r_Client r) (newTargetSecret ec) ?f s = (w, s')" for w s'
    using write_time [of s "newTargetSecret ec" ?f] that by simp
  show ?thesis
    unfolding writeTargetSecret_def wp_bind wp_State wp_return
  proof (intro allI impI)
    fix w s' assume run: "k_CreateOrUpdate (r_Client r) (newTargetSecret ec) ?f s = (w, s')"
    show "Q (case w of None \<Rightarrow> None | Some err \<Rightarrow> Some (Wrapf ''writing target secret %q: %w''
        [A_str (ts_Name (spec_TargetSecret (ec_Spec ec)))] err)) s'"
    proof (cases "?f ?old")
      case (Inl e)
      then have foreign: "\<not> (\<forall>x. secs s (target_key ec) = Some x \<longrightarrow> adoptable ec x)" using reference_ok [OF old] by force
      have "w \<noteq> None \<and> ecs s' = ecs s \<and> secs s' = secs s"
        by (rule write_refused [OF _ run]) (use Inl nkey in simp)
      then show ?thesis using refused [OF _ foreign] time [OF run] by auto
    next
      case (Inr out)
      then have w: "w = None" using write_ok [where f = ?f and s = s and x = "newTargetSecret ec"] nkey run by simp
      from create_or_update [OF run [unfolded w]] Inr nkey obtain y where
        y: "ecs s' = ecs s" "same_secret out y" "secs s' = (secs s)(target_key ec \<mapsto> y)" by auto
      have "same_secret (mutateTargetSecret ec mint ?old) y"
        using controller_reference [OF Inr] y(2) by (simp add: same_secret_def)
      moreover have "adoptable ec y" if "\<forall>x. secs s (target_key ec) = Some x \<longrightarrow> adoptable ec x"
        using reference_meta [OF Inr old [OF that]] written_meta [OF run [unfolded w], of out y] Inr nkey y(3)
        by (simp add: adoptable_def)
      ultimately show ?thesis using w y time [OF run] by (auto intro!: written)
    qed
  qed
qed

section \<open>An expired credential\<close>

lemma delete_target:
  assumes name: "ts_Name (spec_TargetSecret (ec_Spec ec)) \<noteq> []"
    and key: "\<And>x. secs s (target_key ec) = Some x \<Longrightarrow> sec_key x = target_key ec"
    and gone: "\<And>s' y. ecs s' = ecs s \<Longrightarrow> clock s \<le> clock s' \<Longrightarrow> secs s' = (secs s)(target_key ec := y) \<Longrightarrow>
      after_delete (secs s (target_key ec)) y \<Longrightarrow> Q None s'"
  shows "wp (deleteTargetSecret r ec) Q s"
proof (cases "secs s (target_key ec)")
  case None
  then have "(secs s)(target_key ec := None) = secs s" by auto
  then show ?thesis
    unfolding deleteTargetSecret_def if_not_P [OF name] wp_bind
    by (intro wp_get_secret_none [OF None]) (use gone [of _ None] in \<open>simp add: wp_return None\<close>)
next
  case (Some x)
  have del: "wp (State (k_Delete_Secret (r_Client r) x)) (\<lambda>d s'. d = None \<and> ecs s' = ecs s \<and> clock s \<le> clock s' \<and>
      (\<exists>y. secs s' = (secs s)(target_key ec := y) \<and> after_delete (secs s (target_key ec)) y)) s1" if "calm s s1" for s1
    unfolding wp_State
    using delete_ok [of s1 x] delete_secret [of x s1] delete_time [of s1 x] that Some key [OF Some] by fastforce
  show ?thesis
    unfolding deleteTargetSecret_def if_not_P [OF name] wp_bind
    by (rule wp_get_secret_ok [OF Some key [OF Some]], simp only: sum.case wp_bind, rule wp_mono [OF del])
       (auto simp: wp_return gone)
qed

lemma fail_removes:
  assumes stored: "ecs s (ec_key ec) = Some ec" and exp: "st_ExpiresAt (ec_Status ec) = Some e" "e \<le> clock s"
    and name: "ts_Name (spec_TargetSecret (ec_Spec ec)) \<noteq> []"
    and key: "\<And>x. secs s (target_key ec) = Some x \<Longrightarrow> sec_key x = target_key ec"
    and old: "old = secs s (target_key ec)"
  shows "wp (failStatus r ec re ms c b) (\<lambda>out s'. removed ecs secs ec old s') s"
proof -
  have report: "wp (setReadyCondition r (status_update (st_State_update (\<lambda>_. StateFailed)) ec) ConditionFalse re ms)
     (\<lambda>ec1. wp (State (k_Status_Update (r_Client r) ec1)) Q) s1"
    if "ecs s1 = ecs s" "after_delete old (secs s1 (target_key ec))" "\<And>ec2 s2. removed ecs secs ec old s2 \<Longrightarrow> Q (Inr ec2) s2" for s1 Q
    apply (rule wp_setReady, rule wp_status_ok [of _ _ ec])
      apply (simp_all add: that(1) stored)
    apply (rule that(3), use that(2) in \<open>auto simp: removed_def same_status_def object_key_def dest: same_object_fields(1)\<close>)
    done
  have announce: "wp (event r ec2 ty re ms) (\<lambda>_ s'. removed ecs secs ec old s') s2" if "removed ecs secs ec old s2" for ec2 ty s2
    by (rule wp_event_calm) (use that in \<open>simp add: removed_def\<close>)
  show ?thesis
    unfolding failStatus_def wp_bind
  proof (rule wp_now_at, goal_cases)
    case (1 t s1)
    have late: "\<not> time_Before t e" using 1 exp by (simp add: time_Before_def)
    show ?case
      unfolding exp(1) option.case if_not_P [OF late] wp_bind
      apply (rule delete_target [OF name], use 1 key in simp)
      apply (rule report, use 1 in simp, use 1 old in simp)
      apply (simp only: sum.case wp_bind, rule wp_mono [OF announce], assumption, simp only: wp_return)
      done
  qed
qed

lemma finish_succeeds:
  assumes p: "Registry_Get (r_Providers r) n = Some p" and "ecs s (ec_key ec) = Some ec"
  shows "wp (finishMint r ec p t prev mint) (\<lambda>out s'. snd out = None) s"
  unfolding finishMint_def wp_bind Let_def case_prod_unfold
  apply (rule wp_setReady)
  apply (rule wp_status_ok [of _ _ ec])
    apply (simp_all add: assms(2))
  apply (auto intro!: wp_event wp_revokePrevious [OF p] simp: wp_simps)
  done

lemma rotate_or_remove:
  assumes p: "Registry_Get (r_Providers r) n = Some p" and stored: "ecs s (ec_key ec) = Some ec"
    and live: "deletion_is_zero (om_DeletionTimestamp (ec_Meta ec))"
    and exp: "st_ExpiresAt (ec_Status ec) = Some e" "e \<le> clock s"
    and name: "ts_Name (spec_TargetSecret (ec_Spec ec)) \<noteq> []"
    and key: "\<And>x. secs s (target_key ec) = Some x \<Longrightarrow> sec_key x = target_key ec"
    and old: "old = secs s (target_key ec)"
  shows "wp (rotateCredential r ec p t) (\<lambda>out s'. snd out = None \<or> removed ecs secs ec old s') s"
proof -
  have fail: "wp (failStatus r ec re ms c b) (\<lambda>out s'. snd out = None \<or> removed ecs secs ec old s') s1" if "calm s s1" for re ms c b s1
    by (rule wp_mono [OF fail_removes]) (use that assms in auto)
  have finish: "wp (finishMint r ec2 p t prev mint) (\<lambda>out s'. snd out = None \<or> removed ecs secs ec old s') s1"
    if "ecs s1 (ec_key ec2) = Some ec2" for s1 ec2 prev mint
    by (rule wp_mono [OF finish_succeeds [OF p that]]) simp
  show ?thesis
    unfolding rotateCredential_def wp_bind Let_def
    apply (rule scope_calm, rule wp_sumI, rule fail, simp)
    apply (simp only: wp_bind, rule wp_mint_calm [OF p], rule wp_sumI, rule fail, simp)
    apply (simp only: wp_bind, rule write_target, use key in simp)
     apply (simp only: option.case, rule fail, simp)
    apply (simp only: option.case, rule wp_sumI, erule notE [OF encodeHandle_never_fails], simp only: wp_bind)
    apply (rule wp_update_ok [of _ _ ec], simp_all add: stored [unfolded object_key_def] live object_key_def)
    apply (rule finish, simp add: object_key_def)
    done
qed

lemma expired_replaced_or_removed:
  assumes stored: "ecs s req = Some ec" and req: "ec_key ec = req"
    and live: "deletion_is_zero (om_DeletionTimestamp (ec_Meta ec))"
      "k_ContainsFinalizer (r_Client r) (ec_Meta ec) FinalizerName"
    and exp: "st_ExpiresAt (ec_Status ec) = Some e" "e \<le> clock s"
    and name: "ts_Name (spec_TargetSecret (ec_Spec ec)) \<noteq> []"
    and key: "\<And>x. secs s (target_key ec) = Some x \<Longrightarrow> sec_key x = target_key ec"
  shows "wp (Reconcile r req) (\<lambda>out s'. removed ecs secs ec (secs s (target_key ec)) s' \<or>
    (\<exists>p t. Registry_Get (r_Providers r) (spec_Provider (ec_Spec ec)) = Some p \<and>
       rotated ecs secs p ec t (secs s (target_key ec)) s')) s"
    (is "wp _ (\<lambda>out s'. _ \<or> ?served s') s")
proof -
  have window: "0 \<le> fst (clampRotateBefore (requestedRotateBefore ec) (grantedLifetime ec))"
    by (simp add: clampRotateBefore_bounds(1) requestedRotateBefore_pos)
  have rot: "wp (rotateCredential r ec p t) (\<lambda>out s'. removed ecs secs ec (secs s (target_key ec)) s' \<or> ?served s') s1"
    if "calm s s1" "Registry_Get (r_Providers r) (spec_Provider (ec_Spec ec)) = Some p" for p t s1
  proof -
    have "wp (rotateCredential r ec p t) (\<lambda>out s'. snd out = None \<or> removed ecs secs ec (secs s (target_key ec)) s') s1"
      by (rule rotate_or_remove) (use that stored req live exp name key in auto)
    moreover have "wp (rotateCredential r ec p t)
        (\<lambda>out s'. snd out = None \<longrightarrow> rotated ecs secs p ec t (secs s (target_key ec)) s') s1"
      using rotate_establishes [OF that(2), of ec t s1] that(1) by simp
    ultimately have "wp (rotateCredential r ec p t) (\<lambda>out s'. (snd out = None \<or> removed ecs secs ec (secs s (target_key ec)) s') \<and>
        (snd out = None \<longrightarrow> rotated ecs secs p ec t (secs s (target_key ec)) s')) s1"
      by (simp add: wp_conj)
    then show ?thesis by (rule wp_mono) (use that(2) in blast)
  qed
  have fail: "wp (failStatus r ec re ms c b) (\<lambda>out s'. removed ecs secs ec (secs s (target_key ec)) s' \<or> ?served s') s1" if "calm s s1" for re ms c b s1
    by (rule wp_mono [OF fail_removes]) (use that stored req exp name key in auto)
  have due: "needsMint t (fst (clampRotateBefore (requestedRotateBefore ec) (grantedLifetime ec))) ec" if "clock s \<le> t" for t
    by (rule needsMint_late [OF exp(1)]) (use that exp(2) window in linarith)
  show ?thesis
    unfolding Reconcile_def wp_bind
    apply (rule wp_get_ok [OF stored req], simp only: sum.case live not_True_eq_False if_False)
    apply (rule wp_optionI, rule fail, simp)
    apply (simp only: wp_bind, rule wp_now_at)
    apply (simp add: Let_def due, rule wp_mono [OF rot])
      apply auto
    done
qed

section \<open>A deleted resource\<close>

lemma deletion_dismisses:
  assumes stored: "ecs s req = Some ec" and req: "ec_key ec = req"
    and del: "\<not> deletion_is_zero (om_DeletionTimestamp (ec_Meta ec))"
      "k_ContainsFinalizer (r_Client r) (ec_Meta ec) FinalizerName"
    and name: "ts_Name (spec_TargetSecret (ec_Spec ec)) \<noteq> []"
    and key: "\<And>x. secs s (target_key ec) = Some x \<Longrightarrow> sec_key x = target_key ec"
  shows "wp (Reconcile r req) (\<lambda>out s'. out = (emptyResult, None) \<and> dismissed ecs secs ec s s') s"
proof -
  let ?x = "ec\<lparr>ec_Meta := k_RemoveFinalizer (r_Client r) (ec_Meta ec) FinalizerName\<rparr>"
  have mine: "FinalizerName \<in> set (om_Finalizers (ec_Meta ec))" using del(2) contains_finalizer by simp
  have release: "wp (State (k_Update_EC (r_Client r) ?x)) (\<lambda>u s'. (\<exists>ec'. u = Inr ec') \<and> dismissed ecs secs ec s s') s1"
    if same: "ecs s1 = ecs s" "\<exists>y. secs s1 = (secs s)(target_key ec := y) \<and> after_delete (secs s (target_key ec)) y" for s1
    unfolding wp_State
  proof (intro allI impI)
    fix u s' assume run: "k_Update_EC (r_Client r) ?x s1 = (u, s')"
    have xkey: "ec_key ?x = req" using req by (simp add: remove_only object_key_def)
    obtain ec' where u: "u = Inr ec'"
      using update_ok [of s1 ?x ec] stored same(1) run unfolding xkey by (auto simp: remove_only)
    from update_ec [OF run [unfolded u]] xkey del(1) req same mine show "(\<exists>ec'. u = Inr ec') \<and> dismissed ecs secs ec s s'"
      by (auto simp: u dismissed_def remove_only filter_empty_conv dest: same_object_fields split: if_splits)
  qed
  have drop: "wp (deleteTargetSecret r ec)
      (\<lambda>d s'. d = None \<and> ecs s' = ecs s \<and> (\<exists>y. secs s' = (secs s)(target_key ec := y) \<and> after_delete (secs s (target_key ec)) y)) s1"
    if "ecs s1 = ecs s" "secs s1 = secs s" for s1
    by (rule delete_target [OF name]) (use that key in auto)
  have revoke: "wp (State (prov_Revoke p h)) (\<lambda>_ s'. ecs s' = ecs s \<and> secs s' = secs s) s1"
    if "ecs s1 = ecs s" "secs s1 = secs s" "Registry_Get (r_Providers r) n = Some p" for p n h s1
    unfolding wp_State using revoke_keeps [OF that(3)] that(1,2) by force
  show ?thesis
    unfolding Reconcile_def wp_bind
    apply (rule wp_get_ok [OF stored req], simp only: sum.case del if_True not_False_eq_True reconcileDelete_def not_True_eq_False if_False wp_bind)
    apply (rule wp_mono [of _ "\<lambda>_ s'. ecs s' = ecs s \<and> secs s' = secs s"])
     apply (auto simp: wp_return split: option.split intro!: revoke)[1]
    apply (simp only: wp_bind, rule wp_mono [OF drop], simp, simp)
    apply (elim conjE, simp only: option.case wp_bind, rule wp_mono [OF release], assumption, assumption)
    apply (auto simp: wp_return)
    done
qed

section \<open>Time passes\<close>

text \<open>No part of a reconcile turns the clock back.\<close>

lemma later_State: "(\<And>s. clock s \<le> clock (snd (f s))) \<Longrightarrow> preserves (\<lambda>s. c \<le> clock s) (State f)"
  by (auto simp: preserves_def intro: order_trans)

lemma later_calls:
  "preserves (\<lambda>s. c \<le> clock s) (State (k_Get_Secret (r_Client r) n))"
  "preserves (\<lambda>s. c \<le> clock s) (State (k_Update_EC (r_Client r) ec))"
  "preserves (\<lambda>s. c \<le> clock s) (State (k_Status_Update (r_Client r) ec))"
  "preserves (\<lambda>s. c \<le> clock s) (State (k_Delete_Secret (r_Client r) x))"
  "preserves (\<lambda>s. c \<le> clock s) (State (k_CreateOrUpdate (r_Client r) x f))"
  by (rule later_State, rule get_secret_time update_time status_time delete_time write_time)+

lemma later_reads: "preserves (\<lambda>s. c \<le> clock s) (now r)" "preserves (\<lambda>s. c \<le> clock s) (event r ec ty re ms)"
proof -
  have "clock s \<le> clock (snd (run_state (now r) s))" for s using now_time [of s] by (metis order_trans prod.collapse)
  then show "preserves (\<lambda>s. c \<le> clock s) (now r)" by (auto simp: preserves_def intro: order_trans)
  show "preserves (\<lambda>s. c \<le> clock s) (event r ec ty re ms)"
    by (cases "r_Recorder r") (auto simp: preserves_def event_def intro: order_trans [OF _ event_time])
qed

lemma later_report: "preserves (\<lambda>s. c \<le> clock s) (setReadyCondition r ec a b m)"
  unfolding setReadyCondition_def by (rule preserves_reader)

lemma later_delete: "preserves (\<lambda>s. c \<le> clock s) (deleteTargetSecret r ec)"
  unfolding deleteTargetSecret_def using later_calls by blast

lemma later_fail: "preserves (\<lambda>s. c \<le> clock s) (failStatus r ec re ms k b)"
  unfolding failStatus_def by (auto intro!: later_calls later_reads later_report later_delete)

lemma later_rotate:
  assumes p: "Registry_Get (r_Providers r) n = Some p"
  shows "preserves (\<lambda>s. c \<le> clock s) (rotateCredential r ec p t)"
proof -
  have prov: "preserves (\<lambda>s. c \<le> clock s) (State (prov_Mint p q))" "preserves (\<lambda>s. c \<le> clock s) (State (prov_Revoke p h))" for q h
    by (rule later_State, rule mint_time [OF p], rule later_State, rule revoke_time [OF p])
  have revoke: "preserves (\<lambda>s. c \<le> clock s) (revokePrevious r x p h)" for x h
    unfolding revokePrevious_def using prov(2) later_reads by auto
  have finish: "preserves (\<lambda>s. c \<le> clock s) (finishMint r x p t h m)" for x h m
    unfolding finishMint_def Let_def by (auto intro!: later_calls later_reads later_report revoke)
  have scope: "preserves (\<lambda>s. c \<le> clock s) (buildScope (r_Client r) ns spec)" for ns spec
    unfolding buildScope_def buildGitHubScope_def Let_def using later_calls(1) by blast
  have put: "preserves (\<lambda>s. c \<le> clock s) (writeTargetSecret r x m)" for x m
    unfolding writeTargetSecret_def using later_calls(5) by blast
  show ?thesis
    unfolding rotateCredential_def Let_def by (auto intro!: scope prov(1) put finish later_fail later_calls(2))
qed

lemma wp_later: "preserves (\<lambda>s. c \<le> clock s) m \<Longrightarrow> c \<le> clock s \<Longrightarrow> wp m (\<lambda>_ s'. c \<le> clock s') s"
  by (auto simp: wp_def preserves_def split: prod.split)

section \<open>A healthy credential\<close>

lemma healthy_untouched:
  assumes stored: "ecs s req = Some ec" and req: "ec_key ec = req"
    and live: "deletion_is_zero (om_DeletionTimestamp (ec_Meta ec))"
      "k_ContainsFinalizer (r_Client r) (ec_Meta ec) FinalizerName"
    and p: "Registry_Get (r_Providers r) (spec_Provider (ec_Spec ec)) = Some p"
    and name: "ts_Name (spec_TargetSecret (ec_Spec ec)) \<noteq> []"
    and sec: "secs s (target_key ec) = Some x" "sec_key x = target_key ec"
    and exp: "st_ExpiresAt (ec_Status ec) = Some e" "is_duration (e - clock s)"
    and gen: "om_Generation (ec_Meta ec) = st_ObservedGeneration (ec_Status ec)"
  shows "wp (Reconcile r req) (\<lambda>out s'. clock s' + rotation_window ec < e \<longrightarrow> calm s s' \<and>
    (\<exists>t. clock s \<le> t \<and> t \<le> clock s' \<and>
       out = (\<lparr>res_Requeue = False, res_RequeueAfter = max (5 * 10 ^ 9) (e - rotation_window ec - t)\<rparr>, None))) s"
    (is "wp _ ?Q s")
proof -
  have late: "wp (rotateCredential r ec p t) ?Q s1" if "\<not> outside_window t ec" "t \<le> clock s1" for t s1
    by (rule wp_mono [OF wp_later [OF later_rotate [OF p] that(2)]]) (use that(1) gen exp(1) in \<open>auto simp: outside_window_def\<close>)
  have delay: "requeueDelay e (rotation_window ec) t = max (5 * 10 ^ 9) (e - rotation_window ec - t)"
    if "clock s \<le> t" "t \<le> e" for t
    using requeueDelay_eq [of "rotation_window ec" e t] window_is_duration [of ec] exp(2) that
    by (simp add: is_duration_def duration_consts)
  have found: "wp (targetSecretExists r ec) Q s1" if "calm s s1" "\<And>s2. calm s1 s2 \<Longrightarrow> Q (Inr True) s2" for Q s1
    unfolding targetSecretExists_def if_not_P [OF name] wp_bind
    by (rule wp_get_secret_ok [of _ _ x]) (use that sec in \<open>simp_all add: wp_return\<close>)
  have idle: "?Q (\<lparr>res_Requeue = False, res_RequeueAfter = requeueDelay e (rotation_window ec) t\<rparr>, None) s2"
    if "outside_window t ec" "clock s \<le> t" "t \<le> clock s2" "calm s s2" for t s2
  proof -
    have "t \<le> e" using that(1) window_is_duration(1) [of ec] exp(1) by (auto simp: outside_window_def)
    then show ?thesis using that delay by auto
  qed
  note due = needsMint_iff [of _ ec, unfolded effective_window_eq]
  show ?thesis
    unfolding Reconcile_def wp_bind Let_def
    apply (rule wp_get_ok [OF stored req], simp only: sum.case live not_True_eq_False if_False p option.case wp_bind)
    apply (rule wp_now_at, simp only: effective_window_eq due not_not exp(1) option.sel)
    apply (rule if_split [THEN iffD2], intro conjI impI)
     apply (simp only: wp_bind, rule found, simp)
     apply (simp (no_asm) only: sum.case if_True wp_return, rule idle, assumption, simp, simp, simp)
    apply (rule late, simp_all)
    done
qed

section \<open>A failure while the credential is valid\<close>

lemma fail_stays_ready:
  assumes stored: "ecs s (ec_key ec) = Some ec" and exp: "st_ExpiresAt (ec_Status ec) = Some e"
  shows "wp (failStatus r ec re ms c b) (\<lambda>out s'. clock s' < e \<longrightarrow> secs s' = secs s \<and> stays_ready ecs ec s') s"
    (is "wp _ ?Q s")
proof -
  have announce: "wp (event r ec2 ty re ms) (\<lambda>_ s'. secs s' = secs s \<and> stays_ready ecs ec s') s2"
    if "secs s2 = secs s" "stays_ready ecs ec s2" for ec2 ty s2
    by (rule wp_event_calm) (use that in \<open>simp add: stays_ready_def\<close>)
  have report: "wp (setReadyCondition r (status_update (st_State_update (\<lambda>_. StateExpiring)) ec) ConditionTrue ReasonRotationFailed m)
     (\<lambda>ec1. wp (State (k_Status_Update (r_Client r) ec1)) Q) s1"
    if "ecs s1 = ecs s" "secs s1 = secs s" "\<And>ec2 s2. secs s2 = secs s \<Longrightarrow> stays_ready ecs ec s2 \<Longrightarrow> Q (Inr ec2) s2" for s1 m Q
    apply (rule wp_setReady, rule wp_status_ok [of _ _ ec])
      apply (simp_all add: that(1) stored)
    apply (rule that(3), use that(2) in \<open>auto simp: stays_ready_def same_status_def object_key_def dest: same_object_fields(1)\<close>)
    done
  show ?thesis
    unfolding failStatus_def
  proof (subst wp_bind, rule wp_now_at, goal_cases)
    case (1 t s1)
    show ?case
    proof (cases "time_Before t e")
      case True
      show ?thesis
        unfolding exp option.case if_P [OF True] wp_bind
        by (rule report, use 1 in simp, use 1 in simp, simp only: sum.case wp_bind, rule wp_mono [OF announce])
           (simp_all add: wp_return)
    next
      case False
      then have "e \<le> clock s1" using 1 by (simp add: time_Before_def)
      then show ?thesis
        by (intro wp_mono [OF wp_later [of e]]) (auto intro!: later_calls later_reads later_report later_delete)
    qed
  qed
qed

lemma missing_stays_ready:
  assumes stored: "ecs s req = Some ec" and req: "ec_key ec = req"
    and live: "deletion_is_zero (om_DeletionTimestamp (ec_Meta ec))"
      "k_ContainsFinalizer (r_Client r) (ec_Meta ec) FinalizerName"
    and exp: "st_ExpiresAt (ec_Status ec) = Some e" and none: "secs s (target_key ec) = None"
  shows "wp (Reconcile r req) (\<lambda>out s'. snd out \<noteq> None \<longrightarrow> clock s' < e \<longrightarrow> secs s' = secs s \<and> stays_ready ecs ec s') s"
    (is "wp _ ?Q s")
proof -
  have fail: "wp (failStatus r ec re ms c b) ?Q s1" if "calm s s1" for re ms c b s1
    by (rule wp_mono [OF fail_stays_ready]) (use that stored req exp in auto)
  have rot: "wp (rotateCredential r ec p t) ?Q s1" if "calm s s1" "Registry_Get (r_Providers r) n = Some p" for p n t s1
    unfolding rotateCredential_def wp_bind Let_def
    apply (rule scope_calm, rule wp_sumI, rule fail, use that in simp)
    apply (simp only: wp_bind, rule wp_mint_calm [OF that(2)], rule wp_sumI, rule fail, use that in simp)
    apply (simp only: wp_bind, rule write_target, use none that in simp, use none that in simp)
    apply (simp only: option.case, rule wp_sumI, erule notE [OF encodeHandle_never_fails], simp only: wp_bind)
    apply (rule wp_update_ok [of _ _ ec], use that stored req in \<open>simp_all add: live object_key_def\<close>)
    apply (rule wp_mono [OF finish_succeeds [OF that(2)]], simp_all add: object_key_def)
    done
  have probe: "wp (targetSecretExists r ec) Q s1" if "calm s s1" "\<And>s2. calm s1 s2 \<Longrightarrow> Q (Inr False) s2" for Q s1
  proof (cases "ts_Name (spec_TargetSecret (ec_Spec ec)) = []")
    case False
    show ?thesis
      unfolding targetSecretExists_def if_not_P [OF False] wp_bind
      by (rule wp_get_secret_none) (use that none in \<open>simp_all add: wp_return\<close>)
  qed (use that in \<open>simp add: targetSecretExists_def wp_return\<close>)
  show ?thesis
    unfolding Reconcile_def wp_bind Let_def
    apply (rule wp_get_ok [OF stored req], simp only: sum.case live not_True_eq_False if_False)
    apply (rule wp_optionI, rule fail, simp)
    apply (simp only: wp_bind, rule wp_now_at, rule if_split [THEN iffD2], intro conjI impI)
     apply (simp only: wp_bind, rule probe, simp, simp (no_asm) only: sum.case if_False wp_bind)
     apply (rule wp_event_calm, rule rot, simp, assumption)
    apply (rule rot, simp, assumption)
    done
qed

end

interpretation mem_api: responsive_api mem_reconciler m_ecs m_secs m_clock
proof (rule responsive_api.intro [OF mem_broker.broker_env_axioms], unfold_locales, goal_cases)
  case (9 x f s s' out y)
  then show ?case
    by (auto simp: mem_reconciler_def mem_k8s_def mem_CreateOrUpdate_def object_key_def split: sum.splits)
next
  case (10 ec x)
  then show ?case by (auto simp: mem_reconciler_def mem_k8s_def mem_SetControllerReference_def adoptable_def)
next
  case (11 ec x y)
  then show ?case
    by (auto simp: mem_reconciler_def mem_k8s_def mem_SetControllerReference_def adoptable_def object_key_def split: if_splits)
next
  case (23 nm p s q)
  then show ?case by (auto simp: mem_provider_def split: if_splits)
next
  case (24 nm p s c)
  then show ?case by (auto simp: mem_provider_def split: if_splits)
qed (auto simp: mem_reconciler_def mem_k8s_def mem_Get_EC_def mem_Get_Secret_def mem_Update_EC_def mem_Status_Update_def
    mem_Delete_Secret_def mem_CreateOrUpdate_def NotFound_def now_def Let_def split: option.splits sum.splits)

section \<open>Properties\<close>

text \<open>
  C5. No expired credential is kept. Where the API server answers, a reconcile of a live resource whose credential has
  expired ends, whatever the providers answer and for every configuration, in one of two ways: a new
  credential is in place, or the target Secret is gone (marked as deleted, if it has finalizers of its own) and the status is Failed with Ready=False.
\<close>

theorem expired_secret_removed:
  assumes "responsive_api r ecs secs clock"
    and "ecs s req = Some ec" and "ec_key ec = req"
    and "deletion_is_zero (om_DeletionTimestamp (ec_Meta ec))"
    and "k_ContainsFinalizer (r_Client r) (ec_Meta ec) FinalizerName"
    and "st_ExpiresAt (ec_Status ec) = Some e" and "e \<le> clock s"
    and "ts_Name (spec_TargetSecret (ec_Spec ec)) \<noteq> []"
    and "\<And>x. secs s (target_key ec) = Some x \<Longrightarrow> sec_key x = target_key ec"
    and "run_state (Reconcile r req) s = (out, s')"
  shows "removed ecs secs ec (secs s (target_key ec)) s' \<or>
    (\<exists>p t. Registry_Get (r_Providers r) (spec_Provider (ec_Spec ec)) = Some p \<and>
       rotated ecs secs p ec t (secs s (target_key ec)) s')"
  using wp_run [OF responsive_api.expired_replaced_or_removed [OF assms(1-9)] assms(10)] by simp

text \<open>A resource whose provider is not registered and whose credential expired long ago.\<close>

theorem expired_secret_removed_witness:
  "m_secs (snd (run_state (Reconcile mem_reconciler sample_req) (sample_world (with_expiry (500 * Second) vault_ec))))
     (''builds'', ''github-token'') = None"
proof -
  let ?ec = "with_expiry (500 * Second) vault_ec"
  let ?run = "run_state (Reconcile mem_reconciler sample_req) (sample_world ?ec)"
  have "removed m_ecs m_secs ?ec (m_secs (sample_world ?ec) (target_key ?ec)) (snd ?run) \<or>
    (\<exists>p t. Registry_Get (r_Providers mem_reconciler) (spec_Provider (ec_Spec ?ec)) = Some p \<and>
       rotated m_ecs m_secs p ?ec t (m_secs (sample_world ?ec) (target_key ?ec)) (snd ?run))"
    by (rule expired_secret_removed [OF mem_api.responsive_api_axioms, where out = "fst ?run"])
      (auto simp: sample_world_def object_key_def target_key_def sample_ec_def sample_secret_def sample_config_def
        Second_def mem_reconciler_def mem_k8s_def deletion_is_zero_def)
  then show ?thesis by (auto simp: removed_def target_key_def)
qed

text \<open>
  C7. A deletion completes. Where the API server answers, the first reconcile of a deleted resource releases it, whatever the
  provider answers to the revocation and also when the provider is not registered: no error and no retry, the target
  Secret is gone (marked as deleted, if it has finalizers of its own), the resource has lost exactly the finalizer of the broker and does not exist any more if it had no
  other, and no other resource and no other Secret has changed.
\<close>

theorem deletion_completes:
  assumes "responsive_api r ecs secs clock"
    and "ecs s req = Some ec" and "ec_key ec = req"
    and "\<not> deletion_is_zero (om_DeletionTimestamp (ec_Meta ec))"
    and "k_ContainsFinalizer (r_Client r) (ec_Meta ec) FinalizerName"
    and "ts_Name (spec_TargetSecret (ec_Spec ec)) \<noteq> []"
    and "\<And>x. secs s (target_key ec) = Some x \<Longrightarrow> sec_key x = target_key ec"
  shows "fst (run_state (Reconcile r req) s) = (emptyResult, None) \<and>
    dismissed ecs secs ec s (snd (run_state (Reconcile r req) s))"
  by (rule wp_run [OF responsive_api.deletion_dismisses [OF assms]]) simp_all

text \<open>A deleted resource on the in-memory server that has no other finalizer.\<close>

theorem deletion_completes_witness:
  "m_ecs (snd (run_state (Reconcile mem_reconciler sample_req) (sample_world (with_deletion fresh_ec)))) sample_req = None"
proof -
  let ?ec = "with_deletion fresh_ec"
  let ?run = "run_state (Reconcile mem_reconciler sample_req) (sample_world ?ec)"
  have "dismissed m_ecs m_secs ?ec (sample_world ?ec) (snd ?run)"
    by (rule deletion_completes [OF mem_api.responsive_api_axioms, THEN conjunct2])
      (auto simp: sample_world_def object_key_def target_key_def sample_ec_def sample_secret_def
        Second_def mem_reconciler_def mem_k8s_def deletion_is_zero_def zero_time_def)
  then show ?thesis
    by (auto simp: dismissed_def sample_ec_def object_key_def split: option.splits)
qed

text \<open>
  C33. A healthy resource is left alone and looked at again in time. Let its credential be minted for the current spec, its target Secret exist,
  and let the reconcile end before the rotation window opens. Then the reconcile changes nothing and asks to
  be woken up exactly when the window opens, counted from its reading of the clock, or after five seconds if that is later.
\<close>

theorem healthy_left_alone:
  assumes "responsive_api r ecs secs clock"
    and "ecs s req = Some ec" and "ec_key ec = req"
    and "deletion_is_zero (om_DeletionTimestamp (ec_Meta ec))"
    and "k_ContainsFinalizer (r_Client r) (ec_Meta ec) FinalizerName"
    and "Registry_Get (r_Providers r) (spec_Provider (ec_Spec ec)) = Some p"
    and "ts_Name (spec_TargetSecret (ec_Spec ec)) \<noteq> []"
    and "secs s (target_key ec) = Some x" and "sec_key x = target_key ec"
    and "st_ExpiresAt (ec_Status ec) = Some e" and "is_duration (e - clock s)"
    and "om_Generation (ec_Meta ec) = st_ObservedGeneration (ec_Status ec)"
    and "run_state (Reconcile r req) s = (out, s')" and "clock s' + rotation_window ec < e"
  shows "ecs s' = ecs s \<and> secs s' = secs s \<and>
    (\<exists>t. clock s \<le> t \<and> t \<le> clock s' \<and>
       out = (\<lparr>res_Requeue = False, res_RequeueAfter = max (5 * 10 ^ 9) (e - rotation_window ec - t)\<rparr>, None))"
  using wp_run [OF responsive_api.healthy_untouched [OF assms(1-12)] assms(13)] assms(14) by blast

text \<open>An hour granted at second 1000 with a window of ten minutes, looked at in the same second.\<close>

theorem healthy_left_alone_witness:
  "fst (run_state (Reconcile mem_reconciler sample_req) (sample_world (with_expiry (4600 * Second) fresh_ec))) =
    (\<lparr>res_Requeue = False, res_RequeueAfter = 3000 * Second\<rparr>, None)"
proof -
  let ?ec = "with_expiry (4600 * Second) fresh_ec"
  let ?run = "run_state (Reconcile mem_reconciler sample_req) (sample_world ?ec)"
  have w: "rotation_window ?ec = 600 * 10 ^ 9"
    by (simp add: rotation_window_def Let_def Second_def)
  have there: "m_ecs (sample_world ?ec) sample_req = Some ?ec" "m_secs (sample_world ?ec) (target_key ?ec) = Some sample_secret"
    "sec_key sample_secret = target_key ?ec"
    by (simp_all add: sample_world_def target_key_def sample_secret_def object_key_def)
  have "?run = (fst ?run, snd ?run)" by simp
  from healthy_left_alone [OF mem_api.responsive_api_axioms _ _ _ _ _ _ _ _ _ _ _ this, of ?ec mem_provider sample_secret "4600 * Second"] there
  obtain t where "1000 * Second \<le> t" "t \<le> 1000 * Second"
    "fst ?run = (\<lparr>res_Requeue = False, res_RequeueAfter = max (5 * 10 ^ 9) (4600 * Second - 600 * 10 ^ 9 - t)\<rparr>, None)"
    unfolding w by (auto simp: is_duration_def duration_consts)
  then show ?thesis by (simp add: Second_def)
qed

end
