(* ===== verification/Liveness.thy ===== *)
theory Liveness
  imports Responsive
begin

text \<open>
  What happens when nothing goes wrong: in an environment of \<open>responsive_api\<close> whose provider grants the request of a resource, every
  rotation of this resource succeeds, and a new resource has its credential after two reconciles, the first of
  which asks to be run again. Of the provider nothing is assumed but that it grants this one request.
\<close>

text \<open>
  \<open>configured secrets ec q\<close>: a resource that can be served. It is live, with a usable GitHub configuration, and its target Secret, if there is
  one, can be taken over by the broker. \<open>q\<close> is the request its configuration leads to: the App's ID and private key from
  the configuration Secret, the repositories and permissions of the spec.
\<close>

definition configured :: "(NamespacedName \<Rightarrow> Secret option) \<Rightarrow> EphemeralCredential \<Rightarrow> MintRequest \<Rightarrow> bool" where
  "configured secrets ec q \<longleftrightarrow>
     deletion_is_zero (om_DeletionTimestamp (ec_Meta ec)) \<and> spec_Provider (ec_Spec ec) = ProviderGitHubApp \<and>
     ts_Name (spec_TargetSecret (ec_Spec ec)) \<noteq> [] \<and>
     (\<forall>x. secrets (target_key ec) = Some x \<longrightarrow> adoptable ec x) \<and>
     (\<exists>cfg sec a k. pc_GitHub (spec_ProviderConfig (ec_Spec ec)) = Some cfg \<and>
        lor_Name (gh_AppConfigRef cfg) \<noteq> ts_Name (spec_TargetSecret (ec_Spec ec)) \<and>
        secrets (om_Namespace (ec_Meta ec), lor_Name (gh_AppConfigRef cfg)) = Some sec \<and>
        sec_key sec = (om_Namespace (ec_Meta ec), lor_Name (gh_AppConfigRef cfg)) \<and>
        map_get (sec_Data sec) ''appId'' = Some a \<and> a \<noteq> [] \<and> map_get (sec_Data sec) ''privateKey'' = Some k \<and> k \<noteq> [] \<and>
        q = mint_request ec (ScopeGitHub \<lparr>scope_AppID = a, scope_PrivateKeyPEM = k,
              scope_Repositories = gh_Repositories cfg, scope_Permissions = gh_Permissions cfg\<rparr>))"

text \<open>A resource for which nothing was minted yet.\<close>

definition servable :: "(NamespacedName \<Rightarrow> Secret option) \<Rightarrow> EphemeralCredential \<Rightarrow> MintRequest \<Rightarrow> bool" where
  "servable secrets ec q \<longleftrightarrow> configured secrets ec q \<and> st_ExpiresAt (ec_Status ec) = None"

text \<open>The identity of a resource, which no reconcile of a live resource changes.\<close>

definition same_identity :: "EphemeralCredential \<Rightarrow> EphemeralCredential \<Rightarrow> bool" where
  "same_identity ec ec' \<longleftrightarrow> ec_Spec ec' = ec_Spec ec \<and> ec_key ec' = ec_key ec \<and>
     om_UID (ec_Meta ec') = om_UID (ec_Meta ec) \<and> om_Generation (ec_Meta ec') = om_Generation (ec_Meta ec) \<and>
     om_DeletionTimestamp (ec_Meta ec') = om_DeletionTimestamp (ec_Meta ec) \<and>
     set (om_Finalizers (ec_Meta ec)) \<subseteq> set (om_Finalizers (ec_Meta ec'))"

lemma same_identity_trans: "same_identity x y \<Longrightarrow> same_identity y z \<Longrightarrow> same_identity x z"
  unfolding same_identity_def by auto

lemma same_object_identity: "same_object ec ec' \<Longrightarrow> same_identity ec ec'"
  unfolding same_object_def same_identity_def object_key_def
  by (cases "ec_Meta ec'") (auto simp: ObjectMeta.defs)

lemma configured_identity:
  assumes "configured secrets ec q" and "same_identity ec ec'"
  shows "configured secrets ec' q"
proof -
  have key: "om_Namespace (ec_Meta ec') = om_Namespace (ec_Meta ec)" "om_Name (ec_Meta ec') = om_Name (ec_Meta ec)"
    "target_key ec' = target_key ec"
    using assms(2) by (simp_all add: same_identity_def object_key_def target_key_def)
  then have "adoptable ec' x = adoptable ec x" for x using assms(2) by (simp add: adoptable_def same_identity_def)
  moreover have "mint_request ec' = mint_request ec" using key assms(2) by (simp add: mint_request_def same_identity_def fun_eq_iff)
  ultimately show ?thesis using assms key unfolding configured_def same_identity_def by simp
qed

lemma configured_write:
  assumes "configured secrets ec q" and "adoptable ec y"
  shows "configured (secrets(target_key ec \<mapsto> y)) ec q"
  using assms unfolding configured_def
  by (elim conjE exE, intro conjI exI) (assumption | auto simp: target_key_def)+

text \<open>\<open>grants clock p q a b\<close>: from the instant \<open>a\<close> to the instant \<open>b\<close> the provider grants the request \<open>q\<close>.\<close>

definition grants :: "('s \<Rightarrow> time) \<Rightarrow> 's Provider \<Rightarrow> MintRequest \<Rightarrow> time \<Rightarrow> time \<Rightarrow> bool" where
  "grants clock p q a b \<longleftrightarrow>
     (\<forall>s. a \<le> clock s \<and> clock s \<le> b \<longrightarrow> (\<exists>m s'. prov_Mint p q s = (Inr m, s')))"

context responsive_api
begin

lemma scope_ok:
  assumes "configured (secs s) ec q"
    and "\<And>sc s'. calm s s' \<Longrightarrow> mint_request ec sc = q \<Longrightarrow> Q (Inr sc) s'"
  shows "wp (buildScope (r_Client r) (om_Namespace (ec_Meta ec)) (ec_Spec ec)) Q s"
proof -
  obtain cfg sec a k where c: "pc_GitHub (spec_ProviderConfig (ec_Spec ec)) = Some cfg"
    "secs s (om_Namespace (ec_Meta ec), lor_Name (gh_AppConfigRef cfg)) = Some sec"
    "sec_key sec = (om_Namespace (ec_Meta ec), lor_Name (gh_AppConfigRef cfg))"
    and app: "map_get (sec_Data sec) ''appId'' = Some a" "a \<noteq> []" "map_get (sec_Data sec) ''privateKey'' = Some k" "k \<noteq> []"
    and q: "mint_request ec (ScopeGitHub \<lparr>scope_AppID = a, scope_PrivateKeyPEM = k,
              scope_Repositories = gh_Repositories cfg, scope_Permissions = gh_Permissions cfg\<rparr>) = q"
    and p: "spec_Provider (ec_Spec ec) = ProviderGitHubApp"
    using assms(1) unfolding configured_def by blast
  show ?thesis
    unfolding buildScope_def buildGitHubScope_def Let_def
    using c p app
    by (simp add: wp_bind) (rule wp_get_secret_ok [OF c(2,3)], auto simp: wp_return c intro!: assms(2) q)
qed

text \<open>What a rotation that was not disturbed leaves behind, and the wake-up it asks for.\<close>

definition serves :: "'s Provider \<Rightarrow> MintRequest \<Rightarrow> EphemeralCredential \<Rightarrow> time \<Rightarrow> 's \<Rightarrow> outcome \<Rightarrow> 's \<Rightarrow> bool" where
  "serves p q ec t s out s' \<longleftrightarrow> clock s \<le> clock s' \<and>
     (\<exists>mint s1 s2 ec' sec. prov_Mint p q s1 = (Inr mint, s2) \<and> clock s \<le> clock s1 \<and> clock s2 \<le> clock s' \<and>
        out = (\<lparr>res_Requeue = False, res_RequeueAfter = requeueDelay (mint_ExpiresAt mint)
          (fst (clampRotateBefore (requestedRotateBefore ec) (time_Sub (mint_ExpiresAt mint) t))) t\<rparr>, None) \<and>
        ecs s' (ec_key ec) = Some ec' \<and> minted_as ec t mint ec' \<and> same_identity ec ec' \<and>
        secs s' = (secs s)(target_key ec \<mapsto> sec) \<and> adoptable ec sec \<and>
        same_secret (mutateTargetSecret ec mint
          (case secs s (target_key ec) of None \<Rightarrow> newTargetSecret ec | Some x \<Rightarrow> x)) sec)"

lemma requested_same_spec: "ec_Spec ec' = ec_Spec ec \<Longrightarrow> requestedRotateBefore ec' = requestedRotateBefore ec"
  by (simp add: requestedRotateBefore_def)

lemma servesI:
  assumes mint: "prov_Mint p q s1 = (Inr mint, s2)" "clock s \<le> clock s1" "clock s1 \<le> clock s2" "clock s2 \<le> clock s'"
    and obj: "same_object (ec\<lparr>ec_Meta := (ec_Meta ec)\<lparr>om_Annotations := a\<rparr>\<rparr>) ec2"
    and stored: "ecs s' (ec_key ec2) = Some ec'" "minted_as ec2 t mint ec'" "same_identity ec2 ec'"
    and sec: "secs s' = (secs s)(target_key ec \<mapsto> sec)" "adoptable ec sec" "same_secret (mutateTargetSecret ec mint
          (case secs s (target_key ec) of None \<Rightarrow> newTargetSecret ec | Some x \<Rightarrow> x)) sec"
  shows "serves p q ec t s (\<lparr>res_Requeue = False, res_RequeueAfter = requeueDelay (mint_ExpiresAt mint)
          (fst (clampRotateBefore (requestedRotateBefore ec2) (time_Sub (mint_ExpiresAt mint) t))) t\<rparr>, None) s'"
proof -
  have "same_identity ec ec2" using same_object_identity [OF obj] by (simp add: same_identity_def object_key_def)
  then have fields: "ec_key ec2 = ec_key ec" "ec_Spec ec2 = ec_Spec ec" and ident: "same_identity ec ec'"
    using stored(3) by (auto simp: same_identity_def)
  have "minted_as ec t mint ec'" using stored(2) fields by (simp add: minted_as_def)
  then show ?thesis
    unfolding serves_def requested_same_spec [OF fields(2)] using mint ident sec stored(1) fields(1)
    by (intro conjI exI) (assumption | simp)+
qed

lemma finish_serves:
  assumes p: "Registry_Get (r_Providers r) n = Some p" and "ecs s (ec_key ec) = Some ec"
    and Q: "\<And>ec' s'. ecs s' (ec_key ec) = Some ec' \<Longrightarrow> minted_as ec t mint ec' \<Longrightarrow> same_identity ec ec' \<Longrightarrow>
      secs s' = secs s \<Longrightarrow> clock s \<le> clock s' \<Longrightarrow>
      Q (\<lparr>res_Requeue = False, res_RequeueAfter = requeueDelay (mint_ExpiresAt mint)
          (fst (clampRotateBefore (requestedRotateBefore ec) (time_Sub (mint_ExpiresAt mint) t))) t\<rparr>, None) s'"
  shows "wp (finishMint r ec p t prev mint) Q s"
  unfolding finishMint_def wp_bind Let_def case_prod_unfold
proof (rule wp_setReady, rule wp_status_ok [of _ _ ec], goal_cases)
  case (3 x cs ec' s1)
  have same: "minted_as ec t mint ec'" using minted_as_stored [OF 3(3,4,1)] 3(2) by simp
  have ident: "same_identity ec ec'" using same_object_identity [OF 3(3)] 3(2) by (simp add: same_identity_def)
  have spec: "ec_Spec ec' = ec_Spec ec" and key: "ec_key ec' = ec_key ec" using ident by (simp_all add: same_identity_def)
  have done': "Q (\<lparr>res_Requeue = False, res_RequeueAfter = requeueDelay (mint_ExpiresAt mint)
      (fst (clampRotateBefore (requestedRotateBefore ec') (time_Sub (mint_ExpiresAt mint) t))) t\<rparr>, None) s2"
    if "calm s1 s2" for s2
    unfolding requested_same_spec [OF spec] by (rule Q [OF _ same ident]) (use that 3 key in auto)
  show ?case
    by (auto intro!: wp_event_calm wp_revokePrevious_calm [OF p] done' simp: wp_simps)
qed (simp_all add: assms(2))

text \<open>
  The rotation of a configured resource serves it, if it ends in the time in which the provider grants its request.
\<close>

lemma rotate_serves:
  assumes p: "Registry_Get (r_Providers r) n = Some p" and stored: "ecs s (ec_key ec) = Some ec"
    and ok: "configured (secs s) ec q" and grant: "grants clock p q a b" and "a \<le> clock s"
  shows "wp (rotateCredential r ec p t) (\<lambda>out s'. clock s' \<le> b \<longrightarrow> serves p q ec t s out s') s"
    (is "wp _ ?Q s")
proof -
  have adopt: "\<forall>x. secs s (target_key ec) = Some x \<longrightarrow> adoptable ec x"
    and live: "deletion_is_zero (om_DeletionTimestamp (ec_Meta ec))"
    using ok by (simp_all add: configured_def)
  then have key: "sec_key x = target_key ec" if "secs s (target_key ec) = Some x" for x
    using that by (simp add: adoptable_def)
  have late: "wp (failStatus r ec re ms c x) ?Q s2"
    if "prov_Mint p q s1 = (Inl e, s2)" "calm s s1" "calm s1 s2" for re ms c x e s1 s2
  proof -
    have "\<not> (a \<le> clock s1 \<and> clock s1 \<le> b)" using grant that(1) unfolding grants_def by fastforce
    then have "b < clock s1" using that(2) \<open>a \<le> clock s\<close> by linarith
    then have "b + 1 \<le> clock s2" using that(3) by linarith
    from wp_later [OF later_fail this] show ?thesis by (rule wp_mono) simp
  qed
  have served: "?Q (\<lparr>res_Requeue = False, res_RequeueAfter = requeueDelay (mint_ExpiresAt mint)
          (fst (clampRotateBefore (requestedRotateBefore ec2) (time_Sub (mint_ExpiresAt mint) t))) t\<rparr>, None) s'"
    if "serves p q ec t s (\<lparr>res_Requeue = False, res_RequeueAfter = requeueDelay (mint_ExpiresAt mint)
          (fst (clampRotateBefore (requestedRotateBefore ec2) (time_Sub (mint_ExpiresAt mint) t))) t\<rparr>, None) s'" for mint ec2 s'
    using that by simp
  show ?thesis
    unfolding rotateCredential_def wp_bind Let_def
    apply (rule scope_ok [OF ok], simp only: sum.case wp_bind mint_request_def [symmetric])
    apply (rule wp_mint_calm [OF p], rule wp_sumI, rule late, simp, simp, simp)
    apply (simp only: wp_bind, rule write_target, use key in simp, use adopt in simp)
    apply (simp only: option.case, rule wp_sumI, erule notE [OF encodeHandle_never_fails], simp only: wp_bind)
    apply (rule wp_update_ok [of _ _ ec], simp_all add: stored [unfolded object_key_def] live object_key_def)
    apply (rule finish_serves [OF p], simp add: object_key_def)
    apply (rule served, rule servesI, assumption, simp, simp, simp, assumption+)
      apply (simp, use adopt in simp, assumption)
    done
qed

text \<open>The first reconcile of a new resource puts the finalizer on it and asks to be run again.\<close>

abbreviation protected :: "EphemeralCredential \<Rightarrow> 's \<Rightarrow> 's \<Rightarrow> bool" where
  "protected ec s s' \<equiv> secs s' = secs s \<and> clock s \<le> clock s' \<and>
     (\<exists>ec1. ecs s' (ec_key ec) = Some ec1 \<and> same_identity ec ec1 \<and> st_ExpiresAt (ec_Status ec1) = None \<and>
        k_ContainsFinalizer (r_Client r) (ec_Meta ec1) FinalizerName)"

lemma ensure_protects:
  assumes stored: "ecs s (ec_key ec) = Some ec" and live: "deletion_is_zero (om_DeletionTimestamp (ec_Meta ec))"
    and unminted: "st_ExpiresAt (ec_Status ec) = None"
  shows "wp (ensureFinalizer r ec) (\<lambda>out s'. out = (emptyResult\<lparr>res_Requeue := True\<rparr>, None) \<and> protected ec s s') s"
proof -
  define fs where "fs = om_Finalizers (k_AddFinalizer (r_Client r) (ec_Meta ec) FinalizerName)"
  let ?x = "ec\<lparr>ec_Meta := (ec_Meta ec)\<lparr>om_Finalizers := fs\<rparr>\<rparr>"
  have x: "k_AddFinalizer (r_Client r) (ec_Meta ec) FinalizerName = (ec_Meta ec)\<lparr>om_Finalizers := fs\<rparr>"
    unfolding fs_def by (rule add_only)
  have fin: "FinalizerName \<in> set fs" and sub: "set (om_Finalizers (ec_Meta ec)) \<subseteq> set fs"
    unfolding fs_def using add_finalizer contains_finalizer add_keeps by blast+
  have identx: "same_identity ec ?x" using sub by (simp add: same_identity_def object_key_def)
  show ?thesis
    unfolding ensureFinalizer_def x wp_bind
  proof (rule wp_update_ok [of _ _ ec], goal_cases)
    case 1
    show ?case using stored by (simp add: object_key_def)
  next
    case (4 ec1 s1)
    have ident1: "same_identity ec ec1" using same_identity_trans [OF identx same_object_identity [OF 4(1)]] .
    have fin1: "FinalizerName \<in> set (om_Finalizers (ec_Meta ec1))" using same_object_fields(4) [OF 4(1)] fin by simp
    have key1: "ec_key ec1 = ec_key ec" using ident1 by (simp add: same_identity_def)
    show ?case
    proof (cases "st_State (ec_Status ec1) = StateUnset")
      case True
      show ?thesis
        unfolding sum.case if_P [OF True] wp_bind
      proof (rule wp_setReady, rule wp_status_ok [of _ _ ec1], goal_cases)
        case (3 y cs ec2 s2)
        have "same_identity ec1 ec2" using same_object_identity [OF 3(3)] 3(2) by (simp add: same_identity_def)
        then have "same_identity ec ec2" and "FinalizerName \<in> set (om_Finalizers (ec_Meta ec2))"
          using same_identity_trans [OF ident1] fin1 by (auto simp: same_identity_def)
        moreover have "st_ExpiresAt (ec_Status ec2) = None"
          using 3(2,4) 4(2) unminted by (simp add: same_status_def)
        moreover have "ecs s2 (ec_key ec) = Some ec2" using 3(7) \<open>same_identity ec ec2\<close> by (simp add: same_identity_def)
        ultimately show ?case using 3(5,6) 4(3,4) by (auto simp: wp_return contains_finalizer)
      qed (use 4(5) key1 in simp_all)
    next
      case False
      then show ?thesis using 4 ident1 fin1 key1 unminted by (auto simp: wp_return contains_finalizer)
    qed
  qed (simp_all add: live)
qed

lemma first_reconcile:
  assumes stored: "ecs s req = Some ec" and key: "ec_key ec = req"
    and live: "deletion_is_zero (om_DeletionTimestamp (ec_Meta ec))" and unminted: "st_ExpiresAt (ec_Status ec) = None"
    and new: "\<not> k_ContainsFinalizer (r_Client r) (ec_Meta ec) FinalizerName"
  shows "wp (Reconcile r req) (\<lambda>out s'. out = (emptyResult\<lparr>res_Requeue := True\<rparr>, None) \<and> protected ec s s') s"
proof -
  have "wp (ensureFinalizer r ec) (\<lambda>out s'. out = (emptyResult\<lparr>res_Requeue := True\<rparr>, None) \<and> protected ec s s') s1"
    if "calm s s1" for s1
    by (rule wp_mono [OF ensure_protects]) (use that assms in auto)
  then show ?thesis
    unfolding Reconcile_def wp_bind
    by (intro wp_get_ok [OF stored key]) (simp add: live new)
qed

lemma serves_later:
  assumes "serves p q ec t s1 out s'" and "calm s s1"
  shows "serves p q ec t s out s'"
  using assms unfolding serves_def by (elim conjE exE, intro conjI exI) (assumption | simp)+

text \<open>A reconcile of a protected resource serves it, or it finds that nothing is due.\<close>

definition tended :: "'s Provider \<Rightarrow> MintRequest \<Rightarrow> EphemeralCredential \<Rightarrow> 's \<Rightarrow> outcome \<Rightarrow> 's \<Rightarrow> bool" where
  "tended p q ec s out s' \<longleftrightarrow> (\<exists>t. clock s \<le> t \<and> t \<le> clock s' \<and>
     (serves p q ec t s out s' \<or>
      calm s s' \<and> \<not> needsMint t (effective_window ec) ec \<and> secs s (target_key ec) \<noteq> None \<and>
      out = (\<lparr>res_Requeue = False, res_RequeueAfter = requeueDelay (the (st_ExpiresAt (ec_Status ec))) (effective_window ec) t\<rparr>, None)))"

lemma rotate_tends:
  assumes p: "Registry_Get (r_Providers r) n = Some p" and stored: "ecs s (ec_key ec) = Some ec"
    and ok: "configured (secs s) ec q" and s1: "calm s s1" "clock s \<le> t" "t \<le> clock s1"
    and grant: "grants clock p q a b" "a \<le> clock s"
  shows "wp (rotateCredential r ec p t) (\<lambda>out s'. clock s' \<le> b \<longrightarrow> tended p q ec s out s') s1"
proof (rule wp_mono [OF rotate_serves [OF p, of s1 ec q a b]])
  have "tended p q ec s out s'" if "serves p q ec t s1 out s'" for out s'
  proof -
    have "clock s1 \<le> clock s'" using that by (simp add: serves_def)
    then have "serves p q ec t s out s'" "t \<le> clock s'" using that s1 serves_later by simp_all
    then show ?thesis using s1 unfolding tended_def by blast
  qed
  then show "clock s' \<le> b \<longrightarrow> tended p q ec s out s'" if "clock s' \<le> b \<longrightarrow> serves p q ec t s1 out s'" for out s'
    using that by blast
qed (use s1 stored ok grant in simp_all)

lemma probe_target:
  assumes ok: "configured (secs s) ec q"
    and "\<And>s'. calm s s' \<Longrightarrow> Q (Inr (secs s (target_key ec) \<noteq> None)) s'"
  shows "wp (targetSecretExists r ec) Q s"
proof -
  have key: "sec_key x = target_key ec" if "secs s (target_key ec) = Some x" for x
    using ok that by (simp_all add: configured_def adoptable_def)
  have name: "ts_Name (spec_TargetSecret (ec_Spec ec)) \<noteq> []" using ok by (simp add: configured_def)
  show ?thesis
  proof (cases "secs s (target_key ec)")
    case None
    then show ?thesis
      unfolding targetSecretExists_def if_not_P [OF name] wp_bind
      by (intro wp_get_secret_none [OF None]) (use assms(2) in \<open>simp add: wp_return\<close>)
  next
    case (Some x)
    then show ?thesis
      unfolding targetSecretExists_def if_not_P [OF name] wp_bind
      by (intro wp_get_secret_ok [OF Some key [OF Some]]) (use assms(2) in \<open>simp add: wp_return\<close>)
  qed
qed

lemma tending_reconcile:
  assumes stored: "ecs s req = Some ec" and key: "ec_key ec = req" and ok: "configured (secs s) ec q"
    and fin: "k_ContainsFinalizer (r_Client r) (ec_Meta ec) FinalizerName"
    and p: "Registry_Get (r_Providers r) (spec_Provider (ec_Spec ec)) = Some p"
    and grant: "grants clock p q a b" "a \<le> clock s"
  shows "wp (Reconcile r req) (\<lambda>out s'. clock s' \<le> b \<longrightarrow> tended p q ec s out s') s"
proof -
  have live: "deletion_is_zero (om_DeletionTimestamp (ec_Meta ec))" using ok by (simp add: configured_def)
  have rot: "wp (rotateCredential r ec p t) (\<lambda>out s'. clock s' \<le> b \<longrightarrow> tended p q ec s out s') s1"
    if "calm s s1" "clock s \<le> t" "t \<le> clock s1" for t s1
    by (rule rotate_tends [OF p]) (use that stored key ok grant in simp_all)
  show ?thesis
    unfolding Reconcile_def wp_bind
    apply (rule wp_get_ok [OF stored key], simp only: sum.case live fin not_True_eq_False if_False p option.case wp_bind)
    apply (rule wp_now_at, simp only: Let_def wp_if)
    apply (rule if_split [THEN iffD2], intro conjI impI, simp only: wp_bind)
     apply (rule probe_target [where q = q], simp add: ok, simp only: sum.case wp_if)
     apply (rule if_split [THEN iffD2], intro conjI impI)
      apply (simp only: wp_return tended_def, use order_trans in fastforce)
     apply (simp only: wp_bind, rule wp_event_calm, rule rot, auto)
    apply (rule rot, auto)
    done
qed


lemma two_reconciles:
  assumes stored: "ecs s req = Some ec" and key: "ec_key ec = req" and ok: "servable (secs s) ec q"
    and new: "\<not> k_ContainsFinalizer (r_Client r) (ec_Meta ec) FinalizerName"
    and p: "Registry_Get (r_Providers r) (spec_Provider (ec_Spec ec)) = Some p"
    and grant: "\<And>b. grants clock p q (clock s) b"
  shows "\<exists>res1 s1 ec1 res2 s2 t.
    run_state (Reconcile r req) s = ((res1, None), s1) \<and> res_Requeue res1 \<and>
    ecs s1 req = Some ec1 \<and> ec_Spec ec1 = ec_Spec ec \<and> ec_key ec1 = req \<and>
    run_state (Reconcile r req) s1 = ((res2, None), s2) \<and> clock s1 \<le> t \<and> rotated ecs secs p ec1 t (secs s (target_key ec)) s2"
proof -
  have conf: "configured (secs s) ec q" and live: "deletion_is_zero (om_DeletionTimestamp (ec_Meta ec))"
    and unminted: "st_ExpiresAt (ec_Status ec) = None"
    using ok by (simp_all add: servable_def configured_def)
  obtain out1 s1 where run1: "run_state (Reconcile r req) s = (out1, s1)" by (metis prod.collapse)
  from wp_run [OF first_reconcile [OF stored key live unminted new] run1] key obtain ec1 where
    one: "out1 = (emptyResult\<lparr>res_Requeue := True\<rparr>, None)" "secs s1 = secs s" "ecs s1 req = Some ec1"
      "same_identity ec ec1" "k_ContainsFinalizer (r_Client r) (ec_Meta ec1) FinalizerName" "st_ExpiresAt (ec_Status ec1) = None"
    and later: "clock s \<le> clock s1" by auto
  have same: "ec_Spec ec1 = ec_Spec ec" "ec_key ec1 = req" "target_key ec1 = target_key ec"
    using one(4) key by (simp_all add: same_identity_def target_key_def object_key_def)
  have conf1: "configured (secs s1) ec1 q" using configured_identity [OF conf one(4)] one(2) by simp
  have p1: "Registry_Get (r_Providers r) (spec_Provider (ec_Spec ec1)) = Some p" using p same by simp
  have due: "needsMint t w ec1" "\<not> outside_window t ec1" for t w using one(6) by (simp_all add: needsMint_def outside_window_def)
  obtain out2 s2 where run2: "run_state (Reconcile r req) s1 = (out2, s2)" by (metis prod.collapse)
  have e2: "snd out2 = None"
    using wp_run [OF tending_reconcile [OF one(3) same(2) conf1 one(5) p1 grant later] run2, of "clock s2"] due
    by (auto simp: tended_def serves_def)
  obtain s0 where get: "k_Get_EC (r_Client r) req s1 = (Inr ec1, s0)" using get_ok [OF one(3) same(2)] by (metis prod.collapse)
  obtain t s3 where now: "run_state (now r) s0 = (t, s3)" by fastforce
  have "clock s1 \<le> t" using get_time [of s1 req] get now_time [OF now] by simp
  moreover have "deletion_is_zero (om_DeletionTimestamp (ec_Meta ec1))" using conf1 by (simp add: configured_def)
  from wp_run [OF reconcile_in_place [OF get this one(5) p1] run2] e2 due(2) one(2) same now
  have "rotated ecs secs p ec1 t (secs s (target_key ec)) s2" by (auto simp: Let_def)
  ultimately show ?thesis using run1 run2 one e2 same by (cases out2) auto
qed

end

end
