(* ===== verification/Rotation_Loop.thy ===== *)
theory Rotation_Loop
  imports Liveness Isolation
begin

text \<open>
  The loop that keeps a credential alive. The work queue of controller-runtime calls \<open>Reconcile\<close> again
  after the delay the last call asked for, or earlier (a watched object changed, the broker was restarted).
  \<open>rounds\<close> describes what can happen to one resource: time passes, nobody touches the
  resource, its target Secret and its configuration; whenever the queue likes, but at most \<open>L\<close> after the requested
  wake-up, the next reconcile begins, and it takes at most \<open>D\<close>.

  If the provider grants the request of this resource, with lifetimes of at least \<open>G\<close>, and window and lifetime leave room for these delays, the
  target Secret holds a credential that is still valid in every state from the first mint on, and it stays
  valid long enough for the reconcile that replaces it.
\<close>

section \<open>The work queue\<close>

text \<open>
  When the queue runs a request again: an error and \<open>Requeue\<close> put it back with a delay of the rate limiter of
  at most \<open>B\<close>, \<open>RequeueAfter\<close> after that delay, counted from the return; otherwise only an event does.
\<close>

definition next_wake :: "duration \<Rightarrow> outcome \<Rightarrow> time \<Rightarrow> time option" where
  "next_wake B out t =
     (if snd out \<noteq> None then Some (t + B)
      else if 0 < res_RequeueAfter (fst out) then Some (t + res_RequeueAfter (fst out))
      else if res_Requeue (fst out) then Some (t + B) else None)"

text \<open>What others leave alone while they go about their business.\<close>

definition undisturbed ::
  "('s \<Rightarrow> NamespacedName \<Rightarrow> EphemeralCredential option) \<Rightarrow> ('s \<Rightarrow> NamespacedName \<Rightarrow> Secret option) \<Rightarrow>
   NamespacedName \<Rightarrow> 's \<Rightarrow> 's \<Rightarrow> bool" where
  "undisturbed ecs secs req s s' \<longleftrightarrow> ecs s' req = ecs s req \<and>
     (\<forall>ec. ecs s req = Some ec \<longrightarrow> secs s' (target_key ec) = secs s (target_key ec) \<and>
        (\<forall>cfg. pc_GitHub (spec_ProviderConfig (ec_Spec ec)) = Some cfg \<longrightarrow>
           secs s' (om_Namespace (ec_Meta ec), lor_Name (gh_AppConfigRef cfg)) =
           secs s (om_Namespace (ec_Meta ec), lor_Name (gh_AppConfigRef cfg))))"

inductive rounds ::
  "'s Reconciler \<Rightarrow> ('s \<Rightarrow> NamespacedName \<Rightarrow> EphemeralCredential option) \<Rightarrow> ('s \<Rightarrow> NamespacedName \<Rightarrow> Secret option) \<Rightarrow>
   ('s \<Rightarrow> time) \<Rightarrow> duration \<Rightarrow> duration \<Rightarrow> duration \<Rightarrow> NamespacedName \<Rightarrow> 's \<Rightarrow> 's \<Rightarrow> time option \<Rightarrow> bool"
  for r ecs secs clock B L D req s0 where
  queued: "rounds r ecs secs clock B L D req s0 s0 (Some (clock s0))"
| idle: "rounds r ecs secs clock B L D req s0 s w \<Longrightarrow> undisturbed ecs secs req s s' \<Longrightarrow> clock s \<le> clock s' \<Longrightarrow>
    (\<forall>t. w = Some t \<longrightarrow> clock s' \<le> t + L) \<Longrightarrow> rounds r ecs secs clock B L D req s0 s' w"
| reconcile: "rounds r ecs secs clock B L D req s0 s w \<Longrightarrow> run_state (Reconcile r req) s = (out, s') \<Longrightarrow>
    clock s' \<le> clock s + D \<Longrightarrow> rounds r ecs secs clock B L D req s0 s' (next_wake B out (clock s'))"

section \<open>The schedule\<close>

text \<open>
  The slack of a schedule is what a window has to leave between the wake-up and the expiry: a late start, two
  reconciles, and the six seconds that the floor of the delay and the rounding of stored instants can cost.
\<close>

definition slack :: "duration \<Rightarrow> duration \<Rightarrow> duration" where
  "slack L D = L + 2 * D + 6 * Second"

lemma wake_after_mint:
  assumes "is_duration (e - t)" and "0 \<le> L" and "0 \<le> D"
    and "slack L D \<le> requestedRotateBefore ec" and "2 * slack L D \<le> e - t" and "c \<le> t + D"
  shows "c + requeueDelay e (fst (clampRotateBefore (requestedRotateBefore ec) (time_Sub e t))) t + L + D < e"
proof -
  have g: "10000000000 \<le> e - t" using assms by (simp add: slack_def Second_def)
  have "requeueDelay e (fst (clampRotateBefore (requestedRotateBefore ec) (time_Sub e t))) t =
      e - t - min (requestedRotateBefore ec) ((e - t) div 2)"
    using delay_after_mint [OF assms(1) g, where ec = ec and now = t] by simp
  moreover have "L + 2 * D < min (requestedRotateBefore ec) ((e - t) div 2)"
    using assms by (auto simp: slack_def Second_def)
  ultimately show ?thesis using assms(6) by linarith
qed

lemma wake_when_healthy:
  assumes "st_ExpiresAt (ec_Status ec) = Some (wire_time e)" and "st_LastRotatedAt (ec_Status ec) = Some (wire_time t0)"
    and "\<not> needsMint t (fst (clampRotateBefore (requestedRotateBefore ec) (grantedLifetime ec))) ec"
    and "is_duration (e - t0 + Second)" and "0 \<le> L" and "0 \<le> D" and "t0 \<le> t"
    and "slack L D \<le> requestedRotateBefore ec" and "2 * slack L D \<le> e - t0" and "c \<le> t + D"
  shows "c + requeueDelay (wire_time e) (fst (clampRotateBefore (requestedRotateBefore ec) (grantedLifetime ec))) t + L + D < e"
proof -
  let ?w = "min (requestedRotateBefore ec) ((wire_time e - wire_time t0) div 2)"
  note wt = wire_time_bounds [of e] wire_time_bounds [of t0]
  have w: "fst (clampRotateBefore (requestedRotateBefore ec) (grantedLifetime ec)) = ?w"
    by (rule stored_window [OF _ _ assms(1,2)])
      (use assms wt in \<open>auto simp: is_duration_def duration_consts slack_def\<close>)
  have early: "t + ?w < wire_time e" using assms(1,3) unfolding w by (auto simp: needsMint_def time_Before_def time_Add_def)
  have room: "L + 2 * D + 5 * Second \<le> ?w" using assms(8,9) wt by (auto simp: slack_def Second_def)
  have "requeueDelay (wire_time e) ?w t = max 5000000000 (wire_time e - ?w - t)"
    by (rule requeueDelay_eq) (use assms early room wt in \<open>auto simp: is_duration_def duration_consts\<close>)
  then show ?thesis unfolding w using early room assms(5,6,10) wt by (auto simp: max_def Second_def)
qed

section \<open>A credential in service\<close>

text \<open>
  \<open>lifetimes clock p q a b G H\<close>: what the provider grants for the request \<open>q\<close> between \<open>a\<close> and \<open>b\<close> expires at least \<open>G\<close> after the request
  and at most \<open>H\<close> after the answer.
\<close>

definition lifetimes :: "('s \<Rightarrow> time) \<Rightarrow> 's Provider \<Rightarrow> MintRequest \<Rightarrow> time \<Rightarrow> time \<Rightarrow> duration \<Rightarrow> duration \<Rightarrow> bool" where
  "lifetimes clock p q a b G H \<longleftrightarrow>
     (\<forall>s m s'. a \<le> clock s \<longrightarrow> clock s \<le> b \<longrightarrow> prov_Mint p q s = (Inr m, s') \<longrightarrow>
        clock s + G \<le> mint_ExpiresAt m \<and> mint_ExpiresAt m \<le> clock s' + H)"

context responsive_api
begin

text \<open>
  \<open>lasting p q L D ec s w\<close>: the target Secret of \<open>ec\<close> holds a credential that \<open>p\<close> minted, the status says when it was minted and
  when it expires, and the next reconcile, which begins \<open>L\<close> after \<open>w\<close> at the latest, ends before it expires.
\<close>

definition lasting :: "'s Provider \<Rightarrow> MintRequest \<Rightarrow> duration \<Rightarrow> duration \<Rightarrow> EphemeralCredential \<Rightarrow> 's \<Rightarrow> time option \<Rightarrow> bool" where
  "lasting p q L D ec s w \<longleftrightarrow>
     (\<exists>mint s1 s2 sec old t wake.
        prov_Mint p q s1 = (Inr mint, s2) \<and> secs s (target_key ec) = Some sec \<and>
        same_secret (mutateTargetSecret ec mint old) sec \<and>
        st_ExpiresAt (ec_Status ec) = Some (wire_time (mint_ExpiresAt mint)) \<and>
        st_LastRotatedAt (ec_Status ec) = Some (wire_time t) \<and> t \<le> clock s \<and>
        2 * slack L D \<le> mint_ExpiresAt mint - t \<and> is_duration (mint_ExpiresAt mint - t + Second) \<and>
        w = Some wake \<and> clock s \<le> wake + L \<and> wake + L + D < mint_ExpiresAt mint)"

definition in_service :: "'s Provider \<Rightarrow> MintRequest \<Rightarrow> duration \<Rightarrow> duration \<Rightarrow> EphemeralCredential \<Rightarrow> NamespacedName \<Rightarrow> 's \<Rightarrow> time option \<Rightarrow> bool" where
  "in_service p q L D ec0 req s w \<longleftrightarrow>
     (\<exists>ec. ecs s req = Some ec \<and> same_identity ec0 ec \<and> configured (secs s) ec q \<and>
        (st_ExpiresAt (ec_Status ec) = None \<or>
         k_ContainsFinalizer (r_Client r) (ec_Meta ec) FinalizerName \<and> lasting p q L D ec s w))"

lemma configured_undisturbed:
  assumes "undisturbed ecs secs req s s'" and "ecs s req = Some ec" and "configured (secs s) ec q"
  shows "configured (secs s') ec q"
  using assms unfolding configured_def undisturbed_def by auto

lemma idle_keeps:
  assumes "in_service p q L D ec0 req s w" and "undisturbed ecs secs req s s'" and "clock s \<le> clock s'"
    and "\<forall>t. w = Some t \<longrightarrow> clock s' \<le> t + L"
  shows "in_service p q L D ec0 req s' w"
proof -
  from assms(1) obtain ec where ec: "ecs s req = Some ec" "same_identity ec0 ec" "configured (secs s) ec q"
    and st: "st_ExpiresAt (ec_Status ec) = None \<or>
      k_ContainsFinalizer (r_Client r) (ec_Meta ec) FinalizerName \<and> lasting p q L D ec s w"
    unfolding in_service_def by blast
  have "ecs s' req = Some ec" "secs s' (target_key ec) = secs s (target_key ec)"
    using assms(2) ec(1) by (auto simp: undisturbed_def)
  moreover have "lasting p q L D ec s' w" if "lasting p q L D ec s w"
    using that assms(3,4) calculation(2) unfolding lasting_def by (elim exE conjE, intro exI conjI) (assumption | simp)+
  ultimately show ?thesis
    using ec st configured_undisturbed [OF assms(2) ec(1,3)] unfolding in_service_def by blast
qed

lemma mutate_same_spec: "ec_Spec ec' = ec_Spec ec \<Longrightarrow> mutateTargetSecret ec' mint x = mutateTargetSecret ec mint x"
  by (simp add: mutateTargetSecret_def)

lemma next_wake_delay: "next_wake B (\<lparr>res_Requeue = False, res_RequeueAfter = requeueDelay e w t\<rparr>, None) c = Some (c + requeueDelay e w t)"
  using requeueDelay_floor [of e w t] by (simp add: next_wake_def)

lemma serves_in_service:
  assumes p: "Registry_Get (r_Providers r) n = Some p" and srv: "serves p q ec t s out s'"
    and ec: "ec_key ec = req" "same_identity ec0 ec" "configured (secs s) ec q"
    and fin: "k_ContainsFinalizer (r_Client r) (ec_Meta ec) FinalizerName"
    and time: "clock s \<le> t" "t \<le> clock s'" "clock s' \<le> clock s + D"
    and life: "lifetimes clock p q a b G H" "a \<le> clock s" "clock s' \<le> b"
    and bounds: "0 \<le> L" "0 \<le> D" "slack L D \<le> requestedRotateBefore ec" "2 * slack L D + D \<le> G" "H + D + Second \<le> maxDuration"
  shows "in_service p q L D ec0 req s' (next_wake B out (clock s'))"
proof -
  from srv obtain mint s1 s2 ec' sec where m: "prov_Mint p q s1 = (Inr mint, s2)" "clock s \<le> clock s1" "clock s2 \<le> clock s'"
    and out: "out = (\<lparr>res_Requeue = False, res_RequeueAfter = requeueDelay (mint_ExpiresAt mint)
          (fst (clampRotateBefore (requestedRotateBefore ec) (time_Sub (mint_ExpiresAt mint) t))) t\<rparr>, None)"
    and ec': "ecs s' (ec_key ec) = Some ec'" "minted_as ec t mint ec'" "same_identity ec ec'"
    and sec: "secs s' = (secs s)(target_key ec \<mapsto> sec)" "adoptable ec sec"
      "same_secret (mutateTargetSecret ec mint (case secs s (target_key ec) of None \<Rightarrow> newTargetSecret ec | Some x \<Rightarrow> x)) sec"
    unfolding serves_def by blast
  let ?e = "mint_ExpiresAt mint"
  have "clock s1 \<le> clock s2" using mint_time [OF p, of s1 q] m(1) by simp
  then have granted: "clock s1 + G \<le> ?e" "?e \<le> clock s2 + H"
    using life(1) [unfolded lifetimes_def, rule_format, OF _ _ m(1)] m(2,3) life(2,3) by linarith+
  have long: "2 * slack L D \<le> ?e - t" and short: "?e - t \<le> H + D"
    using granted m(2,3) time bounds(4) by linarith+
  have dur: "is_duration (?e - t + Second)" "is_duration (?e - t)"
    using long short bounds by (auto simp: is_duration_def slack_def duration_consts)
  have wake: "clock s' + requeueDelay ?e (fst (clampRotateBefore (requestedRotateBefore ec) (time_Sub ?e t))) t + L + D < ?e"
    by (rule wake_after_mint [OF dur(2) bounds(1-3) long]) (use time in linarith)
  have same: "ec_Spec ec' = ec_Spec ec" "target_key ec' = target_key ec" "set (om_Finalizers (ec_Meta ec)) \<subseteq> set (om_Finalizers (ec_Meta ec'))"
    using ec'(3) by (simp_all add: same_identity_def target_key_def object_key_def)
  have "lasting p q L D ec' s' (Some (clock s' + requeueDelay ?e (fst (clampRotateBefore (requestedRotateBefore ec) (time_Sub ?e t))) t))"
    unfolding lasting_def same(2) mutate_same_spec [OF same(1)]
    using requeueDelay_floor [of ?e "fst (clampRotateBefore (requestedRotateBefore ec) (time_Sub ?e t))" t] bounds(1)
    by (intro exI conjI) (rule m sec(3) time long dur(1) refl wake | use ec'(2) sec(1) in \<open>simp add: minted_as_def\<close>)+
  moreover have "configured (secs s') ec' q"
    using configured_identity [OF configured_write [OF ec(3) sec(2)] ec'(3)] sec(1) by simp
  moreover have "k_ContainsFinalizer (r_Client r) (ec_Meta ec') FinalizerName"
    using fin same(3) by (auto simp: contains_finalizer)
  ultimately show ?thesis
    unfolding in_service_def out next_wake_delay using ec'(1) ec(1) same_identity_trans [OF ec(2) ec'(3)] by blast
qed

lemma healthy_in_service:
  assumes ec: "ecs s req = Some ec" "same_identity ec0 ec" "configured (secs s) ec q"
    and fin: "k_ContainsFinalizer (r_Client r) (ec_Meta ec) FinalizerName"
    and calm: "calm s s'" and time: "clock s \<le> t" "t \<le> clock s'" "clock s' \<le> clock s + D"
    and idle: "\<not> needsMint t (effective_window ec) ec" and last: "lasting p q L D ec s w"
    and out: "out = (\<lparr>res_Requeue = False, res_RequeueAfter = requeueDelay (the (st_ExpiresAt (ec_Status ec))) (effective_window ec) t\<rparr>, None)"
    and bounds: "0 \<le> L" "0 \<le> D" "slack L D \<le> requestedRotateBefore ec"
  shows "in_service p q L D ec0 req s' (next_wake B out (clock s'))"
proof -
  from last obtain mint s1 s2 sec old t0 where m: "prov_Mint p q s1 = (Inr mint, s2)"
    "secs s (target_key ec) = Some sec" "same_secret (mutateTargetSecret ec mint old) sec"
    and st: "st_ExpiresAt (ec_Status ec) = Some (wire_time (mint_ExpiresAt mint))" "st_LastRotatedAt (ec_Status ec) = Some (wire_time t0)"
    and t0: "t0 \<le> clock s" "2 * slack L D \<le> mint_ExpiresAt mint - t0" "is_duration (mint_ExpiresAt mint - t0 + Second)"
    unfolding lasting_def by blast
  have wake: "clock s' + requeueDelay (wire_time (mint_ExpiresAt mint)) (effective_window ec) t + L + D < mint_ExpiresAt mint"
    by (rule wake_when_healthy [OF st idle t0(3) bounds(1,2) _ bounds(3) t0(2)]) (use time t0 in linarith)+
  have "lasting p q L D ec s' (Some (clock s' + requeueDelay (wire_time (mint_ExpiresAt mint)) (effective_window ec) t))"
    unfolding lasting_def
    using requeueDelay_floor [of "wire_time (mint_ExpiresAt mint)" "effective_window ec" t] bounds(1) calm t0(1)
    by (intro exI conjI) (rule m(1) m(3) st t0(2,3) refl wake | use m(2) in simp)+
  then show ?thesis
    unfolding in_service_def out st(1) option.sel next_wake_delay using ec fin calm by auto
qed

lemma reconcile_keeps:
  assumes inv: "in_service p q L D ec0 req s w" and run: "run_state (Reconcile r req) s = (out, s')"
    and time: "clock s' \<le> clock s + D"
    and grant: "grants clock p q a b" "lifetimes clock p q a b G H" "a \<le> clock s" "clock s' \<le> b"
    and ec0: "ec_key ec0 = req" "Registry_Get (r_Providers r) (spec_Provider (ec_Spec ec0)) = Some p"
    and bounds: "0 \<le> L" "0 \<le> D" "slack L D \<le> requestedRotateBefore ec0" "2 * slack L D + D \<le> G" "H + D + Second \<le> maxDuration"
  shows "in_service p q L D ec0 req s' (next_wake B out (clock s'))"
proof -
  from inv obtain ec where ec: "ecs s req = Some ec" "same_identity ec0 ec" "configured (secs s) ec q"
    and st: "st_ExpiresAt (ec_Status ec) = None \<or>
      k_ContainsFinalizer (r_Client r) (ec_Meta ec) FinalizerName \<and> lasting p q L D ec s w"
    unfolding in_service_def by blast
  have same: "ec_key ec = req" "Registry_Get (r_Providers r) (spec_Provider (ec_Spec ec)) = Some p"
    and slack: "slack L D \<le> requestedRotateBefore ec"
    using ec(2) ec0 bounds(3) by (auto simp: same_identity_def requestedRotateBefore_def)
  show ?thesis
  proof (cases "k_ContainsFinalizer (r_Client r) (ec_Meta ec) FinalizerName")
    case fin: True
    from wp_run [OF tending_reconcile [OF ec(1) same(1) ec(3) fin same(2) grant(1,3)] run] grant(4) obtain t where
      t: "clock s \<le> t" "t \<le> clock s'" and
      cases: "serves p q ec t s out s' \<or> calm s s' \<and> \<not> needsMint t (effective_window ec) ec \<and> secs s (target_key ec) \<noteq> None \<and>
        out = (\<lparr>res_Requeue = False, res_RequeueAfter = requeueDelay (the (st_ExpiresAt (ec_Status ec))) (effective_window ec) t\<rparr>, None)"
      unfolding tended_def by blast
    from cases show ?thesis
    proof
      assume "serves p q ec t s out s'"
      from serves_in_service [OF same(2) this same(1) ec(2,3) fin t time grant(2-4) bounds(1,2) slack bounds(4,5)] show ?thesis .
    next
      assume h: "calm s s' \<and> \<not> needsMint t (effective_window ec) ec \<and> secs s (target_key ec) \<noteq> None \<and>
        out = (\<lparr>res_Requeue = False, res_RequeueAfter = requeueDelay (the (st_ExpiresAt (ec_Status ec))) (effective_window ec) t\<rparr>, None)"
      then have "st_ExpiresAt (ec_Status ec) \<noteq> None" by (cases "st_ExpiresAt (ec_Status ec)") (auto simp: needsMint_def)
      with st have "lasting p q L D ec s w" by auto
      from healthy_in_service [OF ec fin _ t time _ this _ bounds(1,2) slack] h show ?thesis by blast
    qed
  next
    case new: False
    then have unminted: "st_ExpiresAt (ec_Status ec) = None" using st by blast
    have live: "deletion_is_zero (om_DeletionTimestamp (ec_Meta ec))" using ec(3) by (simp add: configured_def)
    from wp_run [OF first_reconcile [OF ec(1) same(1) live unminted new] run] same(1) obtain ec1 where
      "ecs s' req = Some ec1" "same_identity ec ec1" "secs s' = secs s" "st_ExpiresAt (ec_Status ec1) = None" by auto
    then show ?thesis
      unfolding in_service_def using same_identity_trans [OF ec(2)] configured_identity [OF ec(3)] by auto
  qed
qed

lemma clock_forward:
  assumes "run_state (Reconcile r req) s = (out, s')"
  shows "clock s \<le> clock s'"
proof -
  have "clock s \<le> clock (snd (run_state (Reconcile r req) s))"
  proof (rule Reconcile_keeps [where I = "\<lambda>x. clock s \<le> clock x" and mine = "\<lambda>_. True" and found = "\<lambda>_ _. True"], goal_cases)
    case (1 g s1)
    then show ?case using get_time [of s req] by simp
  next
    case (9 n p q)
    show ?case by (rule later_State) (rule mint_time [OF 9])
  next
    case (10 n p h)
    show ?case by (rule later_State) (rule revoke_time [OF 10])
  qed (simp_all add: later_calls later_reads preserves_yields)
  then show ?thesis using assms by simp
qed

lemma rounds_in_service:
  assumes "rounds r ecs secs clock B L D req s0 s w"
    and ec0: "ecs s0 req = Some ec0" "ec_key ec0 = req" "servable (secs s0) ec0 q"
    and p: "Registry_Get (r_Providers r) (spec_Provider (ec_Spec ec0)) = Some p"
    and grant: "grants clock p q (clock s0) b" "lifetimes clock p q (clock s0) b G H"
    and bounds: "0 \<le> L" "0 \<le> D" "slack L D \<le> requestedRotateBefore ec0" "2 * slack L D + D \<le> G" "H + D + Second \<le> maxDuration"
  shows "clock s0 \<le> clock s \<and> (clock s \<le> b \<longrightarrow> in_service p q L D ec0 req s w)"
  using assms(1)
proof (induction rule: rounds.induct)
  case queued
  then show ?case using ec0 by (auto simp: in_service_def servable_def same_identity_def)
next
  case (idle s w s')
  then show ?case using idle_keeps [OF _ idle(2-4)] by auto
next
  case (reconcile s w out s')
  have "clock s \<le> clock s'" by (rule clock_forward [OF reconcile(2)])
  then show ?case
    using reconcile reconcile_keeps [OF _ reconcile(2,3) grant _ _ ec0(2) p bounds] by auto
qed

end

end
