(* ===== verification/Service.thy ===== *)
theory Service
  imports Manager_Main Rotation_Loop
begin

text \<open>
  The service the process as it is shipped gives: the reconciler that \<open>main\<close> assembles, with the GitHub provider, on the in-memory API server is an
  environment of \<open>responsive_api\<close>, whether GitHub answers or not. On it rest the properties that say what becomes of a resource over several
  reconciles, and what its status says while GitHub cannot be reached.
\<close>

section \<open>The shipped wiring\<close>

lemma mem_client [simp]: "r_Client mem_reconciler = mem_k8s"
  by (simp add: mem_reconciler_def)

lemma main_provider_calls:
  assumes "\<And>rq w. snd (lib_DefaultClient lib rq w) = w" and "\<And>w. lib_timeNow lib w = (m_clock w, w)"
    and "\<And>k d w. snd (lib_SignPKCS1v15 lib k d w) = w"
  shows "snd (run_state (Mint lib (New lib) q) w) = w" and "snd (run_state (Revoke lib (New lib) h) w) = w"
proof -
  have lib: "preserves (\<lambda>s. s = w) (State (gh_client lib (New lib) rq))" "preserves (\<lambda>s. s = w) (gh_now lib (New lib))"
    "preserves (\<lambda>s. s = w) (State (lib_SignPKCS1v15 lib k d))" for rq k d
    using assms by (simp_all add: preserves_def gh_client_def gh_now_def New_def)
  show "snd (run_state (Mint lib (New lib) q) w) = w" "snd (run_state (Revoke lib (New lib) h) w) = w"
    using Mint_preserves [OF lib, of q] Revoke_preserves [OF lib(1), of h] unfolding preserves_def by simp_all
qed

lemma main_responsive:
  assumes lib: "\<And>rq w. snd (lib_DefaultClient lib rq w) = w" "\<And>w. lib_timeNow lib w = (m_clock w, w)"
    "\<And>k d w. snd (lib_SignPKCS1v15 lib k d w) = w"
  shows "responsive_api (main_reconciler mem_k8s mem_recorder lib) m_ecs m_secs m_clock"
proof (rule responsive_api.intro)
  show "broker_env (main_reconciler mem_k8s mem_recorder lib) m_ecs m_secs"
    by (rule main_reconciler_env [OF mem.cluster_axioms]) (use lib in \<open>metis snd_conv\<close>)+
  note api = mem_api.get_ok mem_api.get_secret_ok mem_api.get_secret_none mem_api.update_ok mem_api.status_ok mem_api.delete_ok
    mem_api.write_ok mem_api.write_refused mem_api.written_meta mem_api.reference_ok mem_api.reference_meta mem_api.add_only
    mem_api.add_keeps mem_api.remove_only mem_api.get_time mem_api.get_secret_time mem_api.update_time mem_api.status_time
    mem_api.delete_time mem_api.write_time
  show "responsive_api_axioms (main_reconciler mem_k8s mem_recorder lib) m_ecs m_secs m_clock"
  proof (rule responsive_api_axioms.intro, unfold main_client, goal_cases)
    case (15 s t s')
    then show ?case using lib(2) by (auto simp: now_def main_reconciler_def)
  next
    case (22 h s ec ty re ms)
    then show ?case by (auto simp: main_reconciler_def)
  next
    case (23 nm p s q)
    then show ?case using main_provider_calls(1) [OF lib] by (auto simp: as_Provider_def split: if_splits)
  next
    case (24 nm p s cred)
    then show ?case using main_provider_calls(2) [OF lib] by (auto simp: as_Provider_def split: if_splits)
  qed (rule api [unfolded mem_client]; assumption)+
qed

text \<open>The process while GitHub answers, and while it cannot be reached.\<close>

abbreviation online_reconciler :: "mem_world Reconciler" where
  "online_reconciler \<equiv> main_reconciler mem_k8s mem_recorder online_lib"

abbreviation offline_reconciler :: "mem_world Reconciler" where
  "offline_reconciler \<equiv> main_reconciler mem_k8s mem_recorder mem_lib"

interpretation online_api: responsive_api online_reconciler m_ecs m_secs m_clock
  by (rule main_responsive) (simp_all add: online_lib_def mem_lib_def)

interpretation offline_api: responsive_api offline_reconciler m_ecs m_secs m_clock
  by (rule main_responsive) (simp_all add: mem_lib_def)

lemma main_clock:
  assumes "\<And>rq w. snd (lib_DefaultClient lib rq w) = w" and "\<And>w. lib_timeNow lib w = (m_clock w, w)"
    and "\<And>k d w. snd (lib_SignPKCS1v15 lib k d w) = w"
  shows "m_clock (snd (run_state (Reconcile (main_reconciler mem_k8s mem_recorder lib) req) w)) = m_clock w"
  by (rule mem_clock_stands)
    (use assms main_provider_calls [OF assms] in \<open>auto simp: now_def main_reconciler_def as_Provider_def main_providers_def NewRegistry_def
      Registry_Get_def Name_def split: if_splits\<close>)

lemma online_clock: "m_clock (snd (run_state (Reconcile online_reconciler req) w)) = m_clock w"
  by (rule main_clock) (simp_all add: online_lib_def mem_lib_def)

lemma offline_clock: "m_clock (snd (run_state (Reconcile offline_reconciler req) w)) = m_clock w"
  by (rule main_clock) (simp_all add: mem_lib_def)

section \<open>A new resource is served\<close>

text \<open>
  C9. Liveness: where the API server answers and the provider grants the request that the configuration of a new resource leads to (its
  App ID and key, its repositories and permissions), the resource has its credential after two reconciles. The first puts the
  finalizer on the resource and asks to be run again; the second ends without an error, with the credential in the target Secret, the
  status Active and the handle stored.
\<close>

theorem new_resource_served:
  assumes "responsive_api r ecs secs clock"
    and "ecs s req = Some ec" and "ec_key ec = req" and "servable (secs s) ec q"
    and "\<not> k_ContainsFinalizer (r_Client r) (ec_Meta ec) FinalizerName"
    and "Registry_Get (r_Providers r) (spec_Provider (ec_Spec ec)) = Some p"
    and "\<And>s'. clock s \<le> clock s' \<Longrightarrow> \<exists>m s''. prov_Mint p q s' = (Inr m, s'')"
  shows "\<exists>res1 s1 ec1 res2 s2 t.
    run_state (Reconcile r req) s = ((res1, None), s1) \<and> res_Requeue res1 \<and>
    ecs s1 req = Some ec1 \<and> ec_Spec ec1 = ec_Spec ec \<and> ec_key ec1 = req \<and>
    run_state (Reconcile r req) s1 = ((res2, None), s2) \<and> clock s1 \<le> t \<and>
    rotated ecs secs p ec1 t (secs s (target_key ec)) s2"
  by (rule responsive_api.two_reconciles [OF assms(1-6)]) (use assms(7) in \<open>simp add: grants_def\<close>)

text \<open>A new resource, and the world in which only its configuration Secret exists.\<close>

abbreviation first_ec :: EphemeralCredential where
  "first_ec \<equiv> fresh_ec\<lparr>ec_Meta := (ec_Meta fresh_ec)\<lparr>om_Finalizers := []\<rparr>\<rparr>"

definition first_world :: mem_world where
  "first_world = (sample_world first_ec)\<lparr>m_secs := [(''builds'', ''broker-github-app'') \<mapsto> sample_config]\<rparr>"

definition first_request :: MintRequest where
  "first_request = mint_request first_ec (ScopeGitHub \<lparr>scope_AppID = ''12345'', scope_PrivateKeyPEM = ''pem'',
     scope_Repositories = [''myorg/myrepo''], scope_Permissions = gh_Permissions (the (pc_GitHub (spec_ProviderConfig (ec_Spec first_ec))))\<rparr>)"

abbreviation online_github :: "mem_world Provider" where
  "online_github \<equiv> as_Provider online_lib (New online_lib)"

lemma first_resource:
  "m_ecs first_world sample_req = Some first_ec" "ec_key first_ec = sample_req"
  "servable (m_secs first_world) first_ec first_request"
  "\<not> k_ContainsFinalizer (r_Client online_reconciler) (ec_Meta first_ec) FinalizerName"
  "Registry_Get (r_Providers online_reconciler) (spec_Provider (ec_Spec first_ec)) = Some online_github"
  "m_clock first_world = 1000 * Second" "m_secs first_world (target_key first_ec) = None"
  by (simp_all add: first_world_def sample_world_def sample_ec_def object_key_def mem_k8s_def servable_def configured_def
      sample_config_def target_key_def deletion_is_zero_def ProviderGitHubApp_def first_request_def mint_request_def)

lemma first_mint: "prov_Mint online_github first_request w = (Inr (sample_mint ''ghs_x'' (4200 * Second)), w)"
  using online_mint [of "''12345''" "''pem''" "[''myorg/myrepo'']"]
  by (simp add: as_Provider_def first_request_def mint_request_def)

theorem new_resource_served_witness:
  "\<exists>s1 s2 ec1 t. snd (run_state (Reconcile online_reconciler sample_req) first_world) = s1 \<and>
     snd (run_state (Reconcile online_reconciler sample_req) s1) = s2 \<and> rotated m_ecs m_secs online_github ec1 t None s2"
  using new_resource_served [OF online_api.responsive_api_axioms first_resource(1-5)] first_mint first_resource(7) by fastforce

section \<open>A credential does not lapse\<close>

text \<open>
  C4. A credential does not lapse. Let the API server answer, let nobody but the broker touch a new resource, its target Secret and its configuration
  Secret, and let the provider grant the request of this resource up to the instant \<open>b\<close>, with lifetimes between
  \<open>G\<close> and \<open>H\<close>. Let the queue start a reconcile no later than \<open>L\<close> after the wake-up it was asked for, and let a reconcile take at most
  \<open>D\<close>. If the requested window and half of \<open>G\<close> exceed \<open>L\<close> and two reconciles by six seconds, then, from the new resource on and
  through any number of rounds up to \<open>b\<close>, early or spurious reconciles included: as soon as the status shows an expiry, it is the expiry of
  a credential the provider minted for this request, the target Secret holds its data, and this credential is valid for at least \<open>D\<close>
  longer, that is, until the reconcile that replaces it has ended.
\<close>

theorem credential_never_lapses:
  assumes "responsive_api r ecs secs clock"
    and "ecs s0 req = Some ec0" and "ec_key ec0 = req" and "servable (secs s0) ec0 q"
    and "Registry_Get (r_Providers r) (spec_Provider (ec_Spec ec0)) = Some p"
    and "grants clock p q (clock s0) b" and "lifetimes clock p q (clock s0) b G H"
    and "0 \<le> L" and "0 \<le> D" and "slack L D \<le> requestedRotateBefore ec0" and "2 * slack L D + D \<le> G"
    and "H + D + Second \<le> maxDuration"
    and "rounds r ecs secs clock B L D req s0 s w" and "clock s \<le> b"
  shows "\<exists>ec. ecs s req = Some ec \<and> ec_key ec = req \<and> ec_Spec ec = ec_Spec ec0 \<and>
    (st_ExpiresAt (ec_Status ec) \<noteq> None \<longrightarrow>
      (\<exists>mint s1 s2 sec old. prov_Mint p q s1 = (Inr mint, s2) \<and>
         st_ExpiresAt (ec_Status ec) = Some (wire_time (mint_ExpiresAt mint)) \<and> secs s (target_key ec) = Some sec \<and>
         same_secret (mutateTargetSecret ec mint old) sec \<and> clock s + D < mint_ExpiresAt mint))"
proof -
  have inv: "responsive_api.in_service r ecs secs clock p q L D ec0 req s w"
    using responsive_api.rounds_in_service [OF assms(1,13,2-12)] assms(14) by blast
  have valid: "\<exists>mint s1 s2 sec old. prov_Mint p q s1 = (Inr mint, s2) \<and>
      st_ExpiresAt (ec_Status ec) = Some (wire_time (mint_ExpiresAt mint)) \<and> secs s (target_key ec) = Some sec \<and>
      same_secret (mutateTargetSecret ec mint old) sec \<and> clock s + D < mint_ExpiresAt mint"
    if "responsive_api.lasting secs clock p q L D ec s w" for ec
    using that unfolding responsive_api.lasting_def [OF assms(1)]
    by (elim exE conjE, intro exI conjI) (assumption | simp)+
  from inv obtain ec where "ecs s req = Some ec" "same_identity ec0 ec"
    "st_ExpiresAt (ec_Status ec) = None \<or> responsive_api.lasting secs clock p q L D ec s w"
    unfolding responsive_api.in_service_def [OF assms(1)] by blast
  then show ?thesis using valid assms(3) by (intro exI [of _ ec]) (auto simp: same_identity_def)
qed

text \<open>The process with a GitHub that answers, from a new resource through its first two reconciles, the first of which starts ten seconds late.\<close>

theorem credential_never_lapses_witness:
  "\<exists>s w mint s1 s2 sec old. rounds online_reconciler m_ecs m_secs m_clock Second (10 * Second) (5 * Second) sample_req first_world s w \<and>
     prov_Mint online_github first_request s1 = (Inr mint, s2) \<and> m_secs s (''builds'', ''github-token'') = Some sec \<and>
     same_secret (mutateTargetSecret first_ec mint old) sec \<and> m_clock s + 5 * Second < mint_ExpiresAt mint"
proof -
  define late where "late = first_world\<lparr>m_clock := 1010 * Second\<rparr>"
  have start: "m_ecs late sample_req = Some first_ec" "servable (m_secs late) first_ec first_request" "m_clock late = 1010 * Second"
    using first_resource by (simp_all add: late_def)
  have grants: "grants m_clock online_github first_request a b" for a b
    by (simp add: grants_def first_mint)
  obtain out1 s1 out2 s2 ec1 t x where run1: "run_state (Reconcile online_reconciler sample_req) late = (out1, s1)"
    and ec1: "ec_key ec1 = sample_req"
    and run2: "run_state (Reconcile online_reconciler sample_req) s1 = (out2, s2)"
    and rot: "rotated m_ecs m_secs online_github ec1 t x s2"
    using online_api.two_reconciles [OF start(1) first_resource(2) start(2) first_resource(4,5) grants] by blast
  have clock: "m_clock s1 = 1010 * Second" "m_clock s2 = 1010 * Second"
    using online_clock [of sample_req late] online_clock [of sample_req s1] run1 run2 start(3) by simp_all
  have begun: "rounds online_reconciler m_ecs m_secs m_clock Second (10 * Second) (5 * Second) sample_req first_world late (Some (m_clock first_world))"
    by (rule rounds.idle [OF rounds.queued]) (simp_all add: late_def undisturbed_def first_resource Second_def)
  have run: "rounds online_reconciler m_ecs m_secs m_clock Second (10 * Second) (5 * Second) sample_req first_world s2
      (next_wake Second out2 (m_clock s2))"
    by (rule rounds.reconcile [OF rounds.reconcile [OF begun run1] run2]) (simp_all add: clock start Second_def)
  have life: "lifetimes m_clock online_github first_request (m_clock first_world) (2000 * Second) (2200 * Second) (3200 * Second)"
    by (auto simp: lifetimes_def first_mint first_resource sample_mint_def Second_def)
  have "requestedRotateBefore first_ec = 600 * Second"
    by (simp add: requestedRotateBefore_eq sample_ec_def Second_def)
  then have room: "slack (10 * Second) (5 * Second) \<le> requestedRotateBefore first_ec"
    "2 * slack (10 * Second) (5 * Second) + 5 * Second \<le> 2200 * Second" "0 \<le> 10 * Second" "0 \<le> 5 * Second"
    "3200 * Second + 5 * Second + Second \<le> maxDuration" "m_clock s2 \<le> 2000 * Second"
    by (simp_all add: slack_def duration_consts clock)
  from credential_never_lapses [OF online_api.responsive_api_axioms first_resource(1-3,5) grants life room(3,4,1,2,5) run room(6)] obtain ec where
    ec: "m_ecs s2 sample_req = Some ec" "ec_key ec = sample_req" "ec_Spec ec = ec_Spec first_ec"
    and valid: "st_ExpiresAt (ec_Status ec) \<noteq> None \<longrightarrow>
      (\<exists>mint s1 sx sec old. prov_Mint online_github first_request s1 = (Inr mint, sx) \<and> m_secs s2 (target_key ec) = Some sec \<and>
         same_secret (mutateTargetSecret ec mint old) sec \<and> m_clock s2 + 5 * Second < mint_ExpiresAt mint)"
    by blast
  have "st_ExpiresAt (ec_Status ec) \<noteq> None" using rot ec(1) ec1 by (auto simp: rotated_def minted_as_def)
  moreover have "target_key ec = (''builds'', ''github-token'')"
    using ec(2,3) by (simp add: target_key_def object_key_def)
  moreover have "mutateTargetSecret ec m o' = mutateTargetSecret first_ec m o'" for m o'
    using ec(3) by (simp add: mutateTargetSecret_def)
  ultimately show ?thesis using valid run by metis
qed

section \<open>A missing Secret reported as ready\<close>

text \<open>
  C40. A target Secret that does not exist is reported as usable. Where the API server answers, let the target Secret of a live resource be
  missing while the recorded expiry is still ahead when the reconcile returns. If this reconcile fails, for whatever reason, it has written no
  Secret, and yet the stored status is Expiring with Ready=True.
\<close>

theorem missing_secret_reported_ready:
  assumes "responsive_api r ecs secs clock"
    and "ecs s req = Some ec" and "ec_key ec = req"
    and "deletion_is_zero (om_DeletionTimestamp (ec_Meta ec))"
    and "k_ContainsFinalizer (r_Client r) (ec_Meta ec) FinalizerName"
    and "st_ExpiresAt (ec_Status ec) = Some e" and "secs s (target_key ec) = None"
    and "run_state (Reconcile r req) s = ((res, Some err), s')" and "clock s' < e"
  shows "secs s' (target_key ec) = None \<and> secs s' = secs s \<and>
    (\<exists>ec' m. ecs s' req = Some ec' \<and> st_State (ec_Status ec') = StateExpiring \<and>
       ready_of ec' = Some (ConditionTrue, ReasonRotationFailed, m))"
  using wp_run [OF responsive_api.missing_stays_ready [OF assms(1-7)] assms(8)] assms(3,7,9)
  by (simp add: stays_ready_def)

text \<open>The process while GitHub cannot be reached: the credential is valid for an hour, but its Secret was deleted.\<close>

definition swept_world :: mem_world where
  "swept_world = (sample_world (with_expiry (4600 * Second) fresh_ec))
     \<lparr>m_secs := [(''builds'', ''broker-github-app'') \<mapsto> sample_config]\<rparr>"

lemma offline_mint: "prov_Mint (as_Provider mem_lib (New mem_lib)) q w \<noteq> (Inr m, w')"
  by (auto simp: as_Provider_def Mint_def resolveInstallationID_def gh_client_def New_def mem_lib_def Let_def
      split: any_scope.splits sum.splits prod.splits if_splits)

lemma swept_run:
  assumes "run_state (Reconcile offline_reconciler sample_req) swept_world = ((res, err), w)"
  shows "err \<noteq> None"
proof
  let ?ec = "with_expiry (4600 * Second) fresh_ec"
  assume none: "err = None"
  have "k_Get_EC (r_Client offline_reconciler) sample_req swept_world = (Inr ?ec, swept_world)"
    "deletion_is_zero (om_DeletionTimestamp (ec_Meta ?ec))"
    "k_ContainsFinalizer (r_Client offline_reconciler) (ec_Meta ?ec) FinalizerName"
    "Registry_Get (r_Providers offline_reconciler) (spec_Provider (ec_Spec ?ec)) = Some (as_Provider mem_lib (New mem_lib))"
    by (simp_all add: swept_world_def sample_world_def sample_ec_def mem_k8s_def mem_Get_EC_def object_key_def deletion_is_zero_def)
  from wp_run [OF offline_api.reconcile_in_place [OF this] assms] none show False
    using offline_mint by (auto simp: Let_def rotated_def swept_world_def target_key_def sample_ec_def)
qed

theorem missing_secret_reported_ready_witness:
  "\<exists>w ec' m. snd (run_state (Reconcile offline_reconciler sample_req) swept_world) = w \<and>
     m_secs w (''builds'', ''github-token'') = None \<and> m_ecs w sample_req = Some ec' \<and>
     st_State (ec_Status ec') = StateExpiring \<and> ready_of ec' = Some (ConditionTrue, ReasonRotationFailed, m)"
proof -
  let ?ec = "with_expiry (4600 * Second) fresh_ec"
  obtain res err w where run: "run_state (Reconcile offline_reconciler sample_req) swept_world = ((res, Some err), w)"
    using swept_run by (metis not_None_eq prod.collapse)
  have "m_clock w = m_clock swept_world" using offline_clock [of sample_req swept_world] run by simp
  then have ahead: "m_clock w < 4600 * Second" by (simp add: swept_world_def sample_world_def Second_def)
  have world: "m_ecs swept_world sample_req = Some ?ec" "ec_key ?ec = sample_req" "deletion_is_zero (om_DeletionTimestamp (ec_Meta ?ec))"
    "k_ContainsFinalizer (r_Client offline_reconciler) (ec_Meta ?ec) FinalizerName"
    "st_ExpiresAt (ec_Status ?ec) = Some (4600 * Second)" "m_secs swept_world (target_key ?ec) = None"
    "target_key ?ec = (''builds'', ''github-token'')"
    by (simp_all add: swept_world_def sample_world_def sample_ec_def mem_k8s_def target_key_def object_key_def deletion_is_zero_def)
  from missing_secret_reported_ready [OF offline_api.responsive_api_axioms world(1-6) run ahead] show ?thesis
    using run world(7) by auto
qed

end
