(* ===== verification/Api_Memory.thy ===== *)
theory Api_Memory
  imports Api_Types
begin

text \<open>
  The custom resource in memory. The rest of the development treats an
  \<open>EphemeralCredential\<close> as a value; the deep-copy functions are about what is shared in the
  heap, so here every Go reference of \<open>ephemeralcredential_types.go\<close> is an address:

  \<^item> a pointer and a map is an \<open>addr option\<close>, \<open>None\<close> being nil; a slice is a
    header (backing array, offset, length), \<open>None\<close> being the nil slice;
  \<^item> the store holds one \<open>cell\<close> per object: a backing array, a map, or a struct that something
    points to. A struct without references (\<open>AWSProviderConfig\<close>, \<open>VaultProviderConfig\<close>,
    \<open>LocalObjectReference\<close>, \<open>metav1.Condition\<close>) is stored as the value it is;
  \<^item> addresses below \<open>lim\<close> are allocated. Reading a cell at another type than its own gives the
    zero value; Go's type system excludes it, and \<open>ok\<close> (below) says so.

  For every struct type there are three functions: its view (the whole tree of values it reaches), its
  cells (the addresses it reaches) and its typing \<open>ok\<close>. The locale \<open>layout\<close> states what they
  have to satisfy for reasoning about sharing: they depend on the reached cells only.
\<close>

section \<open>Structs with references\<close>

type_synonym addr = nat

record slice =
  sl_arr :: addr
  sl_off :: nat
  sl_len :: nat

record TargetSecretSpec_m =
  mts_Name :: string
  mts_Keys :: "addr option"

record GitHubProviderConfig_m =
  mgh_AppConfigRef :: LocalObjectReference
  mgh_Repositories :: "slice option"
  mgh_Permissions :: "addr option"

record DatabaseProviderConfig_m =
  mdb_Engine :: string
  mdb_AdminSecretRef :: LocalObjectReference
  mdb_ConnectionRef :: LocalObjectReference
  mdb_Grants :: "slice option"

record ProviderConfig_m =
  mpc_GitHub :: "addr option"
  mpc_AWS :: "addr option"
  mpc_Database :: "addr option"
  mpc_Vault :: "addr option"

record EphemeralCredentialSpec_m =
  msp_Provider :: string
  msp_TTLSeconds :: int32
  msp_RotateBeforeSeconds :: int32
  msp_TargetSecret :: TargetSecretSpec_m
  msp_ProviderConfig :: ProviderConfig_m

record EphemeralCredentialStatus_m =
  mst_State :: CredentialState
  mst_ExpiresAt :: "addr option"
  mst_LastRotatedAt :: "addr option"
  mst_ObservedGeneration :: int64
  mst_Conditions :: "slice option"

text \<open>
  The embedded \<open>metav1\<close> structs, with the fields of \<open>Api_Types\<close>. Owner references are
  kept flat: the two booleans they point to are never written by the broker.
\<close>

record TypeMeta =
  tm_Kind :: string
  tm_APIVersion :: string

record ObjectMeta_m =
  mom_Name :: string
  mom_Namespace :: string
  mom_UID :: string
  mom_ResourceVersion :: nat
  mom_Generation :: int64
  mom_DeletionTimestamp :: "addr option"
  mom_Finalizers :: "slice option"
  mom_Annotations :: "addr option"
  mom_OwnerReferences :: "slice option"

record ListMeta_m =
  mlm_SelfLink :: string
  mlm_ResourceVersion :: string
  mlm_Continue :: string
  mlm_RemainingItemCount :: "addr option"

record EphemeralCredential_m =
  mec_TypeMeta :: TypeMeta
  mec_ObjectMeta :: ObjectMeta_m
  mec_Spec :: EphemeralCredentialSpec_m
  mec_Status :: EphemeralCredentialStatus_m

record EphemeralCredentialList_m =
  mel_TypeMeta :: TypeMeta
  mel_ListMeta :: ListMeta_m
  mel_Items :: "slice option"

section \<open>The store\<close>

datatype cell =
    C_strings "string list"
  | C_map "string \<rightharpoonup> string"
  | C_time time
  | C_int64 int64
  | C_conditions "Condition list"
  | C_owners "OwnerReference list"
  | C_LocalObjectReference LocalObjectReference
  | C_AWSProviderConfig AWSProviderConfig
  | C_VaultProviderConfig VaultProviderConfig
  | C_TargetSecretSpec TargetSecretSpec_m
  | C_GitHubProviderConfig GitHubProviderConfig_m
  | C_DatabaseProviderConfig DatabaseProviderConfig_m
  | C_ProviderConfig ProviderConfig_m
  | C_EphemeralCredentialSpec EphemeralCredentialSpec_m
  | C_EphemeralCredentialStatus EphemeralCredentialStatus_m
  | C_EphemeralCredential EphemeralCredential_m
  | C_EphemeralCredentials "EphemeralCredential_m list"
  | C_EphemeralCredentialList EphemeralCredentialList_m

record heap =
  mem :: "addr \<Rightarrow> cell"
  lim :: addr

type_synonym 'a heap_io = "(heap, 'a) io"

definition alloc :: "cell \<Rightarrow> addr heap_io" where
  "alloc c = State (\<lambda>h. (lim h, h\<lparr>mem := (mem h)(lim h := c), lim := Suc (lim h)\<rparr>))"

definition load :: "(cell \<Rightarrow> 'a) \<Rightarrow> addr \<Rightarrow> 'a heap_io" where
  "load un a = State (\<lambda>h. (un (mem h a), h))"

definition poke :: "addr \<Rightarrow> cell \<Rightarrow> heap \<Rightarrow> heap" where
  "poke a c h = h\<lparr>mem := (mem h)(a := c)\<rparr>"

definition store :: "addr \<Rightarrow> cell \<Rightarrow> unit heap_io" where
  "store a c = State (\<lambda>h. ((), poke a c h))"

lemma wp_alloc: "wp (alloc c) Q h = Q (lim h) (h\<lparr>mem := (mem h)(lim h := c), lim := Suc (lim h)\<rparr>)"
  by (simp add: alloc_def wp_simps)

lemma wp_load [wp_simps]: "wp (load un a) Q h = Q (un (mem h a)) h"
  by (simp add: load_def wp_simps)

lemma wp_store [wp_simps]: "wp (store a c) Q h = Q () (poke a c h)"
  by (simp add: store_def wp_simps)

text \<open>The rules as equations between predicate transformers, for continuations under a binder.\<close>

lemma wp_transformers:
  "wp (State_Monad.return b) R = R b"
  "wp (State_Monad.bind m f) R = wp m (\<lambda>b. wp (f b) R)"
  "wp (load un a) Q = (\<lambda>h. Q (un (mem h a)) h)"
  "wp (store a c) Q' = (\<lambda>h. Q' () (poke a c h))"
  by (simp_all add: fun_eq_iff wp_return wp_bind wp_load wp_store)

lemma poke_simps [simp]:
  "mem (poke a c h) b = (if b = a then c else mem h b)"
  "lim (poke a c h) = lim h"
  by (simp_all add: poke_def)

text \<open>
  \<open>agree S h h'\<close>: no address of \<open>S\<close> was written. \<open>extends h h'\<close>: nothing that
  was allocated in \<open>h\<close> was written or freed.
\<close>

definition agree :: "addr set \<Rightarrow> heap \<Rightarrow> heap \<Rightarrow> bool" where
  "agree S h h' \<longleftrightarrow> lim h \<le> lim h' \<and> (\<forall>a \<in> S. mem h' a = mem h a)"

abbreviation extends :: "heap \<Rightarrow> heap \<Rightarrow> bool" where
  "extends h h' \<equiv> agree {..<lim h} h h'"

lemma agree_refl [simp]: "agree S h h"
  by (simp add: agree_def)

lemma agree_subset: "agree S h h' \<Longrightarrow> T \<subseteq> S \<Longrightarrow> agree T h h'"
  by (auto simp: agree_def)

lemma agree_trans: "agree S h h' \<Longrightarrow> agree S h' h'' \<Longrightarrow> agree S h h''"
  by (auto simp: agree_def)

lemma extends_trans: "extends h h' \<Longrightarrow> extends h' h'' \<Longrightarrow> extends h h''"
  by (auto simp: agree_def)

lemma agree_poke: "a \<notin> S \<Longrightarrow> agree S h (poke a c h)"
  by (auto simp: agree_def)

lemma agree_alloc: "lim h \<notin> S \<Longrightarrow> agree S h (h\<lparr>mem := (mem h)(lim h := c), lim := Suc (lim h)\<rparr>)"
  by (auto simp: agree_def)

lemma wp_allocI:
  "(\<And>h'. extends h h' \<Longrightarrow> lim h' = Suc (lim h) \<Longrightarrow> mem h' (lim h) = c \<Longrightarrow> Q (lim h) h') \<Longrightarrow> wp (alloc c) Q h"
  by (simp add: wp_alloc agree_alloc)

section \<open>Reading cells\<close>

fun as_strings :: "cell \<Rightarrow> string list" where "as_strings (C_strings xs) = xs" | "as_strings _ = []"
fun as_map :: "cell \<Rightarrow> (string \<rightharpoonup> string)" where "as_map (C_map m) = m" | "as_map _ = Map.empty"
fun as_time :: "cell \<Rightarrow> time" where "as_time (C_time t) = t" | "as_time _ = zero_time"
fun as_int64 :: "cell \<Rightarrow> int64" where "as_int64 (C_int64 n) = n" | "as_int64 _ = 0"
fun as_conditions :: "cell \<Rightarrow> Condition list" where
  "as_conditions (C_conditions xs) = xs" | "as_conditions _ = []"
fun as_owners :: "cell \<Rightarrow> OwnerReference list" where "as_owners (C_owners xs) = xs" | "as_owners _ = []"
fun as_EphemeralCredentials :: "cell \<Rightarrow> EphemeralCredential_m list" where
  "as_EphemeralCredentials (C_EphemeralCredentials xs) = xs" | "as_EphemeralCredentials _ = []"

text \<open>The zero values of the structs, as \<open>new\<close> and \<open>make\<close> create them.\<close>

definition zero_LocalObjectReference :: LocalObjectReference where
  "zero_LocalObjectReference = \<lparr>lor_Name = []\<rparr>"

definition zero_AWSProviderConfig :: AWSProviderConfig where
  "zero_AWSProviderConfig =
     \<lparr>aws_RoleARN = [], aws_SessionPolicy = [], aws_Region = [], aws_DurationSeconds = 0\<rparr>"

definition zero_VaultProviderConfig :: VaultProviderConfig where
  "zero_VaultProviderConfig =
     \<lparr>vault_BackendRef = zero_LocalObjectReference, vault_Path = [], vault_Renewable = False\<rparr>"

definition zero_TargetSecretSpec :: TargetSecretSpec_m where
  "zero_TargetSecretSpec = \<lparr>mts_Name = [], mts_Keys = None\<rparr>"

definition zero_GitHubProviderConfig :: GitHubProviderConfig_m where
  "zero_GitHubProviderConfig =
     \<lparr>mgh_AppConfigRef = zero_LocalObjectReference, mgh_Repositories = None, mgh_Permissions = None\<rparr>"

definition zero_DatabaseProviderConfig :: DatabaseProviderConfig_m where
  "zero_DatabaseProviderConfig =
     \<lparr>mdb_Engine = [], mdb_AdminSecretRef = zero_LocalObjectReference,
      mdb_ConnectionRef = zero_LocalObjectReference, mdb_Grants = None\<rparr>"

definition zero_ProviderConfig :: ProviderConfig_m where
  "zero_ProviderConfig = \<lparr>mpc_GitHub = None, mpc_AWS = None, mpc_Database = None, mpc_Vault = None\<rparr>"

definition zero_EphemeralCredentialSpec :: EphemeralCredentialSpec_m where
  "zero_EphemeralCredentialSpec =
     \<lparr>msp_Provider = [], msp_TTLSeconds = 0, msp_RotateBeforeSeconds = 0,
      msp_TargetSecret = zero_TargetSecretSpec, msp_ProviderConfig = zero_ProviderConfig\<rparr>"

definition zero_EphemeralCredentialStatus :: EphemeralCredentialStatus_m where
  "zero_EphemeralCredentialStatus =
     \<lparr>mst_State = StateUnset, mst_ExpiresAt = None, mst_LastRotatedAt = None,
      mst_ObservedGeneration = 0, mst_Conditions = None\<rparr>"

definition zero_TypeMeta :: TypeMeta where
  "zero_TypeMeta = \<lparr>tm_Kind = [], tm_APIVersion = []\<rparr>"

definition zero_ObjectMeta :: ObjectMeta_m where
  "zero_ObjectMeta =
     \<lparr>mom_Name = [], mom_Namespace = [], mom_UID = [], mom_ResourceVersion = 0, mom_Generation = 0,
      mom_DeletionTimestamp = None, mom_Finalizers = None, mom_Annotations = None, mom_OwnerReferences = None\<rparr>"

definition zero_ListMeta :: ListMeta_m where
  "zero_ListMeta =
     \<lparr>mlm_SelfLink = [], mlm_ResourceVersion = [], mlm_Continue = [], mlm_RemainingItemCount = None\<rparr>"

definition zero_EphemeralCredential :: EphemeralCredential_m where
  "zero_EphemeralCredential =
     \<lparr>mec_TypeMeta = zero_TypeMeta, mec_ObjectMeta = zero_ObjectMeta,
      mec_Spec = zero_EphemeralCredentialSpec, mec_Status = zero_EphemeralCredentialStatus\<rparr>"

definition zero_EphemeralCredentialList :: EphemeralCredentialList_m where
  "zero_EphemeralCredentialList =
     \<lparr>mel_TypeMeta = zero_TypeMeta, mel_ListMeta = zero_ListMeta, mel_Items = None\<rparr>"

definition zero_Condition :: Condition where
  "zero_Condition = \<lparr>cond_Type = [], cond_Status = [], cond_Reason = [], cond_Message = Lit [],
     cond_ObservedGeneration = 0, cond_LastTransitionTime = zero_time\<rparr>"

fun as_LocalObjectReference :: "cell \<Rightarrow> LocalObjectReference" where
  "as_LocalObjectReference (C_LocalObjectReference x) = x"
| "as_LocalObjectReference _ = zero_LocalObjectReference"
fun as_AWSProviderConfig :: "cell \<Rightarrow> AWSProviderConfig" where
  "as_AWSProviderConfig (C_AWSProviderConfig x) = x" | "as_AWSProviderConfig _ = zero_AWSProviderConfig"
fun as_VaultProviderConfig :: "cell \<Rightarrow> VaultProviderConfig" where
  "as_VaultProviderConfig (C_VaultProviderConfig x) = x"
| "as_VaultProviderConfig _ = zero_VaultProviderConfig"
fun as_TargetSecretSpec :: "cell \<Rightarrow> TargetSecretSpec_m" where
  "as_TargetSecretSpec (C_TargetSecretSpec x) = x" | "as_TargetSecretSpec _ = zero_TargetSecretSpec"
fun as_GitHubProviderConfig :: "cell \<Rightarrow> GitHubProviderConfig_m" where
  "as_GitHubProviderConfig (C_GitHubProviderConfig x) = x"
| "as_GitHubProviderConfig _ = zero_GitHubProviderConfig"
fun as_DatabaseProviderConfig :: "cell \<Rightarrow> DatabaseProviderConfig_m" where
  "as_DatabaseProviderConfig (C_DatabaseProviderConfig x) = x"
| "as_DatabaseProviderConfig _ = zero_DatabaseProviderConfig"
fun as_ProviderConfig :: "cell \<Rightarrow> ProviderConfig_m" where
  "as_ProviderConfig (C_ProviderConfig x) = x" | "as_ProviderConfig _ = zero_ProviderConfig"
fun as_EphemeralCredentialSpec :: "cell \<Rightarrow> EphemeralCredentialSpec_m" where
  "as_EphemeralCredentialSpec (C_EphemeralCredentialSpec x) = x"
| "as_EphemeralCredentialSpec _ = zero_EphemeralCredentialSpec"
fun as_EphemeralCredentialStatus :: "cell \<Rightarrow> EphemeralCredentialStatus_m" where
  "as_EphemeralCredentialStatus (C_EphemeralCredentialStatus x) = x"
| "as_EphemeralCredentialStatus _ = zero_EphemeralCredentialStatus"
fun as_EphemeralCredential :: "cell \<Rightarrow> EphemeralCredential_m" where
  "as_EphemeralCredential (C_EphemeralCredential x) = x"
| "as_EphemeralCredential _ = zero_EphemeralCredential"
fun as_EphemeralCredentialList :: "cell \<Rightarrow> EphemeralCredentialList_m" where
  "as_EphemeralCredentialList (C_EphemeralCredentialList x) = x"
| "as_EphemeralCredentialList _ = zero_EphemeralCredentialList"

section \<open>Layouts\<close>

text \<open>
  What a struct type needs for reasoning about sharing: its view, its cells and its typing depend
  only on the cells it reaches, and a well-typed struct reaches allocated cells.
\<close>

locale layout =
  fixes view :: "heap \<Rightarrow> 'x \<Rightarrow> 'v"
    and cells :: "heap \<Rightarrow> 'x \<Rightarrow> addr set"
    and ok :: "heap \<Rightarrow> 'x \<Rightarrow> bool"
  assumes frame_view: "agree (cells h x) h h' \<Longrightarrow> view h' x = view h x"
    and frame_cells: "agree (cells h x) h h' \<Longrightarrow> cells h' x = cells h x"
    and frame_ok: "ok h x \<Longrightarrow> agree (cells h x) h h' \<Longrightarrow> ok h' x"
    and allocated: "ok h x \<Longrightarrow> cells h x \<subseteq> {..<lim h}"
begin

lemma extends_agree: "ok h x \<Longrightarrow> extends h h' \<Longrightarrow> agree (cells h x) h h'"
  by (rule agree_subset [OF _ allocated])

lemma extends_ok: "ok h x \<Longrightarrow> extends h h' \<Longrightarrow> ok h' x"
  by (rule frame_ok [OF _ extends_agree])

lemma extends_view: "ok h x \<Longrightarrow> extends h h' \<Longrightarrow> view h' x = view h x"
  by (rule frame_view [OF extends_agree])

lemma extends_cells: "ok h x \<Longrightarrow> extends h h' \<Longrightarrow> cells h' x = cells h x"
  by (rule frame_cells [OF extends_agree])

end

text \<open>A type of plain values is a layout without cells.\<close>

definition no_cells :: "heap \<Rightarrow> 'x \<Rightarrow> addr set" where "no_cells h x = {}"
definition plain :: "heap \<Rightarrow> 'x \<Rightarrow> 'x" where "plain h x = x"
definition always_ok :: "heap \<Rightarrow> 'x \<Rightarrow> bool" where "always_ok h x \<longleftrightarrow> True"

lemmas plain_defs = no_cells_def plain_def always_ok_def

interpretation plain: layout plain no_cells always_ok
  by unfold_locales (simp_all add: plain_defs)

text \<open>A struct is laid out as its plain fields and its fields that hold references.\<close>

lemma layout_field: "layout v c k \<Longrightarrow> layout (\<lambda>h x. (p x, v h (f x))) (\<lambda>h x. c h (f x)) (\<lambda>h x. k h (f x))"
  by (auto simp: layout_def)

lemma layout_both:
  assumes "layout v c k" and "layout v' c' k'"
  shows "layout (\<lambda>h x. (v h (f x), v' h (g x))) (\<lambda>h x. c h (f x) \<union> c' h (g x))
    (\<lambda>h x. k h (f x) \<and> k' h (g x))"
proof -
  have split: "agree (S \<union> T) h h' \<longleftrightarrow> agree S h h' \<and> agree T h h'" for S T h h'
    by (auto simp: agree_def)
  note l = layout.frame_view layout.frame_cells layout.frame_ok layout.allocated
  show ?thesis
  proof (unfold_locales, goal_cases)
    case (1 h x h')
    then show ?case using l(1) [OF assms(1)] l(1) [OF assms(2)] by (simp add: split)
  next
    case (2 h x h')
    then have "c h' (f x) = c h (f x)" "c' h' (g x) = c' h (g x)"
      using l(2) [OF assms(1)] l(2) [OF assms(2)] by (simp_all add: split)
    then show ?case by simp
  next
    case (3 h x h')
    then show ?case using l(3) [OF assms(1)] l(3) [OF assms(2)] unfolding split by blast
  next
    case (4 h x)
    then show ?case using l(4) [OF assms(1)] l(4) [OF assms(2)] by simp
  qed
qed

text \<open>Pointers: nil, or the address of one cell of the right type and what that reaches.\<close>

definition view_ptr :: "(cell \<Rightarrow> 'x) \<Rightarrow> (heap \<Rightarrow> 'x \<Rightarrow> 'v) \<Rightarrow> heap \<Rightarrow> addr option \<Rightarrow> 'v option" where
  "view_ptr un view h p = (case p of None \<Rightarrow> None | Some a \<Rightarrow> Some (view h (un (mem h a))))"

definition cells_ptr :: "(cell \<Rightarrow> 'x) \<Rightarrow> (heap \<Rightarrow> 'x \<Rightarrow> addr set) \<Rightarrow> heap \<Rightarrow> addr option \<Rightarrow> addr set" where
  "cells_ptr un cells h p = (case p of None \<Rightarrow> {} | Some a \<Rightarrow> insert a (cells h (un (mem h a))))"

definition ok_ptr ::
  "(cell \<Rightarrow> 'x) \<Rightarrow> ('x \<Rightarrow> cell) \<Rightarrow> (heap \<Rightarrow> 'x \<Rightarrow> bool) \<Rightarrow> heap \<Rightarrow> addr option \<Rightarrow> bool" where
  "ok_ptr un C ok h p =
     (case p of None \<Rightarrow> True
      | Some a \<Rightarrow> a < lim h \<and> mem h a = C (un (mem h a)) \<and> ok h (un (mem h a)))"

lemmas ptr_defs = view_ptr_def cells_ptr_def ok_ptr_def

locale boxed = layout view cells ok
  for view :: "heap \<Rightarrow> 'x \<Rightarrow> 'v" and cells and ok +
  fixes un :: "cell \<Rightarrow> 'x" and C :: "'x \<Rightarrow> cell"
  assumes un_C [simp]: "un (C x) = x"

sublocale boxed \<subseteq> ptr: layout "view_ptr un view" "cells_ptr un cells" "ok_ptr un C ok"
proof (unfold_locales, goal_cases)
  case (1 h p h')
  then show ?case
    using frame_view [of h "un (mem h (the p))" h']
    by (auto simp: ptr_defs agree_def split: option.splits)
next
  case (2 h p h')
  then show ?case
    using frame_cells [of h "un (mem h (the p))" h']
    by (auto simp: ptr_defs agree_def split: option.splits)
next
  case (3 h p h')
  then show ?case
    using frame_ok [of h "un (mem h (the p))" h']
    by (auto simp: ptr_defs agree_def split: option.splits)
next
  case (4 h p)
  then show ?case
    using allocated [of h "un (mem h (the p))"] by (auto simp: ptr_defs split: option.splits)
qed

text \<open>Slices: the window of a backing array. The backing array itself is a reached cell.\<close>

definition window :: "slice \<Rightarrow> 'x list \<Rightarrow> 'x list" where
  "window s xs = take (sl_len s) (drop (sl_off s) xs)"

definition view_slice :: "(cell \<Rightarrow> 'x list) \<Rightarrow> (heap \<Rightarrow> 'x \<Rightarrow> 'v) \<Rightarrow> heap \<Rightarrow> slice option \<Rightarrow> 'v list option"
  where
  "view_slice un view h s =
     (case s of None \<Rightarrow> None | Some sl \<Rightarrow> Some (map (view h) (window sl (un (mem h (sl_arr sl))))))"

definition cells_slice :: "(cell \<Rightarrow> 'x list) \<Rightarrow> (heap \<Rightarrow> 'x \<Rightarrow> addr set) \<Rightarrow> heap \<Rightarrow> slice option \<Rightarrow> addr set"
  where
  "cells_slice un cells h s =
     (case s of None \<Rightarrow> {}
      | Some sl \<Rightarrow> insert (sl_arr sl) (\<Union>x \<in> set (window sl (un (mem h (sl_arr sl)))). cells h x))"

definition ok_slice ::
  "(cell \<Rightarrow> 'x list) \<Rightarrow> ('x list \<Rightarrow> cell) \<Rightarrow> (heap \<Rightarrow> 'x \<Rightarrow> bool) \<Rightarrow> heap \<Rightarrow> slice option \<Rightarrow> bool" where
  "ok_slice un C ok h s =
     (case s of None \<Rightarrow> True
      | Some sl \<Rightarrow>
          sl_arr sl < lim h \<and> mem h (sl_arr sl) = C (un (mem h (sl_arr sl))) \<and>
          sl_off sl + sl_len sl \<le> length (un (mem h (sl_arr sl))) \<and>
          (\<forall>x \<in> set (window sl (un (mem h (sl_arr sl)))). ok h x))"

lemmas slice_defs = view_slice_def cells_slice_def ok_slice_def

lemma agree_UN: "agree (\<Union>x \<in> X. cells h x) h h' \<Longrightarrow> x \<in> X \<Longrightarrow> agree (cells h x) h h'"
  by (auto simp: agree_def)

locale rowed = layout view cells ok
  for view :: "heap \<Rightarrow> 'x \<Rightarrow> 'v" and cells and ok +
  fixes un :: "cell \<Rightarrow> 'x list" and C :: "'x list \<Rightarrow> cell"
  assumes un_C [simp]: "un (C xs) = xs"

sublocale rowed \<subseteq> slice: layout "view_slice un view" "cells_slice un cells" "ok_slice un C ok"
proof -
  have reach: "agree (cells h x) h h'"
    if "agree (cells_slice un cells h (Some sl)) h h'" and "x \<in> set (window sl (un (mem h (sl_arr sl))))"
    for h h' sl x
    using that by (auto simp: cells_slice_def agree_def)
  have array: "mem h' (sl_arr sl) = mem h (sl_arr sl)" and limit: "lim h \<le> lim h'"
    if "agree (cells_slice un cells h (Some sl)) h h'" for h h' sl
    using that by (simp_all add: cells_slice_def agree_def)
  show "layout (view_slice un view) (cells_slice un cells) (ok_slice un C ok)"
  proof (unfold_locales, goal_cases)
    case (1 h s h')
    then show ?case
      using frame_view [OF reach] by (cases s) (simp_all add: view_slice_def array)
  next
    case (2 h s h')
    show ?case
    proof (cases s)
      case (Some sl)
      have "mem h' (sl_arr sl) = mem h (sl_arr sl)"
        and "\<And>x. x \<in> set (window sl (un (mem h (sl_arr sl)))) \<Longrightarrow> cells h' x = cells h x"
        using 2 array frame_cells [OF reach] unfolding Some by blast+
      then show ?thesis by (simp add: Some cells_slice_def)
    qed (simp add: cells_slice_def)
  next
    case (3 h s h')
    then show ?case
      using frame_ok [OF _ reach] limit by (cases s) (fastforce simp add: ok_slice_def array)+
  next
    case (4 h s)
    then show ?case
      using allocated by (cases s) (fastforce simp: cells_slice_def ok_slice_def)+
  qed
qed

text \<open>Maps: nil, or a cell with finitely many entries.\<close>

definition view_map :: "heap \<Rightarrow> addr option \<Rightarrow> (string \<rightharpoonup> string) option" where
  "view_map h p = (case p of None \<Rightarrow> None | Some a \<Rightarrow> Some (as_map (mem h a)))"

definition cells_map :: "heap \<Rightarrow> addr option \<Rightarrow> addr set" where
  "cells_map h p = (case p of None \<Rightarrow> {} | Some a \<Rightarrow> {a})"

definition ok_map :: "heap \<Rightarrow> addr option \<Rightarrow> bool" where
  "ok_map h p = (case p of None \<Rightarrow> True
     | Some a \<Rightarrow> a < lim h \<and> mem h a = C_map (as_map (mem h a)) \<and> finite (dom (as_map (mem h a))))"

lemmas map_defs = view_map_def cells_map_def ok_map_def

interpretation map_ref: layout view_map cells_map ok_map
  by unfold_locales (auto simp: map_defs agree_def split: option.splits)

section \<open>The structs of the API\<close>

interpretation strings: rowed plain no_cells always_ok as_strings C_strings
  by unfold_locales simp

interpretation conditions_row: rowed plain no_cells always_ok as_conditions C_conditions
  by unfold_locales simp

interpretation owners_row: rowed plain no_cells always_ok as_owners C_owners
  by unfold_locales simp

interpretation time_box: boxed plain no_cells always_ok as_time C_time
  by unfold_locales simp

interpretation int64_box: boxed plain no_cells always_ok as_int64 C_int64
  by unfold_locales simp

abbreviation "view_strings \<equiv> view_slice as_strings plain"
abbreviation "cells_strings \<equiv> cells_slice as_strings no_cells"
abbreviation "ok_strings \<equiv> ok_slice as_strings C_strings always_ok"

abbreviation "view_time \<equiv> view_ptr as_time plain"
abbreviation "cells_time \<equiv> cells_ptr as_time no_cells"
abbreviation "ok_time \<equiv> ok_ptr as_time C_time always_ok"

abbreviation "view_conditions \<equiv> view_slice as_conditions plain"
abbreviation "cells_conditions \<equiv> cells_slice as_conditions no_cells"
abbreviation "ok_conditions \<equiv> ok_slice as_conditions C_conditions always_ok"

definition view_TargetSecretSpec where
  "view_TargetSecretSpec h x = (mts_Name x, view_map h (mts_Keys x))"
definition cells_TargetSecretSpec where
  "cells_TargetSecretSpec h x = cells_map h (mts_Keys x)"
definition ok_TargetSecretSpec where
  "ok_TargetSecretSpec h x = ok_map h (mts_Keys x)"

definition view_GitHubProviderConfig where
  "view_GitHubProviderConfig h x =
     (mgh_AppConfigRef x, view_strings h (mgh_Repositories x), view_map h (mgh_Permissions x))"
definition cells_GitHubProviderConfig where
  "cells_GitHubProviderConfig h x = cells_strings h (mgh_Repositories x) \<union> cells_map h (mgh_Permissions x)"
definition ok_GitHubProviderConfig where
  "ok_GitHubProviderConfig h x = (ok_strings h (mgh_Repositories x) \<and> ok_map h (mgh_Permissions x))"

definition view_DatabaseProviderConfig where
  "view_DatabaseProviderConfig h x =
     ((mdb_Engine x, mdb_AdminSecretRef x, mdb_ConnectionRef x), view_strings h (mdb_Grants x))"
definition cells_DatabaseProviderConfig where
  "cells_DatabaseProviderConfig h x = cells_strings h (mdb_Grants x)"
definition ok_DatabaseProviderConfig where
  "ok_DatabaseProviderConfig h x = ok_strings h (mdb_Grants x)"

lemmas TargetSecretSpec_defs = view_TargetSecretSpec_def cells_TargetSecretSpec_def ok_TargetSecretSpec_def
lemmas GitHubProviderConfig_defs =
  view_GitHubProviderConfig_def cells_GitHubProviderConfig_def ok_GitHubProviderConfig_def
lemmas DatabaseProviderConfig_defs =
  view_DatabaseProviderConfig_def cells_DatabaseProviderConfig_def ok_DatabaseProviderConfig_def

lemmas leaf_layouts =
  map_ref.layout_axioms strings.slice.layout_axioms conditions_row.slice.layout_axioms
  owners_row.slice.layout_axioms time_box.ptr.layout_axioms int64_box.ptr.layout_axioms

lemma boxedI: "layout v c k \<Longrightarrow> (\<And>x. un (C x) = x) \<Longrightarrow> boxed v c k un C"
  by (simp add: boxed_def boxed_axioms_def)

interpretation LocalObjectReference_box: boxed plain no_cells always_ok
  as_LocalObjectReference C_LocalObjectReference
  by unfold_locales simp

interpretation AWS_box: boxed plain no_cells always_ok as_AWSProviderConfig C_AWSProviderConfig
  by unfold_locales simp

interpretation Vault_box: boxed plain no_cells always_ok as_VaultProviderConfig C_VaultProviderConfig
  by unfold_locales simp

interpretation TargetSecretSpec_box: boxed view_TargetSecretSpec cells_TargetSecretSpec ok_TargetSecretSpec
  as_TargetSecretSpec C_TargetSecretSpec
  unfolding TargetSecretSpec_defs [abs_def] by (intro boxedI layout_field leaf_layouts) simp

interpretation GitHub_box: boxed view_GitHubProviderConfig cells_GitHubProviderConfig ok_GitHubProviderConfig
  as_GitHubProviderConfig C_GitHubProviderConfig
  unfolding GitHubProviderConfig_defs [abs_def] by (intro boxedI layout_field layout_both leaf_layouts) simp

interpretation Database_box: boxed view_DatabaseProviderConfig cells_DatabaseProviderConfig
  ok_DatabaseProviderConfig as_DatabaseProviderConfig C_DatabaseProviderConfig
  unfolding DatabaseProviderConfig_defs [abs_def] by (intro boxedI layout_field layout_both leaf_layouts) simp

definition view_ProviderConfig where
  "view_ProviderConfig h x =
     (view_ptr as_GitHubProviderConfig view_GitHubProviderConfig h (mpc_GitHub x),
      view_ptr as_AWSProviderConfig plain h (mpc_AWS x),
      view_ptr as_DatabaseProviderConfig view_DatabaseProviderConfig h (mpc_Database x),
      view_ptr as_VaultProviderConfig plain h (mpc_Vault x))"
definition cells_ProviderConfig where
  "cells_ProviderConfig h x =
     cells_ptr as_GitHubProviderConfig cells_GitHubProviderConfig h (mpc_GitHub x) \<union>
     (cells_ptr as_AWSProviderConfig no_cells h (mpc_AWS x) \<union>
      (cells_ptr as_DatabaseProviderConfig cells_DatabaseProviderConfig h (mpc_Database x) \<union>
       cells_ptr as_VaultProviderConfig no_cells h (mpc_Vault x)))"
definition ok_ProviderConfig where
  "ok_ProviderConfig h x =
     (ok_ptr as_GitHubProviderConfig C_GitHubProviderConfig ok_GitHubProviderConfig h (mpc_GitHub x) \<and>
      ok_ptr as_AWSProviderConfig C_AWSProviderConfig always_ok h (mpc_AWS x) \<and>
      ok_ptr as_DatabaseProviderConfig C_DatabaseProviderConfig ok_DatabaseProviderConfig h (mpc_Database x) \<and>
      ok_ptr as_VaultProviderConfig C_VaultProviderConfig always_ok h (mpc_Vault x))"

definition view_EphemeralCredentialSpec where
  "view_EphemeralCredentialSpec h x =
     ((msp_Provider x, msp_TTLSeconds x, msp_RotateBeforeSeconds x),
      view_TargetSecretSpec h (msp_TargetSecret x), view_ProviderConfig h (msp_ProviderConfig x))"
definition cells_EphemeralCredentialSpec where
  "cells_EphemeralCredentialSpec h x =
     cells_TargetSecretSpec h (msp_TargetSecret x) \<union> cells_ProviderConfig h (msp_ProviderConfig x)"
definition ok_EphemeralCredentialSpec where
  "ok_EphemeralCredentialSpec h x =
     (ok_TargetSecretSpec h (msp_TargetSecret x) \<and> ok_ProviderConfig h (msp_ProviderConfig x))"

definition view_EphemeralCredentialStatus where
  "view_EphemeralCredentialStatus h x =
     ((mst_State x, mst_ObservedGeneration x),
      view_time h (mst_ExpiresAt x), view_time h (mst_LastRotatedAt x), view_conditions h (mst_Conditions x))"
definition cells_EphemeralCredentialStatus where
  "cells_EphemeralCredentialStatus h x =
     cells_time h (mst_ExpiresAt x) \<union> (cells_time h (mst_LastRotatedAt x) \<union> cells_conditions h (mst_Conditions x))"
definition ok_EphemeralCredentialStatus where
  "ok_EphemeralCredentialStatus h x =
     (ok_time h (mst_ExpiresAt x) \<and> ok_time h (mst_LastRotatedAt x) \<and> ok_conditions h (mst_Conditions x))"

definition view_ObjectMeta where
  "view_ObjectMeta h x =
     ((mom_Name x, mom_Namespace x, mom_UID x, mom_ResourceVersion x, mom_Generation x),
      view_time h (mom_DeletionTimestamp x), view_strings h (mom_Finalizers x),
      view_map h (mom_Annotations x), view_slice as_owners plain h (mom_OwnerReferences x))"
definition cells_ObjectMeta where
  "cells_ObjectMeta h x =
     cells_time h (mom_DeletionTimestamp x) \<union> (cells_strings h (mom_Finalizers x) \<union>
     (cells_map h (mom_Annotations x) \<union> cells_slice as_owners no_cells h (mom_OwnerReferences x)))"
definition ok_ObjectMeta where
  "ok_ObjectMeta h x =
     (ok_time h (mom_DeletionTimestamp x) \<and> ok_strings h (mom_Finalizers x) \<and>
      ok_map h (mom_Annotations x) \<and> ok_slice as_owners C_owners always_ok h (mom_OwnerReferences x))"

definition view_ListMeta where
  "view_ListMeta h x =
     ((mlm_SelfLink x, mlm_ResourceVersion x, mlm_Continue x),
      view_ptr as_int64 plain h (mlm_RemainingItemCount x))"
definition cells_ListMeta where
  "cells_ListMeta h x = cells_ptr as_int64 no_cells h (mlm_RemainingItemCount x)"
definition ok_ListMeta where
  "ok_ListMeta h x = ok_ptr as_int64 C_int64 always_ok h (mlm_RemainingItemCount x)"

definition view_EphemeralCredential where
  "view_EphemeralCredential h x =
     (mec_TypeMeta x, view_ObjectMeta h (mec_ObjectMeta x),
      view_EphemeralCredentialSpec h (mec_Spec x), view_EphemeralCredentialStatus h (mec_Status x))"
definition cells_EphemeralCredential where
  "cells_EphemeralCredential h x =
     cells_ObjectMeta h (mec_ObjectMeta x) \<union>
     (cells_EphemeralCredentialSpec h (mec_Spec x) \<union> cells_EphemeralCredentialStatus h (mec_Status x))"
definition ok_EphemeralCredential where
  "ok_EphemeralCredential h x =
     (ok_ObjectMeta h (mec_ObjectMeta x) \<and>
      ok_EphemeralCredentialSpec h (mec_Spec x) \<and> ok_EphemeralCredentialStatus h (mec_Status x))"

definition view_EphemeralCredentialList where
  "view_EphemeralCredentialList h x =
     (mel_TypeMeta x, view_ListMeta h (mel_ListMeta x),
      view_slice as_EphemeralCredentials view_EphemeralCredential h (mel_Items x))"
definition cells_EphemeralCredentialList where
  "cells_EphemeralCredentialList h x =
     cells_ListMeta h (mel_ListMeta x) \<union>
     cells_slice as_EphemeralCredentials cells_EphemeralCredential h (mel_Items x)"
definition ok_EphemeralCredentialList where
  "ok_EphemeralCredentialList h x =
     (ok_ListMeta h (mel_ListMeta x) \<and>
      ok_slice as_EphemeralCredentials C_EphemeralCredentials ok_EphemeralCredential h (mel_Items x))"

lemmas ProviderConfig_defs = view_ProviderConfig_def cells_ProviderConfig_def ok_ProviderConfig_def
lemmas EphemeralCredentialSpec_defs =
  view_EphemeralCredentialSpec_def cells_EphemeralCredentialSpec_def ok_EphemeralCredentialSpec_def
lemmas EphemeralCredentialStatus_defs =
  view_EphemeralCredentialStatus_def cells_EphemeralCredentialStatus_def ok_EphemeralCredentialStatus_def
lemmas ObjectMeta_defs = view_ObjectMeta_def cells_ObjectMeta_def ok_ObjectMeta_def
lemmas ListMeta_defs = view_ListMeta_def cells_ListMeta_def ok_ListMeta_def
lemmas EphemeralCredential_defs =
  view_EphemeralCredential_def cells_EphemeralCredential_def ok_EphemeralCredential_def
lemmas EphemeralCredentialList_defs =
  view_EphemeralCredentialList_def cells_EphemeralCredentialList_def ok_EphemeralCredentialList_def

lemmas layout_intros = layout_field layout_both leaf_layouts
  GitHub_box.ptr.layout_axioms AWS_box.ptr.layout_axioms Database_box.ptr.layout_axioms
  Vault_box.ptr.layout_axioms TargetSecretSpec_box.layout_axioms

interpretation ProviderConfig_box: boxed view_ProviderConfig cells_ProviderConfig ok_ProviderConfig
  as_ProviderConfig C_ProviderConfig
  unfolding ProviderConfig_defs [abs_def] by (intro boxedI layout_intros) simp

interpretation Spec_box: boxed view_EphemeralCredentialSpec cells_EphemeralCredentialSpec
  ok_EphemeralCredentialSpec as_EphemeralCredentialSpec C_EphemeralCredentialSpec
  unfolding EphemeralCredentialSpec_defs [abs_def]
  by (intro boxedI layout_intros ProviderConfig_box.layout_axioms) simp

interpretation Status_box: boxed view_EphemeralCredentialStatus cells_EphemeralCredentialStatus
  ok_EphemeralCredentialStatus as_EphemeralCredentialStatus C_EphemeralCredentialStatus
  unfolding EphemeralCredentialStatus_defs [abs_def] by (intro boxedI layout_intros) simp

interpretation ObjectMeta_layout: layout view_ObjectMeta cells_ObjectMeta ok_ObjectMeta
  unfolding ObjectMeta_defs [abs_def] by (intro layout_intros)

interpretation ListMeta_layout: layout view_ListMeta cells_ListMeta ok_ListMeta
  unfolding ListMeta_defs [abs_def] by (intro layout_intros)

interpretation EC_box: boxed view_EphemeralCredential cells_EphemeralCredential ok_EphemeralCredential
  as_EphemeralCredential C_EphemeralCredential
  unfolding EphemeralCredential_defs [abs_def]
  by (intro boxedI layout_intros ObjectMeta_layout.layout_axioms Spec_box.layout_axioms
      Status_box.layout_axioms) simp

interpretation EC_row: rowed view_EphemeralCredential cells_EphemeralCredential ok_EphemeralCredential
  as_EphemeralCredentials C_EphemeralCredentials
  by unfold_locales simp

interpretation ECList_box: boxed view_EphemeralCredentialList cells_EphemeralCredentialList
  ok_EphemeralCredentialList as_EphemeralCredentialList C_EphemeralCredentialList
  unfolding EphemeralCredentialList_defs [abs_def]
  by (intro boxedI layout_intros ListMeta_layout.layout_axioms EC_row.slice.layout_axioms) simp

end
