(* ===== verification/Deep_Copy.thy ===== *)
theory Deep_Copy
  imports Api_Memory
begin

text \<open>
  \<open>zz_generated.deepcopy.go\<close>: one definition per \<open>DeepCopyInto\<close>, \<open>DeepCopy\<close> and
  \<open>DeepCopyObject\<close>. A \<open>DeepCopyInto\<close> takes the struct that \<open>in\<close> points to and returns
  what \<open>out\<close> points to afterwards, allocating in the heap on the way; its callers pass places that
  do not overlap (a struct just allocated, or a field of one), so writing the result back is the
  caller's last step. The methods of \<open>metav1\<close> (\<open>Time.DeepCopy\<close>, \<open>Condition.DeepCopyInto\<close>,
  \<open>ObjectMeta.DeepCopyInto\<close>, \<open>ListMeta.DeepCopyInto\<close>) and the order in which \<open>range\<close> visits a map
  are parameters.

  The contract \<open>copied\<close> of a copy function: nothing allocated before is written, the result is
  well typed, shows the same values as the original, and reaches only cells allocated by the copy.
  The locale \<open>copy_env\<close> assumes it of the library's methods, and derives it for every function of
  the file.
\<close>

section \<open>The library the copies call\<close>

record copy_lib =
  rt_range :: "heap \<Rightarrow> (string \<rightharpoonup> string) \<Rightarrow> (string \<times> string) list"
  lib_Time_DeepCopy :: "addr \<Rightarrow> addr heap_io"
  lib_Condition_DeepCopyInto :: "Condition \<Rightarrow> Condition heap_io"
  lib_ObjectMeta_DeepCopyInto :: "ObjectMeta_m \<Rightarrow> ObjectMeta_m heap_io"
  lib_ListMeta_DeepCopyInto :: "ListMeta_m \<Rightarrow> ListMeta_m heap_io"

section \<open>Statements shared by the functions\<close>

text \<open>
  \<open>if in.F != nil { in, out := &in.F, &out.F; *out = ... }\<close>: the value of \<open>out.F\<close> after the
  block. A nil field was copied by \<open>*out = *in\<close>.
\<close>

definition if_not_nil :: "'p option \<Rightarrow> ('p \<Rightarrow> 'p heap_io) \<Rightarrow> 'p option heap_io" where
  "if_not_nil p f = (case p of None \<Rightarrow> State_Monad.return None
     | Some a \<Rightarrow> State_Monad.bind (f a) (\<lambda>b. State_Monad.return (Some b)))"

fun for_each :: "'e list \<Rightarrow> ('e \<Rightarrow> unit heap_io) \<Rightarrow> unit heap_io" where
  "for_each [] f = State_Monad.return ()"
| "for_each (x # xs) f = State_Monad.bind (f x) (\<lambda>_. for_each xs f)"

text \<open>The builtin \<open>copy\<close>: as many elements as both slices have.\<close>

definition go_copy :: "'e list \<Rightarrow> 'e list \<Rightarrow> 'e list" where
  "go_copy dst src = take (length dst) src @ drop (length src) dst"

text \<open>\<open>*out = make([]string, len(*in)); copy(*out, *in)\<close>\<close>

definition clone_strings :: "slice \<Rightarrow> slice heap_io" where
  "clone_strings s = do {
     a \<leftarrow> alloc (C_strings (replicate (sl_len s) []));
     src \<leftarrow> load as_strings (sl_arr s);
     dst \<leftarrow> load as_strings a;
     _ \<leftarrow> store a (C_strings (go_copy dst (window s src)));
     State_Monad.return \<lparr>sl_arr = a, sl_off = 0, sl_len = sl_len s\<rparr>
   }"

text \<open>\<open>*out = make(map[string]string, len(*in)); for key, val := range *in { (*out)[key] = val }\<close>\<close>

definition clone_map :: "(heap \<Rightarrow> (string \<rightharpoonup> string) \<Rightarrow> (string \<times> string) list) \<Rightarrow> addr \<Rightarrow> addr heap_io"
  where
  "clone_map range_of p = do {
     a \<leftarrow> alloc (C_map Map.empty);
     src \<leftarrow> load as_map p;
     entries \<leftarrow> State (\<lambda>h. (range_of h src, h));
     _ \<leftarrow> for_each entries (\<lambda>(key, val). do {
       m \<leftarrow> load as_map a;
       store a (C_map (m(key \<mapsto> val)))
     });
     State_Monad.return a
   }"

text \<open>
  \<open>*out = make([]T, len(*in)); for i := range *in { (*in)[i].DeepCopyInto(&(*out)[i]) }\<close>
\<close>

definition clone_slice ::
  "('x list \<Rightarrow> cell) \<Rightarrow> (cell \<Rightarrow> 'x list) \<Rightarrow> 'x \<Rightarrow> ('x \<Rightarrow> 'x heap_io) \<Rightarrow> slice \<Rightarrow> slice heap_io" where
  "clone_slice C un zero into s = do {
     a \<leftarrow> alloc (C (replicate (sl_len s) zero));
     _ \<leftarrow> for_each [0..<sl_len s] (\<lambda>i. do {
       xs \<leftarrow> load un (sl_arr s);
       y \<leftarrow> into (window s xs ! i);
       ys \<leftarrow> load un a;
       store a (C (ys[i := y]))
     });
     State_Monad.return \<lparr>sl_arr = a, sl_off = 0, sl_len = sl_len s\<rparr>
   }"

text \<open>\<open>out := new(T); in.DeepCopyInto(out)\<close>\<close>

definition new_copy :: "('x \<Rightarrow> cell) \<Rightarrow> (cell \<Rightarrow> 'x) \<Rightarrow> 'x \<Rightarrow> ('x \<Rightarrow> 'x heap_io) \<Rightarrow> addr \<Rightarrow> addr heap_io" where
  "new_copy C un zero into a = do {
     out \<leftarrow> alloc (C zero);
     x \<leftarrow> load un a;
     y \<leftarrow> into x;
     _ \<leftarrow> store out (C y);
     State_Monad.return out
   }"

section \<open>The functions of the file\<close>

definition AWSProviderConfig_DeepCopyInto :: "AWSProviderConfig \<Rightarrow> AWSProviderConfig heap_io" where
  "AWSProviderConfig_DeepCopyInto inp = State_Monad.return inp"

definition AWSProviderConfig_DeepCopy :: "addr option \<Rightarrow> addr option heap_io" where
  "AWSProviderConfig_DeepCopy inp = if_not_nil inp
     (new_copy C_AWSProviderConfig as_AWSProviderConfig zero_AWSProviderConfig AWSProviderConfig_DeepCopyInto)"

definition DatabaseProviderConfig_DeepCopyInto :: "DatabaseProviderConfig_m \<Rightarrow> DatabaseProviderConfig_m heap_io"
  where
  "DatabaseProviderConfig_DeepCopyInto inp = do {
     let out = inp;
     let out = out\<lparr>mdb_AdminSecretRef := mdb_AdminSecretRef inp\<rparr>;
     let out = out\<lparr>mdb_ConnectionRef := mdb_ConnectionRef inp\<rparr>;
     grants \<leftarrow> if_not_nil (mdb_Grants inp) clone_strings;
     State_Monad.return (out\<lparr>mdb_Grants := grants\<rparr>)
   }"

definition DatabaseProviderConfig_DeepCopy :: "addr option \<Rightarrow> addr option heap_io" where
  "DatabaseProviderConfig_DeepCopy inp = if_not_nil inp
     (new_copy C_DatabaseProviderConfig as_DatabaseProviderConfig zero_DatabaseProviderConfig
       DatabaseProviderConfig_DeepCopyInto)"

definition GitHubProviderConfig_DeepCopyInto ::
  "copy_lib \<Rightarrow> GitHubProviderConfig_m \<Rightarrow> GitHubProviderConfig_m heap_io" where
  "GitHubProviderConfig_DeepCopyInto L inp = do {
     let out = inp;
     let out = out\<lparr>mgh_AppConfigRef := mgh_AppConfigRef inp\<rparr>;
     repositories \<leftarrow> if_not_nil (mgh_Repositories inp) clone_strings;
     let out = out\<lparr>mgh_Repositories := repositories\<rparr>;
     permissions \<leftarrow> if_not_nil (mgh_Permissions inp) (clone_map (rt_range L));
     State_Monad.return (out\<lparr>mgh_Permissions := permissions\<rparr>)
   }"

definition GitHubProviderConfig_DeepCopy :: "copy_lib \<Rightarrow> addr option \<Rightarrow> addr option heap_io" where
  "GitHubProviderConfig_DeepCopy L inp = if_not_nil inp
     (new_copy C_GitHubProviderConfig as_GitHubProviderConfig zero_GitHubProviderConfig
       (GitHubProviderConfig_DeepCopyInto L))"

definition LocalObjectReference_DeepCopyInto :: "LocalObjectReference \<Rightarrow> LocalObjectReference heap_io" where
  "LocalObjectReference_DeepCopyInto inp = State_Monad.return inp"

definition LocalObjectReference_DeepCopy :: "addr option \<Rightarrow> addr option heap_io" where
  "LocalObjectReference_DeepCopy inp = if_not_nil inp
     (new_copy C_LocalObjectReference as_LocalObjectReference zero_LocalObjectReference
       LocalObjectReference_DeepCopyInto)"

definition VaultProviderConfig_DeepCopyInto :: "VaultProviderConfig \<Rightarrow> VaultProviderConfig heap_io" where
  "VaultProviderConfig_DeepCopyInto inp = do {
     let out = inp;
     State_Monad.return (out\<lparr>vault_BackendRef := vault_BackendRef inp\<rparr>)
   }"

definition VaultProviderConfig_DeepCopy :: "addr option \<Rightarrow> addr option heap_io" where
  "VaultProviderConfig_DeepCopy inp = if_not_nil inp
     (new_copy C_VaultProviderConfig as_VaultProviderConfig zero_VaultProviderConfig
       VaultProviderConfig_DeepCopyInto)"

definition ProviderConfig_DeepCopyInto :: "copy_lib \<Rightarrow> ProviderConfig_m \<Rightarrow> ProviderConfig_m heap_io" where
  "ProviderConfig_DeepCopyInto L inp = do {
     let out = inp;
     github \<leftarrow> if_not_nil (mpc_GitHub inp)
       (new_copy C_GitHubProviderConfig as_GitHubProviderConfig zero_GitHubProviderConfig
         (GitHubProviderConfig_DeepCopyInto L));
     let out = out\<lparr>mpc_GitHub := github\<rparr>;
     aws \<leftarrow> if_not_nil (mpc_AWS inp)
       (new_copy C_AWSProviderConfig as_AWSProviderConfig zero_AWSProviderConfig AWSProviderConfig_DeepCopyInto);
     let out = out\<lparr>mpc_AWS := aws\<rparr>;
     database \<leftarrow> if_not_nil (mpc_Database inp)
       (new_copy C_DatabaseProviderConfig as_DatabaseProviderConfig zero_DatabaseProviderConfig
         DatabaseProviderConfig_DeepCopyInto);
     let out = out\<lparr>mpc_Database := database\<rparr>;
     vault \<leftarrow> if_not_nil (mpc_Vault inp)
       (new_copy C_VaultProviderConfig as_VaultProviderConfig zero_VaultProviderConfig
         VaultProviderConfig_DeepCopyInto);
     State_Monad.return (out\<lparr>mpc_Vault := vault\<rparr>)
   }"

definition ProviderConfig_DeepCopy :: "copy_lib \<Rightarrow> addr option \<Rightarrow> addr option heap_io" where
  "ProviderConfig_DeepCopy L inp = if_not_nil inp
     (new_copy C_ProviderConfig as_ProviderConfig zero_ProviderConfig (ProviderConfig_DeepCopyInto L))"

definition TargetSecretSpec_DeepCopyInto :: "copy_lib \<Rightarrow> TargetSecretSpec_m \<Rightarrow> TargetSecretSpec_m heap_io" where
  "TargetSecretSpec_DeepCopyInto L inp = do {
     let out = inp;
     keys \<leftarrow> if_not_nil (mts_Keys inp) (clone_map (rt_range L));
     State_Monad.return (out\<lparr>mts_Keys := keys\<rparr>)
   }"

definition TargetSecretSpec_DeepCopy :: "copy_lib \<Rightarrow> addr option \<Rightarrow> addr option heap_io" where
  "TargetSecretSpec_DeepCopy L inp = if_not_nil inp
     (new_copy C_TargetSecretSpec as_TargetSecretSpec zero_TargetSecretSpec (TargetSecretSpec_DeepCopyInto L))"

definition EphemeralCredentialSpec_DeepCopyInto ::
  "copy_lib \<Rightarrow> EphemeralCredentialSpec_m \<Rightarrow> EphemeralCredentialSpec_m heap_io" where
  "EphemeralCredentialSpec_DeepCopyInto L inp = do {
     let out = inp;
     targetSecret \<leftarrow> TargetSecretSpec_DeepCopyInto L (msp_TargetSecret inp);
     let out = out\<lparr>msp_TargetSecret := targetSecret\<rparr>;
     providerConfig \<leftarrow> ProviderConfig_DeepCopyInto L (msp_ProviderConfig inp);
     State_Monad.return (out\<lparr>msp_ProviderConfig := providerConfig\<rparr>)
   }"

definition EphemeralCredentialSpec_DeepCopy :: "copy_lib \<Rightarrow> addr option \<Rightarrow> addr option heap_io" where
  "EphemeralCredentialSpec_DeepCopy L inp = if_not_nil inp
     (new_copy C_EphemeralCredentialSpec as_EphemeralCredentialSpec zero_EphemeralCredentialSpec
       (EphemeralCredentialSpec_DeepCopyInto L))"

definition EphemeralCredentialStatus_DeepCopyInto ::
  "copy_lib \<Rightarrow> EphemeralCredentialStatus_m \<Rightarrow> EphemeralCredentialStatus_m heap_io" where
  "EphemeralCredentialStatus_DeepCopyInto L inp = do {
     let out = inp;
     expiresAt \<leftarrow> if_not_nil (mst_ExpiresAt inp) (lib_Time_DeepCopy L);
     let out = out\<lparr>mst_ExpiresAt := expiresAt\<rparr>;
     lastRotatedAt \<leftarrow> if_not_nil (mst_LastRotatedAt inp) (lib_Time_DeepCopy L);
     let out = out\<lparr>mst_LastRotatedAt := lastRotatedAt\<rparr>;
     conditions \<leftarrow> if_not_nil (mst_Conditions inp)
       (clone_slice C_conditions as_conditions zero_Condition (lib_Condition_DeepCopyInto L));
     State_Monad.return (out\<lparr>mst_Conditions := conditions\<rparr>)
   }"

definition EphemeralCredentialStatus_DeepCopy :: "copy_lib \<Rightarrow> addr option \<Rightarrow> addr option heap_io" where
  "EphemeralCredentialStatus_DeepCopy L inp = if_not_nil inp
     (new_copy C_EphemeralCredentialStatus as_EphemeralCredentialStatus zero_EphemeralCredentialStatus
       (EphemeralCredentialStatus_DeepCopyInto L))"

definition EphemeralCredential_DeepCopyInto ::
  "copy_lib \<Rightarrow> EphemeralCredential_m \<Rightarrow> EphemeralCredential_m heap_io" where
  "EphemeralCredential_DeepCopyInto L inp = do {
     let out = inp;
     let out = out\<lparr>mec_TypeMeta := mec_TypeMeta inp\<rparr>;
     objectMeta \<leftarrow> lib_ObjectMeta_DeepCopyInto L (mec_ObjectMeta inp);
     let out = out\<lparr>mec_ObjectMeta := objectMeta\<rparr>;
     spec \<leftarrow> EphemeralCredentialSpec_DeepCopyInto L (mec_Spec inp);
     let out = out\<lparr>mec_Spec := spec\<rparr>;
     status \<leftarrow> EphemeralCredentialStatus_DeepCopyInto L (mec_Status inp);
     State_Monad.return (out\<lparr>mec_Status := status\<rparr>)
   }"

definition EphemeralCredential_DeepCopy :: "copy_lib \<Rightarrow> addr option \<Rightarrow> addr option heap_io" where
  "EphemeralCredential_DeepCopy L inp = if_not_nil inp
     (new_copy C_EphemeralCredential as_EphemeralCredential zero_EphemeralCredential
       (EphemeralCredential_DeepCopyInto L))"

definition EphemeralCredentialList_DeepCopyInto ::
  "copy_lib \<Rightarrow> EphemeralCredentialList_m \<Rightarrow> EphemeralCredentialList_m heap_io" where
  "EphemeralCredentialList_DeepCopyInto L inp = do {
     let out = inp;
     let out = out\<lparr>mel_TypeMeta := mel_TypeMeta inp\<rparr>;
     listMeta \<leftarrow> lib_ListMeta_DeepCopyInto L (mel_ListMeta inp);
     let out = out\<lparr>mel_ListMeta := listMeta\<rparr>;
     items \<leftarrow> if_not_nil (mel_Items inp)
       (clone_slice C_EphemeralCredentials as_EphemeralCredentials zero_EphemeralCredential
         (EphemeralCredential_DeepCopyInto L));
     State_Monad.return (out\<lparr>mel_Items := items\<rparr>)
   }"

definition EphemeralCredentialList_DeepCopy :: "copy_lib \<Rightarrow> addr option \<Rightarrow> addr option heap_io" where
  "EphemeralCredentialList_DeepCopy L inp = if_not_nil inp
     (new_copy C_EphemeralCredentialList as_EphemeralCredentialList zero_EphemeralCredentialList
       (EphemeralCredentialList_DeepCopyInto L))"

text \<open>
  A \<open>runtime.Object\<close>: the nil interface, or a dynamic type with a pointer, which may itself be nil
  (an interface that holds a nil pointer is not the nil interface).
\<close>

datatype runtime_Object =
    NilObject
  | EphemeralCredentialObject "addr option"
  | EphemeralCredentialListObject "addr option"

definition EphemeralCredential_DeepCopyObject :: "copy_lib \<Rightarrow> addr option \<Rightarrow> runtime_Object heap_io" where
  "EphemeralCredential_DeepCopyObject L inp = do {
     c \<leftarrow> EphemeralCredential_DeepCopy L inp;
     if c \<noteq> None then State_Monad.return (EphemeralCredentialObject c)
     else State_Monad.return NilObject
   }"

definition EphemeralCredentialList_DeepCopyObject :: "copy_lib \<Rightarrow> addr option \<Rightarrow> runtime_Object heap_io" where
  "EphemeralCredentialList_DeepCopyObject L inp = do {
     c \<leftarrow> EphemeralCredentialList_DeepCopy L inp;
     if c \<noteq> None then State_Monad.return (EphemeralCredentialListObject c)
     else State_Monad.return NilObject
   }"

section \<open>The contract of a copy\<close>

text \<open>
  \<open>x\<close> shows the values \<open>v\<close>, is well typed, and all it reaches was allocated at \<open>k\<close> or later.
\<close>

definition fresh_copy ::
  "(heap \<Rightarrow> 'x \<Rightarrow> 'v) \<Rightarrow> (heap \<Rightarrow> 'x \<Rightarrow> addr set) \<Rightarrow> (heap \<Rightarrow> 'x \<Rightarrow> bool) \<Rightarrow> addr \<Rightarrow> 'v \<Rightarrow> heap \<Rightarrow> 'x \<Rightarrow> bool"
  where
  "fresh_copy view cells ok k v h x \<longleftrightarrow> ok h x \<and> view h x = v \<and> cells h x \<subseteq> {k..<lim h}"

context layout
begin

lemma fresh_copy_agree:
  assumes "fresh_copy view cells ok k v h x" and "agree {k..<lim h} h h'"
  shows "fresh_copy view cells ok k v h' x"
proof -
  have "agree (cells h x) h h'" and "lim h \<le> lim h'"
    using assms unfolding fresh_copy_def by (blast intro: agree_subset, simp add: agree_def)
  moreover from this(1) have "view h' x = view h x" "cells h' x = cells h x"
    by (rule frame_view, rule frame_cells)
  ultimately show ?thesis
    using assms(1) frame_ok [of h x h'] by (auto simp: fresh_copy_def)
qed

lemma fresh_copy_extends:
  "fresh_copy view cells ok k v h x \<Longrightarrow> extends h h' \<Longrightarrow> fresh_copy view cells ok k v h' x"
  by (erule fresh_copy_agree) (auto elim: agree_subset)

lemma fresh_copy_later: "fresh_copy view cells ok k v h x \<Longrightarrow> j \<le> k \<Longrightarrow> fresh_copy view cells ok j v h x"
  by (auto simp: fresh_copy_def)

end

locale copied = layout view cells ok
  for view :: "heap \<Rightarrow> 'x \<Rightarrow> 'v" and cells and ok +
  fixes copy :: "'x \<Rightarrow> 'x heap_io"
  assumes contract: "ok h x \<Longrightarrow>
    wp (copy x) (\<lambda>x' h'. extends h h' \<and> fresh_copy view cells ok (lim h) (view h x) h' x') h"
begin

text \<open>The contract as a step of a longer copy that started at \<open>h0\<close>.\<close>

lemma wp_copy:
  assumes "ok h0 x" and "extends h0 h"
    and "\<And>x' h'. extends h h' \<Longrightarrow> extends h0 h' \<Longrightarrow>
      fresh_copy view cells ok (lim h) (view h0 x) h' x' \<Longrightarrow> Q x' h'"
  shows "wp (copy x) Q h"
proof (rule wp_mono [OF contract])
  show "ok h x" using assms(1,2) by (rule extends_ok)
next
  fix x' h' assume "extends h h' \<and> fresh_copy view cells ok (lim h) (view h x) h' x'"
  then show "Q x' h'"
    using assms extends_trans [of h0 h h'] extends_view [of h0 x h] by auto
qed

text \<open>
  Copying one field of a struct whose copy started at \<open>h0\<close>: the field's copy stays a copy in every later
  heap.
\<close>

lemma wp_field:
  assumes "ok h0 x" and "extends h0 h"
    and "\<And>x' h'. extends h0 h' \<Longrightarrow>
      (\<And>h''. extends h' h'' \<Longrightarrow> extends h h'' \<and> fresh_copy view cells ok (lim h0) (view h0 x) h'' x') \<Longrightarrow>
      Q x' h'"
  shows "wp (copy x) Q h"
proof (rule wp_copy [OF assms(1,2)])
  fix x' h'
  assume ext: "extends h h'" "extends h0 h'"
    and fresh: "fresh_copy view cells ok (lim h) (view h0 x) h' x'"
  have "lim h0 \<le> lim h" using assms(2) by (simp add: agree_def)
  from fresh_copy_extends [OF fresh_copy_later [OF fresh this]] extends_trans [OF ext(1)] ext(2)
  show "Q x' h'" by (intro assms(3)) blast+
qed

text \<open>Writing through the copy leaves the original as it was, and writing through the original the copy.\<close>

lemma no_leak:
  assumes "ok h x" and "run_state (copy x) h = (x', h')"
  shows "cells h' x' \<inter> cells h x = {}" and "cells h' x = cells h x"
    and "agree (cells h x) h' h2 \<Longrightarrow> view h2 x = view h x"
    and "agree (cells h' x') h' h2 \<Longrightarrow> view h2 x' = view h x"
proof -
  have ext: "extends h h'" and fresh: "fresh_copy view cells ok (lim h) (view h x) h' x'"
    using wp_run [OF contract assms(2)] assms(1) by auto
  show "cells h' x' \<inter> cells h x = {}" 
    using fresh allocated [OF assms(1)] by (fastforce simp: fresh_copy_def)
  show same: "cells h' x = cells h x" using extends_cells [OF assms(1) ext] .
  show "view h2 x = view h x" if "agree (cells h x) h' h2"
    using frame_view [of h' x h2] that same extends_view [OF assms(1) ext] by simp
  show "view h2 x' = view h x" if "agree (cells h' x') h' h2"
    using frame_view [OF that] fresh by (simp add: fresh_copy_def)
qed

end

lemma wp_if_not_nil:
  "(p = None \<Longrightarrow> Q None h) \<Longrightarrow> (\<And>a. p = Some a \<Longrightarrow> wp (f a) (\<lambda>b. Q (Some b)) h) \<Longrightarrow> wp (if_not_nil p f) Q h"
  by (cases p) (simp_all add: if_not_nil_def wp_transformers)

text \<open>A pointer copied by \<open>new\<close> and \<open>DeepCopyInto\<close>.\<close>

locale struct_copied = copied view cells ok copy + boxed view cells ok un C
  for view :: "heap \<Rightarrow> 'x \<Rightarrow> 'v" and cells and ok and copy and un and C +
  fixes zero :: 'x

sublocale struct_copied \<subseteq> ptr_copy: copied "view_ptr un view" "cells_ptr un cells" "ok_ptr un C ok"
  "\<lambda>p. if_not_nil p (new_copy C un zero copy)"
proof
  fix h p assume ok: "ok_ptr un C ok h p"
  let ?P = "\<lambda>p' h'. extends h h' \<and>
    fresh_copy (view_ptr un view) (cells_ptr un cells) (ok_ptr un C ok) (lim h) (view_ptr un view h p) h' p'"
  show "wp (if_not_nil p (new_copy C un zero copy)) ?P h"
  proof (rule wp_if_not_nil)
    assume "p = None"
    then show "?P None h" by (simp add: fresh_copy_def ptr_defs)
  next
    fix a assume a: "p = Some a"
    with ok have x: "ok h (un (mem h a))" "a < lim h" by (simp_all add: ok_ptr_def)
    have "?P (Some (lim h)) (poke (lim h) (C x') h2)"
      if "extends h h1" "lim h1 = Suc (lim h)" "extends h1 h2" "extends h h2"
        and fresh: "fresh_copy view cells ok (lim h1) (view h (un (mem h a))) h2 x'" for h1 h2 x'
    proof -
      have "fresh_copy view cells ok (lim h1) (view h (un (mem h a))) (poke (lim h) (C x') h2) x'"
        by (rule fresh_copy_agree [OF fresh], rule agree_poke) (simp add: that(2))
      moreover have "lim h < lim h2" using that by (simp add: agree_def)
      ultimately show ?thesis
        using that a by (auto simp: fresh_copy_def ptr_defs agree_def)
    qed
    then show "wp (new_copy C un zero copy a) (\<lambda>b. ?P (Some b)) h"
      unfolding new_copy_def wp_transformers
      by (intro wp_allocI) (auto simp: agree_def [of "{..<lim h}" h] x intro!: wp_copy [OF x(1)])
  qed
qed

text \<open>Loops: an invariant indexed by the number of iterations done.\<close>

lemma wp_for_each:
  assumes "P 0 h"
    and "\<And>i h. i < length xs \<Longrightarrow> P i h \<Longrightarrow> wp (f (xs ! i)) (\<lambda>_. P (Suc i)) h"
    and "\<And>h. P (length xs) h \<Longrightarrow> Q () h"
  shows "wp (for_each xs f) Q h"
  using assms
proof (induction xs arbitrary: P h)
  case (Cons x xs)
  have "wp (for_each xs f) Q h'" if "P (Suc 0) h'" for h'
    by (rule Cons.IH [of "\<lambda>i. P (Suc i)"]) (use that Cons.prems(2) [of "Suc i" for i] Cons.prems(3) in auto)
  then show ?case
    using wp_mono [OF Cons.prems(2) [of 0, OF _ Cons.prems(1)]] by (simp add: wp_bind)
qed (simp add: wp_simps)

text \<open>A slice of structs, copied element by element into a new backing array.\<close>

locale row_copied = copied view cells ok copy + rowed view cells ok un C
  for view :: "heap \<Rightarrow> 'x \<Rightarrow> 'v" and cells and ok and copy and un and C +
  fixes zero :: 'x
begin

definition progress :: "heap \<Rightarrow> 'x list \<Rightarrow> nat \<Rightarrow> heap \<Rightarrow> bool" where
  "progress h xs i h' \<longleftrightarrow> extends h h' \<and> lim h < lim h' \<and>
     (\<exists>ys. mem h' (lim h) = C ys \<and> length ys = length xs \<and>
       (\<forall>j < i. fresh_copy view cells ok (Suc (lim h)) (view h (xs ! j)) h' (ys ! j)))"

lemma progress_step:
  assumes "progress h xs i h1" and "i < length xs"
    and "extends h1 h2" and fresh: "fresh_copy view cells ok (lim h1) (view h (xs ! i)) h2 y"
  shows "progress h xs (Suc i) (poke (lim h) (C ((un (mem h2 (lim h)))[i := y])) h2)"
proof -
  from assms(1) obtain ys where ys: "mem h1 (lim h) = C ys" "length ys = length xs"
    and copies: "\<And>j. j < i \<Longrightarrow> fresh_copy view cells ok (Suc (lim h)) (view h (xs ! j)) h1 (ys ! j)"
    and ext: "extends h h1" "lim h < lim h1" by (auto simp: progress_def)
  let ?h = "poke (lim h) (C (ys[i := y])) h2"
  have same: "mem h2 (lim h) = C ys" using assms(3) ys ext(2) by (simp add: agree_def)
  have keep: "agree {Suc (lim h)..<lim h2} h2 ?h" by (rule agree_poke) simp
  have "fresh_copy view cells ok (Suc (lim h)) (view h (xs ! j)) ?h (ys[i := y] ! j)" if "j < Suc i" for j
  proof (cases "j = i")
    case True
    have "fresh_copy view cells ok (Suc (lim h)) (view h (xs ! i)) h2 y"
      using fresh ext(2) by (auto intro: fresh_copy_later)
    from fresh_copy_agree [OF this keep] show ?thesis using True ys assms(2) by simp
  next
    case False
    with that have "j < i" by simp
    from fresh_copy_agree [OF fresh_copy_extends [OF copies [OF this] assms(3)] keep]
    show ?thesis using False by simp
  qed
  moreover have "extends h ?h" using ext assms(3) by (auto simp: agree_def)
  moreover have "lim h < lim ?h" using ext assms(3) by (simp add: agree_def)
  ultimately show ?thesis using ys same by (auto simp: progress_def)
qed

lemma progress_done:
  assumes "progress h xs (length xs) h'"
  shows "extends h h' \<and> fresh_copy (view_slice un view) (cells_slice un cells) (ok_slice un C ok)
    (lim h) (Some (map (view h) xs)) h' (Some \<lparr>sl_arr = lim h, sl_off = 0, sl_len = length xs\<rparr>)"
proof -
  from assms obtain ys where ys: "mem h' (lim h) = C ys" "length ys = length xs"
    and copies: "\<And>j. j < length xs \<Longrightarrow> fresh_copy view cells ok (Suc (lim h)) (view h (xs ! j)) h' (ys ! j)"
    and ext: "extends h h'" "lim h < lim h'" by (auto simp: progress_def)
  have "map (view h') ys = map (view h) xs"
    using copies ys(2) by (intro nth_equalityI) (auto simp: fresh_copy_def)
  moreover have "ok h' y" and "cells h' y \<subseteq> {lim h..<lim h'}" if "y \<in> set ys" for y
    using that copies ys(2) by (force simp: in_set_conv_nth fresh_copy_def)+
  ultimately show ?thesis
    using ys ext by (auto simp: fresh_copy_def slice_defs window_def)
qed

end

sublocale row_copied \<subseteq> slice_copy: copied "view_slice un view" "cells_slice un cells" "ok_slice un C ok"
  "\<lambda>s. if_not_nil s (clone_slice C un zero copy)"
proof
  fix h p assume ok: "ok_slice un C ok h p"
  let ?P = "\<lambda>p' h'. extends h h' \<and>
    fresh_copy (view_slice un view) (cells_slice un cells) (ok_slice un C ok) (lim h) (view_slice un view h p) h' p'"
  show "wp (if_not_nil p (clone_slice C un zero copy)) ?P h"
  proof (rule wp_if_not_nil)
    assume "p = None"
    then show "?P None h" by (simp add: fresh_copy_def slice_defs)
  next
    fix s assume s: "p = Some s"
    let ?xs = "window s (un (mem h (sl_arr s)))"
    have len: "sl_len s = length ?xs" and arr: "sl_arr s < lim h" and okx: "\<And>x. x \<in> set ?xs \<Longrightarrow> ok h x"
      using ok s by (auto simp: ok_slice_def window_def)
    have step: "wp (copy (window s (un (mem h1 (sl_arr s))) ! i))
        (\<lambda>y h2. progress h ?xs (Suc i) (poke (lim h) (C ((un (mem h2 (lim h)))[i := y])) h2)) h1"
      if "i < length ?xs" "progress h ?xs i h1" for i h1
    proof -
      have ext: "extends h h1" using that(2) by (simp add: progress_def)
      then have "mem h1 (sl_arr s) = mem h (sl_arr s)" using arr by (simp add: agree_def)
      moreover have "ok h (?xs ! i)" using that(1) okx by simp
      ultimately show ?thesis
        using ext that by (auto intro!: wp_copy [of h] progress_step)
    qed
    have start: "progress h ?xs 0 h1"
      if "extends h h1" "lim h1 = Suc (lim h)" "mem h1 (lim h) = C (replicate (sl_len s) zero)" for h1
      using that len by (auto simp: progress_def)
    show "wp (clone_slice C un zero copy s) (\<lambda>b. ?P (Some b)) h"
      unfolding clone_slice_def wp_transformers
      by (intro wp_allocI wp_for_each [where P = "progress h ?xs"])
        (use start step progress_done [of h ?xs] len s in
          \<open>auto simp: wp_transformers view_slice_def\<close>)
  qed
qed

text \<open>Slices of strings, copied by the builtin.\<close>

lemma go_copy_full: "length dst = length src \<Longrightarrow> go_copy dst src = src"
  by (simp add: go_copy_def)

interpretation strings_copy: copied view_strings cells_strings ok_strings "\<lambda>s. if_not_nil s clone_strings"
proof
  fix h p assume ok: "ok_strings h p"
  let ?P = "\<lambda>p' h'. extends h h' \<and>
    fresh_copy view_strings cells_strings ok_strings (lim h) (view_strings h p) h' p'"
  show "wp (if_not_nil p clone_strings) ?P h"
  proof (rule wp_if_not_nil)
    assume "p = None"
    then show "?P None h" by (simp add: fresh_copy_def slice_defs)
  next
    fix s assume s: "p = Some s"
    let ?xs = "window s (as_strings (mem h (sl_arr s)))"
    have xs: "sl_len s = length ?xs" "sl_arr s < lim h" using ok s by (auto simp: ok_slice_def window_def)
    have "?P (Some \<lparr>sl_arr = lim h, sl_off = 0, sl_len = sl_len s\<rparr>) (poke (lim h) (C_strings
        (go_copy (as_strings (mem h1 (lim h))) (window s (as_strings (mem h1 (sl_arr s)))))) h1)"
      if "extends h h1" "lim h1 = Suc (lim h)" "mem h1 (lim h) = C_strings (replicate (sl_len s) [])" for h1
    proof -
      have "mem h1 (sl_arr s) = mem h (sl_arr s)" using that(1) xs(2) by (simp add: agree_def)
      moreover have "go_copy (as_strings (mem h1 (lim h))) ?xs = ?xs"
        using that(3) xs(1) by (intro go_copy_full) simp
      moreover have "window \<lparr>sl_arr = lim h, sl_off = 0, sl_len = sl_len s\<rparr> ?xs = ?xs"
        using xs(1) by (simp add: window_def)
      ultimately show ?thesis
        using that xs(1) s by (auto simp: fresh_copy_def slice_defs plain_defs agree_def)
    qed
    then show "wp (clone_strings s) (\<lambda>b. ?P (Some b)) h"
      unfolding clone_strings_def wp_transformers by (intro wp_allocI) blast
  qed
qed

text \<open>Maps, copied entry by entry in the order of the runtime.\<close>

lemma map_of_rev_distinct: "distinct (map fst es) \<Longrightarrow> map_of (rev es) = map_of es"
  by (intro map_of_eqI) (auto simp: rev_map [symmetric] map_of_eq_Some_iff)

lemma wp_fill_map:
  assumes "mem h a = C_map Map.empty" and "distinct (map fst es)" and "map_of es = m"
    and "\<And>h'. h' = poke a (C_map m) h \<Longrightarrow> Q () h'"
  shows "wp (for_each es (\<lambda>(key, val). State_Monad.bind (load as_map a) (\<lambda>m. store a (C_map (m(key \<mapsto> val))))))
    Q h"
proof (rule wp_for_each [where P = "\<lambda>i h'. h' = poke a (C_map (map_of (rev (take i es)))) h"])
  show "h = poke a (C_map (map_of (rev (take 0 es)))) h"
    using assms(1) by (simp add: poke_def fun_upd_idem)
next
  fix i h' assume "i < length es" and h': "h' = poke a (C_map (map_of (rev (take i es)))) h"
  then have "take (Suc i) es = take i es @ [es ! i]" by (simp add: take_Suc_conv_app_nth)
  then show "wp (case es ! i of (key, val) \<Rightarrow>
      State_Monad.bind (load as_map a) (\<lambda>m. store a (C_map (m(key \<mapsto> val)))))
    (\<lambda>_ h'. h' = poke a (C_map (map_of (rev (take (Suc i) es)))) h) h'"
    by (cases "es ! i") (simp add: wp_transformers h' poke_def)
next
  fix h' assume "h' = poke a (C_map (map_of (rev (take (length es) es)))) h"
  then show "Q () h'" using assms(2-4) by (simp add: map_of_rev_distinct)
qed

lemma map_copied:
  assumes range: "\<And>h m. finite (dom m) \<Longrightarrow> distinct (map fst (range_of h m)) \<and> map_of (range_of h m) = m"
  shows "copied view_map cells_map ok_map (\<lambda>p. if_not_nil p (clone_map range_of))"
proof
  fix h p assume ok: "ok_map h p"
  let ?P = "\<lambda>p' h'. extends h h' \<and> fresh_copy view_map cells_map ok_map (lim h) (view_map h p) h' p'"
  show "wp (if_not_nil p (clone_map range_of)) ?P h"
  proof (rule wp_if_not_nil)
    assume "p = None"
    then show "?P None h" by (simp add: fresh_copy_def map_defs)
  next
    fix b assume b: "p = Some b"
    let ?m = "as_map (mem h b)"
    have m: "finite (dom ?m)" "b < lim h" using ok b by (simp_all add: ok_map_def)
    have "wp (for_each (range_of h1 (as_map (mem h1 b)))
        (\<lambda>(key, val). State_Monad.bind (load as_map (lim h)) (\<lambda>m. store (lim h) (C_map (m(key \<mapsto> val))))))
        (\<lambda>_. ?P (Some (lim h))) h1"
      if "extends h h1" "lim h1 = Suc (lim h)" "mem h1 (lim h) = C_map Map.empty" for h1
    proof (rule wp_fill_map [where m = ?m])
      have "mem h1 b = mem h b" using that(1) m(2) by (simp add: agree_def)
      then show "distinct (map fst (range_of h1 (as_map (mem h1 b))))"
        and "map_of (range_of h1 (as_map (mem h1 b))) = ?m"
        using range [OF m(1)] by simp_all
      fix h' assume "h' = poke (lim h) (C_map ?m) h1"
      then show "?P (Some (lim h)) h'"
        using that m b by (auto simp: fresh_copy_def map_defs agree_def)
    qed (rule that(3))
    then show "wp (clone_map range_of b) (\<lambda>b. ?P (Some b)) h"
      unfolding clone_map_def wp_transformers by (intro wp_allocI) (simp add: wp_State)
  qed
qed

section \<open>Every function of the file keeps the contract\<close>

lemma struct_copiedI:
  assumes "boxed view cells ok un C"
    and "\<And>h x. ok h x \<Longrightarrow> wp (copy x) (\<lambda>x' h'. extends h h' \<and> fresh_copy view cells ok (lim h) (view h x) h' x') h"
  shows "struct_copied view cells ok copy un C"
  using assms by (simp add: struct_copied_def copied_def copied_axioms_def boxed_def)

interpretation LocalObjectReference_copy: struct_copied plain no_cells always_ok
  LocalObjectReference_DeepCopyInto as_LocalObjectReference C_LocalObjectReference zero_LocalObjectReference
  by (rule struct_copiedI [OF LocalObjectReference_box.boxed_axioms])
    (simp add: LocalObjectReference_DeepCopyInto_def wp_return fresh_copy_def plain_defs)

interpretation AWS_copy: struct_copied plain no_cells always_ok
  AWSProviderConfig_DeepCopyInto as_AWSProviderConfig C_AWSProviderConfig zero_AWSProviderConfig
  by (rule struct_copiedI [OF AWS_box.boxed_axioms])
    (simp add: AWSProviderConfig_DeepCopyInto_def wp_return fresh_copy_def plain_defs)

interpretation Vault_copy: struct_copied plain no_cells always_ok
  VaultProviderConfig_DeepCopyInto as_VaultProviderConfig C_VaultProviderConfig zero_VaultProviderConfig
  by (rule struct_copiedI [OF Vault_box.boxed_axioms])
    (simp add: VaultProviderConfig_DeepCopyInto_def wp_return fresh_copy_def plain_defs)

interpretation Database_copy: struct_copied view_DatabaseProviderConfig cells_DatabaseProviderConfig
  ok_DatabaseProviderConfig DatabaseProviderConfig_DeepCopyInto as_DatabaseProviderConfig
  C_DatabaseProviderConfig zero_DatabaseProviderConfig
proof (rule struct_copiedI [OF Database_box.boxed_axioms])
  fix h and x :: DatabaseProviderConfig_m assume ok: "ok_DatabaseProviderConfig h x"
  show "wp (DatabaseProviderConfig_DeepCopyInto x) (\<lambda>x' h'. extends h h' \<and>
      fresh_copy view_DatabaseProviderConfig cells_DatabaseProviderConfig ok_DatabaseProviderConfig
        (lim h) (view_DatabaseProviderConfig h x) h' x') h"
    unfolding DatabaseProviderConfig_DeepCopyInto_def Let_def wp_transformers
    using ok by (intro strings_copy.wp_field [of h]) (simp_all add: fresh_copy_def DatabaseProviderConfig_defs)
qed

locale copy_env =
  fixes L :: copy_lib
  assumes range: "finite (dom m) \<Longrightarrow> distinct (map fst (rt_range L h m)) \<and> map_of (rt_range L h m) = m"
    and time_copied: "copied view_time cells_time ok_time (\<lambda>p. if_not_nil p (lib_Time_DeepCopy L))"
    and condition_copied: "copied plain no_cells always_ok (lib_Condition_DeepCopyInto L)"
    and ObjectMeta_copied:
      "copied view_ObjectMeta cells_ObjectMeta ok_ObjectMeta (lib_ObjectMeta_DeepCopyInto L)"
    and ListMeta_copied: "copied view_ListMeta cells_ListMeta ok_ListMeta (lib_ListMeta_DeepCopyInto L)"

sublocale copy_env \<subseteq> map_copy: copied view_map cells_map ok_map "\<lambda>p. if_not_nil p (clone_map (rt_range L))"
  by (rule map_copied) (rule range)

sublocale copy_env \<subseteq> time_copy: copied view_time cells_time ok_time "\<lambda>p. if_not_nil p (lib_Time_DeepCopy L)"
  by (rule time_copied)

sublocale copy_env \<subseteq> conditions_copy: row_copied plain no_cells always_ok "lib_Condition_DeepCopyInto L"
  as_conditions C_conditions zero_Condition
  using condition_copied conditions_row.rowed_axioms by (rule row_copied.intro)

sublocale copy_env \<subseteq> TargetSecretSpec_copy: struct_copied view_TargetSecretSpec cells_TargetSecretSpec
  ok_TargetSecretSpec "TargetSecretSpec_DeepCopyInto L" as_TargetSecretSpec C_TargetSecretSpec
  zero_TargetSecretSpec
proof (rule struct_copiedI [OF TargetSecretSpec_box.boxed_axioms])
  fix h and x :: TargetSecretSpec_m assume ok: "ok_TargetSecretSpec h x"
  show "wp (TargetSecretSpec_DeepCopyInto L x) (\<lambda>x' h'. extends h h' \<and>
      fresh_copy view_TargetSecretSpec cells_TargetSecretSpec ok_TargetSecretSpec
        (lim h) (view_TargetSecretSpec h x) h' x') h"
    unfolding TargetSecretSpec_DeepCopyInto_def Let_def wp_transformers
    using ok by (intro map_copy.wp_field [of h]) (simp_all add: fresh_copy_def TargetSecretSpec_defs)
qed

sublocale copy_env \<subseteq> GitHub_copy: struct_copied view_GitHubProviderConfig cells_GitHubProviderConfig
  ok_GitHubProviderConfig "GitHubProviderConfig_DeepCopyInto L" as_GitHubProviderConfig
  C_GitHubProviderConfig zero_GitHubProviderConfig
proof (rule struct_copiedI [OF GitHub_box.boxed_axioms])
  fix h and x :: GitHubProviderConfig_m assume ok: "ok_GitHubProviderConfig h x"
  show "wp (GitHubProviderConfig_DeepCopyInto L x) (\<lambda>x' h'. extends h h' \<and>
      fresh_copy view_GitHubProviderConfig cells_GitHubProviderConfig ok_GitHubProviderConfig
        (lim h) (view_GitHubProviderConfig h x) h' x') h"
    unfolding GitHubProviderConfig_DeepCopyInto_def Let_def wp_transformers
    using ok by (intro strings_copy.wp_field [of h] map_copy.wp_field [of h])
      (simp_all add: fresh_copy_def GitHubProviderConfig_defs)
qed

sublocale copy_env \<subseteq> ProviderConfig_copy: struct_copied view_ProviderConfig cells_ProviderConfig
  ok_ProviderConfig "ProviderConfig_DeepCopyInto L" as_ProviderConfig
  C_ProviderConfig zero_ProviderConfig
proof (rule struct_copiedI [OF ProviderConfig_box.boxed_axioms])
  fix h and x :: ProviderConfig_m assume ok: "ok_ProviderConfig h x"
  show "wp (ProviderConfig_DeepCopyInto L x) (\<lambda>x' h'. extends h h' \<and>
      fresh_copy view_ProviderConfig cells_ProviderConfig ok_ProviderConfig
        (lim h) (view_ProviderConfig h x) h' x') h"
    unfolding ProviderConfig_DeepCopyInto_def Let_def wp_transformers
    using ok by (intro GitHub_copy.ptr_copy.wp_field [of h] AWS_copy.ptr_copy.wp_field [of h]
        Database_copy.ptr_copy.wp_field [of h] Vault_copy.ptr_copy.wp_field [of h])
      (simp_all add: fresh_copy_def ProviderConfig_defs)
qed

sublocale copy_env \<subseteq> Spec_copy: struct_copied view_EphemeralCredentialSpec cells_EphemeralCredentialSpec
  ok_EphemeralCredentialSpec "EphemeralCredentialSpec_DeepCopyInto L" as_EphemeralCredentialSpec
  C_EphemeralCredentialSpec zero_EphemeralCredentialSpec
proof (rule struct_copiedI [OF Spec_box.boxed_axioms])
  fix h and x :: EphemeralCredentialSpec_m assume ok: "ok_EphemeralCredentialSpec h x"
  show "wp (EphemeralCredentialSpec_DeepCopyInto L x) (\<lambda>x' h'. extends h h' \<and>
      fresh_copy view_EphemeralCredentialSpec cells_EphemeralCredentialSpec ok_EphemeralCredentialSpec
        (lim h) (view_EphemeralCredentialSpec h x) h' x') h"
    unfolding EphemeralCredentialSpec_DeepCopyInto_def Let_def wp_transformers
    using ok by (intro TargetSecretSpec_copy.wp_field [of h] ProviderConfig_copy.wp_field [of h])
      (simp_all add: fresh_copy_def EphemeralCredentialSpec_defs)
qed

sublocale copy_env \<subseteq> Status_copy: struct_copied view_EphemeralCredentialStatus cells_EphemeralCredentialStatus
  ok_EphemeralCredentialStatus "EphemeralCredentialStatus_DeepCopyInto L" as_EphemeralCredentialStatus
  C_EphemeralCredentialStatus zero_EphemeralCredentialStatus
proof (rule struct_copiedI [OF Status_box.boxed_axioms])
  fix h and x :: EphemeralCredentialStatus_m assume ok: "ok_EphemeralCredentialStatus h x"
  show "wp (EphemeralCredentialStatus_DeepCopyInto L x) (\<lambda>x' h'. extends h h' \<and>
      fresh_copy view_EphemeralCredentialStatus cells_EphemeralCredentialStatus ok_EphemeralCredentialStatus
        (lim h) (view_EphemeralCredentialStatus h x) h' x') h"
    unfolding EphemeralCredentialStatus_DeepCopyInto_def Let_def wp_transformers
    using ok by (intro time_copy.wp_field [of h] conditions_copy.slice_copy.wp_field [of h])
      (simp_all add: fresh_copy_def EphemeralCredentialStatus_defs)
qed

sublocale copy_env \<subseteq> ObjectMeta_copy: copied view_ObjectMeta cells_ObjectMeta ok_ObjectMeta
  "lib_ObjectMeta_DeepCopyInto L"
  by (rule ObjectMeta_copied)

sublocale copy_env \<subseteq> ListMeta_copy: copied view_ListMeta cells_ListMeta ok_ListMeta
  "lib_ListMeta_DeepCopyInto L"
  by (rule ListMeta_copied)

sublocale copy_env \<subseteq> EC_copy: struct_copied view_EphemeralCredential cells_EphemeralCredential
  ok_EphemeralCredential "EphemeralCredential_DeepCopyInto L" as_EphemeralCredential
  C_EphemeralCredential zero_EphemeralCredential
proof (rule struct_copiedI [OF EC_box.boxed_axioms])
  fix h and x :: EphemeralCredential_m assume ok: "ok_EphemeralCredential h x"
  show "wp (EphemeralCredential_DeepCopyInto L x) (\<lambda>x' h'. extends h h' \<and>
      fresh_copy view_EphemeralCredential cells_EphemeralCredential ok_EphemeralCredential
        (lim h) (view_EphemeralCredential h x) h' x') h"
    unfolding EphemeralCredential_DeepCopyInto_def Let_def wp_transformers
    using ok by (intro ObjectMeta_copy.wp_field [of h] Spec_copy.wp_field [of h] Status_copy.wp_field [of h])
      (simp_all add: fresh_copy_def EphemeralCredential_defs)
qed

sublocale copy_env \<subseteq> ECs_copy: row_copied view_EphemeralCredential cells_EphemeralCredential
  ok_EphemeralCredential "EphemeralCredential_DeepCopyInto L" as_EphemeralCredentials
  C_EphemeralCredentials zero_EphemeralCredential
  using EC_copy.copied_axioms EC_row.rowed_axioms by (rule row_copied.intro)

sublocale copy_env \<subseteq> ECList_copy: struct_copied view_EphemeralCredentialList cells_EphemeralCredentialList
  ok_EphemeralCredentialList "EphemeralCredentialList_DeepCopyInto L" as_EphemeralCredentialList
  C_EphemeralCredentialList zero_EphemeralCredentialList
proof (rule struct_copiedI [OF ECList_box.boxed_axioms])
  fix h and x :: EphemeralCredentialList_m assume ok: "ok_EphemeralCredentialList h x"
  show "wp (EphemeralCredentialList_DeepCopyInto L x) (\<lambda>x' h'. extends h h' \<and>
      fresh_copy view_EphemeralCredentialList cells_EphemeralCredentialList ok_EphemeralCredentialList
        (lim h) (view_EphemeralCredentialList h x) h' x') h"
    unfolding EphemeralCredentialList_DeepCopyInto_def Let_def wp_transformers
    using ok by (intro ListMeta_copy.wp_field [of h] ECs_copy.slice_copy.wp_field [of h])
      (simp_all add: fresh_copy_def EphemeralCredentialList_defs)
qed

section \<open>A library that keeps the contract\<close>

text \<open>
  The \<open>metav1\<close> methods as their documentation describes them, and a runtime that visits maps in the
  order of their keys: an instance of the parameters, with which the functions can be run.
\<close>

definition sorted_range :: "heap \<Rightarrow> (string \<rightharpoonup> string) \<Rightarrow> (string \<times> string) list" where
  "sorted_range h m = map (\<lambda>k. (k, the (m k))) (sorted_list_of_set (dom m))"

definition meta_copy :: "ObjectMeta_m \<Rightarrow> ObjectMeta_m heap_io" where
  "meta_copy inp = do {
     deleted \<leftarrow> if_not_nil (mom_DeletionTimestamp inp) (new_copy C_time as_time zero_time State_Monad.return);
     finalizers \<leftarrow> if_not_nil (mom_Finalizers inp) clone_strings;
     annotations \<leftarrow> if_not_nil (mom_Annotations inp) (clone_map sorted_range);
     owners \<leftarrow> if_not_nil (mom_OwnerReferences inp)
       (clone_slice C_owners as_owners \<lparr>or_UID = [], or_Controller = False\<rparr> State_Monad.return);
     State_Monad.return (inp\<lparr>mom_DeletionTimestamp := deleted, mom_Finalizers := finalizers,
       mom_Annotations := annotations, mom_OwnerReferences := owners\<rparr>)
   }"

definition list_meta_copy :: "ListMeta_m \<Rightarrow> ListMeta_m heap_io" where
  "list_meta_copy inp = do {
     remaining \<leftarrow> if_not_nil (mlm_RemainingItemCount inp) (new_copy C_int64 as_int64 0 State_Monad.return);
     State_Monad.return (inp\<lparr>mlm_RemainingItemCount := remaining\<rparr>)
   }"

definition documented_lib :: copy_lib where
  "documented_lib = \<lparr>rt_range = sorted_range,
     lib_Time_DeepCopy = new_copy C_time as_time zero_time State_Monad.return,
     lib_Condition_DeepCopyInto = State_Monad.return,
     lib_ObjectMeta_DeepCopyInto = meta_copy,
     lib_ListMeta_DeepCopyInto = list_meta_copy\<rparr>"

lemma sorted_range_entries:
  assumes "finite (dom m)"
  shows "distinct (map fst (sorted_range h m)) \<and> map_of (sorted_range h m) = m"
  using assms by (auto simp: sorted_range_def comp_def map_of_map_keys)

lemma plain_copied: "copied plain no_cells always_ok State_Monad.return"
  by unfold_locales (simp add: wp_return fresh_copy_def plain_defs)

interpretation sorted_copy: copied view_map cells_map ok_map "\<lambda>p. if_not_nil p (clone_map sorted_range)"
  by (rule map_copied) (rule sorted_range_entries)

interpretation plain_time: struct_copied plain no_cells always_ok State_Monad.return as_time C_time zero_time
  by (rule struct_copied.intro [OF plain_copied time_box.boxed_axioms])

interpretation plain_int64: struct_copied plain no_cells always_ok State_Monad.return as_int64 C_int64 0
  by (rule struct_copied.intro [OF plain_copied int64_box.boxed_axioms])

interpretation plain_owners: row_copied plain no_cells always_ok State_Monad.return as_owners C_owners
  "\<lparr>or_UID = [], or_Controller = False\<rparr>"
  by (rule row_copied.intro [OF plain_copied owners_row.rowed_axioms])

interpretation meta: copied view_ObjectMeta cells_ObjectMeta ok_ObjectMeta meta_copy
proof
  fix h and x :: ObjectMeta_m assume ok: "ok_ObjectMeta h x"
  show "wp (meta_copy x) (\<lambda>x' h'. extends h h' \<and>
      fresh_copy view_ObjectMeta cells_ObjectMeta ok_ObjectMeta (lim h) (view_ObjectMeta h x) h' x') h"
    unfolding meta_copy_def wp_transformers
    using ok by (intro plain_time.ptr_copy.wp_field [of h] strings_copy.wp_field [of h]
        sorted_copy.wp_field [of h] plain_owners.slice_copy.wp_field [of h])
      (simp_all add: fresh_copy_def ObjectMeta_defs)
qed

interpretation list_meta: copied view_ListMeta cells_ListMeta ok_ListMeta list_meta_copy
proof
  fix h and x :: ListMeta_m assume ok: "ok_ListMeta h x"
  show "wp (list_meta_copy x) (\<lambda>x' h'. extends h h' \<and>
      fresh_copy view_ListMeta cells_ListMeta ok_ListMeta (lim h) (view_ListMeta h x) h' x') h"
    unfolding list_meta_copy_def wp_transformers
    using ok by (intro plain_int64.ptr_copy.wp_field [of h]) (simp_all add: fresh_copy_def ListMeta_defs)
qed

interpretation documented: copy_env documented_lib
  by (rule copy_env.intro)
    (simp_all add: documented_lib_def sorted_range_entries plain_copied meta.copied_axioms
      list_meta.copied_axioms plain_time.ptr_copy.copied_axioms)

end
