(* ===== verification/Deep_Copy_Props.thy ===== *)
theory Deep_Copy_Props
  imports Deep_Copy
begin

text \<open>
  What the deep-copy functions promise their callers: the copy shows the same values, shares nothing
  with the original, and a nil object stays the nil interface.
\<close>

text \<open>A pointer to a well-typed \<open>EphemeralCredentialList\<close>: what it shows and what it reaches.\<close>

abbreviation "list_view \<equiv> view_ptr as_EphemeralCredentialList view_EphemeralCredentialList"
abbreviation "list_reach \<equiv> cells_ptr as_EphemeralCredentialList cells_EphemeralCredentialList"
abbreviation "list_ok \<equiv> ok_ptr as_EphemeralCredentialList C_EphemeralCredentialList ok_EphemeralCredentialList"

abbreviation "ec_view \<equiv> view_ptr as_EphemeralCredential view_EphemeralCredential"
abbreviation "ec_reach \<equiv> cells_ptr as_EphemeralCredential cells_EphemeralCredential"
abbreviation "ec_ok \<equiv> ok_ptr as_EphemeralCredential C_EphemeralCredential ok_EphemeralCredential"

lemmas DeepCopy_defs =
  AWSProviderConfig_DeepCopy_def DatabaseProviderConfig_DeepCopy_def EphemeralCredential_DeepCopy_def
  EphemeralCredentialList_DeepCopy_def EphemeralCredentialSpec_DeepCopy_def
  EphemeralCredentialStatus_DeepCopy_def GitHubProviderConfig_DeepCopy_def
  LocalObjectReference_DeepCopy_def ProviderConfig_DeepCopy_def TargetSecretSpec_DeepCopy_def
  VaultProviderConfig_DeepCopy_def

text \<open>A heap with one credential for GitHub at address 6, in a list of one element at address 5.\<close>

definition sample_credential :: EphemeralCredential_m where
  "sample_credential = zero_EphemeralCredential\<lparr>
     mec_Spec := zero_EphemeralCredentialSpec\<lparr>
       msp_Provider := ''github-app'',
       msp_TargetSecret := \<lparr>mts_Name = ''ci'', mts_Keys = None\<rparr>,
       msp_ProviderConfig := zero_ProviderConfig\<lparr>mpc_GitHub := Some 2\<rparr>\<rparr>,
     mec_Status := zero_EphemeralCredentialStatus\<lparr>mst_ExpiresAt := Some 3\<rparr>\<rparr>"

definition sample_heap :: heap where
  "sample_heap = \<lparr>mem = (\<lambda>_. C_int64 0)(
       0 := C_strings [''app'', ''web''],
       1 := C_map [''contents'' \<mapsto> ''read''],
       2 := C_GitHubProviderConfig \<lparr>mgh_AppConfigRef = \<lparr>lor_Name = ''app-config''\<rparr>,
         mgh_Repositories = Some \<lparr>sl_arr = 0, sl_off = 0, sl_len = 2\<rparr>, mgh_Permissions = Some 1\<rparr>,
       3 := C_time (4600 * 1000000000),
       4 := C_EphemeralCredentials [sample_credential],
       5 := C_EphemeralCredentialList (zero_EphemeralCredentialList\<lparr>
         mel_Items := Some \<lparr>sl_arr = 4, sl_off = 0, sl_len = 1\<rparr>\<rparr>),
       6 := C_EphemeralCredential sample_credential), lim = 7\<rparr>"

lemmas heap_sample_defs = sample_heap_def sample_credential_def zero_EphemeralCredential_def
  zero_EphemeralCredentialSpec_def zero_EphemeralCredentialStatus_def zero_ProviderConfig_def
  zero_EphemeralCredentialList_def zero_ObjectMeta_def zero_ListMeta_def

lemmas ok_defs = ok_ptr_def ok_slice_def ok_map_def always_ok_def window_def ok_EphemeralCredentialList_def
  ok_EphemeralCredential_def ok_EphemeralCredentialSpec_def ok_EphemeralCredentialStatus_def
  ok_ObjectMeta_def ok_ListMeta_def ok_TargetSecretSpec_def ok_ProviderConfig_def ok_GitHubProviderConfig_def

lemma sample_ok: "ec_ok sample_heap (Some 6)" "list_ok sample_heap (Some 5)"
  by (simp_all add: heap_sample_defs ok_defs)

lemma if_not_nil_Some: "run_state (if_not_nil (Some a) f) h = (case run_state (f a) h of (b, h') \<Rightarrow> (Some b, h'))"
  by (simp add: if_not_nil_def State_Monad.bind_def)

context copy_env
begin

lemmas DeepCopy_copied =
  EC_copy.ptr_copy.copied_axioms ECList_copy.ptr_copy.copied_axioms Spec_copy.ptr_copy.copied_axioms
  Status_copy.ptr_copy.copied_axioms GitHub_copy.ptr_copy.copied_axioms ProviderConfig_copy.ptr_copy.copied_axioms
  TargetSecretSpec_copy.ptr_copy.copied_axioms

lemma EC_DeepCopy: "copied ec_view ec_reach ec_ok (EphemeralCredential_DeepCopy L)"
  and ECList_DeepCopy: "copied list_view list_reach list_ok (EphemeralCredentialList_DeepCopy L)"
  unfolding DeepCopy_defs [abs_def] by (rule DeepCopy_copied)+

end

text \<open>
  C17. Each of the eleven \<open>DeepCopy\<close> methods is a deep copy: it writes nothing that was allocated
  before, and its result is well typed, shows the same values (nil and empty maps and slices kept
  apart) and reaches only newly allocated cells.
\<close>

theorem deepcopy_methods:
  assumes "copy_env L"
  shows
    "copied ec_view ec_reach ec_ok (EphemeralCredential_DeepCopy L) \<and>
     copied list_view list_reach list_ok (EphemeralCredentialList_DeepCopy L) \<and>
     copied (view_ptr as_EphemeralCredentialSpec view_EphemeralCredentialSpec)
       (cells_ptr as_EphemeralCredentialSpec cells_EphemeralCredentialSpec)
       (ok_ptr as_EphemeralCredentialSpec C_EphemeralCredentialSpec ok_EphemeralCredentialSpec)
       (EphemeralCredentialSpec_DeepCopy L) \<and>
     copied (view_ptr as_EphemeralCredentialStatus view_EphemeralCredentialStatus)
       (cells_ptr as_EphemeralCredentialStatus cells_EphemeralCredentialStatus)
       (ok_ptr as_EphemeralCredentialStatus C_EphemeralCredentialStatus ok_EphemeralCredentialStatus)
       (EphemeralCredentialStatus_DeepCopy L) \<and>
     copied (view_ptr as_GitHubProviderConfig view_GitHubProviderConfig)
       (cells_ptr as_GitHubProviderConfig cells_GitHubProviderConfig)
       (ok_ptr as_GitHubProviderConfig C_GitHubProviderConfig ok_GitHubProviderConfig)
       (GitHubProviderConfig_DeepCopy L) \<and>
     copied (view_ptr as_ProviderConfig view_ProviderConfig) (cells_ptr as_ProviderConfig cells_ProviderConfig)
       (ok_ptr as_ProviderConfig C_ProviderConfig ok_ProviderConfig) (ProviderConfig_DeepCopy L) \<and>
     copied (view_ptr as_TargetSecretSpec view_TargetSecretSpec)
       (cells_ptr as_TargetSecretSpec cells_TargetSecretSpec)
       (ok_ptr as_TargetSecretSpec C_TargetSecretSpec ok_TargetSecretSpec) (TargetSecretSpec_DeepCopy L) \<and>
     copied (view_ptr as_DatabaseProviderConfig view_DatabaseProviderConfig)
       (cells_ptr as_DatabaseProviderConfig cells_DatabaseProviderConfig)
       (ok_ptr as_DatabaseProviderConfig C_DatabaseProviderConfig ok_DatabaseProviderConfig)
       DatabaseProviderConfig_DeepCopy \<and>
     copied (view_ptr as_AWSProviderConfig plain) (cells_ptr as_AWSProviderConfig no_cells)
       (ok_ptr as_AWSProviderConfig C_AWSProviderConfig always_ok) AWSProviderConfig_DeepCopy \<and>
     copied (view_ptr as_VaultProviderConfig plain) (cells_ptr as_VaultProviderConfig no_cells)
       (ok_ptr as_VaultProviderConfig C_VaultProviderConfig always_ok) VaultProviderConfig_DeepCopy \<and>
     copied (view_ptr as_LocalObjectReference plain) (cells_ptr as_LocalObjectReference no_cells)
       (ok_ptr as_LocalObjectReference C_LocalObjectReference always_ok) LocalObjectReference_DeepCopy"
  unfolding DeepCopy_defs [abs_def]
  by (intro conjI copy_env.DeepCopy_copied [OF assms] Database_copy.ptr_copy.copied_axioms
      AWS_copy.ptr_copy.copied_axioms Vault_copy.ptr_copy.copied_axioms
      LocalObjectReference_copy.ptr_copy.copied_axioms)

theorem deepcopy_methods_witness:
  "copied ec_view ec_reach ec_ok (EphemeralCredential_DeepCopy documented_lib) \<and> ec_ok sample_heap (Some 6)"
  using deepcopy_methods [OF documented.copy_env_axioms] sample_ok by blast

text \<open>
  C16. A copied list and its original share nothing: whatever is written through one of them, at any
  address the other does not reach, the other still shows the values the list had when it was copied.
\<close>

theorem deepcopy_no_sharing:
  assumes "copy_env L" and "list_ok h (Some a)"
    and "run_state (EphemeralCredentialList_DeepCopyObject L (Some a)) h = (object, h')"
  shows "\<exists>b. object = EphemeralCredentialListObject (Some b) \<and> list_ok h' (Some b) \<and>
    list_reach h' (Some b) \<inter> list_reach h' (Some a) = {} \<and>
    (\<forall>h2. agree (- list_reach h' (Some b)) h' h2 \<longrightarrow> list_view h2 (Some a) = list_view h (Some a)) \<and>
    (\<forall>h2. agree (- list_reach h' (Some a)) h' h2 \<longrightarrow> list_view h2 (Some b) = list_view h (Some a))"
proof -
  note C = copy_env.ECList_DeepCopy [OF assms(1)]
  from assms(3) obtain b where run: "run_state (EphemeralCredentialList_DeepCopy L (Some a)) h = (Some b, h')"
    and obj: "object = EphemeralCredentialListObject (Some b)"
    by (auto simp: EphemeralCredentialList_DeepCopyObject_def EphemeralCredentialList_DeepCopy_def
        if_not_nil_Some State_Monad.bind_def split: prod.splits)
  note leak = copied.no_leak [OF C assms(2) run]
  have "list_ok h' (Some b)"
    using wp_run [OF copied.contract [OF C assms(2)] run] by (simp add: fresh_copy_def)
  then show ?thesis
    using obj leak(1,2) by (auto intro!: leak(3,4) elim!: agree_subset)
qed

theorem deepcopy_no_sharing_witness:
  "\<exists>b. fst (run_state (EphemeralCredentialList_DeepCopyObject documented_lib (Some 5)) sample_heap) =
     EphemeralCredentialListObject (Some b)"
  using deepcopy_no_sharing [OF documented.copy_env_axioms sample_ok(2) prod.collapse [symmetric]] by blast

text \<open>
  Copying nil gives nil and allocates nothing; \<open>DeepCopyObject\<close> of a nil pointer is the nil
  interface, never an interface around a nil pointer.
\<close>

lemma deepcopy_nil:
  "run_state (EphemeralCredential_DeepCopyObject L None) h = (NilObject, h) \<and>
   run_state (EphemeralCredentialList_DeepCopyObject L None) h = (NilObject, h) \<and>
   fst (run_state (EphemeralCredential_DeepCopyObject L p) h) \<noteq> EphemeralCredentialObject None \<and>
   fst (run_state (EphemeralCredentialList_DeepCopyObject L p) h) \<noteq> EphemeralCredentialListObject None"
  by (auto simp: EphemeralCredential_DeepCopyObject_def EphemeralCredentialList_DeepCopyObject_def
      DeepCopy_defs if_not_nil_def State_Monad.bind_def split: prod.splits option.splits)

end
