(* ===== verification/Broker_System.thy ===== *)
theory Broker_System
  imports Reconcile_Props
begin

text \<open>
  The broker among others. A state of the system is what the API server stores, together with what the
  broker has out there: the Secrets it wrote that were not deleted since (one that others hold back with a finalizer of their own
  counts as deleted), and the target names that users took away. A step is one call of the reconcile that is running, or something somebody else
  does in between: users create resources, edit them, rename their target Secrets, ask for their deletion; anybody deletes Secrets; the
  broker process crashes and starts again. A reconcile is an arbitrary list of effects the code can have
  (\<open>effects_of\<close>), and its calls are served one at a time, so everything else may happen between two of
  them. A call that returns an error may have taken effect all the same (a lost answer).

  One thing is assumed of the users: they do not take the broker's finalizer off a resource. They may
  give a resource another target Secret, and \<open>abandoned\<close> remembers the name it had. As in the controller, there is one worker, and it
  reads the current state of a resource.
\<close>

section \<open>Steps\<close>

declare split_paired_All [simp del] split_paired_Ex [simp del]

record sys =
  srv :: "NamespacedName \<Rightarrow> EphemeralCredential option"
  placed :: "(NamespacedName \<times> NamespacedName) set"
  abandoned :: "(NamespacedName \<times> NamespacedName) set"
  running :: "(NamespacedName \<times> effect list) option"

abbreviation has_finalizer :: "EphemeralCredential \<Rightarrow> bool" where
  "has_finalizer ec \<equiv> FinalizerName \<in> set (om_Finalizers (ec_Meta ec))"

text \<open>An accepted update: optimistic concurrency, and the removal of a deleted resource with its last finalizer.\<close>

definition apply_update :: "EphemeralCredential \<Rightarrow> EphemeralCredential \<Rightarrow> sys \<Rightarrow> sys" where
  "apply_update x y \<sigma> = \<sigma>\<lparr>
     srv := (srv \<sigma>)(ec_key x := (if \<not> deletion_is_zero (om_DeletionTimestamp (ec_Meta x)) \<and>
       om_Finalizers (ec_Meta x) = [] then None else Some y))\<rparr>"

definition remove_secret :: "NamespacedName \<Rightarrow> sys \<Rightarrow> sys" where
  "remove_secret k \<sigma> = \<sigma>\<lparr>placed := {(n, k') \<in> placed \<sigma>. k' \<noteq> k}\<rparr>"

text \<open>How a call of the reconcile of \<open>req\<close> with the given answer changes the state.\<close>

inductive served :: "'s k8s \<Rightarrow> NamespacedName \<Rightarrow> effect \<Rightarrow> sys \<Rightarrow> sys \<Rightarrow> bool" for K req where
  read: "srv \<sigma> n = Some ec \<Longrightarrow> served K req (E_GetEC n (Inr ec)) \<sigma> \<sigma>"
| no_read: "served K req (E_GetEC n (Inl e)) \<sigma> \<sigma>"
| read_secret: "sec_key sec = k \<Longrightarrow> served K req (E_GetSecret k (Inr sec)) \<sigma> \<sigma>"
| no_secret: "\<forall>n. (n, k) \<notin> placed \<sigma> \<Longrightarrow> k_IsNotFound K e \<Longrightarrow> served K req (E_GetSecret k (Inl e)) \<sigma> \<sigma>"
| no_answer: "\<not> k_IsNotFound K e \<Longrightarrow> served K req (E_GetSecret k (Inl e)) \<sigma> \<sigma>"
| updated: "srv \<sigma> (ec_key x) = Some old \<Longrightarrow> om_ResourceVersion (ec_Meta old) = om_ResourceVersion (ec_Meta x) \<Longrightarrow>
    same_object x y \<Longrightarrow> u = Inr y \<or> (\<exists>e. u = Inl e) \<Longrightarrow> served K req (E_UpdateEC x u) \<sigma> (apply_update x y \<sigma>)"
| not_updated: "served K req (E_UpdateEC x (Inl e)) \<sigma> \<sigma>"
| status_updated: "srv \<sigma> (ec_key x) = Some old \<Longrightarrow> same_object old y \<Longrightarrow>
    u = Inr y \<or> (\<exists>e. u = Inl e) \<Longrightarrow>
    served K req (E_StatusUpdate x u) \<sigma> (\<sigma>\<lparr>srv := (srv \<sigma>)(ec_key x \<mapsto> y)\<rparr>)"
| no_status: "served K req (E_StatusUpdate x (Inl e)) \<sigma> \<sigma>"
| secret_deleted: "served K req (E_DeleteSecret sec d) \<sigma> (remove_secret (sec_key sec) \<sigma>)"
| not_deleted: "\<not> k_IsNotFound K e \<Longrightarrow> served K req (E_DeleteSecret sec (Some e)) \<sigma> \<sigma>"
| written: "om_Name (sec_Meta sec) \<noteq> [] \<Longrightarrow>
    served K req (E_WriteSecret sec d) \<sigma> (\<sigma>\<lparr>placed := insert (req, sec_key sec) (placed \<sigma>)\<rparr>)"
| not_written: "served K req (E_WriteSecret sec (Some e)) \<sigma> \<sigma>"
| mint: "served K req (E_Mint p q m) \<sigma> \<sigma>"
| revoke: "served K req (E_Revoke p h d) \<sigma> \<sigma>"
| recorded: "served K req (E_Event ty re ms) \<sigma> \<sigma>"
| clock: "served K req (E_Now t) \<sigma> \<sigma>"

text \<open>A user gives the resource \<open>n\<close> another spec: when the target Secret changes its name, the old one is abandoned.\<close>

definition apply_edit :: "NamespacedName \<Rightarrow> EphemeralCredential \<Rightarrow> EphemeralCredential \<Rightarrow> sys \<Rightarrow> sys" where
  "apply_edit n ec ec' \<sigma> = \<sigma>\<lparr>srv := (srv \<sigma>)(n \<mapsto> ec'),
     abandoned := (if target_key ec' = target_key ec then abandoned \<sigma> else insert (n, target_key ec) (abandoned \<sigma>))\<rparr>"

inductive sys_step :: "'s Reconciler \<Rightarrow> sys \<Rightarrow> sys \<Rightarrow> bool" for r where
  start: "running \<sigma> = None \<Longrightarrow> sys_step r \<sigma> (\<sigma>\<lparr>running := Some (req, effects_of r req s)\<rparr>)"
| call: "running \<sigma> = Some (req, e # es) \<Longrightarrow> served (r_Client r) req e \<sigma> \<sigma>' \<Longrightarrow>
    sys_step r \<sigma> (\<sigma>'\<lparr>running := Some (req, es)\<rparr>)"
| stop: "sys_step r \<sigma> (\<sigma>\<lparr>running := None\<rparr>)"
| create: "srv \<sigma> n = None \<Longrightarrow> ec_key ec = n \<Longrightarrow> sys_step r \<sigma> (\<sigma>\<lparr>srv := (srv \<sigma>)(n \<mapsto> ec)\<rparr>)"
| edit: "srv \<sigma> n = Some ec \<Longrightarrow> ec_key ec' = n \<Longrightarrow> has_finalizer ec \<longrightarrow> has_finalizer ec' \<Longrightarrow>
    sys_step r \<sigma> (apply_edit n ec ec' \<sigma>)"
| vanish: "srv \<sigma> n = Some ec \<Longrightarrow> \<not> has_finalizer ec \<Longrightarrow> sys_step r \<sigma> (\<sigma>\<lparr>srv := (srv \<sigma>)(n := None)\<rparr>)"
| lose: "S \<subseteq> placed \<sigma> \<Longrightarrow> sys_step r \<sigma> (\<sigma>\<lparr>placed := S\<rparr>)"

inductive sys_reachable :: "'s Reconciler \<Rightarrow> sys \<Rightarrow> bool" for r where
  init: "\<forall>n ec. srv \<sigma> n = Some ec \<longrightarrow> ec_key ec = n \<Longrightarrow> placed \<sigma> = {} \<Longrightarrow> abandoned \<sigma> = {} \<Longrightarrow>
    running \<sigma> = None \<Longrightarrow> sys_reachable r \<sigma>"
| step: "sys_reachable r \<sigma> \<Longrightarrow> sys_step r \<sigma> \<sigma>' \<Longrightarrow> sys_reachable r \<sigma>'"

inductive_cases served_readE: "served K req (E_GetEC n x) \<sigma> \<sigma>'"
inductive_cases served_updateE: "served K req (E_UpdateEC x u) \<sigma> \<sigma>'"
inductive_cases served_statusE: "served K req (E_StatusUpdate x u) \<sigma> \<sigma>'"
inductive_cases served_secretE: "served K req (E_GetSecret k x) \<sigma> \<sigma>'"
inductive_cases served_deleteE: "served K req (E_DeleteSecret sec d) \<sigma> \<sigma>'"
inductive_cases served_writeE: "served K req (E_WriteSecret sec d) \<sigma> \<sigma>'"
inductive_cases served_mintE: "served K req (E_Mint p q m) \<sigma> \<sigma>'"
inductive_cases served_revokeE: "served K req (E_Revoke p h d) \<sigma> \<sigma>'"
inductive_cases served_eventE: "served K req (E_Event ty re ms) \<sigma> \<sigma>'"
inductive_cases served_nowE: "served K req (E_Now t) \<sigma> \<sigma>'"

section \<open>The shape of a reconcile\<close>

text \<open>
  Everything but reports happens before the update of the resource, if there is one.
\<close>

fun is_report :: "effect \<Rightarrow> bool" where
  "is_report (E_StatusUpdate x u) = True"
| "is_report (E_Event ty re ms) = True"
| "is_report (E_Revoke p h d) = True"
| "is_report e = False"

abbreviation reports :: "effect list \<Rightarrow> bool" where
  "reports es \<equiv> never (\<lambda>e. \<not> is_report e) es"

locale finalizers =
  fixes K :: "'s k8s"
  assumes contains_iff: "k_ContainsFinalizer K m f \<longleftrightarrow> f \<in> set (om_Finalizers m)"
    and adds: "f \<in> set (om_Finalizers (k_AddFinalizer K m f))"
    and add_key: "object_key (k_AddFinalizer K m f) = object_key m"
    and remove_key: "object_key (k_RemoveFinalizer K m f) = object_key m"

interpretation mem_finalizers: finalizers mem_k8s
  by unfold_locales (auto simp: mem_k8s_def object_key_def)

text \<open>The part before the update, and the update with what follows it.\<close>

definition works :: "EphemeralCredential \<Rightarrow> effect list \<Rightarrow> bool" where
  "works ec a \<longleftrightarrow> never is_UpdateEC a \<and>
     (has_finalizer ec \<or> never is_Mint a \<and> never is_WriteSecret a) \<and>
     (\<forall>sec d. E_WriteSecret sec d \<in> set a \<longrightarrow> sec = newTargetSecret ec) \<and>
     (\<forall>sec. precedes (\<lambda>e. e = E_GetSecret (target_key ec) (Inr sec)) (\<lambda>e. \<exists>d. e = E_DeleteSecret sec d) a)"

definition closes :: "'s k8s \<Rightarrow> EphemeralCredential \<Rightarrow> effect list \<Rightarrow> effect list \<Rightarrow> bool" where
  "closes K ec a b \<longleftrightarrow> b = [] \<or>
     (\<exists>x u b'. b = E_UpdateEC x u # b' \<and> reports b' \<and> ec_key x = ec_key ec \<and> target_key x = target_key ec \<and>
        (has_finalizer x \<or>
         has_finalizer ec \<and> never is_WriteSecret a \<and>
           (ts_Name (spec_TargetSecret (ec_Spec ec)) = [] \<or> (\<exists>e \<in> set a. secret_gone K ec e))))"

definition harmless :: "effect list \<Rightarrow> bool" where
  "harmless es \<longleftrightarrow> never (\<lambda>e. is_UpdateEC e \<or> is_Mint e \<or> is_WriteSecret e \<or> is_DeleteSecret e) es"

lemma harmless_simps [simp]:
  "harmless []"
  "harmless (e # es) \<longleftrightarrow> \<not> is_UpdateEC e \<and> \<not> is_Mint e \<and> \<not> is_WriteSecret e \<and> \<not> is_DeleteSecret e \<and> harmless es"
  "harmless (xs @ ys) \<longleftrightarrow> harmless xs \<and> harmless ys"
  "harmless (event_trace r ty re ms)"
  by (auto simp: harmless_def event_trace_def)

lemma harmless_works:
  assumes "harmless xs"
  shows "works ec xs" and "works ec a \<Longrightarrow> works ec (xs @ a)" and "works ec a \<Longrightarrow> works ec (a @ xs)"
proof -
  from assms have xs: "never is_UpdateEC xs" "never is_Mint xs" "never is_WriteSecret xs" "never is_DeleteSecret xs"
    by (auto simp: harmless_def never_def)
  moreover have "E_WriteSecret sec d \<notin> set xs" for sec d using xs(3) by (auto simp: never_def)
  moreover have "precedes (\<lambda>e. e = E_GetSecret k (Inr sec)) (\<lambda>e. \<exists>d. e = E_DeleteSecret sec d) xs" for k sec
    using xs(4) by (intro never_precedes) (auto simp: never_def)
  ultimately show "works ec xs" "works ec a \<Longrightarrow> works ec (xs @ a)" "works ec a \<Longrightarrow> works ec (a @ xs)"
    by (simp_all add: works_def)
qed

lemma scope_harmless: "scope_trace ns spec x es \<Longrightarrow> harmless es"
  and probe_harmless: "probe_trace K ec y es \<Longrightarrow> harmless es"
  and last_revoke_harmless: "last_revoke r ec es \<Longrightarrow> harmless es"
  by (auto elim: scope_trace.cases probe_trace.cases last_revoke.cases)

lemma finish_reports: "finish_trace r ec prov t prev mint out es \<Longrightarrow> reports es"
  by (auto elim!: finish_trace.cases revoke_trace.cases simp: event_trace_def)

lemma delete_works: "delete_trace K ec d es \<Longrightarrow> works ec es"
  by (auto elim!: delete_trace.cases simp: works_def)

lemma fail_works: "fail_trace r ec re ms c b out es \<Longrightarrow> works ec es"
proof -
  have "works ec (E_Now t # del @ post)"
    if "fail_report (r_Client r) ec re ms t del ec'" and "harmless post" for t del ec' post
  proof -
    have "works ec del" using that(1) by (auto elim!: fail_report.cases intro: delete_works harmless_works(1))
    from harmless_works(2) [of "[E_Now t]", OF _ harmless_works(3) [OF that(2) this]] show ?thesis by simp
  qed
  then show "fail_trace r ec re ms c b out es \<Longrightarrow> works ec es" by (auto elim!: fail_trace.cases)
qed

lemma rotate_shape:
  assumes "rotate_trace r ec prov t out es" and fin: "has_finalizer ec"
  shows "\<exists>a b. es = a @ b \<and> works ec a \<and> closes K ec a b"
  using assms(1)
proof (cases rule: rotate_trace.cases)
  case (bad_config e sc fl)
  then show ?thesis
    by (intro exI [of _ es] exI [of _ "[]"]) (auto simp: closes_def intro: harmless_works fail_works dest: scope_harmless)
next
  case (mint_failed scope sc reason e fl)
  then show ?thesis
    using fin by (intro exI [of _ es] exI [of _ "[]"])
      (auto simp: closes_def dest!: scope_harmless fail_works intro!: harmless_works(2), simp add: works_def)
next
  case (write_failed scope sc e' fl mint e)
  then show ?thesis
    using fin by (intro exI [of _ es] exI [of _ "[]"])
      (auto simp: closes_def dest!: scope_harmless fail_works intro!: harmless_works(2), simp add: works_def)
next
  case (handle_lost scope sc mint encoded e' e)
  then show ?thesis
    using fin by (intro exI [of _ "sc @ [E_Mint _ _ _, E_WriteSecret _ _]"] exI [of _ "[E_UpdateEC (with_handle ec encoded) (Inl e)]"])
      (auto simp: closes_def with_handle_def object_key_def target_key_def dest!: scope_harmless intro!: harmless_works(2), simp add: works_def)
next
  case (minted scope sc mint encoded ec' fin')
  then show ?thesis
    using fin by (intro exI [of _ "sc @ [E_Mint _ _ _, E_WriteSecret _ _]"] exI [of _ "E_UpdateEC (with_handle ec encoded) (Inr ec') # fin'"])
      (auto simp: closes_def with_handle_def object_key_def target_key_def dest!: scope_harmless finish_reports intro!: harmless_works(2), simp add: works_def)
qed


lemma delete_accepted_gone:
  "delete_trace K ec None es \<Longrightarrow> ts_Name (spec_TargetSecret (ec_Spec ec)) \<noteq> [] \<Longrightarrow> \<exists>e \<in> set es. secret_gone K ec e"
  by (auto elim!: delete_trace.cases simp: secret_gone_def)

context finalizers
begin

lemma remove_shape:
  assumes "remove_trace r ec out es" and "r_Client r = K"
  shows "\<exists>a b. es = a @ b \<and> works ec a \<and> closes K ec a b"
  using assms(1)
proof (cases rule: remove_trace.cases)
  case no_finalizer
  then show ?thesis by (simp add: closes_def harmless_works(1))
next
  case (kept rv e del)
  then show ?thesis
    by (intro exI [of _ "rv @ del"] exI [of _ "[]"])
      (auto simp: closes_def intro: harmless_works(2) dest: last_revoke_harmless delete_works)
next
  case (released rv del u)
  let ?x = "ec\<lparr>ec_Meta := k_RemoveFinalizer (r_Client r) (ec_Meta ec) FinalizerName\<rparr>"
  have "works ec (rv @ del)"
    using released by (intro harmless_works(2)) (auto dest: last_revoke_harmless delete_works)
  moreover have "never is_WriteSecret (rv @ del)"
    using released by (auto dest!: last_revoke_quiet delete_quiet simp: quietD)
  moreover have "object_key (ec_Meta ?x) = object_key (ec_Meta ec)" by (simp add: assms(2) remove_key)
  then have "ec_key ?x = ec_key ec" "target_key ?x = target_key ec"
    by (simp_all add: object_key_def target_key_def)
  ultimately show ?thesis
    using released delete_accepted_gone [of "r_Client r" ec del] assms(2)
    by (intro exI [of _ "rv @ del"] exI [of _ "[E_UpdateEC ?x u]"]) (auto simp: closes_def contains_iff)
qed

lemma add_shape:
  assumes "finalizer_trace r ec out es" and "r_Client r = K"
  shows "\<exists>a b. es = a @ b \<and> works ec a \<and> closes K ec a b"
proof -
  let ?x = "ec\<lparr>ec_Meta := k_AddFinalizer K (ec_Meta ec) FinalizerName\<rparr>"
  have "object_key (ec_Meta ?x) = object_key (ec_Meta ec)" by (simp add: add_key)
  then have "ec_key ?x = ec_key ec" "target_key ?x = target_key ec"
    by (simp_all add: object_key_def target_key_def)
  moreover have "has_finalizer ?x" by (simp add: adds)
  ultimately have "closes K ec [] es"
    using assms by (auto elim!: finalizer_trace.cases simp: closes_def)
  then show ?thesis by (intro exI [of _ "[]"] exI [of _ es]) (simp add: harmless_works(1))
qed

lemma trace_shape:
  assumes "reconcile_trace r req out es" and "r_Client r = K"
  shows "(\<exists>e. es = [E_GetEC req (Inl e)]) \<or>
    (\<exists>ec a b. es = E_GetEC req (Inr ec) # a @ b \<and> works ec a \<and> closes K ec a b)"
proof -
  have alone: "\<exists>a b. es' = a @ b \<and> works ec a \<and> closes K ec a b" if "works ec es'" for ec es'
    using that by (intro exI [of _ es'] exI [of _ "[]"]) (simp add: closes_def)
  have "\<exists>a b. es' = a @ b \<and> works ec a \<and> closes K ec a b"
    if "es = E_GetEC req (Inr ec) # es'" for ec es'
    using assms(1)
  proof (cases rule: reconcile_trace.cases)
    case (deleting ec es)
    then show ?thesis using that remove_shape [OF _ assms(2)] by auto
  next
    case (unprotected ec es)
    then show ?thesis using that add_shape [OF _ assms(2)] by auto
  next
    case (unregistered ec m es)
    then show ?thesis using that by (auto intro!: alone dest: fail_works)
  next
    case (due ec prov t es)
    then obtain a b where "es = a @ b" "works ec a" "closes K ec a b"
      using rotate_shape [of r ec prov t out es K] by (auto simp: assms(2) contains_iff)
    then show ?thesis
      using that due(1) harmless_works(2) [of "[E_Now t]" ec a]
      by (intro exI [of _ "E_Now t # a"] exI [of _ b]) (auto simp: closes_def)
  next
    case (repair ec prov t pr es m)
    let ?pre = "E_Now t # pr @ event_trace r EventTypeWarning ReasonSecretMissing m"
    from repair obtain a b where "es = a @ b" "works ec a" "closes K ec a b"
      using rotate_shape [of r ec prov t out es K] by (auto simp: assms(2) contains_iff)
    moreover have "harmless ?pre" using probe_harmless [OF repair(5)] by simp
    ultimately show ?thesis
      using that repair(1) harmless_works(2) [of ?pre ec a] probe_quiet [OF repair(5)]
      by (intro exI [of _ "?pre @ a"] exI [of _ b]) (auto simp: closes_def quietD)
  qed (use that in \<open>auto intro!: alone harmless_works(1) dest: probe_harmless\<close>)
  then show ?thesis using assms(1) by (auto elim!: reconcile_trace.cases)
qed

end

section \<open>The invariant\<close>

text \<open>The resource of a running reconcile that was read with the finalizer on it is still there.\<close>

definition pinned :: "sys \<Rightarrow> NamespacedName \<Rightarrow> NamespacedName \<Rightarrow> bool" where
  "pinned \<sigma> n k \<longleftrightarrow> (\<exists>ec. srv \<sigma> n = Some ec \<and> has_finalizer ec \<and> target_key ec = k)"

text \<open>The Secrets the broker has to account for: those it wrote under a name that was not taken away.\<close>

definition held :: "sys \<Rightarrow> (NamespacedName \<times> NamespacedName) set" where
  "held \<sigma> = placed \<sigma> - abandoned \<sigma>"

abbreviation none_held :: "sys \<Rightarrow> NamespacedName \<Rightarrow> bool" where
  "none_held \<sigma> n \<equiv> \<forall>k. (n, k) \<notin> held \<sigma>"

text \<open>What the running reconcile, which has read \<open>ec\<close>, can rely on, although the resource may have been renamed since.\<close>

definition tied :: "sys \<Rightarrow> NamespacedName \<Rightarrow> EphemeralCredential \<Rightarrow> bool" where
  "tied \<sigma> req ec \<longleftrightarrow>
     has_finalizer ec \<and> pinned \<sigma> req (target_key ec) \<or>
     (has_finalizer ec \<longrightarrow> (req, target_key ec) \<in> abandoned \<sigma>) \<and> none_held \<sigma> req"

text \<open>How far the running reconcile is: not begun, before its update, or only reporting.\<close>

inductive phase :: "'s k8s \<Rightarrow> sys \<Rightarrow> NamespacedName \<Rightarrow> effect list \<Rightarrow> bool" for K \<sigma> req where
  unread: "phase K \<sigma> req [E_GetEC req (Inl e)]"
| fetch: "works ec a \<Longrightarrow> closes K ec a b \<Longrightarrow> phase K \<sigma> req (E_GetEC req (Inr ec) # a @ b)"
| working: "works ec (a1 @ a2) \<Longrightarrow> closes K ec (a1 @ a2) b \<Longrightarrow> ec_key ec = req \<Longrightarrow>
    \<forall>k sec. E_GetSecret k (Inr sec) \<in> set a1 \<longrightarrow> sec_key sec = k \<Longrightarrow>
    tied \<sigma> req ec \<Longrightarrow>
    never is_WriteSecret (a1 @ a2) \<and> (\<exists>e \<in> set a1. secret_gone K ec e) \<longrightarrow> none_held \<sigma> req \<Longrightarrow>
    phase K \<sigma> req (a2 @ b)"
| reporting: "reports es \<Longrightarrow> phase K \<sigma> req es"

definition base_inv :: "sys \<Rightarrow> bool" where
  "base_inv \<sigma> \<longleftrightarrow>
     (\<forall>n ec. srv \<sigma> n = Some ec \<longrightarrow> ec_key ec = n) \<and>
     (\<forall>n k. (n, k) \<in> held \<sigma> \<longrightarrow> pinned \<sigma> n k) \<and> (\<forall>n k. (n, k) \<in> placed \<sigma> \<longrightarrow> snd k \<noteq> [])"

definition sys_inv :: "'s k8s \<Rightarrow> sys \<Rightarrow> bool" where
  "sys_inv K \<sigma> \<longleftrightarrow> base_inv \<sigma> \<and> (\<forall>req es. running \<sigma> = Some (req, es) \<longrightarrow> phase K \<sigma> req es)"

text \<open>Steps that unpin nothing but abandoned names and put nothing out: what others do, and the calls that only report or delete.\<close>

definition shrinks :: "sys \<Rightarrow> sys \<Rightarrow> bool" where
  "shrinks \<sigma> \<sigma>' \<longleftrightarrow>
     (\<forall>n k. pinned \<sigma> n k \<longrightarrow> pinned \<sigma>' n k \<or> (n, k) \<in> abandoned \<sigma>' \<and> none_held \<sigma>' n) \<and>
     abandoned \<sigma> \<subseteq> abandoned \<sigma>' \<and> placed \<sigma>' \<subseteq> placed \<sigma> \<and> (\<forall>n ec. srv \<sigma>' n = Some ec \<longrightarrow> ec_key ec = n)"

lemma shrinks_held: "shrinks \<sigma> \<sigma>' \<Longrightarrow> held \<sigma>' \<subseteq> held \<sigma>"
  unfolding held_def shrinks_def by blast

lemma shrinks_base:
  assumes "base_inv \<sigma>" and "shrinks \<sigma> \<sigma>'"
  shows "base_inv \<sigma>'"
proof -
  have "pinned \<sigma>' n k" if "(n, k) \<in> held \<sigma>'" for n k
    using that assms shrinks_held [OF assms(2)] unfolding base_inv_def shrinks_def by (meson subsetD)
  then show ?thesis using assms unfolding base_inv_def shrinks_def by (meson subsetD)
qed

lemma shrinks_tied:
  assumes "tied \<sigma> req ec" and "shrinks \<sigma> \<sigma>'"
  shows "tied \<sigma>' req ec"
  using assms(1) assms(2) shrinks_held [OF assms(2)] unfolding tied_def shrinks_def by (meson subsetD)

lemma shrinks_phase:
  assumes "phase K \<sigma> req es" and "shrinks \<sigma> \<sigma>'"
  shows "phase K \<sigma>' req es"
  using assms(1)
proof (cases rule: phase.cases)
  case (working ec a1 a2 b)
  show ?thesis unfolding working(1)
    by (rule phase.working [OF working(2-5) shrinks_tied [OF working(6) assms(2)]])
      (use working(7) shrinks_held [OF assms(2)] in blast)
qed (auto intro: phase.intros)

lemma srv_update_shrinks:
  assumes "base_inv \<sigma>" and "\<And>ec. srv \<sigma> n = Some ec \<Longrightarrow> has_finalizer ec \<Longrightarrow>
      \<exists>ec'. new = Some ec' \<and> has_finalizer ec' \<and> target_key ec' = target_key ec"
    and "\<And>ec'. new = Some ec' \<Longrightarrow> ec_key ec' = n"
  shows "shrinks \<sigma> (\<sigma>\<lparr>srv := (srv \<sigma>)(n := new)\<rparr>)"
  using assms by (fastforce simp: shrinks_def pinned_def base_inv_def)

lemma placed_shrinks: "base_inv \<sigma> \<Longrightarrow> S \<subseteq> placed \<sigma> \<Longrightarrow> shrinks \<sigma> (\<sigma>\<lparr>placed := S\<rparr>)"
  by (auto simp: shrinks_def pinned_def base_inv_def)

lemma edit_shrinks:
  assumes base: "base_inv \<sigma>" and ec: "srv \<sigma> n = Some ec" "ec_key ec' = n" "has_finalizer ec \<longrightarrow> has_finalizer ec'"
  shows "shrinks \<sigma> (apply_edit n ec ec' \<sigma>)"
proof -
  let ?\<sigma>' = "apply_edit n ec ec' \<sigma>"
  have frame: "srv ?\<sigma>' = (srv \<sigma>)(n \<mapsto> ec')" "placed ?\<sigma>' = placed \<sigma>" "abandoned \<sigma> \<subseteq> abandoned ?\<sigma>'"
    by (auto simp: apply_edit_def)
  have "pinned ?\<sigma>' m k \<or> (m, k) \<in> abandoned ?\<sigma>' \<and> none_held ?\<sigma>' m" if pin: "pinned \<sigma> m k" for m k
  proof (cases "m = n \<and> target_key ec' \<noteq> target_key ec")
    case True
    then have k: "k = target_key ec" using pin ec(1) by (simp add: pinned_def)
    have "k' = target_key ec" if "(n, k') \<in> held \<sigma>" for k'
      using base that ec(1) unfolding base_inv_def pinned_def by fastforce
    then show ?thesis using True k by (auto simp: apply_edit_def held_def)
  next
    case False
    then show ?thesis using pin ec unfolding pinned_def frame(1) by auto
  qed
  then show ?thesis using base ec(2) frame unfolding shrinks_def by (auto simp: base_inv_def)
qed

lemma remove_shrinks: "base_inv \<sigma> \<Longrightarrow> shrinks \<sigma> (remove_secret k \<sigma>)"
  unfolding remove_secret_def by (rule placed_shrinks) auto

lemma same_shrinks: "base_inv \<sigma> \<Longrightarrow> shrinks \<sigma> \<sigma>"
  by (auto simp: shrinks_def base_inv_def)

lemma running_irrelevant [simp]:
  "base_inv (\<sigma>\<lparr>running := x\<rparr>) = base_inv \<sigma>"
  "pinned (\<sigma>\<lparr>running := x\<rparr>) = pinned \<sigma>"
  "shrinks \<sigma> (\<sigma>'\<lparr>running := x\<rparr>) = shrinks \<sigma> \<sigma>'"
  "held (\<sigma>\<lparr>running := x\<rparr>) = held \<sigma>"
  "tied (\<sigma>\<lparr>running := x\<rparr>) = tied \<sigma>"
  by (simp_all add: base_inv_def pinned_def shrinks_def held_def tied_def fun_eq_iff)

lemma phase_running [simp]: "phase K (\<sigma>\<lparr>running := x\<rparr>) req es = phase K \<sigma> req es"
  by (simp add: phase.simps)

lemma status_shrinks:
  assumes "base_inv \<sigma>" and "srv \<sigma> (ec_key x) = Some old" and "same_object old y"
  shows "shrinks \<sigma> (\<sigma>\<lparr>srv := (srv \<sigma>)(ec_key x \<mapsto> y)\<rparr>)"
proof (rule srv_update_shrinks [OF assms(1)])
  note same_object_fields [OF assms(3)]
  moreover have "ec_key old = ec_key x" using assms(1,2) by (auto simp: base_inv_def)
  moreover have "target_key y = target_key old"
    using calculation(1,5) by (simp add: target_key_def object_key_def)
  ultimately show "\<exists>ec'. Some y = Some ec' \<and> has_finalizer ec' \<and> target_key ec' = target_key ec"
    if "srv \<sigma> (ec_key x) = Some ec" "has_finalizer ec" for ec
    using that assms(2) by simp
  show "ec_key ec' = ec_key x" if "Some y = Some ec'" for ec'
    using that \<open>ec_key y = ec_key old\<close> \<open>ec_key old = ec_key x\<close> by simp
qed

lemma report_shrinks:
  assumes "base_inv \<sigma>" and "is_report e" and "served K req e \<sigma> \<sigma>'"
  shows "shrinks \<sigma> \<sigma>'"
  using assms by (cases e) (auto elim!: served_statusE served_revokeE served_eventE intro: status_shrinks same_shrinks)

lemma pinned_unique: "pinned \<sigma> n k \<Longrightarrow> pinned \<sigma> n k' \<Longrightarrow> k = k'"
  by (auto simp: pinned_def)

lemma pinned_frame [simp]:
  "pinned (\<sigma>\<lparr>placed := S\<rparr>) = pinned \<sigma>"
  by (simp_all add: pinned_def fun_eq_iff)

lemma only_held:
  assumes "base_inv \<sigma>" and "(req, k) \<in> held \<sigma>" and "tied \<sigma> req ec"
  shows "k = target_key ec \<and> snd k \<noteq> []"
proof -
  have "pinned \<sigma> req (target_key ec)" using assms(2,3) by (auto simp: tied_def)
  moreover have "pinned \<sigma> req k" "snd k \<noteq> []" using assms(1,2) by (auto simp: base_inv_def held_def)
  ultimately show ?thesis by (blast dest: pinned_unique)
qed

lemma put_out:
  assumes "base_inv \<sigma>" and "tied \<sigma> req ec" and "has_finalizer ec" and "snd (target_key ec) \<noteq> []"
  shows "base_inv (\<sigma>\<lparr>placed := insert (req, target_key ec) (placed \<sigma>)\<rparr>)"
    and "tied (\<sigma>\<lparr>placed := insert (req, target_key ec) (placed \<sigma>)\<rparr>) req ec"
  using assms by (auto simp: base_inv_def held_def tied_def)

text \<open>A call before the update: what it may change, and what it shows about the target Secret.\<close>

lemma work_shrinks:
  assumes base: "base_inv \<sigma>" and "works ec (a1 @ e # a2)" and "served K req e \<sigma> \<sigma>'"
    and "\<not> is_WriteSecret e"
  shows "shrinks \<sigma> \<sigma>'"
proof -
  have "\<not> is_UpdateEC e" using assms(2) by (simp add: works_def)
  then show ?thesis
    using assms(3,4) report_shrinks [OF base _ assms(3)]
    by (cases e) (auto elim!: served_readE served_secretE served_deleteE served_nowE served_mintE
        intro: same_shrinks [OF base] remove_shrinks [OF base])
qed

lemma work_gone:
  assumes base: "base_inv \<sigma>" and works: "works ec (a1 @ e # a2)" and served: "served K req e \<sigma> \<sigma>'"
    and answered: "\<forall>k sec. E_GetSecret k (Inr sec) \<in> set a1 \<longrightarrow> sec_key sec = k"
    and tied: "tied \<sigma> req ec"
    and gone: "secret_gone K ec e"
  shows "none_held \<sigma>' req"
proof -
  have only: "k = target_key ec" if "(req, k) \<in> held \<sigma>" for k
    using only_held [OF base that tied] by blast
  from gone consider (absent) x where "e = E_GetSecret (target_key ec) (Inl x)" "k_IsNotFound K x"
    | (deleted) sec d where "e = E_DeleteSecret sec d" "d = None \<or> (\<exists>x. d = Some x \<and> k_IsNotFound K x)"
    unfolding secret_gone_def by blast
  then show ?thesis
  proof cases
    case absent
    with served have "\<sigma>' = \<sigma>" and "(req, target_key ec) \<notin> held \<sigma>"
      by (auto elim!: served_secretE simp: held_def)
    then show ?thesis using only by blast
  next
    case deleted
    have "\<exists>x \<in> set a1. x = E_GetSecret (target_key ec) (Inr sec)"
      using works deleted(1) by (intro precedes_split [of _ "\<lambda>e. \<exists>d. e = E_DeleteSecret sec d" a1 e a2])
        (auto simp: works_def)
    then have "sec_key sec = target_key ec" using answered by auto
    moreover have "\<sigma>' = remove_secret (sec_key sec) \<sigma>"
      using served deleted by (auto elim!: served_deleteE)
    ultimately show ?thesis using only by (auto simp: remove_secret_def held_def)
  qed
qed

lemma work_step:
  assumes base: "base_inv \<sigma>" and works: "works ec (a1 @ e # a2)" and closes: "closes K ec (a1 @ e # a2) b"
    and key: "ec_key ec = req" and served: "served K req e \<sigma> \<sigma>'"
    and answered: "\<forall>k sec. E_GetSecret k (Inr sec) \<in> set a1 \<longrightarrow> sec_key sec = k"
    and tied: "tied \<sigma> req ec"
    and gone: "never is_WriteSecret (a1 @ e # a2) \<and> (\<exists>e \<in> set a1. secret_gone K ec e) \<longrightarrow> none_held \<sigma> req"
  shows "base_inv \<sigma>' \<and> phase K \<sigma>' req (a2 @ b)"
proof -
  have answered': "\<forall>k sec. E_GetSecret k (Inr sec) \<in> set (a1 @ [e]) \<longrightarrow> sec_key sec = k"
    using answered served by (auto elim: served_secretE)
  note next_phase = phase.working [of ec "a1 @ [e]" a2 K b req, simplified, OF works closes key answered' [simplified]]
  show ?thesis
  proof (cases "is_WriteSecret e")
    case False
    then have sh: "shrinks \<sigma> \<sigma>'" using work_shrinks [OF base works served] by blast
    have "never is_WriteSecret (a1 @ e # a2) \<and> (\<exists>x \<in> set (a1 @ [e]). secret_gone K ec x) \<longrightarrow> none_held \<sigma>' req"
      using gone shrinks_held [OF sh] work_gone [OF base works served answered tied] by auto
    then show ?thesis
      using shrinks_base [OF base sh] False by (intro conjI next_phase shrinks_tied [OF tied sh]) auto
  next
    case True
    then obtain d where fin: "has_finalizer ec" and e: "e = E_WriteSecret (newTargetSecret ec) d"
      using works by (cases e) (auto simp: works_def)
    have new: "sec_key (newTargetSecret ec) = target_key ec" "snd (target_key ec) = om_Name (sec_Meta (newTargetSecret ec))"
      by (simp_all add: newTargetSecret_def target_key_def object_key_def)
    have "base_inv \<sigma>' \<and> tied \<sigma>' req ec"
      using served base tied put_out [OF base tied fin] new unfolding e by (auto elim!: served_writeE)
    then show ?thesis using True by (intro conjI next_phase) auto
  qed
qed

lemma update_step:
  assumes base: "base_inv \<sigma>" and closes: "closes K ec a (E_UpdateEC x u # es)" and key: "ec_key ec = req"
    and served: "served K req (E_UpdateEC x u) \<sigma> \<sigma>'"
    and tied: "tied \<sigma> req ec"
    and gone: "never is_WriteSecret a \<and> (\<exists>e \<in> set a. secret_gone K ec e) \<longrightarrow> none_held \<sigma> req"
  shows "base_inv \<sigma>' \<and> phase K \<sigma>' req es"
proof -
  from closes have es: "reports es" and x: "ec_key x = req" "target_key x = target_key ec"
    and why: "has_finalizer x \<or> has_finalizer ec \<and> never is_WriteSecret a \<and>
      (ts_Name (spec_TargetSecret (ec_Spec ec)) = [] \<or> (\<exists>e \<in> set a. secret_gone K ec e))"
    using key by (auto simp: closes_def)
  note only = only_held [OF base _ tied]
  have none: "none_held \<sigma> req" if "\<not> has_finalizer x"
    using that why gone only by (fastforce simp: target_key_def)
  have "base_inv (apply_update x y \<sigma>)" if y: "same_object x y" for y
  proof -
    note f = same_object_fields [OF y]
    have "target_key y = target_key ec" using f(1,5) x(2) by (simp add: target_key_def object_key_def)
    moreover have "pinned (apply_update x y \<sigma>) n k \<longleftrightarrow> pinned \<sigma> n k" if "n \<noteq> req" for n k
      using that x(1) by (simp add: pinned_def apply_update_def)
    ultimately show ?thesis
      using base none only f x(1)
      by (cases "has_finalizer x") (auto simp: base_inv_def apply_update_def pinned_def held_def)
  qed
  then show ?thesis
    using served base es by (auto elim!: served_updateE intro: phase.reporting)
qed

lemma call_inv:
  assumes base: "base_inv \<sigma>" and "phase K \<sigma> req (e # es)" and served: "served K req e \<sigma> \<sigma>'"
  shows "base_inv \<sigma>' \<and> phase K \<sigma>' req es"
  using assms(2)
proof (cases rule: phase.cases)
  case (unread x)
  then show ?thesis using base served by (auto elim!: served_readE intro: phase.reporting)
next
  case (fetch ec a b)
  with served have "\<sigma>' = \<sigma>" "srv \<sigma> req = Some ec" by (auto elim!: served_readE)
  moreover from this have "ec_key ec = req" "\<not> has_finalizer ec \<Longrightarrow> none_held \<sigma> req"
    using base by (fastforce simp: base_inv_def pinned_def)+
  moreover have "phase K \<sigma> req (a @ b)"
    by (rule phase.working [of ec "[]" a, simplified, OF fetch(3,4)]) (use calculation in \<open>auto simp: tied_def pinned_def\<close>)
  ultimately show ?thesis using base fetch(2) by simp
next
  case (working ec a1 a2 b)
  show ?thesis
  proof (cases a2)
    case (Cons e' a2')
    with working(1) have "e' = e" "es = a2' @ b" by simp_all
    with Cons working show ?thesis using work_step [OF base _ _ _ served, of ec a1 a2' b] by simp
  next
    case Nil
    with working(1,3) obtain x u where "e = E_UpdateEC x u" "b = e # es" by (auto simp: closes_def)
    with Nil working show ?thesis using update_step [OF base, of K ec a1 x u es req \<sigma>'] served by simp
  qed
next
  case reporting
  then have "shrinks \<sigma> \<sigma>'" and "reports es" using report_shrinks [OF base _ served] by simp_all
  then show ?thesis using shrinks_base [OF base] by (auto intro: phase.reporting)
qed

lemma sys_step_inv:
  assumes "finalizers (r_Client r)" and "sys_inv (r_Client r) \<sigma>" and "sys_step r \<sigma> \<sigma>'"
  shows "sys_inv (r_Client r) \<sigma>'"
proof -
  have base: "base_inv \<sigma>" using assms(2) by (simp add: sys_inv_def)
  have quiet: "sys_inv (r_Client r) \<sigma>''" if "shrinks \<sigma> \<sigma>''" "running \<sigma>'' = running \<sigma>" for \<sigma>''
    using assms(2) that shrinks_base shrinks_phase by (fastforce simp: sys_inv_def)
  from assms(3) show ?thesis
  proof (cases rule: sys_step.cases)
    case (start req s)
    have "phase (r_Client r) \<sigma> req (effects_of r req s)"
      using finalizers.trace_shape [OF assms(1) follows refl, of req s] by (auto intro: phase.unread phase.fetch)
    then show ?thesis using base start by (simp add: sys_inv_def)
  next
    case (call req e es \<sigma>1)
    then have "phase (r_Client r) \<sigma> req (e # es)" using assms(2) by (simp add: sys_inv_def)
    from call_inv [OF base this call(3)] show ?thesis using call(1) by (simp add: sys_inv_def)
  next
    case stop
    then show ?thesis using base by (simp add: sys_inv_def)
  next
    case (create n ec)
    then show ?thesis by (auto intro!: quiet srv_update_shrinks [OF base])
  next
    case (edit n ec ec')
    have "running (apply_edit n ec ec' \<sigma>) = running \<sigma>" by (simp add: apply_edit_def)
    then show ?thesis unfolding edit(1) by (rule quiet [OF edit_shrinks [OF base edit(2-4)]])
  next
    case (vanish n ec)
    then show ?thesis by (auto intro!: quiet srv_update_shrinks [OF base])
  next
    case (lose S)
    then show ?thesis by (auto intro!: quiet placed_shrinks [OF base])
  qed
qed

lemma reachable_inv: "sys_reachable r \<sigma> \<Longrightarrow> finalizers (r_Client r) \<Longrightarrow> sys_inv (r_Client r) \<sigma>"
proof (induction rule: sys_reachable.induct)
  case (init \<sigma>)
  then show ?case by (simp add: sys_inv_def base_inv_def held_def)
next
  case (step \<sigma> \<sigma>')
  then show ?case by (blast intro: sys_step_inv)
qed

section \<open>No Secret is left behind\<close>

text \<open>
  C3. No Secret outlives its resource. In every state the system can reach, with any interleaving of the broker's calls with what users
  and others do, with lost answers and crashes at any point: every Secret the broker wrote for a resource and that was not
  deleted since is the target Secret of this resource, which still exists and carries the broker's finalizer, unless a user has given the
  resource another target Secret: only a Secret under a name that was taken away in this way can remain. In particular, when a
  resource is gone, no Secret that was written for it remains under a name it always had. It is assumed that users do not take
  the broker's finalizer off, that there is one worker, and that it reads the current state of a resource.
\<close>

theorem no_secret_left_behind:
  assumes "finalizers (r_Client r)" and "sys_reachable r \<sigma>" and "(n, k) \<in> placed \<sigma>"
  shows "(\<exists>ec. srv \<sigma> n = Some ec \<and> has_finalizer ec \<and> target_key ec = k) \<or> (n, k) \<in> abandoned \<sigma>"
  using reachable_inv [OF assms(2,1)] assms(3) by (auto simp: sys_inv_def base_inv_def pinned_def held_def)

text \<open>A run of the broker on the in-memory server, up to the write of the target Secret.\<close>

lemma sample_effects:
  "\<exists>q m rest. effects_of mem_reconciler sample_req (sample_world fresh_ec) =
     E_GetEC sample_req (Inr fresh_ec) # E_Now (1000 * Second) #
     E_GetSecret (''builds'', ''broker-github-app'') (Inr sample_config) #
     E_Mint ''github-app'' q (Inr m) # E_WriteSecret (newTargetSecret fresh_ec) None # rest"
proof -
  obtain e where "encodeHandle \<lparr>h_ProviderName = ''github-app'', h_Opaque = ''ghs_new''\<rparr> = Inr e"
    using stored_handle.enc_total by blast
  then show ?thesis
    by (simp add: effects_of_def Reconcile_def Let_def logged_def logged_k8s_def logged_registry_def logged_provider_def
        rec1_def mem_reconciler_def mem_k8s_def now_def event_def setReadyCondition_def mem_Get_EC_def
        mem_Get_Secret_def mem_Update_EC_def mem_Status_Update_def object_key_def deletion_is_zero_def target_key_def
        rotateCredential_def finishMint_def revokePrevious_def writeTargetSecret_def
        buildScope_def buildGitHubScope_def mem_CreateOrUpdate_def mem_SetControllerReference_def needsMint_def
        sample_world_def sample_ec_def sample_secret_def sample_config_def ProviderGitHubApp_def mutateTargetSecret_def
        NewRegistry_def Registry_Get_def mem_provider_def sample_mint_def decodeHandle_def newTargetSecret_def
        split: prod.split)
qed

definition sample_sys :: sys where
  "sample_sys = \<lparr>srv = [sample_req \<mapsto> fresh_ec], placed = {}, abandoned = {}, running = None\<rparr>"

lemma next_call:
  assumes "sys_reachable r (\<sigma>\<lparr>running := Some (req, e # es)\<rparr>)"
    and "served (r_Client r) req e (\<sigma>\<lparr>running := Some (req, e # es)\<rparr>) (\<sigma>'\<lparr>running := x\<rparr>)"
  shows "sys_reachable r (\<sigma>'\<lparr>running := Some (req, es)\<rparr>)"
  using sys_reachable.step [OF assms(1) sys_step.call [OF _ assms(2)]] by simp

lemma sample_run:
  "\<exists>\<sigma>. sys_reachable mem_reconciler \<sigma> \<and> (sample_req, (''builds'', ''github-token'')) \<in> placed \<sigma> \<and> abandoned \<sigma> = {}"
proof -
  let ?r = mem_reconciler and ?sec = "newTargetSecret fresh_ec"
  obtain q m rest where eff: "effects_of ?r sample_req (sample_world fresh_ec) =
     E_GetEC sample_req (Inr fresh_ec) # E_Now (1000 * Second) #
     E_GetSecret (''builds'', ''broker-github-app'') (Inr sample_config) #
     E_Mint ''github-app'' q (Inr m) # E_WriteSecret ?sec None # rest"
    using sample_effects by blast
  let ?at = "\<lambda>\<sigma> es. \<sigma>\<lparr>running := Some (sample_req, es)\<rparr>"
  have "sys_reachable ?r sample_sys"
    by (rule sys_reachable.init) (auto simp: sample_sys_def split: if_splits)
  then have 0: "sys_reachable ?r (?at sample_sys (effects_of ?r sample_req (sample_world fresh_ec)))"
    by (rule sys_reachable.step [OF _ sys_step.start]) (simp add: sample_sys_def)
  have 1: "sys_reachable ?r (?at sample_sys (E_Now (1000 * Second) #
     E_GetSecret (''builds'', ''broker-github-app'') (Inr sample_config) #
     E_Mint ''github-app'' q (Inr m) # E_WriteSecret ?sec None # rest))"
    by (rule next_call [OF 0 [unfolded eff]], rule served.read) (simp add: sample_sys_def)
  have 2: "sys_reachable ?r (?at sample_sys (E_GetSecret (''builds'', ''broker-github-app'') (Inr sample_config) #
     E_Mint ''github-app'' q (Inr m) # E_WriteSecret ?sec None # rest))"
    by (rule next_call [OF 1], rule served.clock)
  have 3: "sys_reachable ?r (?at sample_sys (E_Mint ''github-app'' q (Inr m) # E_WriteSecret ?sec None # rest))"
    by (rule next_call [OF 2], rule served.read_secret) (simp add: sample_config_def object_key_def)
  have 4: "sys_reachable ?r (?at sample_sys (E_WriteSecret ?sec None # rest))"
    by (rule next_call [OF 3], rule served.mint)
  have "sys_reachable ?r (?at (sample_sys\<lparr>placed := {(sample_req, sec_key ?sec)}\<rparr>) rest)"
    by (rule next_call [OF 4]) (use served.written [of ?sec "r_Client ?r" sample_req None "?at sample_sys _"]
      in \<open>simp add: sample_sys_def newTargetSecret_def sample_ec_def\<close>)
  then show ?thesis
    by (intro exI conjI, assumption) (simp_all add: newTargetSecret_def sample_ec_def object_key_def sample_sys_def)
qed

theorem no_secret_left_behind_witness:
  "\<exists>\<sigma>. sys_reachable mem_reconciler \<sigma> \<and> (sample_req, (''builds'', ''github-token'')) \<in> placed \<sigma> \<and>
     (\<exists>ec. srv \<sigma> sample_req = Some ec \<and> has_finalizer ec \<and> target_key ec = (''builds'', ''github-token''))"
proof -
  have "finalizers (r_Client mem_reconciler)"
    using mem_finalizers.finalizers_axioms by (simp add: mem_reconciler_def)
  then show ?thesis using sample_run no_secret_left_behind by (metis empty_iff)
qed

declare split_paired_All [simp] split_paired_Ex [simp]

end
