(* ===== verification/Go_Json_Fuel.thy ===== *)
theory Go_Json_Fuel
  imports Go_Json_Syntax
begin

text \<open>
  The fuel of the JSON reader is enough for every input, not only for printed values: a call that does not
  consume a character is followed by one that does, so with twice the length of the text plus one the result
  does not depend on the fuel any more. Hence \<open>json_parse\<close> and \<open>json_decode_first\<close> fail only where the text is
  not JSON.
\<close>

section \<open>Reading consumes\<close>

lemma scan_string_shorter: "scan_string s = Some (x, r) \<Longrightarrow> length r < length s"
proof (induction s arbitrary: x r rule: measure_induct_rule [of length])
  case (less s)
  have IH: "length u < length s" if "scan_string t = Some (y, u)" "length t < length s" for t y u
    using less.IH [OF that(2,1)] that(2) by simp
  show ?case
  proof (cases s)
    case (Cons c s')
    with less.prems show ?thesis
      by (auto simp: scan_string.simps(2) split: if_splits list.splits dest!: IH)
  qed (use less.prems in simp)
qed

lemma skip_ws_length: "length (skip_ws s) \<le> length s"
  by (induction s rule: skip_ws.induct) auto

lemma skip_ws_Cons: "skip_ws s = c # r \<Longrightarrow> length r < length s"
  using skip_ws_length [of s] by simp

lemma scan_number_shorter:
  assumes "scan_number s = Some (d, r)"
  shows "length r < length s"
proof -
  have digits: "length (snd (scan_digits t)) \<le> length t" for t
    by (simp add: scan_digits_def length_dropWhile_le)
  have sign: "length (snd (scan_sign t)) \<le> length t" "length (snd (scan_exp_sign t)) \<le> length t" for t
    by (cases t; simp)+
  have fraction: "scan_fraction t = Some (x, u) \<Longrightarrow> length u \<le> length t" for t x u
    using digits [of "tl t"] by (cases t) (auto split: if_splits prod.splits)
  have exponent: "scan_exponent t = Some (x, u) \<Longrightarrow> length u \<le> length t" for t x u
    using digits [of "snd (scan_exp_sign (tl t))"] sign(2) [of "tl t"] by (cases t) (auto split: if_splits prod.splits)
  have first: "fst (scan_digits t) \<noteq> [] \<Longrightarrow> length (snd (scan_digits t)) < length t" for t
    by (cases t) (auto simp: scan_digits_def length_dropWhile_le less_Suc_eq_le split: if_splits)
  from assms show ?thesis
    using sign(1) [of s] first [of "snd (scan_sign s)"]
    by (auto simp: scan_number_def split: prod.splits if_splits option.splits dest!: fraction exponent)
qed

lemma scan_literal_shorter: "scan_literal lit s = Some r \<Longrightarrow> lit \<noteq> [] \<Longrightarrow> length r < length s"
  by (cases s) (auto simp: scan_literal_def split: if_splits)

lemma parse_shorter:
  "parse_value n s = Some (v, r) \<Longrightarrow> length r < length s"
  "parse_elems n s = Some (vs, r) \<Longrightarrow> length r < length s"
  "parse_members n s = Some (ms, r) \<Longrightarrow> length r < length s"
proof (induction n arbitrary: s v r vs ms)
  case (Suc n)
  {
    case 1
    then show ?case
      using skip_ws_length [of s]
      by (auto split: list.splits if_splits dest!: Suc scan_string_shorter scan_number_shorter scan_literal_shorter
          skip_ws_Cons)
  next
    case 2
    then show ?case
      by (auto split: list.splits if_splits option.splits dest!: Suc skip_ws_Cons)
  next
    case 3
    then show ?case
      by (auto split: list.splits if_splits option.splits dest!: Suc skip_ws_Cons scan_string_shorter)
  }
qed simp_all

section \<open>Enough fuel\<close>

definition settled :: "string \<Rightarrow> bool" where
  "settled s \<longleftrightarrow>
     (\<forall>n m. 2 * length s < n \<longrightarrow> 2 * length s < m \<longrightarrow> parse_value n s = parse_value m s) \<and>
     (\<forall>n m. 2 * length s + 1 < n \<longrightarrow> 2 * length s + 1 < m \<longrightarrow> parse_elems n s = parse_elems m s) \<and>
     (\<forall>n m. 2 * length s + 1 < n \<longrightarrow> 2 * length s + 1 < m \<longrightarrow> parse_members n s = parse_members m s)"

lemma settledD:
  assumes "settled s"
  shows "2 * length s < n \<Longrightarrow> 2 * length s < m \<Longrightarrow> parse_value n s = parse_value m s"
    and "2 * length s + 1 < n \<Longrightarrow> 2 * length s + 1 < m \<Longrightarrow> parse_elems n s = parse_elems m s"
    and "2 * length s + 1 < n \<Longrightarrow> 2 * length s + 1 < m \<Longrightarrow> parse_members n s = parse_members m s"
  using assms unfolding settled_def by blast+

lemma value_settled:
  assumes IH: "\<And>t. length t < length s \<Longrightarrow> settled t" and "2 * length s \<le> n" and "2 * length s \<le> m"
  shows "parse_value (Suc n) s = parse_value (Suc m) s"
proof (cases "skip_ws s")
  case (Cons c r)
  have r: "length r < length s" using skip_ws_Cons [OF Cons] .
  have "parse_elems n t = parse_elems m t" "parse_members n t = parse_members m t" if "skip_ws r = t" for t
  proof -
    have "length t < length s" using skip_ws_length [of r] that r by simp
    then show "parse_elems n t = parse_elems m t" "parse_members n t = parse_members m t"
      using assms(2,3) by (auto intro!: settledD(2,3) [OF IH])
  qed
  from this [OF refl] show ?thesis using Cons by (cases "skip_ws r") auto
qed simp

lemma elems_settled:
  assumes IH: "\<And>t. length t < length s \<Longrightarrow> settled t" and "parse_value n s = parse_value m s"
    and "2 * length s < n" and "2 * length s < m"
  shows "parse_elems (Suc n) s = parse_elems (Suc m) s"
proof (cases "parse_value m s")
  case (Some p)
  obtain v r where p: "p = (v, r)" by (cases p)
  have r: "length r < length s" using parse_shorter(1) Some p by blast
  have "parse_elems n t = parse_elems m t" if "skip_ws r = c # t" for c t
    using skip_ws_Cons [OF that] r assms(3,4) by (auto intro!: settledD(2) [OF IH])
  then show ?thesis using Some p assms(2) by (auto split: list.split)
qed (simp add: assms(2))

lemma members_settled:
  assumes IH: "\<And>t. length t < length s \<Longrightarrow> settled t" and "2 * length s < n" and "2 * length s < m"
  shows "parse_members (Suc n) s = parse_members (Suc m) s"
proof -
  have val: "parse_value n t = parse_value m t" if "length t < length s" for t
    using that assms(2,3) by (auto intro!: settledD(1) [OF IH])
  have rest: "parse_members n t = parse_members m t" if "length t < length s" for t
    using that assms(2,3) by (auto intro!: settledD(3) [OF IH])
  have "parse_value n r2 = parse_value m r2"
    if "skip_ws s = c # r" "scan_string r = Some (k, r1)" "skip_ws r1 = c1 # r2" for c r k r1 c1 r2
    using skip_ws_Cons [OF that(1)] scan_string_shorter [OF that(2)] skip_ws_Cons [OF that(3)] by (intro val) simp
  moreover have "parse_members n r4 = parse_members m r4"
    if "skip_ws s = c # r" "scan_string r = Some (k, r1)" "skip_ws r1 = c1 # r2" "parse_value m r2 = Some (v, r3)"
      "skip_ws r3 = c2 # r4" for c r k r1 c1 r2 v r3 c2 r4
    using skip_ws_Cons [OF that(1)] scan_string_shorter [OF that(2)] skip_ws_Cons [OF that(3)]
      parse_shorter(1) [OF that(4)] skip_ws_Cons [OF that(5)] by (intro rest) simp
  ultimately show ?thesis
    by (simp split: list.split option.split)
qed

lemma all_settled: "settled s"
proof (induction s rule: measure_induct_rule [of length])
  case (less s)
  have v: "parse_value n s = parse_value m s" if nm: "2 * length s < n" "2 * length s < m" for n m
  proof -
    from nm obtain n' m' where "n = Suc n'" "m = Suc m'" by (metis less_imp_Suc_add)
    with nm value_settled [OF less, where n = n' and m = m'] show ?thesis by (simp only: less_Suc_eq_le)
  qed
  have "parse_elems n s = parse_elems m s" if nm: "2 * length s + 1 < n" "2 * length s + 1 < m" for n m
  proof -
    from nm obtain n' m' where "n = Suc n'" "m = Suc m'" by (metis less_imp_Suc_add)
    with nm elems_settled [OF less v [of n' m']] show ?thesis by (simp only: Suc_eq_plus1 [symmetric] Suc_less_eq)
  qed
  moreover have "parse_members n s = parse_members m s" if nm: "2 * length s + 1 < n" "2 * length s + 1 < m" for n m
  proof -
    from nm obtain n' m' where "n = Suc n'" "m = Suc m'" by (metis less_imp_Suc_add)
    with nm members_settled [OF less, where n = n' and m = m'] show ?thesis by (simp only: Suc_eq_plus1 [symmetric] Suc_less_eq)
  qed
  ultimately show ?case unfolding settled_def using v by blast
qed

text \<open>What the reader returns does not depend on its fuel.\<close>

lemma json_parse_fuel:
  assumes "2 * length s < n"
  shows "json_parse s = (case parse_value n s of Some (v, r) \<Rightarrow> if skip_ws r = [] then Some v else None | None \<Rightarrow> None)"
    and "json_decode_first s = map_option fst (parse_value n s)"
  using settledD(1) [OF all_settled [of s], of n "2 * length s + 2"] assms
  by (simp_all add: json_parse_def json_decode_first_def)

end
