(* ===== verification/Scheme_Setup.thy ===== *)
theory Scheme_Setup
  imports Go_Errors
begin

text \<open>
  Registration of the API types, done by package initialisation before \<open>main\<close> runs: the group and version
  (\<open>groupversion_info.go\<close>), \<open>init\<close> of \<open>ephemeralcredential_types.go\<close>, and \<open>init\<close> of \<open>cmd/main.go\<close>. The scheme and the
  scheme builder are library types, and so parameters; \<open>AddToScheme\<close> is a method value bound to the pointer
  \<open>SchemeBuilder\<close>, so it sees what is registered before it is called. A panic of \<open>utilruntime.Must\<close> is \<open>None\<close>.
\<close>

record GroupVersion =
  gv_Group :: string
  gv_Version :: string

definition broker_GroupVersion :: GroupVersion where
  "broker_GroupVersion = \<lparr>gv_Group = ''broker.shivansh-sinha.dev'', gv_Version = ''v1alpha1''\<rparr>"

text \<open>The Go types that are registered; the kind of a type is its name.\<close>

datatype api_type = EphemeralCredentialType | EphemeralCredentialListType

fun type_name :: "api_type \<Rightarrow> string" where
  "type_name EphemeralCredentialType = ''EphemeralCredential''"
| "type_name EphemeralCredentialListType = ''EphemeralCredentialList''"

record ('b, 'c) scheme_lib =
  sl_Builder :: "GroupVersion \<Rightarrow> 'b"
  sl_Register :: "'b \<Rightarrow> api_type list \<Rightarrow> 'b"
  sl_AddToScheme :: "'b \<Rightarrow> 'c \<Rightarrow> go_error option \<times> 'c"
  sl_NewScheme :: 'c
  sl_clientgo_AddToScheme :: "'c \<Rightarrow> go_error option \<times> 'c"

definition SchemeBuilder :: "('b, 'c) scheme_lib \<Rightarrow> 'b" where
  "SchemeBuilder L = sl_Builder L broker_GroupVersion"

definition types_init :: "('b, 'c) scheme_lib \<Rightarrow> 'b \<Rightarrow> 'b" where
  "types_init L b = sl_Register L b [EphemeralCredentialType, EphemeralCredentialListType]"

definition AddToScheme :: "('b, 'c) scheme_lib \<Rightarrow> 'c \<Rightarrow> go_error option \<times> 'c" where
  "AddToScheme L = sl_AddToScheme L (types_init L (SchemeBuilder L))"

definition Must :: "go_error option \<times> 'c \<Rightarrow> 'c option" where
  "Must r = (case fst r of None \<Rightarrow> Some (snd r) | Some err \<Rightarrow> None)"

definition main_init :: "('b, 'c) scheme_lib \<Rightarrow> 'c option" where
  "main_init L =
     Option.bind (Must (sl_clientgo_AddToScheme L (sl_NewScheme L))) (\<lambda>scheme. Must (AddToScheme L scheme))"

section \<open>What the process can decode\<close>

text \<open>
  \<open>recognizes\<close>: group, version and kind that a scheme maps to a type. The laws are the documentation of
  \<open>scheme.Builder\<close>: adding a builder makes the registered types known under its group and version, and
  keeps what was known.
\<close>

locale scheme_laws =
  fixes L :: "('b, 'c) scheme_lib"
    and recognizes :: "'c \<Rightarrow> GroupVersion \<Rightarrow> string \<Rightarrow> bool"
    and builds :: "'b \<Rightarrow> (GroupVersion \<times> api_type) set"
  assumes new_builder: "builds (sl_Builder L gv) = {}"
    and register: "builds (sl_Register L (sl_Builder L gv) ts) = (\<lambda>t. (gv, t)) ` set ts"
    and add: "sl_AddToScheme L b c = (None, c') \<Longrightarrow>
      recognizes c' gv k \<longleftrightarrow> recognizes c gv k \<or> (\<exists>t. (gv, t) \<in> builds b \<and> k = type_name t)"
begin

lemma main_init_recognizes:
  assumes "main_init L = Some c" and "sl_clientgo_AddToScheme L (sl_NewScheme L) = (None, c0)"
  shows "recognizes c gv k \<longleftrightarrow> recognizes c0 gv k \<or>
    gv = broker_GroupVersion \<and> k \<in> {''EphemeralCredential'', ''EphemeralCredentialList''}"
proof -
  have "sl_AddToScheme L (types_init L (SchemeBuilder L)) c0 = (None, c)"
    using assms by (auto simp: main_init_def Must_def AddToScheme_def split: option.splits)
      (metis prod.collapse)
  from add [OF this] show ?thesis
    by (auto simp: types_init_def SchemeBuilder_def register)
qed

end

text \<open>Schemes as lists of the kinds they know, builders as what was registered with them.\<close>

definition list_lib :: "(GroupVersion \<times> api_type list, (GroupVersion \<times> string) list) scheme_lib" where
  "list_lib =
    \<lparr>sl_Builder = (\<lambda>gv. (gv, [])), sl_Register = (\<lambda>(gv, ts) ts'. (gv, ts @ ts')),
     sl_AddToScheme = (\<lambda>(gv, ts) c. (None, c @ map (\<lambda>t. (gv, type_name t)) ts)), sl_NewScheme = [],
     sl_clientgo_AddToScheme = (\<lambda>c. (None, c @ [(\<lparr>gv_Group = [], gv_Version = ''v1''\<rparr>, ''Secret'')]))\<rparr>"

interpretation list_scheme: scheme_laws list_lib "\<lambda>c gv k. (gv, k) \<in> set c" "\<lambda>(gv, ts). (\<lambda>t. (gv, t)) ` set ts"
  by unfold_locales (auto simp: list_lib_def image_iff split: prod.splits)

lemma main_init_runs: "\<exists>c. main_init list_lib = Some c \<and> (broker_GroupVersion, ''EphemeralCredential'') \<in> set c"
  by (simp add: main_init_def Must_def AddToScheme_def types_init_def SchemeBuilder_def list_lib_def)

end
