(* ===== verification/Spec2Isabelle.thy ===== *)
theory Spec2Isabelle
  imports Service Deep_Copy_Props Broker_System Go_Json_Fuel Scheme_Setup
begin

text \<open>
  \<^bold>\<open>The ephemeral credential broker\<close>

  The broker is a Kubernetes controller, written in Go. A resource of kind \<open>EphemeralCredential\<close>
  (\<open>src/api/v1alpha1\<close>) names a provider, a lifetime, a rotation window and a target Secret. The reconciler
  (\<open>src/internal/controller/ephemeralcredential_controller.go\<close>) mints a credential with the provider, writes
  it into the target Secret, remembers the handle with which it can be revoked in an annotation of the resource,
  reports in the status, rotates the credential before it expires, revokes the previous one, and cleans up when the
  resource is deleted. Providers implement the interface of \<open>src/internal/provider/provider.go\<close>; the one of this
  version is \<open>src/internal/provider/github/github.go\<close>. \<open>src/cmd/main.go\<close> puts the parts together.

  \<^bold>\<open>Theories\<close>

  \<^item> \<open>Broker_Prelude\<close>: names of types, the weakest-precondition calculus for stateful computations (\<open>State_Monad\<close>),
    predicates on event lists (\<open>precedes\<close>, \<open>never\<close>, \<open>occurs\<close>). \<open>Tape\<close>: recording of effects and its rules.
  \<^item> \<open>Go_Time\<close>, \<open>Go_Errors\<close>, \<open>Go_Strings\<close>, \<open>Go_Base64\<close>, \<open>Go_Json\<close>, \<open>Go_Json_Syntax\<close>, \<open>Go_RFC3339\<close>,
    \<open>Go_Flag\<close>: the parts of Go's standard library the source uses. Durations are integers with the wrap-around of 64 bits written out, times are
    nanoseconds since 1970; strings are lists of bytes; an error is a value that keeps the format literal of the
    source, its arguments and the error it wraps; base64 and JSON are the texts themselves, with round trips proved;
    \<open>Go_Flag\<close> reads a command line, with the set of flags as a function from names to setters.
  \<^item> \<open>Api_Types\<close>: the resource, its spec and status (\<open>ephemeralcredential_types.go\<close>), with the defaulting and
    validation markers as \<open>apply_defaults\<close> and \<open>admissible_spec\<close>.
  \<^item> \<open>Provider_Iface\<close>: the interface, the registry; locales \<open>named_lookup\<close> and \<open>provider_contract\<close>.
  \<^item> \<open>Rotation\<close>: \<open>requestedRotateBefore\<close>, \<open>grantedLifetime\<close>, \<open>clampRotateBefore\<close>, the test for a due mint and the delay of
    the next wake-up. The window stays in the first half of the granted lifetime, the wake-up falls between half of the lifetime
    and the expiry, it finds the window open, and a fresh credential is outside of it, also after the API server
    has cut the stored instants to whole seconds. \<open>rotation_window\<close> and \<open>outside_window\<close> say in plain arithmetic when a credential is due,
    and \<open>needsMint_iff\<close> that the code tests exactly this; the statements of the properties use them.
  \<^item> \<open>Target_Secret\<close>: the mutate callback of \<open>writeTargetSecret\<close>; locale \<open>key_ledger\<close>. After any history of writes no
    key is left that the broker wrote and does not write any more, foreign keys keep their values, and the order of the
    Go map iteration does not matter.
  \<^item> \<open>Handle_Codec\<close>: \<open>encodeHandle\<close> and \<open>decodeHandle\<close>; locale \<open>handle_codec\<close>, round trip.
  \<^item> \<open>K8s_Client\<close>: the calls into client-go and controller-runtime as a parameter, the record \<open>k8s\<close>.
  \<^item> \<open>Reconciler\<close>: every function of the controller, from \<open>Reconcile\<close> down, with all effects in the order of the source.
  \<^item> \<open>Effects\<close>, \<open>Recording\<close>: the same reconciler over a recording environment, and that recording changes nothing.
  \<^item> \<open>Reconcile_Trace\<close>: the protocol, an inductive description of the effect lists each function can produce, and the proof that
    the code follows it in every environment. \<open>Reconcile_Props\<close>: the safety properties of the protocol: order and number of the
    effects, when a mint is due, what the broker writes on a resource, and what each status report rests on.
  \<^item> \<open>Api_Server\<close>: the documented laws of the API server as the locales \<open>conditions\<close> and \<open>cluster\<close>, and an in-memory server
    that obeys them. An accepted deletion removes an object, or marks it as deleted when it has finalizers (\<open>after_delete\<close>). \<open>Cluster_Props\<close>: locale \<open>broker_env\<close>; what a reconcile or a deletion that succeeds establishes.
  \<^item> \<open>Failure_Modes\<close>: two partial failures in which the code does less than its comments suggest.
  \<^item> \<open>GitHub_Provider\<close>, \<open>GitHub_Props\<close>: the provider, with network and cryptography as parameters; its conversation
    with GitHub, the App JWT, the token request, and that it keeps the \<open>provider_contract\<close>.
  \<^item> \<open>Manager_Main\<close>: \<open>main\<close> with its flags and \<open>SetupWithManager\<close>; the exit codes, the reading of the command line, that the
    reconciler of \<open>main\<close> is an instance of \<open>broker_env\<close>, and where the token it mints can be read.
    \<open>Scheme_Setup\<close>: the registration of the API types with the scheme (\<open>groupversion_info.go\<close>, the \<open>init\<close> functions); locale \<open>scheme_laws\<close>.
  \<^item> \<open>Api_Memory\<close>: the API structs as they lie in memory, with pointers, slices and maps as references into a heap; locales \<open>layout\<close>,
    \<open>boxed\<close> and \<open>rowed\<close>. \<open>Deep_Copy\<close>: every function of \<open>zz_generated.deepcopy.go\<close>; locales \<open>copied\<close>, \<open>struct_copied\<close>, \<open>row_copied\<close>
    and \<open>copy_env\<close>. \<open>Deep_Copy_Props\<close>: a copy reads as the original, lies in new cells, and leaves what was there unchanged.
  \<^item> \<open>Broker_System\<close>: a step relation in which the calls of a reconcile interleave with users who create, edit, rename and delete resources, with
    deletions of Secrets and with crashes of the broker, and a failed call may have taken effect; the invariant of its reachable states, and
    that a resource that is gone leaves no Secret of the broker behind, except under a target name that a user took away from it. Whether the credential of
    such a resource was revoked is not stated: the revocation is a best effort of the code.
  \<^item> \<open>Responsive\<close>: locale \<open>responsive_api\<close>, an API server that answers while the providers may fail; an expired credential is
    replaced or its Secret removed, a deletion completes with its first reconcile, and a healthy resource is left alone until its window opens.
    \<open>Isolation\<close>: locale \<open>framed_api\<close>, calls that change only
    the object they name, also when they fail; a reconcile touches nothing but its resource and the target Secret.
  \<^item> \<open>Liveness\<close>, \<open>Rotation_Loop\<close>: what follows in \<open>responsive_api\<close> when the provider grants the request of one resource (\<open>grants\<close>), with lifetimes
    in a given range (\<open>lifetimes\<close>), up to a given instant. Nothing is assumed of other requests: the GitHub provider refuses many. A new resource is served by the
    reconciles that follow; with the inductive
    relation \<open>rounds\<close>, a work queue that starts the next reconcile no later than \<open>L\<close> after the wake-up the last one asked for, a credential in
    service never lapses.
  \<^item> \<open>Service\<close>: the reconciler of \<open>main\<close> with the GitHub provider is an instance of \<open>responsive_api\<close>, whether GitHub answers or not; the properties over
    several reconciles, shown to hold on this instance, and the status of a resource whose Secret is missing.
  \<^item> \<open>Go_Json_Fuel\<close>: the fuel of the JSON parser is enough for every input.

  \<^bold>\<open>Effects and environments\<close>

  A function of the source with effects is a computation over a state \<open>'s\<close> that stands for everything outside of the process.
  The properties of \<open>Reconcile_Props\<close> hold for every type of states and every behaviour of the operations: any interleaving with
  other writers, stale reads, conflicts and failures are covered, because an answer is arbitrary. The properties
  of \<open>Cluster_Props\<close> rest on the laws of \<open>cluster\<close>, stated as hypotheses; they describe a client that reads what
  the server stores and an object that is not changed by others between two successful writes of one reconcile (the optimistic
  concurrency of the API server refuses the second write otherwise).

  \<^bold>\<open>Bounds and fuel\<close>

  The JSON parser recurses on fuel. \<open>json_parse\<close> and \<open>json_decode_first\<close> give it twice the length of the text plus two, and
  more fuel never changes the result (\<open>json_parse_fuel\<close>): each step of the parser that does not consume a character is followed by
  one that does. No other definition has fuel. One reconcile makes at most 13 calls with an effect (\<open>result_discipline\<close>).
  The reading of a command line has no fuel: each step takes an argument away. In \<open>Rotation_Loop\<close> the delay \<open>L\<close> of the queue and the duration \<open>D\<close>
  of a reconcile are free; \<open>slack L D\<close> is \<open>L + 2 * D\<close> and six seconds, of which five are the floor of the wake-up and one is what the API
  server cuts off a stored instant.

  \<^bold>\<open>Not modelled\<close>

  Log lines and the logger that \<open>main\<close> sets up, the context argument and cancellation, the rendering of messages (an error
  such as \<open>ErrNoRevoke\<close> is a value, its text is left out), the text of the help output, the work queue of controller-runtime beyond
  what \<open>rounds\<close> states (its back-off after errors), the watch on owned Secrets beyond its registration, manifests, tests and build files. The packages \<open>aws\<close>, \<open>database\<close> and \<open>vault\<close> hold only documentation. \<open>Broker_System\<close> has one worker and
  reads that are current, and its users leave the finalizer as it is; stale reads and
  other writers are covered by the properties of \<open>Reconcile_Props\<close> only.

  \<^bold>\<open>Plan\<close>

  Next: the rendering of messages (\<open>fmt.Sprintf\<close> and \<open>Time.Format\<close>), with which the texts of conditions and events become checkable; stale
  reads of the cache in \<open>Broker_System\<close>.
\<close>

end
